(* ===== verification/Prelude.thy ===== *)
theory Prelude
  imports Main "HOL-Library.List_Lexorder" "HOL-Library.Product_Lexorder"
begin

text \<open>
  Shared vocabulary of the development. The first part holds actions: state passing with
  exceptions. An action takes a state and returns either the raised exception or a value,
  together with the state left behind, exactly as a Python call leaves its side effects in
  place whether it returns or raises. The second part holds the two ways the other theories
  reason about actions: \<open>keeps\<close> relates the states before and after, \<open>returns\<close>
  constrains the value. The rules for the combinators are collected in \<open>keeps_rules\<close>
  and \<open>returns_rules\<close>. The last part holds generic facts on lists and sorting.
\<close>

named_theorems keeps_rules
named_theorems returns_rules
named_theorems raises_rules

section \<open>Actions\<close>

text \<open>The exceptions that the modelled code can raise or let through.\<close>

datatype exn =
    ValueError
  | DecimalOverflow
  | RuntimeError
  | OSErrorExn
  | OtherException

type_synonym 'a outcome = "exn + 'a"

type_synonym ('s, 'a) act = "'s \<Rightarrow> 'a outcome \<times> 's"

definition return_act :: "'a \<Rightarrow> ('s, 'a) act" where
  "return_act x s = (Inr x, s)"

definition raise_act :: "exn \<Rightarrow> ('s, 'a) act" where
  "raise_act e s = (Inl e, s)"

definition bind_act :: "('s, 'a) act \<Rightarrow> ('a \<Rightarrow> ('s, 'b) act) \<Rightarrow> ('s, 'b) act" where
  "bind_act m f s = (case m s of
      (Inl e, t) \<Rightarrow> (Inl e, t)
    | (Inr x, t) \<Rightarrow> f x t)"

definition then_act :: "('s, 'a) act \<Rightarrow> ('s, 'b) act \<Rightarrow> ('s, 'b) act" where
  "then_act m k = bind_act m (\<lambda>_. k)"

definition get_act :: "('s \<Rightarrow> 'a) \<Rightarrow> ('s, 'a) act" where
  "get_act f s = (Inr (f s), s)"

definition modify_act :: "('s \<Rightarrow> 's) \<Rightarrow> ('s, unit) act" where
  "modify_act f s = (Inr (), f s)"

text \<open>Sequencing of pure computations that may raise.\<close>

fun bind_outcome :: "'a outcome \<Rightarrow> ('a \<Rightarrow> 'b outcome) \<Rightarrow> 'b outcome" where
  "bind_outcome (Inl e) f = Inl e"
| "bind_outcome (Inr x) f = f x"

lemma bind_outcome_Inr: "bind_outcome r f = Inr y \<longleftrightarrow> (\<exists>x. r = Inr x \<and> f x = Inr y)"
  by (cases r) auto

text \<open>A pure computation that may raise, run inside an action.\<close>

definition lift_act :: "'a outcome \<Rightarrow> ('s, 'a) act" where
  "lift_act r s = (r, s)"

text \<open>
  A Python \<open>try: m finally: c\<close> whose clean-up \<open>c\<close> neither raises nor returns; a
  \<open>with\<close> block is one of these.
\<close>

definition finally_act :: "('s, 'a) act \<Rightarrow> ('s \<Rightarrow> 's) \<Rightarrow> ('s, 'a) act" where
  "finally_act m c s = (case m s of (r, t) \<Rightarrow> (r, c t))"

text \<open>Loops over a list: one that collects, one that folds an accumulator.\<close>

fun map_act :: "('b \<Rightarrow> ('s, 'a) act) \<Rightarrow> 'b list \<Rightarrow> ('s, 'a list) act" where
  "map_act f [] = return_act []"
| "map_act f (x # xs) =
     bind_act (f x) (\<lambda>y. bind_act (map_act f xs) (\<lambda>ys. return_act (y # ys)))"

fun fold_act :: "('b \<Rightarrow> 'a \<Rightarrow> ('s, 'a) act) \<Rightarrow> 'b list \<Rightarrow> 'a \<Rightarrow> ('s, 'a) act" where
  "fold_act f [] a = return_act a"
| "fold_act f (x # xs) a = bind_act (f x a) (\<lambda>b. fold_act f xs b)"

lemmas act_defs = return_act_def raise_act_def bind_act_def then_act_def get_act_def
  modify_act_def lift_act_def finally_act_def

lemma bind_return [simp]: "bind_act (return_act x) f = f x"
  by (rule ext) (simp add: act_defs)

lemma return_bind [simp]: "bind_act m return_act = m"
  by (rule ext) (simp add: act_defs split: prod.splits sum.splits)

lemma bind_assoc: "bind_act (bind_act m f) g = bind_act m (\<lambda>x. bind_act (f x) g)"
  by (rule ext) (simp add: act_defs split: prod.splits sum.splits)

lemma lift_Inr [simp]: "lift_act (Inr x) = return_act x"
  by (rule ext) (simp add: act_defs)

lemma lift_Inl [simp]: "lift_act (Inl e) = raise_act e"
  by (rule ext) (simp add: act_defs)

lemma bind_raise [simp]: "bind_act (raise_act e) f = raise_act e"
  by (rule ext) (simp add: act_defs)

text \<open>Running a bind whose first half has a known outcome.\<close>

lemma bind_run: "m s = (Inr x, t) \<Longrightarrow> bind_act m f s = f x t"
  by (simp add: bind_act_def)

lemma bind_run_raise: "m s = (Inl e, t) \<Longrightarrow> bind_act m f s = (Inl e, t)"
  by (simp add: bind_act_def)

section \<open>What an action keeps\<close>

definition keeps :: "('s \<Rightarrow> 's \<Rightarrow> bool) \<Rightarrow> ('s, 'a) act \<Rightarrow> bool" where
  "keeps R m \<longleftrightarrow> (\<forall>s. R s (snd (m s)))"

lemma keepsI: "(\<And>s. R s (snd (m s))) \<Longrightarrow> keeps R m"
  by (simp add: keeps_def)

lemma keepsD: "keeps R m \<Longrightarrow> m s = (r, t) \<Longrightarrow> R s t"
  by (metis keeps_def snd_conv)

text \<open>
  The interface of a frame condition: any reflexive and transitive relation between states
  is kept by a composite action when its parts keep it. The collectors use it with
  ``diagnostics only grow'' and with ``no descriptor leaks''.
\<close>

locale frame_relation =
  fixes R :: "'s \<Rightarrow> 's \<Rightarrow> bool"
  assumes refl_R: "R s s"
    and trans_R: "R s t \<Longrightarrow> R t v \<Longrightarrow> R s v"
begin

lemma keeps_return: "keeps R (return_act x)"
  by (simp add: keeps_def act_defs refl_R)

lemma keeps_raise: "keeps R (raise_act e)"
  by (simp add: keeps_def act_defs refl_R)

lemma keeps_get: "keeps R (get_act f)"
  by (simp add: keeps_def act_defs refl_R)

lemma keeps_lift: "keeps R (lift_act r)"
  by (simp add: keeps_def act_defs refl_R)

lemma keeps_modify: "(\<And>s. R s (f s)) \<Longrightarrow> keeps R (modify_act f)"
  by (simp add: keeps_def act_defs)

lemma keeps_bind:
  assumes "keeps R m" and "\<And>x. keeps R (f x)"
  shows "keeps R (bind_act m f)"
proof (rule keepsI)
  fix s
  show "R s (snd (bind_act m f s))"
  proof (cases "m s")
    case (Pair r t)
    from assms(1) Pair have "R s t" by (rule keepsD)
    moreover from assms(2) have "\<And>x. R t (snd (f x t))" by (simp add: keeps_def)
    moreover note Pair
    ultimately show ?thesis
      by (auto simp: bind_act_def split: sum.splits intro: trans_R)
  qed
qed

lemma keeps_then: "keeps R m \<Longrightarrow> keeps R k \<Longrightarrow> keeps R (then_act m k)"
  by (simp add: then_act_def keeps_bind)

lemma keeps_if: "keeps R m \<Longrightarrow> keeps R k \<Longrightarrow> keeps R (if b then m else k)"
  by simp

lemma keeps_case_option:
  "keeps R m \<Longrightarrow> (\<And>x. keeps R (f x)) \<Longrightarrow> keeps R (case v of None \<Rightarrow> m | Some x \<Rightarrow> f x)"
  by (simp split: option.splits)

lemma keeps_case_sum:
  "(\<And>e. keeps R (g e)) \<Longrightarrow> (\<And>x. keeps R (f x)) \<Longrightarrow>
    keeps R (case v of Inl e \<Rightarrow> g e | Inr x \<Rightarrow> f x)"
  by (simp split: sum.splits)

lemma keeps_case_prod: "(\<And>x y. keeps R (f x y)) \<Longrightarrow> keeps R (case v of (x, y) \<Rightarrow> f x y)"
  by (simp split: prod.splits)

lemma keeps_let: "(\<And>x. keeps R (f x)) \<Longrightarrow> keeps R (let x = v in f x)"
  by simp

lemma keeps_map: "(\<And>x. keeps R (f x)) \<Longrightarrow> keeps R (map_act f xs)"
  by (induction xs) (auto intro: keeps_return keeps_bind)

lemma keeps_fold: "(\<And>x a. keeps R (f x a)) \<Longrightarrow> keeps R (fold_act f xs a)"
  by (induction xs arbitrary: a) (auto intro: keeps_return keeps_bind)

lemmas keeps_combinators = keeps_return keeps_raise keeps_get keeps_lift keeps_bind keeps_then
  keeps_if keeps_case_option keeps_case_sum keeps_case_prod keeps_let keeps_map keeps_fold

end

section \<open>What an action returns\<close>

definition returns :: "('s, 'a) act \<Rightarrow> ('a \<Rightarrow> bool) \<Rightarrow> bool" where
  "returns m P \<longleftrightarrow> (\<forall>s x t. m s = (Inr x, t) \<longrightarrow> P x)"

lemma returnsD: "returns m P \<Longrightarrow> m s = (Inr x, t) \<Longrightarrow> P x"
  by (auto simp: returns_def)

lemma returns_weaken: "returns m P \<Longrightarrow> (\<And>x. P x \<Longrightarrow> Q x) \<Longrightarrow> returns m Q"
  by (auto simp: returns_def)

lemma returns_return [returns_rules]: "P x \<Longrightarrow> returns (return_act x) P"
  by (simp add: returns_def act_defs)

lemma returns_raise [returns_rules]: "returns (raise_act e) P"
  by (simp add: returns_def act_defs)

lemma returns_lift: "(\<And>x. r = Inr x \<Longrightarrow> P x) \<Longrightarrow> returns (lift_act r) P"
  by (simp add: returns_def act_defs)

lemma returns_bind_strong:
  assumes "returns m Q" and "\<And>x. Q x \<Longrightarrow> returns (f x) P"
  shows "returns (bind_act m f) P"
  unfolding returns_def
proof (intro allI impI)
  fix s x t
  assume run: "bind_act m f s = (Inr x, t)"
  show "P x"
  proof (cases "m s")
    case (Pair r v)
    show ?thesis
    proof (cases r)
      case (Inl e)
      with Pair run show ?thesis by (simp add: bind_act_def)
    next
      case (Inr y)
      with assms(1) Pair have "Q y" by (auto dest: returnsD)
      with assms(2) have "returns (f y) P" .
      moreover from Inr Pair run have "f y v = (Inr x, t)" by (simp add: bind_act_def)
      ultimately show ?thesis by (rule returnsD)
    qed
  qed
qed

lemma returns_bind [returns_rules]:
  assumes "\<And>x. returns (f x) P"
  shows "returns (bind_act m f) P"
  by (rule returns_bind_strong [where Q = "\<lambda>_. True"]) (auto simp: returns_def assms [unfolded returns_def])

lemma returns_then [returns_rules]: "returns k P \<Longrightarrow> returns (then_act m k) P"
  by (simp add: then_act_def returns_bind)

lemma returns_if [returns_rules]: "returns m P \<Longrightarrow> returns k P \<Longrightarrow> returns (if b then m else k) P"
  by simp

lemma returns_finally [returns_rules]: "returns m P \<Longrightarrow> returns (finally_act m c) P"
  by (auto simp: returns_def finally_act_def split: prod.splits)

lemma returns_map: "(\<And>x. x \<in> set xs \<Longrightarrow> returns (f x) P) \<Longrightarrow> returns (map_act f xs) (list_all P)"
proof (induction xs)
  case Nil
  then show ?case by (simp add: returns_return)
next
  case (Cons x xs)
  have "returns (f x) P" and "returns (map_act f xs) (list_all P)"
    using Cons by auto
  then show ?case
    by (auto intro!: returns_bind_strong returns_return)
qed

lemma returns_fold:
  assumes "\<And>x a. x \<in> set xs \<Longrightarrow> P a \<Longrightarrow> returns (f x a) P" and "P a"
  shows "returns (fold_act f xs a) P"
  using assms
proof (induction xs arbitrary: a)
  case Nil
  then show ?case by (simp add: returns_return)
next
  case (Cons x xs)
  then show ?case
    by (auto intro!: returns_bind_strong [where Q = P])
qed

section \<open>What an action raises\<close>

definition raises_only :: "exn set \<Rightarrow> ('s, 'a) act \<Rightarrow> bool" where
  "raises_only E m \<longleftrightarrow> (\<forall>s e t. m s = (Inl e, t) \<longrightarrow> e \<in> E)"

lemma raises_onlyD: "raises_only E m \<Longrightarrow> m s = (Inl e, t) \<Longrightarrow> e \<in> E"
  by (auto simp: raises_only_def)

lemma raises_return [raises_rules]: "raises_only E (return_act x)"
  and raises_get [raises_rules]: "raises_only E (get_act f)"
  and raises_modify [raises_rules]: "raises_only E (modify_act g)"
  by (simp_all add: raises_only_def act_defs)

lemma raises_lift: "(\<And>e. r = Inl e \<Longrightarrow> e \<in> E) \<Longrightarrow> raises_only E (lift_act r)"
  by (simp add: raises_only_def act_defs)

lemma raises_bind [raises_rules]:
  "raises_only E m \<Longrightarrow> (\<And>x. raises_only E (f x)) \<Longrightarrow> raises_only E (bind_act m f)"
  unfolding raises_only_def bind_act_def
  by (auto split: prod.splits sum.splits)

lemma raises_then [raises_rules]:
  "raises_only E m \<Longrightarrow> raises_only E k \<Longrightarrow> raises_only E (then_act m k)"
  by (simp add: then_act_def raises_bind)

lemma raises_finally [raises_rules]: "raises_only E m \<Longrightarrow> raises_only E (finally_act m c)"
  by (auto simp: raises_only_def finally_act_def split: prod.splits)

lemma raises_if [raises_rules]:
  "raises_only E m \<Longrightarrow> raises_only E k \<Longrightarrow> raises_only E (if b then m else k)"
  by simp

lemma raises_case_option [raises_rules]:
  "raises_only E m \<Longrightarrow> (\<And>x. raises_only E (f x)) \<Longrightarrow>
    raises_only E (case v of None \<Rightarrow> m | Some x \<Rightarrow> f x)"
  by (simp split: option.splits)

lemma raises_case_sum [raises_rules]:
  "(\<And>e. raises_only E (g e)) \<Longrightarrow> (\<And>x. raises_only E (f x)) \<Longrightarrow>
    raises_only E (case v of Inl e \<Rightarrow> g e | Inr x \<Rightarrow> f x)"
  by (simp split: sum.splits)

lemma raises_case_prod [raises_rules]:
  "(\<And>x y. raises_only E (f x y)) \<Longrightarrow> raises_only E (case v of (x, y) \<Rightarrow> f x y)"
  by (simp split: prod.splits)

lemma raises_fold [raises_rules]: "(\<And>x a. raises_only E (f x a)) \<Longrightarrow> raises_only E (fold_act f xs a)"
  by (induction xs arbitrary: a) (auto intro!: raises_rules)

section \<open>Lists and sorting\<close>

lemma sorted_map_sort_key: "sorted (map f (sort_key f xs))"
  by simp

lemma sorted_map_filter: "sorted (map f xs) \<Longrightarrow> sorted (map f (filter P xs))"
  by (induction xs) auto

lemma sorted_map_take: "sorted (map f xs) \<Longrightarrow> sorted (map f (take n xs))"
  by (simp add: take_map [symmetric] sorted_wrt_take)

lemma list_all_sort_key [simp]: "list_all P (sort_key f xs) = list_all P xs"
  by (simp add: list_all_iff)

end
