(* ===== verification/PyStr.thy ===== *)
theory PyStr
  imports Prelude
begin

text \<open>
  Python strings and the operations of the standard library the exporter applies to them.
  A \<open>str\<close> is the list of its Unicode code points; \<open>u ''abc''\<close> is the literal
  \<open>"abc"\<close>, and \<open>cp CHR ''x''\<close> the code point of a character. White space, line
  boundaries and decimal digits follow Unicode 14 (the tables of Python 3.11); the upper and
  lower case mapping is the ASCII one, other characters are left as they are. \<open>py_int\<close> is
  \<open>int(text, base)\<close> for the bases the code uses, with the 4300-digit limit of CPython on
  decimal input.
\<close>

section \<open>Literals\<close>

type_synonym pystr = "nat list"

abbreviation cp :: "char \<Rightarrow> nat" where
  "cp c \<equiv> of_char c"

definition u :: "string \<Rightarrow> pystr" where
  "u s = map of_char s"

lemma u_Nil [simp]: "u [] = []"
  by (simp add: u_def)

lemma u_Cons: "u (c # cs) = cp c # u cs"
  by (simp add: u_def)

lemma u_append: "u (s @ t) = u s @ u t"
  by (simp add: u_def)

lemma length_u [simp]: "length (u s) = length s"
  by (simp add: u_def)

lemma u_eq_iff [simp]: "u s = u t \<longleftrightarrow> s = t"
  by (simp add: u_def inj_map_eq_map inj_of_char)

lemma u_eq_Nil [simp]: "u s = [] \<longleftrightarrow> s = []" "[] = u s \<longleftrightarrow> s = []"
  by (auto simp: u_def)

section \<open>Character classes\<close>

definition space_points :: "nat list" where
  "space_points = [9, 10, 11, 12, 13, 28, 29, 30, 31, 32, 133, 160, 5760, 8192, 8193, 8194, 8195,
     8196, 8197, 8198, 8199, 8200, 8201, 8202, 8232, 8233, 8239, 8287, 12288]"

definition is_space :: "nat \<Rightarrow> bool" where
  "is_space c \<longleftrightarrow> c \<in> set space_points"

definition line_break_points :: "nat list" where
  "line_break_points = [10, 11, 12, 13, 28, 29, 30, 133, 8232, 8233]"

definition is_line_break :: "nat \<Rightarrow> bool" where
  "is_line_break c \<longleftrightarrow> c \<in> set line_break_points"

text \<open>The characters of the literal \<open>" \t\n\r\v\f"\<close>, also the C locale's white space.\<close>

definition is_c_space :: "nat \<Rightarrow> bool" where
  "is_c_space c \<longleftrightarrow> c = 32 \<or> (9 \<le> c \<and> c \<le> 13)"

text \<open>The zero of every block of ten decimal digits (category Nd).\<close>

definition digit_zeros :: "nat list" where
  "digit_zeros = [48, 1632, 1776, 1984, 2406, 2534, 2662, 2790, 2918, 3046, 3174, 3302, 3430, 3558,
     3664, 3792, 3872, 4160, 4240, 6112, 6160, 6470, 6608, 6784, 6800, 6992, 7088, 7232, 7248,
     42528, 43216, 43264, 43472, 43504, 43600, 44016, 65296, 66720, 68912, 69734, 69872, 69942,
     70096, 70384, 70736, 70864, 71248, 71360, 71472, 71904, 72016, 72784, 73040, 73120, 92768,
     92864, 93008, 120782, 120792, 120802, 120812, 120822, 123200, 123632, 125264, 130032]"

definition decimal_digit :: "nat \<Rightarrow> nat option" where
  "decimal_digit c = map_option (\<lambda>z. c - z) (find (\<lambda>z. z \<le> c \<and> c < z + 10) digit_zeros)"

definition is_decimal :: "nat \<Rightarrow> bool" where
  "is_decimal c \<longleftrightarrow> decimal_digit c \<noteq> None"

definition is_ascii_alnum :: "nat \<Rightarrow> bool" where
  "is_ascii_alnum c \<longleftrightarrow> (48 \<le> c \<and> c \<le> 57) \<or> (65 \<le> c \<and> c \<le> 90) \<or> (97 \<le> c \<and> c \<le> 122)"

definition lower_char :: "nat \<Rightarrow> nat" where
  "lower_char c = (if 65 \<le> c \<and> c \<le> 90 then c + 32 else c)"

definition lower :: "pystr \<Rightarrow> pystr" where
  "lower s = map lower_char s"

lemma decimal_digit_ascii [simp]: "d < 10 \<Longrightarrow> decimal_digit (48 + d) = Some d"
  by (simp add: decimal_digit_def digit_zeros_def)

lemma decimal_digit_ascii': "48 \<le> c \<Longrightarrow> c < 58 \<Longrightarrow> decimal_digit c = Some (c - 48)"
  by (simp add: decimal_digit_def digit_zeros_def)

lemma decimal_digit_lt_10: "decimal_digit c = Some d \<Longrightarrow> d < 10"
  by (auto simp: decimal_digit_def find_Some_iff)

lemma decimal_digit_low: "c < 48 \<Longrightarrow> decimal_digit c = None"
  by (simp add: decimal_digit_def digit_zeros_def)

lemma decimal_digit_ascii_other: "57 < c \<Longrightarrow> c < 1632 \<Longrightarrow> decimal_digit c = None"
  by (simp add: decimal_digit_def digit_zeros_def)

lemma is_space_ascii_digit: "48 \<le> c \<Longrightarrow> c < 58 \<Longrightarrow> \<not> is_space c"
  by (simp add: is_space_def space_points_def)

lemma c_space_is_space: "is_c_space c \<Longrightarrow> is_space c"
proof -
  assume "is_c_space c"
  then have "c = 32 \<or> c = 9 \<or> c = 10 \<or> c = 11 \<or> c = 12 \<or> c = 13"
    unfolding is_c_space_def by presburger
  then show ?thesis
    by (auto simp: is_space_def space_points_def)
qed

section \<open>Stripping and splitting\<close>

definition strip_by :: "(nat \<Rightarrow> bool) \<Rightarrow> pystr \<Rightarrow> pystr" where
  "strip_by P s = rev (dropWhile P (rev (dropWhile P s)))"

text \<open>\<open>s.strip()\<close> and \<open>s.strip(" \t\n\r\v\f")\<close>.\<close>

definition strip_ws :: "pystr \<Rightarrow> pystr" where
  "strip_ws s = strip_by is_space s"

definition strip_ascii :: "pystr \<Rightarrow> pystr" where
  "strip_ascii s = strip_by is_c_space s"

text \<open>\<open>s.split()\<close>, and the same for another class of separators.\<close>

fun words_by :: "(nat \<Rightarrow> bool) \<Rightarrow> pystr \<Rightarrow> pystr list" where
  "words_by P [] = []"
| "words_by P (c # cs) =
     (if P c then words_by P cs
      else case cs of
          [] \<Rightarrow> [[c]]
        | d # _ \<Rightarrow>
            if P d then [c] # words_by P cs
            else case words_by P cs of [] \<Rightarrow> [[c]] | w # ws \<Rightarrow> (c # w) # ws)"

definition split_ws :: "pystr \<Rightarrow> pystr list" where
  "split_ws s = words_by is_space s"

text \<open>\<open>s.splitlines()\<close>.\<close>

fun splitlines :: "pystr \<Rightarrow> pystr list" where
  "splitlines [] = []"
| "splitlines (c # cs) =
     (if c = 13 then
        (case cs of
           [] \<Rightarrow> [[]]
         | d # ds \<Rightarrow> [] # (if d = 10 then splitlines ds else splitlines cs))
      else if is_line_break c then [] # splitlines cs
      else case splitlines cs of [] \<Rightarrow> [[c]] | l # ls \<Rightarrow> (c # l) # ls)"

text \<open>\<open>s.split(c, 1)\<close>, \<open>None\<close> when \<open>c\<close> does not occur, and \<open>s.split("/")\<close>.\<close>

fun split_once :: "nat \<Rightarrow> pystr \<Rightarrow> (pystr \<times> pystr) option" where
  "split_once c [] = None"
| "split_once c (d # ds) =
     (if d = c then Some ([], ds) else map_option (\<lambda>(a, b). (d # a, b)) (split_once c ds))"

fun split_on :: "nat \<Rightarrow> pystr \<Rightarrow> pystr list" where
  "split_on c [] = [[]]"
| "split_on c (d # ds) =
     (if d = c then [] # split_on c ds
      else case split_on c ds of [] \<Rightarrow> [[d]] | w # ws \<Rightarrow> (d # w) # ws)"

definition starts_with :: "pystr \<Rightarrow> pystr \<Rightarrow> bool" where
  "starts_with s p \<longleftrightarrow> take (length p) s = p"

definition ends_with :: "pystr \<Rightarrow> pystr \<Rightarrow> bool" where
  "ends_with s p \<longleftrightarrow> length p \<le> length s \<and> drop (length s - length p) s = p"

text \<open>\<open>sub in s\<close>.\<close>

fun contains_str :: "pystr \<Rightarrow> pystr \<Rightarrow> bool" where
  "contains_str sub [] = (sub = [])"
| "contains_str sub (c # cs) = (starts_with (c # cs) sub \<or> contains_str sub cs)"

text \<open>\<open>s.replace(c, r)\<close> for a one-character \<open>c\<close>, and \<open>sep.join(xs)\<close>.\<close>

definition replace_char :: "nat \<Rightarrow> pystr \<Rightarrow> pystr \<Rightarrow> pystr" where
  "replace_char c r s = concat (map (\<lambda>d. if d = c then r else [d]) s)"

fun join :: "pystr \<Rightarrow> pystr list \<Rightarrow> pystr" where
  "join sep [] = []"
| "join sep [x] = x"
| "join sep (x # xs) = x @ sep @ join sep xs"

section \<open>Integers as text\<close>

fun nat_digits :: "nat \<Rightarrow> nat \<Rightarrow> nat list" where
  "nat_digits b n = (if b < 2 \<or> n < b then [n] else nat_digits b (n div b) @ [n mod b])"

declare nat_digits.simps [simp del]

definition digits_value :: "nat \<Rightarrow> nat list \<Rightarrow> nat" where
  "digits_value b ds = foldl (\<lambda>a d. a * b + d) 0 ds"

definition digit_point :: "nat \<Rightarrow> nat" where
  "digit_point d = (if d < 10 then 48 + d else 87 + d)"

text \<open>\<open>str(n)\<close> and \<open>hex(n)\<close>.\<close>

definition str_nat :: "nat \<Rightarrow> pystr" where
  "str_nat n = map digit_point (nat_digits 10 n)"

definition str_int :: "int \<Rightarrow> pystr" where
  "str_int i = (if i < 0 then cp CHR ''-'' # str_nat (nat (- i)) else str_nat (nat i))"

definition hex_int :: "int \<Rightarrow> pystr" where
  "hex_int i = (if i < 0 then u ''-0x'' else u ''0x'') @ map digit_point (nat_digits 16 (nat \<bar>i\<bar>))"

text \<open>
  \<open>int(text, base)\<close>. Non-ASCII text is first brought to ASCII: Unicode spaces become blanks,
  decimal digits become ASCII digits, anything else becomes a character no base accepts. Then
  blanks around the number, one sign, and for bases 16 and 8 one prefix \<open>0x\<close> or \<open>0o\<close>
  are skipped; single underscores may stand between digits. A decimal number of more than 4300
  digits is refused with the same \<open>ValueError\<close> as malformed text.
\<close>

definition int_max_str_digits :: nat where
  "int_max_str_digits = 4300"

definition ascii_point :: "nat \<Rightarrow> nat" where
  "ascii_point c =
     (if c < 127 then c
      else if is_space c then 32
      else case decimal_digit c of Some d \<Rightarrow> 48 + d | None \<Rightarrow> 63)"

definition int_text :: "pystr \<Rightarrow> pystr" where
  "int_text s = (if list_all (\<lambda>c. c < 128) s then s else map ascii_point s)"

definition base_digit :: "nat \<Rightarrow> nat \<Rightarrow> nat option" where
  "base_digit b c =
     (let d = (if 48 \<le> c \<and> c \<le> 57 then c - 48
               else if 97 \<le> c \<and> c \<le> 122 then c - 87
               else if 65 \<le> c \<and> c \<le> 90 then c - 55
               else 36)
      in if d < b \<and> d < 36 then Some d else None)"

fun scan_digits :: "nat \<Rightarrow> bool \<Rightarrow> pystr \<Rightarrow> nat list option" where
  "scan_digits b after_digit [] = (if after_digit then Some [] else None)"
| "scan_digits b after_digit (c # cs) =
     (if c = cp CHR ''_'' then (if after_digit then scan_digits b False cs else None)
      else case base_digit b c of
          None \<Rightarrow> None
        | Some d \<Rightarrow> map_option ((#) d) (scan_digits b True cs))"

definition skip_prefix :: "nat \<Rightarrow> pystr \<Rightarrow> pystr" where
  "skip_prefix b s =
     (let t = drop 2 s
      in if (b = 16 \<and> lower (take 2 s) = u ''0x'') \<or> (b = 8 \<and> lower (take 2 s) = u ''0o'')
         then (if take 1 t = u ''_'' then drop 1 t else t)
         else s)"

definition py_int :: "nat \<Rightarrow> pystr \<Rightarrow> int outcome" where
  "py_int b s =
     (let t = strip_by is_c_space (int_text s);
          negative = (take 1 t = u ''-'');
          body = (if take 1 t = u ''-'' \<or> take 1 t = u ''+'' then drop 1 t else t)
      in case scan_digits b False (skip_prefix b body) of
          None \<Rightarrow> Inl ValueError
        | Some ds \<Rightarrow>
            if b = 10 \<and> int_max_str_digits < length ds then Inl ValueError
            else Inr (if negative then - int (digits_value b ds) else int (digits_value b ds)))"

section \<open>Paths\<close>

text \<open>
  A \<open>Path\<close> is the text of its normal form. \<open>path_join\<close> is \<open>root / name\<close> for a
  relative name, \<open>path_name\<close> is the attribute \<open>name\<close>, the last component.
\<close>

type_synonym path = pystr

definition path_join :: "path \<Rightarrow> pystr \<Rightarrow> path" where
  "path_join p n =
     (if p = u ''.'' then n
      else if ends_with p (u ''/'') then p @ n
      else p @ u ''/'' @ n)"

definition path_name :: "pystr \<Rightarrow> pystr" where
  "path_name s =
     (case rev (filter (\<lambda>c. c \<noteq> [] \<and> c \<noteq> u ''.'') (split_on (cp CHR ''/'') s)) of
        [] \<Rightarrow> []
      | c # _ \<Rightarrow> c)"

end
