(* ===== verification/Models.thy ===== *)
theory Models
  imports PyStr
begin

text \<open>
  The telemetry model of \<open>models.py\<close>: one record per data class, with the fields in the
  order of the source and \<open>None\<close> as the absent value, and the two string enumerations.
  The issue table of a source is a total function, because the code creates it with an entry
  for every issue and never adds or removes a key; so is the table of sources. The
  \<open>new_...\<close> constants are the values the data classes have when created without
  arguments.
\<close>

section \<open>Enumerations\<close>

datatype telemetry_source =
    SYSFS_ROOT
  | ALLOCATION_STATE
  | JANITOR_STATE
  | METALIUM_PROFILER_STATE

datatype collection_issue =
    MISSING_ROOT
  | PERMISSION_DENIED
  | READ_FAILED
  | INVALID_VALUE
  | OVERSIZED_RECORD
  | UNSUPPORTED_SCHEMA
  | CARDINALITY_LIMIT
  | STALE_RECORD

fun source_value :: "telemetry_source \<Rightarrow> pystr" where
  "source_value SYSFS_ROOT = u ''sysfs_root''"
| "source_value ALLOCATION_STATE = u ''allocation_state''"
| "source_value JANITOR_STATE = u ''janitor_state''"
| "source_value METALIUM_PROFILER_STATE = u ''metalium_profiler_state''"

fun issue_value :: "collection_issue \<Rightarrow> pystr" where
  "issue_value MISSING_ROOT = u ''missing_root''"
| "issue_value PERMISSION_DENIED = u ''permission_denied''"
| "issue_value READ_FAILED = u ''read_failed''"
| "issue_value INVALID_VALUE = u ''invalid_value''"
| "issue_value OVERSIZED_RECORD = u ''oversized_record''"
| "issue_value UNSUPPORTED_SCHEMA = u ''unsupported_schema''"
| "issue_value CARDINALITY_LIMIT = u ''cardinality_limit''"
| "issue_value STALE_RECORD = u ''stale_record''"

text \<open>Iteration over the enumerations, in the order of declaration.\<close>

instantiation telemetry_source :: enum
begin

definition enum_telemetry_source :: "telemetry_source list" where
  "enum_telemetry_source = [SYSFS_ROOT, ALLOCATION_STATE, JANITOR_STATE, METALIUM_PROFILER_STATE]"

definition enum_all_telemetry_source :: "(telemetry_source \<Rightarrow> bool) \<Rightarrow> bool" where
  "enum_all_telemetry_source P \<longleftrightarrow> list_all P enum_class.enum"

definition enum_ex_telemetry_source :: "(telemetry_source \<Rightarrow> bool) \<Rightarrow> bool" where
  "enum_ex_telemetry_source P \<longleftrightarrow> list_ex P enum_class.enum"

instance
proof
  show univ: "(UNIV :: telemetry_source set) = set enum_class.enum"
    by (auto simp: enum_telemetry_source_def intro: telemetry_source.exhaust)
  show "distinct (enum_class.enum :: telemetry_source list)"
    by (simp add: enum_telemetry_source_def)
  show "enum_class.enum_all P = Ball UNIV P" for P :: "telemetry_source \<Rightarrow> bool"
    unfolding univ by (simp add: enum_all_telemetry_source_def list_all_iff)
  show "enum_class.enum_ex P = Bex UNIV P" for P :: "telemetry_source \<Rightarrow> bool"
    unfolding univ by (simp add: enum_ex_telemetry_source_def list_ex_iff)
qed

end

instantiation collection_issue :: enum
begin

definition enum_collection_issue :: "collection_issue list" where
  "enum_collection_issue = [MISSING_ROOT, PERMISSION_DENIED, READ_FAILED, INVALID_VALUE,
     OVERSIZED_RECORD, UNSUPPORTED_SCHEMA, CARDINALITY_LIMIT, STALE_RECORD]"

definition enum_all_collection_issue :: "(collection_issue \<Rightarrow> bool) \<Rightarrow> bool" where
  "enum_all_collection_issue P \<longleftrightarrow> list_all P enum_class.enum"

definition enum_ex_collection_issue :: "(collection_issue \<Rightarrow> bool) \<Rightarrow> bool" where
  "enum_ex_collection_issue P \<longleftrightarrow> list_ex P enum_class.enum"

instance
proof
  show univ: "(UNIV :: collection_issue set) = set enum_class.enum"
    by (auto simp: enum_collection_issue_def intro: collection_issue.exhaust)
  show "distinct (enum_class.enum :: collection_issue list)"
    by (simp add: enum_collection_issue_def)
  show "enum_class.enum_all P = Ball UNIV P" for P :: "collection_issue \<Rightarrow> bool"
    unfolding univ by (simp add: enum_all_collection_issue_def list_all_iff)
  show "enum_class.enum_ex P = Bex UNIV P" for P :: "collection_issue \<Rightarrow> bool"
    unfolding univ by (simp add: enum_ex_collection_issue_def list_ex_iff)
qed

end

definition all_sources :: "telemetry_source list" where
  "all_sources = enum_class.enum"

definition all_issues :: "collection_issue list" where
  "all_issues = enum_class.enum"

lemma all_sources_eq:
  "all_sources = [SYSFS_ROOT, ALLOCATION_STATE, JANITOR_STATE, METALIUM_PROFILER_STATE]"
  by (simp add: all_sources_def enum_telemetry_source_def)

lemma all_issues_eq: "all_issues = [MISSING_ROOT, PERMISSION_DENIED, READ_FAILED, INVALID_VALUE,
    OVERSIZED_RECORD, UNSUPPORTED_SCHEMA, CARDINALITY_LIMIT, STALE_RECORD]"
  by (simp add: all_issues_def enum_collection_issue_def)

lemma set_all_sources [simp]: "set all_sources = UNIV"
  by (simp add: all_sources_def enum_UNIV)

lemma set_all_issues [simp]: "set all_issues = UNIV"
  by (simp add: all_issues_def enum_UNIV)

lemma distinct_all_issues [simp]: "distinct all_issues"
  by (simp add: all_issues_def enum_distinct)

lemma source_value_inj [simp]: "source_value a = source_value b \<longleftrightarrow> a = b"
  by (cases a; cases b; simp)

lemma issue_value_inj [simp]: "issue_value a = issue_value b \<longleftrightarrow> a = b"
  by (cases a; cases b; simp)

section \<open>Device data\<close>

record memory_usage =
  usage_used_bytes :: "int option"
  usage_total_bytes :: "int option"

record character_device =
  chr_major :: int
  chr_minor :: int
  chr_dev_name :: "pystr option"

record pci_info =
  pci_bdf :: "pystr option"
  pci_driver :: "pystr option"
  pci_vendor_id :: "pystr option"
  pci_device_id :: "pystr option"
  pci_class_id :: "pystr option"
  pci_revision :: "pystr option"
  pci_subsystem_vendor_id :: "pystr option"
  pci_subsystem_device_id :: "pystr option"
  pci_numa_node :: "int option"
  pci_iommu_group :: "int option"
  pci_current_link_speed :: "pystr option"
  pci_current_link_width :: "int option"
  pci_max_link_speed :: "pystr option"
  pci_max_link_width :: "int option"
  pci_reset_method :: "pystr option"

record pci_resource =
  res_index :: nat
  res_start :: int
  res_end :: int
  res_flags :: int
  res_size_bytes :: int

record power_info =
  pow_runtime_status :: "pystr option"
  pow_control :: "pystr option"
  pow_runtime_enabled :: "pystr option"
  pow_runtime_active_time_ms :: "int option"
  pow_runtime_suspended_time_ms :: "int option"
  pow_runtime_usage :: "int option"
  pow_runtime_active_kids :: "int option"
  pow_autosuspend_delay_ms :: "int option"

record named_counter =
  ctr_name :: pystr
  ctr_value :: int

record firmware_telemetry =
  fw_ai_clock_mhz :: "int option"
  fw_axi_clock_mhz :: "int option"
  fw_arc_clock_mhz :: "int option"
  fw_heartbeat :: "int option"
  fw_thermal_trip_count :: "int option"
  fw_serial :: "pystr option"
  fw_card_type :: "pystr option"
  fw_asic_id :: "pystr option"
  fw_bundle_version :: "pystr option"
  fw_m3_app_version :: "pystr option"
  fw_m3_bl_version :: "pystr option"
  fw_arc_version :: "pystr option"
  fw_eth_version :: "pystr option"
  fw_ttflash_version :: "pystr option"

record hwmon_sensor =
  sen_name :: pystr
  sen_label :: "pystr option"
  sen_unit :: pystr
  sen_value :: int

record memory_telemetry =
  mem_used_bytes :: "int option"
  mem_total_bytes :: "int option"
  mem_free_bytes :: "int option"
  mem_available_bytes :: "int option"
  mem_bandwidth_bytes_per_second :: "int option"
  mem_type :: "pystr option"
  mem_controller_layout :: "pystr option"
  mem_controller_count :: "int option"
  mem_controllers_per_asic :: "int option"
  mem_channel_count :: "int option"

record tensix_telemetry =
  tsx_used :: "int option"
  tsx_available :: "int option"
  tsx_total :: "int option"
  tsx_mesh_rows :: "int option"
  tsx_mesh_cols :: "int option"
  tsx_topology :: "pystr option"
  tsx_active_regions :: "pystr option"
  tsx_source :: "pystr option"

record workload_telemetry =
  wl_id :: pystr
  wl_pod_namespace :: "pystr option"
  wl_pod_name :: "pystr option"
  wl_container_name :: "pystr option"
  wl_active :: "int option"
  wl_programs_observed :: "int option"
  wl_cores_used :: "int option"
  wl_cores_total :: "int option"
  wl_timestamp :: "int option"
  wl_stale :: bool

record health_telemetry =
  hlt_fault_code :: "pystr option"
  hlt_fault_reason :: "pystr option"
  hlt_reset_required :: "int option"
  hlt_oom_fault_count :: "int option"
  hlt_hang_fault_count :: "int option"

record interconnect_link =
  lnk_name :: pystr
  lnk_type :: "pystr option"
  lnk_state :: "pystr option"
  lnk_peer :: "pystr option"
  lnk_speed_gbps :: "int option"
  lnk_ring_id :: "pystr option"

record allocation_telemetry =
  alc_claim_namespace :: "pystr option"
  alc_claim_name :: "pystr option"
  alc_claim_uid :: "pystr option"
  alc_pod_namespace :: "pystr option"
  alc_pod_name :: "pystr option"
  alc_container_name :: "pystr option"

record janitor_telemetry =
  jan_state :: "pystr option"
  jan_quarantine_reason :: "pystr option"
  jan_last_scrub_status :: "pystr option"
  jan_last_reset_status :: "pystr option"
  jan_scrub_count :: "int option"
  jan_reset_count :: "int option"
  jan_last_scrub_timestamp :: "int option"
  jan_last_reset_timestamp :: "int option"

record device_telemetry =
  dev_id :: pystr
  dev_sysfs_path :: path
  dev_architecture :: "pystr option"
  dev_board_type :: "pystr option"
  dev_health :: "pystr option"
  dev_character_device :: "character_device option"
  dev_pci :: pci_info
  dev_pci_resources :: "pci_resource list"
  dev_power :: power_info
  dev_pcie_counters :: "named_counter list"
  dev_firmware :: firmware_telemetry
  dev_hwmon_sensors :: "hwmon_sensor list"
  dev_memory :: memory_telemetry
  dev_tensix :: tensix_telemetry
  dev_workloads :: "workload_telemetry list"
  dev_health_detail :: health_telemetry
  dev_links :: "interconnect_link list"
  dev_allocation :: allocation_telemetry
  dev_janitor :: janitor_telemetry

section \<open>Default values\<close>

definition new_pci_info :: pci_info where
  "new_pci_info = \<lparr>pci_bdf = None, pci_driver = None, pci_vendor_id = None, pci_device_id = None,
     pci_class_id = None, pci_revision = None, pci_subsystem_vendor_id = None,
     pci_subsystem_device_id = None, pci_numa_node = None, pci_iommu_group = None,
     pci_current_link_speed = None, pci_current_link_width = None, pci_max_link_speed = None,
     pci_max_link_width = None, pci_reset_method = None\<rparr>"

definition new_power_info :: power_info where
  "new_power_info = \<lparr>pow_runtime_status = None, pow_control = None, pow_runtime_enabled = None,
     pow_runtime_active_time_ms = None, pow_runtime_suspended_time_ms = None,
     pow_runtime_usage = None, pow_runtime_active_kids = None, pow_autosuspend_delay_ms = None\<rparr>"

definition new_firmware :: firmware_telemetry where
  "new_firmware = \<lparr>fw_ai_clock_mhz = None, fw_axi_clock_mhz = None, fw_arc_clock_mhz = None,
     fw_heartbeat = None, fw_thermal_trip_count = None, fw_serial = None, fw_card_type = None,
     fw_asic_id = None, fw_bundle_version = None, fw_m3_app_version = None,
     fw_m3_bl_version = None, fw_arc_version = None, fw_eth_version = None,
     fw_ttflash_version = None\<rparr>"

definition new_memory :: memory_telemetry where
  "new_memory = \<lparr>mem_used_bytes = None, mem_total_bytes = None, mem_free_bytes = None,
     mem_available_bytes = None, mem_bandwidth_bytes_per_second = None, mem_type = None,
     mem_controller_layout = None, mem_controller_count = None, mem_controllers_per_asic = None,
     mem_channel_count = None\<rparr>"

definition new_tensix :: tensix_telemetry where
  "new_tensix = \<lparr>tsx_used = None, tsx_available = None, tsx_total = None, tsx_mesh_rows = None,
     tsx_mesh_cols = None, tsx_topology = None, tsx_active_regions = None, tsx_source = None\<rparr>"

definition new_health :: health_telemetry where
  "new_health = \<lparr>hlt_fault_code = None, hlt_fault_reason = None, hlt_reset_required = None,
     hlt_oom_fault_count = None, hlt_hang_fault_count = None\<rparr>"

definition new_allocation :: allocation_telemetry where
  "new_allocation = \<lparr>alc_claim_namespace = None, alc_claim_name = None, alc_claim_uid = None,
     alc_pod_namespace = None, alc_pod_name = None, alc_container_name = None\<rparr>"

definition new_janitor :: janitor_telemetry where
  "new_janitor = \<lparr>jan_state = None, jan_quarantine_reason = None, jan_last_scrub_status = None,
     jan_last_reset_status = None, jan_scrub_count = None, jan_reset_count = None,
     jan_last_scrub_timestamp = None, jan_last_reset_timestamp = None\<rparr>"

definition new_device :: "pystr \<Rightarrow> path \<Rightarrow> device_telemetry" where
  "new_device name path = \<lparr>dev_id = name, dev_sysfs_path = path, dev_architecture = None,
     dev_board_type = None, dev_health = None, dev_character_device = None,
     dev_pci = new_pci_info, dev_pci_resources = [], dev_power = new_power_info,
     dev_pcie_counters = [], dev_firmware = new_firmware, dev_hwmon_sensors = [],
     dev_memory = new_memory, dev_tensix = new_tensix, dev_workloads = [],
     dev_health_detail = new_health, dev_links = [], dev_allocation = new_allocation,
     dev_janitor = new_janitor\<rparr>"

section \<open>Configuration, diagnostics and results\<close>

record collector_config =
  cfg_sysfs_root :: path
  cfg_allocation_root :: "path option"
  cfg_janitor_root :: "path option"
  cfg_profiler_root :: "path option"
  cfg_stale_after_seconds :: int
  cfg_collect_hwmon :: bool
  cfg_collect_pcie_counters :: bool

definition new_config :: collector_config where
  "new_config = \<lparr>cfg_sysfs_root = u ''/sys/class/tenstorrent'', cfg_allocation_root = None,
     cfg_janitor_root = None, cfg_profiler_root = None, cfg_stale_after_seconds = 15,
     cfg_collect_hwmon = False, cfg_collect_pcie_counters = False\<rparr>"

definition empty_issues :: "collection_issue \<Rightarrow> nat" where
  "empty_issues = (\<lambda>_. 0)"

record source_diagnostics =
  diag_source :: telemetry_source
  diag_configured :: bool
  diag_accessible :: bool
  diag_files_read :: nat
  diag_records_accepted :: nat
  diag_issues :: "collection_issue \<Rightarrow> nat"

definition new_diagnostics :: "telemetry_source \<Rightarrow> source_diagnostics" where
  "new_diagnostics src = \<lparr>diag_source = src, diag_configured = False, diag_accessible = False,
     diag_files_read = 0, diag_records_accepted = 0, diag_issues = empty_issues\<rparr>"

definition empty_sources :: "telemetry_source \<Rightarrow> source_diagnostics" where
  "empty_sources = new_diagnostics"

record collection_result =
  col_devices :: "device_telemetry list"
  col_sources :: "telemetry_source \<Rightarrow> source_diagnostics"
  col_critical_ok :: bool

definition new_result :: collection_result where
  "new_result = \<lparr>col_devices = [], col_sources = empty_sources, col_critical_ok = False\<rparr>"

end
