(* ===== verification/PyStrFacts.thy ===== *)
theory PyStrFacts
  imports PyStr
begin

text \<open>
  Facts about the string operations: what stripping and splitting leave behind, the lines
  and fields of composed text, and the inverse \<open>int(str(n)) = n\<close> with its digit bound.
\<close>

section \<open>Stripping\<close>

lemma dropWhile_ends:
  "dropWhile P s \<noteq> [] \<Longrightarrow> \<not> P (hd (dropWhile P s))"
  by (rule hd_dropWhile) (metis dropWhile_eq_Nil_conv)

lemma strip_by_Nil [simp]: "strip_by P [] = []"
  by (simp add: strip_by_def)

lemma set_dropWhile: "set (dropWhile P s) \<subseteq> set s"
  by (auto dest: set_dropWhileD)

lemma set_strip_by: "set (strip_by P s) \<subseteq> set s"
  using set_dropWhile [of P "rev (dropWhile P s)"] set_dropWhile [of P s]
  by (auto simp: strip_by_def)

lemma length_strip_by: "length (strip_by P s) \<le> length s"
proof -
  have "length (strip_by P s) \<le> length (rev (dropWhile P s))"
    unfolding strip_by_def length_rev by (metis length_dropWhile_le length_rev)
  also have "\<dots> \<le> length s" by (simp add: length_dropWhile_le)
  finally show ?thesis .
qed

lemma strip_by_id:
  assumes "s = [] \<or> \<not> P (hd s) \<and> \<not> P (last s)"
  shows "strip_by P s = s"
proof (cases "s = []")
  case False
  with assms have "dropWhile P s = s" by (cases s) auto
  moreover have "dropWhile P (rev s) = rev s"
    using assms False by (cases s rule: rev_cases) auto
  ultimately show ?thesis by (simp add: strip_by_def)
qed simp

lemma strip_by_none: "list_all (\<lambda>c. \<not> P c) s \<Longrightarrow> strip_by P s = s"
  by (rule strip_by_id) (metis hd_in_set last_in_set list_all_iff)

lemma strip_by_last: "strip_by P s \<noteq> [] \<Longrightarrow> \<not> P (last (strip_by P s))"
  unfolding strip_by_def by (simp add: last_rev dropWhile_ends)

lemma hd_strip_by:
  assumes "strip_by P s \<noteq> []"
  shows "hd (strip_by P s) = hd (dropWhile P s)"
proof -
  let ?t = "dropWhile P s"
  have "rev ?t = takeWhile P (rev ?t) @ dropWhile P (rev ?t)" by simp
  then have "?t = rev (dropWhile P (rev ?t)) @ rev (takeWhile P (rev ?t))"
    by (metis rev_append rev_rev_ident)
  with assms show ?thesis
    unfolding strip_by_def by (metis hd_append2)
qed

lemma strip_by_hd: "strip_by P s \<noteq> [] \<Longrightarrow> \<not> P (hd (strip_by P s))"
proof -
  assume ne: "strip_by P s \<noteq> []"
  then have "dropWhile P s \<noteq> []" unfolding strip_by_def by (metis dropWhile.simps(1) rev.simps(1))
  with ne show ?thesis by (simp add: hd_strip_by dropWhile_ends)
qed

lemma strip_by_idem [simp]: "strip_by P (strip_by P s) = strip_by P s"
  by (rule strip_by_id) (auto simp: strip_by_hd strip_by_last)

section \<open>Words\<close>

lemma words_by_word: "w \<noteq> [] \<Longrightarrow> list_all (\<lambda>c. \<not> P c) w \<Longrightarrow> words_by P w = [w]"
proof (induction w)
  case (Cons c w)
  then show ?case by (cases w) auto
qed simp

lemma words_by_sep:
  "w \<noteq> [] \<Longrightarrow> list_all (\<lambda>c. \<not> P c) w \<Longrightarrow> P c \<Longrightarrow> words_by P (w @ c # rest) = w # words_by P rest"
proof (induction w)
  case (Cons d w)
  then show ?case by (cases w) auto
qed simp

lemma words_by_neq_Nil: "\<not> P c \<Longrightarrow> words_by P (c # cs) \<noteq> []"
  by (auto split: list.splits if_splits)

lemma words_by_words:
  "w \<in> set (words_by P s) \<Longrightarrow> w \<noteq> [] \<and> list_all (\<lambda>c. \<not> P c \<and> c \<in> set s) w"
proof (induction P s arbitrary: w rule: words_by.induct)
  case (1 P)
  then show ?case by simp
next
  case (2 P c cs)
  have mono: "list_all (\<lambda>d. \<not> P d \<and> d \<in> set (c # cs)) v"
    if "list_all (\<lambda>d. \<not> P d \<and> d \<in> set cs) v" for v
    using that by (auto simp: list_all_iff)
  show ?case
  proof (cases "P c")
    case True
    with "2.prems" have "w \<in> set (words_by P cs)" by simp
    with True "2.IH"(1) show ?thesis using mono by auto
  next
    case False
    show ?thesis
    proof (cases cs)
      case Nil
      with False "2.prems" show ?thesis by simp
    next
      case (Cons d ds)
      note IH = "2.IH"(2,3) [OF False Cons]
      show ?thesis
      proof (cases "P d")
        case True
        with False Cons "2.prems" have "w = [c] \<or> w \<in> set (words_by P cs)" by auto
        with False IH(1) [OF True] mono show ?thesis by auto
      next
        case Pd: False
        then obtain v vs where v: "words_by P cs = v # vs"
          using Cons words_by_neq_Nil [of P d ds] by (cases "words_by P cs") auto
        with False Pd Cons "2.prems" have "w = c # v \<or> w \<in> set (words_by P cs)" by auto
        moreover from v have "list_all (\<lambda>d. \<not> P d \<and> d \<in> set cs) v"
          using IH(2) [OF Pd] by simp
        then have "list_all (\<lambda>d. \<not> P d \<and> d \<in> set (c # cs)) (c # v)"
          using False mono by simp
        ultimately show ?thesis using IH(2) [OF Pd] mono by auto
      qed
    qed
  qed
qed

section \<open>Lines and fields\<close>

definition no_break :: "pystr \<Rightarrow> bool" where
  "no_break s \<longleftrightarrow> list_all (\<lambda>c. \<not> is_line_break c) s"

lemma line_break_10 [simp]: "is_line_break 10" and line_break_13 [simp]: "is_line_break 13"
  by (simp_all add: is_line_break_def line_break_points_def)

lemma no_break_Nil [simp]: "no_break []"
  by (simp add: no_break_def)

lemma no_break_Cons [simp]: "no_break (c # s) \<longleftrightarrow> \<not> is_line_break c \<and> no_break s"
  by (simp add: no_break_def)

lemma no_break_append [simp]: "no_break (s @ t) \<longleftrightarrow> no_break s \<and> no_break t"
  by (simp add: no_break_def)

lemma splitlines_line: "no_break l \<Longrightarrow> splitlines (l @ 10 # rest) = l # splitlines rest"
proof (induction l)
  case (Cons c l)
  then have "c \<noteq> 13" by auto
  with Cons show ?case by simp
qed simp

lemma splitlines_last: "no_break l \<Longrightarrow> l \<noteq> [] \<Longrightarrow> splitlines l = [l]"
proof (induction l)
  case (Cons c l)
  then have "c \<noteq> 13" by auto
  with Cons show ?case by (cases l) auto
qed simp

lemma splitlines_concat:
  "list_all no_break ls \<Longrightarrow> splitlines (concat (map (\<lambda>l. l @ [10]) ls)) = ls"
  by (induction ls) (simp_all add: splitlines_line)

lemma split_once_Some: "split_once c s = Some (a, b) \<Longrightarrow> s = a @ c # b \<and> c \<notin> set a"
  by (induction s arbitrary: a) (auto split: if_splits)

lemma split_once_None: "split_once c s = None \<longleftrightarrow> c \<notin> set s"
  by (induction s) auto

lemma split_once_append: "c \<notin> set a \<Longrightarrow> split_once c (a @ c # b) = Some (a, b)"
  by (induction a) auto

lemma starts_with_append [simp]: "starts_with (p @ s) p"
  by (simp add: starts_with_def)

section \<open>Digits\<close>

lemma digits_value_append: "digits_value b (xs @ [d]) = digits_value b xs * b + d"
  by (simp add: digits_value_def)

lemma digits_value_nat_digits [simp]: "digits_value b (nat_digits b n) = n"
proof (induction b n rule: nat_digits.induct)
  case (1 b n)
  show ?case
  proof (cases "b < 2 \<or> n < b")
    case True
    then show ?thesis by (subst nat_digits.simps) (simp add: digits_value_def)
  next
    case False
    with 1 show ?thesis
      by (subst nat_digits.simps) (simp add: digits_value_append)
  qed
qed

lemma nat_digits_neq_Nil [simp]: "nat_digits b n \<noteq> []"
  by (subst nat_digits.simps) simp

lemma nat_digits_less: "2 \<le> b \<Longrightarrow> list_all (\<lambda>d. d < b) (nat_digits b n)"
proof (induction b n rule: nat_digits.induct)
  case (1 b n)
  show ?case
  proof (cases "n < b")
    case True
    then show ?thesis by (subst nat_digits.simps) simp
  next
    case False
    with 1 show ?thesis by (subst nat_digits.simps) simp
  qed
qed

lemma length_nat_digits: "2 \<le> b \<Longrightarrow> n < b ^ Suc k \<Longrightarrow> length (nat_digits b n) \<le> Suc k"
proof (induction k arbitrary: n)
  case 0
  then show ?case by (subst nat_digits.simps) simp
next
  case (Suc k)
  show ?case
  proof (cases "n < b")
    case True
    then show ?thesis by (subst nat_digits.simps) simp
  next
    case False
    from Suc.prems have "n div b < b ^ Suc k"
      by (simp add: less_mult_imp_div_less mult.commute)
    with Suc have "length (nat_digits b (n div b)) \<le> Suc k" by simp
    with False Suc.prems show ?thesis by (subst nat_digits.simps) simp
  qed
qed

lemma digit_point_ascii: "d < 10 \<Longrightarrow> digit_point d = 48 + d"
  by (simp add: digit_point_def)

lemma base_digit_point: "d < b \<Longrightarrow> b \<le> 36 \<Longrightarrow> base_digit b (digit_point d) = Some d"
  by (auto simp: base_digit_def digit_point_def Let_def)

lemma digit_point_not_underscore: "d < 36 \<Longrightarrow> digit_point d \<noteq> 95"
  by (simp add: digit_point_def)

lemma scan_digits_points:
  "b \<le> 36 \<Longrightarrow> list_all (\<lambda>d. d < b) ds \<Longrightarrow> scan_digits b True (map digit_point ds) = Some ds"
proof (induction ds)
  case (Cons d ds)
  then have "d < 36" by simp
  with Cons show ?case
    using digit_point_not_underscore [of d] by (simp add: base_digit_point)
qed simp

lemma scan_digits_points':
  assumes "b \<le> 36" "list_all (\<lambda>d. d < b) ds" "ds \<noteq> []"
  shows "scan_digits b False (map digit_point ds) = Some ds"
  using assms
proof (cases ds)
  case (Cons d es)
  with assms have "d < 36" by simp
  with Cons assms show ?thesis
    using digit_point_not_underscore [of d] scan_digits_points [of b es]
    by (simp add: base_digit_point)
qed simp

text \<open>What \<open>str(n)\<close> looks like: ASCII digits, after a minus sign when negative.\<close>

lemma str_nat_digits: "list_all (\<lambda>c. 48 \<le> c \<and> c \<le> 57) (str_nat n)"
  using nat_digits_less [of 10 n] by (auto simp: str_nat_def list_all_iff digit_point_def)

lemma str_nat_neq_Nil [simp]: "str_nat n \<noteq> []"
  by (simp add: str_nat_def)

lemma str_int_neq_Nil [simp]: "str_int i \<noteq> []"
  by (simp add: str_int_def)

lemma str_int_points: "list_all (\<lambda>c. 48 \<le> c \<and> c \<le> 57 \<or> c = 45) (str_int i)"
  using str_nat_digits [of "nat i"] str_nat_digits [of "nat (- i)"]
  by (auto simp: str_int_def list_all_iff)

lemma str_int_nonneg: "0 \<le> i \<Longrightarrow> str_int i = str_nat (nat i)"
  by (simp add: str_int_def)

lemma digit_not_c_space: "48 \<le> c \<and> c \<le> 57 \<or> c = 45 \<Longrightarrow> \<not> is_c_space c"
  by (auto simp: is_c_space_def)

lemma digit_not_space: "48 \<le> c \<and> c \<le> 57 \<or> c = 45 \<Longrightarrow> \<not> is_space c"
  using is_space_ascii_digit [of c] by (auto simp: is_space_def space_points_def)

lemma strip_str_int:
  assumes "\<And>c. 48 \<le> c \<and> c \<le> 57 \<or> c = 45 \<Longrightarrow> \<not> P c"
  shows "strip_by P (str_int i) = str_int i"
proof (rule strip_by_id)
  have "hd (str_int i) \<in> set (str_int i)" "last (str_int i) \<in> set (str_int i)" by simp_all
  with assms str_int_points [of i]
  show "str_int i = [] \<or> \<not> P (hd (str_int i)) \<and> \<not> P (last (str_int i))"
    unfolding list_all_iff by blast
qed

lemma int_text_str_int [simp]: "int_text (str_int i) = str_int i"
  using str_int_points [of i] by (auto simp: int_text_def list_all_iff)

lemma scan_str_nat: "scan_digits 10 False (str_nat n) = Some (nat_digits 10 n)"
  unfolding str_nat_def by (rule scan_digits_points') (simp_all add: nat_digits_less)

lemma take_1_str_nat: "take 1 (str_nat n) \<noteq> u ''-''" "take 1 (str_nat n) \<noteq> u ''+''"
  using str_nat_digits [of n] by (cases "str_nat n"; simp add: u_Cons)+

lemma strip_int_text: "strip_by is_c_space (int_text (str_int i)) = str_int i"
  by (simp add: strip_str_int digit_not_c_space)

lemma py_int_str_int:
  assumes "length (nat_digits 10 (nat \<bar>i\<bar>)) \<le> int_max_str_digits"
  shows "py_int 10 (str_int i) = Inr i"
proof (cases "i < 0")
  case True
  then have "take 1 (str_int i) = u ''-''" "drop 1 (str_int i) = str_nat (nat (- i))"
    by (simp_all add: str_int_def u_Cons)
  with True assms show ?thesis
    unfolding py_int_def strip_int_text by (simp add: skip_prefix_def scan_str_nat)
next
  case False
  then have "str_int i = str_nat (nat i)" by (simp add: str_int_def)
  with False assms take_1_str_nat [of "nat i"] show ?thesis
    unfolding py_int_def strip_int_text by (simp add: skip_prefix_def scan_str_nat)
qed

lemma py_int_str_int_bounded: "\<bar>i\<bar> < 10 ^ 20 \<Longrightarrow> py_int 10 (str_int i) = Inr i"
proof (rule py_int_str_int)
  assume "\<bar>i\<bar> < 10 ^ 20"
  then have "nat \<bar>i\<bar> < 10 ^ Suc 19" by (simp add: nat_less_iff)
  then have "length (nat_digits 10 (nat \<bar>i\<bar>)) \<le> Suc 19"
    by (rule length_nat_digits [rotated]) simp
  then show "length (nat_digits 10 (nat \<bar>i\<bar>)) \<le> int_max_str_digits"
    by (simp add: int_max_str_digits_def)
qed

end
