(* ===== verification/Utf8.thy ===== *)
theory Utf8
  imports PyStrFacts
begin

text \<open>
  The strict UTF-8 codec of \<open>bytes.decode("utf-8")\<close> and \<open>str.encode()\<close>. File
  contents are octets, the type \<open>char\<close>; a Python string is a list of code points. Decoding
  refuses stray and missing continuation octets, overlong forms, surrogates and values above
  \<open>0x10ffff\<close>; encoding raises \<open>UnicodeEncodeError\<close>, a \<open>ValueError\<close>, on a
  surrogate.
\<close>

type_synonym bytes = string

definition is_scalar :: "nat \<Rightarrow> bool" where
  "is_scalar c \<longleftrightarrow> c < 55296 \<or> (57344 \<le> c \<and> c < 1114112)"

definition utf8_char :: "nat \<Rightarrow> nat list" where
  "utf8_char c =
     (if c < 128 then [c]
      else if c < 2048 then [192 + c div 64, 128 + c mod 64]
      else if c < 65536 then [224 + c div 4096, 128 + c div 64 mod 64, 128 + c mod 64]
      else [240 + c div 262144, 128 + c div 4096 mod 64, 128 + c div 64 mod 64, 128 + c mod 64])"

definition utf8_points :: "pystr \<Rightarrow> nat list" where
  "utf8_points s = concat (map utf8_char s)"

definition encode_utf8 :: "pystr \<Rightarrow> bytes outcome" where
  "encode_utf8 s = (if list_all is_scalar s then Inr (map char_of (utf8_points s)) else Inl ValueError)"

definition is_cont :: "nat \<Rightarrow> bool" where
  "is_cont b \<longleftrightarrow> 128 \<le> b \<and> b < 192"

fun decode_points :: "nat list \<Rightarrow> pystr option" where
  "decode_points [] = Some []"
| "decode_points (b # bs) =
     (if b < 128 then map_option ((#) b) (decode_points bs)
      else if 194 \<le> b \<and> b < 224 then
        (case bs of
           b1 # r \<Rightarrow>
             if is_cont b1
             then map_option ((#) ((b - 192) * 64 + (b1 - 128))) (decode_points r)
             else None
         | _ \<Rightarrow> None)
      else if 224 \<le> b \<and> b < 240 then
        (case bs of
           b1 # b2 # r \<Rightarrow>
             (let c = (b - 224) * 4096 + (b1 - 128) * 64 + (b2 - 128)
              in if is_cont b1 \<and> is_cont b2 \<and> 2048 \<le> c \<and> is_scalar c
                 then map_option ((#) c) (decode_points r) else None)
         | _ \<Rightarrow> None)
      else if 240 \<le> b \<and> b < 245 then
        (case bs of
           b1 # b2 # b3 # r \<Rightarrow>
             (let c = (b - 240) * 262144 + (b1 - 128) * 4096 + (b2 - 128) * 64 + (b3 - 128)
              in if is_cont b1 \<and> is_cont b2 \<and> is_cont b3 \<and> 65536 \<le> c \<and> is_scalar c
                 then map_option ((#) c) (decode_points r) else None)
         | _ \<Rightarrow> None)
      else None)"

definition decode_utf8 :: "bytes \<Rightarrow> pystr option" where
  "decode_utf8 bs = decode_points (map of_char bs)"

section \<open>Decoding inverts encoding\<close>

lemma digits_64_2: "(c::nat) div 64 * 64 + c mod 64 = c"
  by simp

lemma digits_64_3: "(c::nat) div 4096 * 4096 + c div 64 mod 64 * 64 + c mod 64 = c"
proof -
  have "c div 64 = c div 4096 * 64 + c div 64 mod 64"
    using div_mult_mod_eq [of "c div 64" 64] by (simp add: div_mult2_eq [symmetric])
  then have "c div 64 * 64 = c div 4096 * 4096 + c div 64 mod 64 * 64" by simp
  then show ?thesis using div_mult_mod_eq [of c 64] by simp
qed

lemma digits_64_4:
  "(c::nat) div 262144 * 262144 + c div 4096 mod 64 * 4096 + c div 64 mod 64 * 64 + c mod 64 = c"
proof -
  have "c div 4096 = c div 262144 * 64 + c div 4096 mod 64"
    using div_mult_mod_eq [of "c div 4096" 64] by (simp add: div_mult2_eq [symmetric])
  then have "c div 4096 * 4096 = c div 262144 * 262144 + c div 4096 mod 64 * 4096" by simp
  then show ?thesis using digits_64_3 [of c] by simp
qed

lemma decode_char:
  assumes "is_scalar c"
  shows "decode_points (utf8_char c @ rest) = map_option ((#) c) (decode_points rest)"
proof -
  consider "c < 128" | "128 \<le> c" "c < 2048" | "2048 \<le> c" "c < 65536" | "65536 \<le> c" by linarith
  then show ?thesis
  proof cases
    case 1
    then show ?thesis by (simp add: utf8_char_def)
  next
    case 2
    then have "2 \<le> c div 64" "c div 64 < 32" by auto
    with 2 show ?thesis by (simp add: utf8_char_def is_cont_def)
  next
    case 3
    then have "c div 4096 < 16" by auto
    with 3 assms digits_64_3 [of c] show ?thesis
      by (simp add: utf8_char_def is_cont_def Let_def)
  next
    case 4
    with assms have "c < 1114112" by (auto simp: is_scalar_def)
    then have "c div 262144 < 5" by auto
    with 4 assms digits_64_4 [of c] show ?thesis
      by (simp add: utf8_char_def is_cont_def Let_def)
  qed
qed

lemma decode_utf8_points: "list_all is_scalar s \<Longrightarrow> decode_points (utf8_points s) = Some s"
  by (induction s) (simp_all add: utf8_points_def decode_char)

lemma utf8_char_less: "is_scalar c \<Longrightarrow> list_all (\<lambda>b. b < 256) (utf8_char c)"
  by (auto simp: utf8_char_def is_scalar_def less_mult_imp_div_less)

lemma utf8_points_less: "list_all is_scalar s \<Longrightarrow> list_all (\<lambda>b. b < 256) (utf8_points s)"
  by (induction s) (auto simp: utf8_points_def utf8_char_less)

lemma of_char_char_of_map: "list_all (\<lambda>b. b < 256) bs \<Longrightarrow> map of_char (map char_of bs :: string) = (bs :: nat list)"
  by (induction bs) auto

lemma decode_encode: "encode_utf8 s = Inr bs \<Longrightarrow> decode_utf8 bs = Some s"
  by (auto simp: encode_utf8_def decode_utf8_def of_char_char_of_map utf8_points_less
      decode_utf8_points simp del: map_map split: if_splits)

section \<open>Encoding inverts decoding\<close>

lemma div_64: "(y::nat) < 64 \<Longrightarrow> (x * 64 + y) div 64 = x"
  and mod_64: "y < 64 \<Longrightarrow> (x * 64 + y) mod 64 = y"
  by simp_all

lemma cont_value: "is_cont b \<Longrightarrow> b - 128 < 64" "is_cont b \<Longrightarrow> 128 + (b - 128) = b"
  by (auto simp: is_cont_def)

lemma char_2:
  assumes "194 \<le> b" "b < 224" "is_cont b1"
  shows "utf8_char ((b - 192) * 64 + (b1 - 128)) = [b, b1]"
proof -
  let ?c = "(b - 192) * 64 + (b1 - 128)"
  have "?c div 64 = b - 192" "?c mod 64 = b1 - 128"
    using assms(3) by (simp_all only: div_64 mod_64 cont_value)
  moreover from assms have "128 \<le> ?c" "?c < 2048" by (auto simp: is_cont_def)
  ultimately show ?thesis using assms by (simp add: utf8_char_def cont_value)
qed

lemma utf8_char_3:
  assumes "2048 \<le> c" "c < 65536" and "c = h * 64 + z" "h = x * 64 + y" "y < 64" "z < 64"
  shows "utf8_char c = [224 + x, 128 + y, 128 + z]"
proof -
  from assms have "c div 64 = h" "c mod 64 = z" "h div 64 = x" "h mod 64 = y"
    by (simp_all only: div_64 mod_64)
  moreover have "c div 4096 = c div 64 div 64" by (simp add: div_mult2_eq [symmetric])
  ultimately show ?thesis using assms(1,2) unfolding utf8_char_def by simp
qed

lemma utf8_char_4:
  assumes "65536 \<le> c" and "c = h * 64 + z" "h = g * 64 + y" "g = x * 64 + w" "w < 64" "y < 64" "z < 64"
  shows "utf8_char c = [240 + x, 128 + w, 128 + y, 128 + z]"
proof -
  from assms have "c div 64 = h" "c mod 64 = z" "h div 64 = g" "h mod 64 = y" "g div 64 = x" "g mod 64 = w"
    by (simp_all only: div_64 mod_64)
  moreover have "c div 4096 = c div 64 div 64" "c div 262144 = c div 64 div 64 div 64"
    by (simp_all add: div_mult2_eq [symmetric])
  ultimately show ?thesis using assms(1) unfolding utf8_char_def by simp
qed

lemma char_3:
  assumes "224 \<le> b" "b < 240" "is_cont b1" "is_cont b2"
    and "2048 \<le> (b - 224) * 4096 + (b1 - 128) * 64 + (b2 - 128)"
  shows "utf8_char ((b - 224) * 4096 + (b1 - 128) * 64 + (b2 - 128)) = [b, b1, b2]"
proof -
  let ?c = "(b - 224) * 4096 + (b1 - 128) * 64 + (b2 - 128)"
  have "?c < 65536" using assms(2-4) by (auto simp: is_cont_def)
  then have "utf8_char ?c = [224 + (b - 224), 128 + (b1 - 128), 128 + (b2 - 128)]"
    by (rule utf8_char_3 [OF assms(5), where h = "(b - 224) * 64 + (b1 - 128)"])
       (use assms(3,4) in \<open>simp_all add: cont_value\<close>)
  with assms show ?thesis by (simp add: cont_value)
qed

lemma char_4:
  assumes "240 \<le> b" "b < 245" "is_cont b1" "is_cont b2" "is_cont b3"
    and "65536 \<le> (b - 240) * 262144 + (b1 - 128) * 4096 + (b2 - 128) * 64 + (b3 - 128)"
  shows "utf8_char ((b - 240) * 262144 + (b1 - 128) * 4096 + (b2 - 128) * 64 + (b3 - 128))
    = [b, b1, b2, b3]"
proof -
  let ?c = "(b - 240) * 262144 + (b1 - 128) * 4096 + (b2 - 128) * 64 + (b3 - 128)"
  have "utf8_char ?c = [240 + (b - 240), 128 + (b1 - 128), 128 + (b2 - 128), 128 + (b3 - 128)]"
    by (rule utf8_char_4 [OF assms(6), where h = "((b - 240) * 64 + (b1 - 128)) * 64 + (b2 - 128)"
          and g = "(b - 240) * 64 + (b1 - 128)"])
       (use assms(3-5) in \<open>simp_all add: cont_value\<close>)
  with assms show ?thesis by (simp add: cont_value)
qed

lemma decode_points_Some:
  "decode_points bs = Some s \<Longrightarrow> list_all is_scalar s \<and> utf8_points s = bs"
proof (induction bs arbitrary: s rule: decode_points.induct)
  case 1
  then show ?case by (simp add: utf8_points_def)
next
  case (2 b bs)
  consider "b < 128" | "194 \<le> b" "b < 224" | "224 \<le> b" "b < 240" | "240 \<le> b" "b < 245"
    | "128 \<le> b" "b < 194" | "245 \<le> b" by linarith
  then show ?case
  proof cases
    case 1
    with "2.prems" "2.IH"(1) show ?thesis
      by (auto simp: utf8_points_def utf8_char_def is_scalar_def)
  next
    case c: 2
    with "2.prems" obtain b1 r t where bs: "bs = b1 # r" "is_cont b1" "decode_points r = Some t"
      "s = ((b - 192) * 64 + (b1 - 128)) # t"
      by (auto split: list.splits if_splits)
    with "2.IH"(2) c have "list_all is_scalar t \<and> utf8_points t = r" by auto
    moreover from c bs have "(b - 192) * 64 + (b1 - 128) < 2048" by (auto simp: is_cont_def)
    then have "is_scalar ((b - 192) * 64 + (b1 - 128))" by (simp add: is_scalar_def)
    ultimately show ?thesis using bs c char_2 [of b b1] by (auto simp: utf8_points_def)
  next
    case c: 3
    with "2.prems" obtain b1 b2 r t where bs: "bs = b1 # b2 # r" "is_cont b1" "is_cont b2"
      "decode_points r = Some t" "s = ((b - 224) * 4096 + (b1 - 128) * 64 + (b2 - 128)) # t"
      "2048 \<le> hd s" "is_scalar (hd s)"
      by (auto simp: Let_def split: list.splits if_splits)
    with "2.IH"(3) c have "list_all is_scalar t \<and> utf8_points t = r" by auto
    with bs c char_3 [of b b1 b2] show ?thesis by (auto simp: utf8_points_def)
  next
    case c: 4
    with "2.prems" obtain b1 b2 b3 r t where bs: "bs = b1 # b2 # b3 # r" "is_cont b1" "is_cont b2"
      "is_cont b3" "decode_points r = Some t"
      "s = ((b - 240) * 262144 + (b1 - 128) * 4096 + (b2 - 128) * 64 + (b3 - 128)) # t"
      "65536 \<le> hd s" "is_scalar (hd s)"
      by (auto simp: Let_def split: list.splits if_splits)
    with "2.IH"(4) c have "list_all is_scalar t \<and> utf8_points t = r" by auto
    with bs c char_4 [of b b1 b2 b3] show ?thesis by (auto simp: utf8_points_def)
  qed (use "2.prems" in auto)
qed

lemma encode_decode: "decode_utf8 bs = Some s \<Longrightarrow> encode_utf8 s = Inr bs"
  using decode_points_Some [of "map of_char bs" s]
  by (simp add: decode_utf8_def encode_utf8_def comp_def)

lemma utf8_char_length: "1 \<le> length (utf8_char c)"
  by (simp add: utf8_char_def)

lemma length_utf8_points: "length s \<le> length (utf8_points s)"
proof (induction s)
  case (Cons c s)
  then show ?case using utf8_char_length [of c] by (simp add: utf8_points_def)
qed (simp add: utf8_points_def)

lemma decode_utf8_length: "decode_utf8 bs = Some s \<Longrightarrow> length s \<le> length bs"
  using decode_points_Some [of "map of_char bs" s] length_utf8_points [of s]
  by (simp add: decode_utf8_def)

lemma decode_points_ascii: "list_all (\<lambda>b. b < 128) bs \<Longrightarrow> decode_points bs = Some bs"
  by (induction bs) auto

lemma decode_utf8_ascii: "list_all (\<lambda>b. b < 128) (u bs) \<Longrightarrow> decode_utf8 bs = Some (u bs)"
  by (simp add: decode_utf8_def decode_points_ascii u_def)

lemma encode_ascii_length:
  "list_all (\<lambda>c. c < 128) s \<Longrightarrow> encode_utf8 s = Inr (map char_of s)"
proof -
  assume a: "list_all (\<lambda>c. c < 128) s"
  then have "utf8_points s = s" by (induction s) (auto simp: utf8_points_def utf8_char_def)
  moreover from a have "list_all is_scalar s" by (induction s) (auto simp: is_scalar_def)
  ultimately show ?thesis by (simp add: encode_utf8_def)
qed

end
