(* ===== verification/Environment.thy ===== *)
theory Environment
  imports Models Utf8
begin

text \<open>
  What the collectors see of the operating system. The answers of the system are arguments of
  the model, the functions of an \<open>os_env\<close>: each takes the list of calls made so far, so
  an environment can change its files between any two calls, as a hostile workload may. The
  state of a collection is a \<open>world\<close>: the diagnostics of the four sources, the open
  descriptors with the files they stand for, and the trace of the calls. \<open>grows\<close> is the
  frame condition every reader keeps: descriptors as before, trace and diagnostics extended, and
  only the given sources touched.
\<close>

section \<open>Calls and answers\<close>

text \<open>
  Errors of a call. An interruption is none of them: the interpreter repeats an interrupted
  call, and the one loop the code has for it takes the number of interruptions from
  \<open>env_interrupts\<close>.
\<close>

datatype errno = ENOENT | EACCES | EPERM | ENOTDIR | ELOOP | EBADF | EOTHER

datatype file_kind = RegularFile | Directory | OtherFile

record stat_result =
  st_kind :: file_kind
  st_size :: int
  st_nlink :: int

datatype open_flag = O_RDONLY | O_CLOEXEC | O_DIRECTORY | O_NOFOLLOW | O_NONBLOCK

text \<open>A file or directory behind a descriptor, as the system identifies it.\<close>

type_synonym node = nat

datatype os_call =
    CStat path
  | COpenRead path nat
  | CScandir path
  | CEntryIsDir path
  | CIterdir path
  | CReadlink path
  | COpen path "open_flag list"
  | COpenAt node pystr "open_flag list"
  | CFstat node
  | CRead node nat
  | CListdir node
  | CClose nat
  | CTime

type_synonym history = "os_call list"

record os_env =
  env_stat :: "history \<Rightarrow> path \<Rightarrow> errno + stat_result"
  env_content :: "history \<Rightarrow> path \<Rightarrow> errno + bytes"
  env_scandir :: "history \<Rightarrow> path \<Rightarrow> errno + pystr list"
  env_entry_is_dir :: "history \<Rightarrow> path \<Rightarrow> errno + bool"
  env_iterdir :: "history \<Rightarrow> path \<Rightarrow> errno + pystr list"
  env_readlink :: "history \<Rightarrow> path \<Rightarrow> errno + pystr"
  env_open :: "history \<Rightarrow> path \<Rightarrow> open_flag list \<Rightarrow> errno + node"
  env_openat :: "history \<Rightarrow> node \<Rightarrow> pystr \<Rightarrow> open_flag list \<Rightarrow> errno + node"
  env_fstat :: "history \<Rightarrow> node \<Rightarrow> errno + stat_result"
  env_interrupts :: "history \<Rightarrow> node \<Rightarrow> nat"
  env_read :: "history \<Rightarrow> node \<Rightarrow> errno + bytes"
  env_listdir :: "history \<Rightarrow> node \<Rightarrow> errno + pystr list"
  env_time :: "history \<Rightarrow> int"

definition permission_errno :: "errno \<Rightarrow> bool" where
  "permission_errno e \<longleftrightarrow> e \<in> {EACCES, EPERM}"

section \<open>State\<close>

record world =
  w_sources :: "telemetry_source \<Rightarrow> source_diagnostics"
  w_descriptors :: "(nat \<times> node) list"
  w_trace :: history

definition initial_world :: world where
  "initial_world = \<lparr>w_sources = empty_sources, w_descriptors = [], w_trace = []\<rparr>"

text \<open>One call: the system answers from the history, and the call is added to it.\<close>

definition call_os :: "(history \<Rightarrow> 'a) \<Rightarrow> os_call \<Rightarrow> (world, 'a) act" where
  "call_os answer c w = (Inr (answer (w_trace w)), w\<lparr>w_trace := w_trace w @ [c]\<rparr>)"

text \<open>A new descriptor is the smallest number not in use.\<close>

definition new_descriptor :: "(nat \<times> node) list \<Rightarrow> nat" where
  "new_descriptor fds = hd (filter (\<lambda>n. n \<notin> set (map fst fds)) [0..<Suc (length fds)])"

definition opened :: "errno + node \<Rightarrow> (world, errno + nat) act" where
  "opened answer w =
     (case answer of
        Inl e \<Rightarrow> (Inr (Inl e), w)
      | Inr n \<Rightarrow>
          (let fd = new_descriptor (w_descriptors w)
           in (Inr (Inr fd), w\<lparr>w_descriptors := (fd, n) # w_descriptors w\<rparr>)))"

definition os_open :: "os_env \<Rightarrow> path \<Rightarrow> open_flag list \<Rightarrow> (world, errno + nat) act" where
  "os_open env p flags = bind_act (call_os (\<lambda>h. env_open env h p flags) (COpen p flags)) opened"

text \<open>The file a descriptor stands for; a closed descriptor stands for none.\<close>

definition descriptor_node :: "nat \<Rightarrow> (world, node option) act" where
  "descriptor_node fd = get_act (\<lambda>w. map_of (w_descriptors w) fd)"

definition os_openat :: "os_env \<Rightarrow> nat \<Rightarrow> pystr \<Rightarrow> open_flag list \<Rightarrow> (world, errno + nat) act" where
  "os_openat env fd name flags = bind_act (descriptor_node fd) (\<lambda>d. case d of
       None \<Rightarrow> return_act (Inl EBADF)
     | Some n \<Rightarrow> bind_act (call_os (\<lambda>h. env_openat env h n name flags) (COpenAt n name flags)) opened)"

definition os_close :: "nat \<Rightarrow> world \<Rightarrow> world" where
  "os_close fd w = w\<lparr>w_descriptors := filter (\<lambda>d. fst d \<noteq> fd) (w_descriptors w),
                     w_trace := w_trace w @ [CClose fd]\<rparr>"

text \<open>
  A call on an open descriptor. \<open>os.read(fd, n)\<close> returns at most \<open>n\<close> bytes of the file.
\<close>

definition on_descriptor :: "nat \<Rightarrow> (node \<Rightarrow> (world, errno + 'a) act) \<Rightarrow> (world, errno + 'a) act" where
  "on_descriptor fd f = bind_act (descriptor_node fd) (\<lambda>d. case d of
       None \<Rightarrow> return_act (Inl EBADF)
     | Some n \<Rightarrow> f n)"

definition os_fstat :: "os_env \<Rightarrow> nat \<Rightarrow> (world, errno + stat_result) act" where
  "os_fstat env fd = on_descriptor fd (\<lambda>n. call_os (\<lambda>h. env_fstat env h n) (CFstat n))"

definition os_read :: "os_env \<Rightarrow> nat \<Rightarrow> nat \<Rightarrow> (world, errno + bytes) act" where
  "os_read env fd limit = on_descriptor fd (\<lambda>n.
     call_os (\<lambda>h. map_sum id (take limit) (env_read env h n)) (CRead n limit))"

definition os_listdir :: "os_env \<Rightarrow> nat \<Rightarrow> (world, errno + pystr list) act" where
  "os_listdir env fd = on_descriptor fd (\<lambda>n. call_os (\<lambda>h. env_listdir env h n) (CListdir n))"

definition os_time :: "os_env \<Rightarrow> (world, int) act" where
  "os_time env = call_os (env_time env) CTime"

text \<open>\<open>Path\<close> operations. \<open>open("rb")\<close> and one \<open>read(n)\<close> are one call here.\<close>

definition path_stat :: "os_env \<Rightarrow> path \<Rightarrow> (world, errno + stat_result) act" where
  "path_stat env p = call_os (\<lambda>h. env_stat env h p) (CStat p)"

definition path_read :: "os_env \<Rightarrow> path \<Rightarrow> nat \<Rightarrow> (world, errno + bytes) act" where
  "path_read env p limit = call_os (\<lambda>h. map_sum id (take limit) (env_content env h p)) (COpenRead p limit)"

definition path_iterdir :: "os_env \<Rightarrow> path \<Rightarrow> (world, errno + pystr list) act" where
  "path_iterdir env p = call_os (\<lambda>h. env_iterdir env h p) (CIterdir p)"

definition os_scandir :: "os_env \<Rightarrow> path \<Rightarrow> (world, errno + pystr list) act" where
  "os_scandir env p = call_os (\<lambda>h. env_scandir env h p) (CScandir p)"

definition entry_is_dir :: "os_env \<Rightarrow> path \<Rightarrow> (world, errno + bool) act" where
  "entry_is_dir env p = call_os (\<lambda>h. env_entry_is_dir env h p) (CEntryIsDir p)"

definition os_readlink :: "os_env \<Rightarrow> path \<Rightarrow> (world, errno + pystr) act" where
  "os_readlink env p = call_os (\<lambda>h. env_readlink env h p) (CReadlink p)"

text \<open>
  \<open>is_dir()\<close> and \<open>is_file()\<close> answer no for a missing file and for a loop, and raise
  every other error.
\<close>

definition path_is_kind :: "os_env \<Rightarrow> file_kind \<Rightarrow> path \<Rightarrow> (world, errno + bool) act" where
  "path_is_kind env kind p = bind_act (path_stat env p) (\<lambda>r. return_act (case r of
       Inr st \<Rightarrow> Inr (st_kind st = kind)
     | Inl e \<Rightarrow> if e \<in> {ENOENT, ENOTDIR, EBADF, ELOOP} then Inr False else Inl e))"

definition path_is_dir :: "os_env \<Rightarrow> path \<Rightarrow> (world, errno + bool) act" where
  "path_is_dir env = path_is_kind env Directory"

definition path_is_file :: "os_env \<Rightarrow> path \<Rightarrow> (world, errno + bool) act" where
  "path_is_file env = path_is_kind env RegularFile"

section \<open>Diagnostics\<close>

definition update_source ::
    "telemetry_source \<Rightarrow> (source_diagnostics \<Rightarrow> source_diagnostics) \<Rightarrow> (world, unit) act" where
  "update_source src f = modify_act (\<lambda>w. w\<lparr>w_sources := (w_sources w)(src := f (w_sources w src))\<rparr>)"

text \<open>\<open>diagnostics.issues[issue] += 1\<close> and the two counters.\<close>

definition bump_issue :: "collection_issue \<Rightarrow> source_diagnostics \<Rightarrow> source_diagnostics" where
  "bump_issue issue d = d\<lparr>diag_issues := (diag_issues d)(issue := Suc (diag_issues d issue))\<rparr>"

definition note_issue :: "telemetry_source \<Rightarrow> collection_issue \<Rightarrow> (world, unit) act" where
  "note_issue src issue = update_source src (bump_issue issue)"

definition note_file_read :: "telemetry_source \<Rightarrow> (world, unit) act" where
  "note_file_read src = update_source src (\<lambda>d. d\<lparr>diag_files_read := Suc (diag_files_read d)\<rparr>)"

definition note_accepted :: "telemetry_source \<Rightarrow> (world, unit) act" where
  "note_accepted src = update_source src (\<lambda>d. d\<lparr>diag_records_accepted := Suc (diag_records_accepted d)\<rparr>)"

definition set_accessible :: "telemetry_source \<Rightarrow> bool \<Rightarrow> (world, unit) act" where
  "set_accessible src b = update_source src (\<lambda>d. d\<lparr>diag_accessible := b\<rparr>)"

definition set_configured :: "telemetry_source \<Rightarrow> bool \<Rightarrow> (world, unit) act" where
  "set_configured src b = update_source src (\<lambda>d. d\<lparr>diag_configured := b\<rparr>)"

text \<open>Counting an issue and giving up on the value.\<close>

definition reject :: "telemetry_source \<Rightarrow> collection_issue \<Rightarrow> (world, 'a option) act" where
  "reject src issue = then_act (note_issue src issue) (return_act None)"

section \<open>A system that refuses every call\<close>

text \<open>Concrete environments are updates of this one.\<close>

definition denied_env :: os_env where
  "denied_env = \<lparr>env_stat = (\<lambda>h p. Inl EACCES), env_content = (\<lambda>h p. Inl EACCES),
     env_scandir = (\<lambda>h p. Inl EACCES), env_entry_is_dir = (\<lambda>h p. Inl EACCES),
     env_iterdir = (\<lambda>h p. Inl EACCES), env_readlink = (\<lambda>h p. Inl EACCES),
     env_open = (\<lambda>h p f. Inl EACCES), env_openat = (\<lambda>h n c f. Inl EACCES),
     env_fstat = (\<lambda>h n. Inl EACCES), env_interrupts = (\<lambda>h n. 0),
     env_read = (\<lambda>h n. Inl EACCES), env_listdir = (\<lambda>h n. Inl EACCES),
     env_time = (\<lambda>h. 0)\<rparr>"

end
