(* ===== verification/EnvironmentFacts.thy ===== *)
theory EnvironmentFacts
  imports Environment
begin

text \<open>
  The frame condition of the collectors and the rules that establish it. \<open>grows S C\<close> says
  that descriptors are as before, that every call made satisfies \<open>C\<close>, that diagnostics only
  grow, that sources outside \<open>S\<close> are untouched, and that an accessible sysfs root stays so. \<open>opens S C\<close> is its variant for
  an operation that may return a new descriptor; \<open>with_descriptor\<close> closes one again.
\<close>

named_theorems frame_rules

lemmas run_simps = bind_act_def then_act_def return_act_def raise_act_def get_act_def
  modify_act_def lift_act_def finally_act_def call_os_def

section \<open>Diagnostics only grow\<close>

definition diag_le :: "source_diagnostics \<Rightarrow> source_diagnostics \<Rightarrow> bool" where
  "diag_le a b \<longleftrightarrow> diag_source b = diag_source a \<and> diag_files_read a \<le> diag_files_read b \<and>
     diag_records_accepted a \<le> diag_records_accepted b \<and> (\<forall>i. diag_issues a i \<le> diag_issues b i)"

lemma diag_le_refl [simp]: "diag_le a a"
  by (simp add: diag_le_def)

lemma diag_le_trans: "diag_le a b \<Longrightarrow> diag_le b c \<Longrightarrow> diag_le a c"
  unfolding diag_le_def by (metis le_trans)

lemma diag_le_bump [simp]: "diag_le d (bump_issue i d)"
  by (simp add: diag_le_def bump_issue_def)

definition grows_log :: "telemetry_source set \<Rightarrow> (os_call \<Rightarrow> bool) \<Rightarrow> world \<Rightarrow> world \<Rightarrow> bool" where
  "grows_log S C w v \<longleftrightarrow> (\<exists>t. w_trace v = w_trace w @ t \<and> list_all C t) \<and>
     (\<forall>src. diag_le (w_sources w src) (w_sources v src)) \<and>
     (\<forall>src. src \<notin> S \<longrightarrow> w_sources v src = w_sources w src) \<and>
     (diag_accessible (w_sources w SYSFS_ROOT) \<longrightarrow> diag_accessible (w_sources v SYSFS_ROOT))"

definition grows :: "telemetry_source set \<Rightarrow> (os_call \<Rightarrow> bool) \<Rightarrow> world \<Rightarrow> world \<Rightarrow> bool" where
  "grows S C w v \<longleftrightarrow> w_descriptors v = w_descriptors w \<and> grows_log S C w v"

lemma grows_log_refl [simp]: "grows_log S C w w"
  by (simp add: grows_log_def)

lemma grows_log_trans: "grows_log S C w v \<Longrightarrow> grows_log S C v x \<Longrightarrow> grows_log S C w x"
  unfolding grows_log_def by (auto intro: diag_le_trans)

lemma grows_log_mono:
  "grows_log S C w v \<Longrightarrow> S \<subseteq> S' \<Longrightarrow> (\<And>c. C c \<Longrightarrow> C' c) \<Longrightarrow> grows_log S' C' w v"
  unfolding grows_log_def by (fastforce simp: list_all_iff)

interpretation gr: frame_relation "grows S C" for S C
  by unfold_locales (auto simp: grows_def intro: grows_log_trans)

interpretation gl: frame_relation "grows_log S C" for S C
  by unfold_locales (auto intro: grows_log_trans)

lemmas grows_rules = gr.keeps_combinators

lemma keeps_mono:
  "keeps (grows S C) m \<Longrightarrow> S \<subseteq> S' \<Longrightarrow> (\<And>c. C c \<Longrightarrow> C' c) \<Longrightarrow> keeps (grows S' C') m"
  unfolding keeps_def grows_def by (blast intro: grows_log_mono)

lemma keeps_call: "C c \<Longrightarrow> keeps (grows S C) (call_os answer c)"
  by (simp add: keeps_def call_os_def grows_def grows_log_def)

lemma keeps_descriptor_node: "keeps (grows S C) (descriptor_node fd)"
  unfolding descriptor_node_def by (rule gr.keeps_get)

lemma keeps_on_descriptor: "(\<And>n. keeps (grows S C) (f n)) \<Longrightarrow> keeps (grows S C) (on_descriptor fd f)"
  unfolding on_descriptor_def by (intro grows_rules keeps_descriptor_node)

lemma keeps_update_source:
  "src \<in> S \<Longrightarrow> (\<And>d. diag_le d (f d)) \<Longrightarrow>
    (\<And>d. src = SYSFS_ROOT \<Longrightarrow> diag_accessible d \<Longrightarrow> diag_accessible (f d)) \<Longrightarrow>
    keeps (grows S C) (update_source src f)"
  unfolding update_source_def
  by (rule gr.keeps_modify) (auto simp: grows_def grows_log_def)

lemma keeps_note_issue [frame_rules]: "src \<in> S \<Longrightarrow> keeps (grows S C) (note_issue src i)"
  unfolding note_issue_def by (rule keeps_update_source) (simp, simp, simp add: bump_issue_def)

lemma keeps_note_file_read [frame_rules]: "src \<in> S \<Longrightarrow> keeps (grows S C) (note_file_read src)"
  unfolding note_file_read_def by (rule keeps_update_source) (simp_all add: diag_le_def)

lemma keeps_note_accepted [frame_rules]: "src \<in> S \<Longrightarrow> keeps (grows S C) (note_accepted src)"
  unfolding note_accepted_def by (rule keeps_update_source) (simp_all add: diag_le_def)

lemma keeps_set_accessible [frame_rules]:
  "src \<in> S \<Longrightarrow> b \<or> src \<noteq> SYSFS_ROOT \<Longrightarrow> keeps (grows S C) (set_accessible src b)"
  unfolding set_accessible_def by (rule keeps_update_source) (auto simp: diag_le_def)

lemma keeps_set_configured [frame_rules]: "src \<in> S \<Longrightarrow> keeps (grows S C) (set_configured src b)"
  unfolding set_configured_def by (rule keeps_update_source) (simp_all add: diag_le_def)

lemma keeps_reject [frame_rules]: "src \<in> S \<Longrightarrow> keeps (grows S C) (reject src i)"
  unfolding reject_def by (intro grows_rules keeps_note_issue)

lemma keeps_calls [frame_rules]:
  "C (CStat p) \<Longrightarrow> keeps (grows S C) (path_stat env p)"
  "C (COpenRead p n) \<Longrightarrow> keeps (grows S C) (path_read env p n)"
  "C (CIterdir p) \<Longrightarrow> keeps (grows S C) (path_iterdir env p)"
  "C (CScandir p) \<Longrightarrow> keeps (grows S C) (os_scandir env p)"
  "C (CEntryIsDir p) \<Longrightarrow> keeps (grows S C) (entry_is_dir env p)"
  "C (CReadlink p) \<Longrightarrow> keeps (grows S C) (os_readlink env p)"
  "C CTime \<Longrightarrow> keeps (grows S C) (os_time env)"
  unfolding path_stat_def path_read_def path_iterdir_def os_scandir_def entry_is_dir_def
    os_readlink_def os_time_def
  by (rule keeps_call; assumption)+

lemma keeps_path_kind [frame_rules]:
  "C (CStat p) \<Longrightarrow> keeps (grows S C) (path_is_dir env p)"
  "C (CStat p) \<Longrightarrow> keeps (grows S C) (path_is_file env p)"
  unfolding path_is_dir_def path_is_file_def path_is_kind_def
  by (intro grows_rules keeps_calls; assumption)+

lemma keeps_fstat [frame_rules]: "(\<And>n. C (CFstat n)) \<Longrightarrow> keeps (grows S C) (os_fstat env fd)"
  unfolding os_fstat_def by (intro keeps_on_descriptor keeps_call)

lemma keeps_read [frame_rules]: "(\<And>n. C (CRead n k)) \<Longrightarrow> keeps (grows S C) (os_read env fd k)"
  unfolding os_read_def by (intro keeps_on_descriptor keeps_call)

lemma keeps_listdir [frame_rules]: "(\<And>n. C (CListdir n)) \<Longrightarrow> keeps (grows S C) (os_listdir env fd)"
  unfolding os_listdir_def by (intro keeps_on_descriptor keeps_call)

section \<open>Descriptors\<close>

lemma new_descriptor_fresh: "new_descriptor fds \<notin> set (map fst fds)"
proof -
  let ?free = "filter (\<lambda>n. n \<notin> set (map fst fds)) [0..<Suc (length fds)]"
  have "?free \<noteq> []"
  proof
    assume "?free = []"
    then have "set [0..<Suc (length fds)] \<subseteq> set (map fst fds)"
      unfolding filter_empty_conv by blast
    then have "card (set [0..<Suc (length fds)]) \<le> card (set (map fst fds))"
      by (rule card_mono [OF finite_set])
    also have "\<dots> \<le> length fds" using card_length [of "map fst fds"] by simp
    finally show False by simp
  qed
  then have "hd ?free \<in> set ?free" by (rule hd_in_set)
  then show ?thesis unfolding new_descriptor_def set_filter by blast
qed

text \<open>
  An operation that may return a new descriptor. \<open>pick\<close> says which results carry one; on
  any other result, and when the operation raises, the descriptors are as before.
\<close>

definition fresh_open :: "telemetry_source set \<Rightarrow> (os_call \<Rightarrow> bool) \<Rightarrow> world \<Rightarrow> nat \<Rightarrow> world \<Rightarrow> bool" where
  "fresh_open S C w fd v \<longleftrightarrow> fd \<notin> set (map fst (w_descriptors w)) \<and>
     (\<exists>n. w_descriptors v = (fd, n) # w_descriptors w) \<and> grows_log S C w v"

fun opened_or :: "telemetry_source set \<Rightarrow> (os_call \<Rightarrow> bool) \<Rightarrow> world \<Rightarrow> nat option \<Rightarrow> world \<Rightarrow> bool" where
  "opened_or S C w None v = grows S C w v"
| "opened_or S C w (Some fd) v = fresh_open S C w fd v"

fun picked :: "('a \<Rightarrow> nat option) \<Rightarrow> 'a outcome \<Rightarrow> nat option" where
  "picked pick (Inl e) = None"
| "picked pick (Inr x) = pick x"

definition opens ::
    "telemetry_source set \<Rightarrow> (os_call \<Rightarrow> bool) \<Rightarrow> ('a \<Rightarrow> nat option) \<Rightarrow> (world, 'a) act \<Rightarrow> bool" where
  "opens S C pick m \<longleftrightarrow> (\<forall>w. opened_or S C w (picked pick (fst (m w))) (snd (m w)))"

fun picked_answer :: "errno + nat \<Rightarrow> nat option" where
  "picked_answer (Inl e) = None"
| "picked_answer (Inr fd) = Some fd"

text \<open>An operation that closes the descriptor it is given, whatever else it does.\<close>

definition closes ::
    "telemetry_source set \<Rightarrow> (os_call \<Rightarrow> bool) \<Rightarrow> nat \<Rightarrow> (world, 'a) act \<Rightarrow> bool" where
  "closes S C fd m \<longleftrightarrow> (\<forall>w v. fresh_open S C w fd v \<longrightarrow> grows S C w (snd (m v)))"

lemma grows_then_opened: "grows S C w v \<Longrightarrow> opened_or S C v d x \<Longrightarrow> opened_or S C w d x"
  by (cases d) (auto simp: fresh_open_def grows_def intro: grows_log_trans)

lemma opens_keeps: "keeps (grows S C) m \<Longrightarrow> returns m (\<lambda>x. pick x = None) \<Longrightarrow> opens S C pick m"
  unfolding opens_def keeps_def returns_def
proof
  fix w
  assume g: "\<forall>w. grows S C w (snd (m w))" and n: "\<forall>s x t. m s = (Inr x, t) \<longrightarrow> pick x = None"
  then have "picked pick (fst (m w)) = None"
    by (cases "m w"; cases "fst (m w)") auto
  then show "opened_or S C w (picked pick (fst (m w))) (snd (m w))" using g by simp
qed

lemma opens_return_None: "pick x = None \<Longrightarrow> opens S C pick (return_act x)"
  by (rule opens_keeps) (auto intro: gr.keeps_return returns_return)

text \<open>
  The rule for a sequence: go on opening while there is nothing, and hand the descriptor on
  once there is one.
\<close>

lemma opens_bind:
  assumes "opens S C pick m"
    and none: "\<And>x. pick x = None \<Longrightarrow> opens S C pick' (f x)"
    and some: "\<And>x fd. pick x = Some fd \<Longrightarrow> \<exists>y. f x = return_act y \<and> pick' y = Some fd"
  shows "opens S C pick' (bind_act m f)"
  unfolding opens_def
proof
  fix w
  obtain r v where mv: "m w = (r, v)" by (cases "m w")
  have o: "opened_or S C w (picked pick r) v"
    using assms(1) mv by (metis fst_conv opens_def snd_conv)
  show "opened_or S C w (picked pick' (fst (bind_act m f w))) (snd (bind_act m f w))"
  proof (cases r)
    case (Inl e)
    then show ?thesis using mv o by (simp add: bind_act_def)
  next
    case (Inr x)
    show ?thesis
    proof (cases "pick x")
      case None
      then show ?thesis
        using mv o Inr none [OF None, unfolded opens_def, rule_format, of v]
        by (simp add: bind_act_def grows_then_opened)
    next
      case (Some fd)
      then show ?thesis using mv o Inr some [OF Some] by (auto simp: bind_act_def return_act_def)
    qed
  qed
qed

lemma opens_keeps_bind:
  assumes "keeps (grows S C) m" and "\<And>x. opens S C pick (f x)"
  shows "opens S C pick (bind_act m f)"
  by (rule opens_bind [where pick = "\<lambda>_. None"])
    (auto intro!: opens_keeps assms simp: returns_def)

lemma keeps_open_bind:
  assumes "opens S C pick m"
    and none: "\<And>x. pick x = None \<Longrightarrow> keeps (grows S C) (f x)"
    and some: "\<And>x fd. pick x = Some fd \<Longrightarrow> closes S C fd (f x)"
  shows "keeps (grows S C) (bind_act m f)"
proof (rule keepsI)
  fix w
  obtain r v where mv: "m w = (r, v)" by (cases "m w")
  have o: "opened_or S C w (picked pick r) v"
    using assms(1) mv by (metis fst_conv opens_def snd_conv)
  show "grows S C w (snd (bind_act m f w))"
  proof (cases r)
    case (Inl e)
    then show ?thesis using mv o by (simp add: bind_act_def)
  next
    case (Inr x)
    show ?thesis
    proof (cases "pick x")
      case None
      then have "grows S C v (snd (f x v))" using none by (simp add: keeps_def)
      moreover have "grows S C w v" using o Inr None by simp
      ultimately have "grows S C w (snd (f x v))" by (blast intro: gr.trans_R)
      then show ?thesis using mv Inr by (simp add: bind_act_def)
    next
      case (Some fd)
      then show ?thesis
        using mv o Inr some [OF Some] by (simp add: bind_act_def closes_def)
    qed
  qed
qed

text \<open>A \<open>with\<close> block on a descriptor closes it, whether the block returns or raises.\<close>

definition with_descriptor :: "nat \<Rightarrow> (world, 'a) act \<Rightarrow> (world, 'a) act" where
  "with_descriptor fd m = finally_act m (os_close fd)"

lemma grows_log_close: "C (CClose fd) \<Longrightarrow> grows_log S C w (os_close fd w)"
  by (simp add: grows_log_def os_close_def)

lemma fresh_then_close:
  assumes "fresh_open S C w fd v" "grows S C v x" "C (CClose fd)"
  shows "grows S C w (os_close fd x)"
proof -
  from assms(1) obtain n where "fd \<notin> set (map fst (w_descriptors w))"
    and "w_descriptors v = (fd, n) # w_descriptors w" and l: "grows_log S C w v"
    by (auto simp: fresh_open_def)
  with assms(2) have "w_descriptors (os_close fd x) = w_descriptors w"
    by (auto simp: os_close_def grows_def filter_id_conv)
  moreover have "grows_log S C w (os_close fd x)"
    using l assms(2) grows_log_close [of C fd S x, OF assms(3)]
    by (auto simp: grows_def intro: grows_log_trans)
  ultimately show ?thesis by (simp add: grows_def)
qed

lemma closes_with:
  assumes "keeps (grows S C) m" "C (CClose fd)"
  shows "closes S C fd (with_descriptor fd m)"
  unfolding closes_def
proof (intro allI impI)
  fix w v
  assume "fresh_open S C w fd v"
  moreover have "grows S C v (snd (m v))" using assms(1) by (simp add: keeps_def)
  ultimately have "grows S C w (os_close fd (snd (m v)))"
    using assms(2) by (rule fresh_then_close)
  then show "grows S C w (snd (with_descriptor fd m v))"
    by (cases "m v") (simp add: with_descriptor_def finally_act_def)
qed

lemma closes_bind:
  assumes "closes S C fd m" "\<And>x. keeps (grows S C) (f x)"
  shows "closes S C fd (bind_act m f)"
  unfolding closes_def
proof (intro allI impI)
  fix w v
  assume "fresh_open S C w fd v"
  then have g: "grows S C w (snd (m v))" using assms(1) by (simp add: closes_def)
  have k: "\<And>x y. grows S C y (snd (f x y))" using assms(2) by (simp add: keeps_def)
  show "grows S C w (snd (bind_act m f v))"
    using g gr.trans_R [OF g k] by (cases "m v") (auto simp: bind_act_def split: sum.splits)
qed

lemma opens_opened: "opens S C picked_answer (opened answer)"
proof (cases answer)
  case (Inl e)
  then show ?thesis by (simp add: opens_def opened_def grows_def)
next
  case (Inr n)
  then show ?thesis
    using new_descriptor_fresh
    by (auto simp: opens_def opened_def fresh_open_def Let_def grows_log_def)
qed

lemma opens_os_open: "C (COpen p flags) \<Longrightarrow> opens S C picked_answer (os_open env p flags)"
  unfolding os_open_def by (intro opens_keeps_bind keeps_call opens_opened)

lemma opens_os_openat:
  assumes "\<And>n. C (COpenAt n name flags)"
  shows "opens S C picked_answer (os_openat env fd name flags)"
  unfolding os_openat_def
  using assms
  by (auto intro!: opens_keeps_bind keeps_descriptor_node keeps_call opens_opened opens_return_None
      split: option.splits)

end
