(* ===== verification/Parsers.thy ===== *)
theory Parsers
  imports Models Utf8
begin

text \<open>
  The parsers of \<open>collection/parsers.py\<close>. A parser that can raise returns an
  \<open>outcome\<close>: \<open>parse_int64\<close> lets through the \<open>ValueError\<close> of \<open>int\<close> on
  more than 4300 digits, and \<open>parse_byte_value\<close> the \<open>decimal.Overflow\<close> of a product
  whose exponent leaves the default context. Decimals are a sign, a coefficient and an exponent;
  the product is rounded half-even to 28 digits as the default context does.
\<close>

definition uint64_max :: int where
  "uint64_max = 2 ^ 64 - 1"

definition int64_min :: int where
  "int64_min = - (2 ^ 63)"

definition int64_max :: int where
  "int64_max = 2 ^ 63 - 1"

section \<open>Tokens\<close>

definition is_token_char :: "nat \<Rightarrow> bool" where
  "is_token_char c \<longleftrightarrow> is_ascii_alnum c \<or> c \<in> set (u ''._-'')"

definition tokenize :: "pystr \<Rightarrow> pystr list" where
  "tokenize value = split_ws (map (\<lambda>c. if is_token_char c then c else 32) value)"

section \<open>Byte quantities\<close>

record decimal =
  dec_negative :: bool
  dec_coefficient :: nat
  dec_exponent :: int

definition digit_count :: "nat \<Rightarrow> int" where
  "digit_count n = int (length (nat_digits 10 n))"

definition decimal_digits_value :: "pystr \<Rightarrow> nat" where
  "decimal_digits_value s = digits_value 10 (map (\<lambda>c. the (decimal_digit c)) s)"

text \<open>
  The match of \<open>_NUMBER_PREFIX\<close> at the start of a token, as the number it spells and the
  text after the match. The pattern never needs to backtrack: each part is taken as long as
  possible, and an \<open>e\<close> without digits after it belongs to the rest.
\<close>

definition scan_exponent :: "pystr \<Rightarrow> int \<times> pystr" where
  "scan_exponent s =
     (if take 1 s = u ''e'' \<or> take 1 s = u ''E'' then
        (let t = drop 1 s;
             signed = (take 1 t = u ''+'' \<or> take 1 t = u ''-'');
             ds = takeWhile is_decimal (if signed then drop 1 t else t);
             n = int (decimal_digits_value ds)
         in if ds = [] then (0, s)
            else (if take 1 t = u ''-'' then - n else n,
                  dropWhile is_decimal (if signed then drop 1 t else t)))
      else (0, s))"

definition number_prefix :: "pystr \<Rightarrow> (decimal \<times> pystr) option" where
  "number_prefix s =
     (let negative = (take 1 s = u ''-'');
          t = (if take 1 s = u ''+'' \<or> take 1 s = u ''-'' then drop 1 s else s);
          whole = takeWhile is_decimal t;
          after = dropWhile is_decimal t;
          point = (take 1 after = u ''.'');
          fraction = (if point then takeWhile is_decimal (drop 1 after) else []);
          tail = (if point then dropWhile is_decimal (drop 1 after) else after)
      in if whole = [] \<and> fraction = [] then None
         else case scan_exponent tail of
           (e, rest) \<Rightarrow>
             Some (\<lparr>dec_negative = negative,
                    dec_coefficient = decimal_digits_value (whole @ fraction),
                    dec_exponent = e - int (length fraction)\<rparr>, rest))"

text \<open>\<open>Decimal(text)\<close> is exact, or raises \<open>InvalidOperation\<close> outside these bounds.\<close>

definition decimal_valid :: "decimal \<Rightarrow> bool" where
  "decimal_valid d \<longleftrightarrow>
     dec_exponent d + digit_count (dec_coefficient d) - 1 \<le> 999999999999999999 \<and>
     - 1999999999999999997 \<le> dec_exponent d"

definition round_half_even :: "nat \<Rightarrow> nat \<Rightarrow> nat" where
  "round_half_even n k =
     (let q = n div 10 ^ k; r = n mod 10 ^ k
      in if 2 * r > 10 ^ k \<or> (2 * r = 10 ^ k \<and> odd q) then Suc q else q)"

text \<open>
  \<open>value * multiplier\<close> in the default context: 28 digits, largest exponent 999999, with the
  \<open>Overflow\<close> trap enabled. A result below the smallest exponent is not rounded further
  here; it is less than one either way, which is all that \<open>decimal_to_int\<close> sees.
\<close>

definition decimal_times :: "decimal \<Rightarrow> nat \<Rightarrow> decimal outcome" where
  "decimal_times d m =
     (let p = dec_coefficient d * m;
          k = length (nat_digits 10 p) - 28;
          q = (if k = 0 then p else round_half_even p k);
          c = (if q = 10 ^ 28 then 10 ^ 27 else q);
          e = dec_exponent d + int k + (if q = 10 ^ 28 then 1 else 0)
      in if c \<noteq> 0 \<and> 999999 < e + digit_count c - 1 then Inl DecimalOverflow
         else Inr \<lparr>dec_negative = dec_negative d, dec_coefficient = c, dec_exponent = e\<rparr>)"

definition decimal_to_int :: "decimal \<Rightarrow> int" where
  "decimal_to_int d =
     (let n = (if 0 \<le> dec_exponent d then dec_coefficient d * 10 ^ nat (dec_exponent d)
               else dec_coefficient d div 10 ^ nat (- dec_exponent d))
      in if dec_negative d then - int n else int n)"

definition byte_multipliers :: "(string \<times> nat) list" where
  "byte_multipliers =
     [('''', 1), (''b'', 1), (''byte'', 1), (''bytes'', 1),
      (''k'', 2 ^ 10), (''kb'', 2 ^ 10), (''kib'', 2 ^ 10),
      (''m'', 2 ^ 20), (''mb'', 2 ^ 20), (''mib'', 2 ^ 20),
      (''g'', 2 ^ 30), (''gb'', 2 ^ 30), (''gib'', 2 ^ 30),
      (''t'', 2 ^ 40), (''tb'', 2 ^ 40), (''tib'', 2 ^ 40)]"

definition byte_multiplier :: "pystr \<Rightarrow> nat option" where
  "byte_multiplier suffix = map_of (map (\<lambda>(name, m). (u name, m)) byte_multipliers) suffix"

definition scaled_bytes :: "decimal \<Rightarrow> nat \<Rightarrow> int option outcome" where
  "scaled_bytes d m = bind_outcome (decimal_times d m) (\<lambda>v.
     let parsed = decimal_to_int v
     in Inr (if parsed \<le> uint64_max then Some parsed else None))"

definition parse_byte_value :: "pystr \<Rightarrow> pystr \<Rightarrow> int option outcome" where
  "parse_byte_value token next_token =
     (case number_prefix token of
        None \<Rightarrow> Inr None
      | Some (value, rest) \<Rightarrow>
          if \<not> decimal_valid value then Inr None
          else if dec_negative value \<and> dec_coefficient value \<noteq> 0 then Inr None
          else
            (let suffix = (if rest \<noteq> [] then rest else next_token)
             in case byte_multiplier (lower suffix) of
                  Some m \<Rightarrow> scaled_bytes value m
                | None \<Rightarrow> if rest \<noteq> [] then Inr None else scaled_bytes value 1))"

section \<open>Integers\<close>

text \<open>The 64-bit reading of an integer: a negative one wraps, a large one is clamped.\<close>

definition wrap_uint64 :: "int \<Rightarrow> int" where
  "wrap_uint64 n = (if n < 0 then n mod 2 ^ 64 else min n uint64_max)"

definition parse_uint64 :: "pystr \<Rightarrow> int option" where
  "parse_uint64 value =
     (let text = strip_ws value
      in if text = [] then None
         else
           (let sgn = (if starts_with text (u ''-'') then - 1 else 1);
                digits = (if take 1 text = u ''+'' \<or> take 1 text = u ''-'' then drop 1 text else text)
            in if digits = [] then None
               else
                 (let base = (if starts_with (lower digits) (u ''0x'') then 16
                              else if 1 < length digits \<and> take 1 digits = u ''0'' then 8
                              else 10);
                      body = (if base = 16 then drop 2 digits else digits)
                  in case py_int base body of
                       Inl e \<Rightarrow> None
                     | Inr n \<Rightarrow> Some (wrap_uint64 (sgn * n)))))"

definition is_int_literal :: "pystr \<Rightarrow> bool" where
  "is_int_literal text =
     (let body = (if take 1 text = u ''+'' \<or> take 1 text = u ''-'' then drop 1 text else text)
      in body \<noteq> [] \<and> list_all is_decimal body)"

definition parse_int64 :: "pystr \<Rightarrow> int option outcome" where
  "parse_int64 value =
     (let text = strip_ws value
      in if \<not> is_int_literal text then Inr None
         else bind_outcome (py_int 10 text) (\<lambda>parsed.
           Inr (Some (min (max parsed int64_min) int64_max))))"

definition parse_boolish_int :: "pystr \<Rightarrow> int option outcome" where
  "parse_boolish_int value =
     (let normalized = lower (strip_ws value)
      in if normalized \<in> set (map u [''true'', ''yes'', ''required'', ''needed'']) then Inr (Some 1)
         else if normalized \<in> set (map u [''false'', ''no'', ''not_required'', ''none'']) then Inr (Some 0)
         else parse_int64 normalized)"

text \<open>Both numbers of a pair, evaluated in order.\<close>

definition both_int64 :: "pystr \<Rightarrow> pystr \<Rightarrow> (int \<times> int) option outcome" where
  "both_int64 a b =
     bind_outcome (parse_int64 a) (\<lambda>rows.
     bind_outcome (parse_int64 b) (\<lambda>columns.
       Inr (case (rows, columns) of (Some r, Some c) \<Rightarrow> Some (r, c) | _ \<Rightarrow> None)))"

definition mesh_from_tokens :: "pystr \<Rightarrow> (int \<times> int) option outcome" where
  "mesh_from_tokens value =
     (case tokenize value of
        first # second # _ \<Rightarrow> both_int64 first second
      | _ \<Rightarrow> Inr None)"

definition parse_mesh_dimensions :: "pystr \<Rightarrow> (int \<times> int) option outcome" where
  "parse_mesh_dimensions value =
     (let normalized = lower (strip_ws value)
      in case split_once (cp CHR ''x'') normalized of
           None \<Rightarrow> mesh_from_tokens value
         | Some (rows_text, columns_text) \<Rightarrow>
             bind_outcome (both_int64 rows_text columns_text) (\<lambda>dims.
               case dims of Some d \<Rightarrow> Inr (Some d) | None \<Rightarrow> mesh_from_tokens value))"

section \<open>Memory usage\<close>

text \<open>
  One token with the two after it. A key is followed by its value and the value's unit; any
  other token is a positional value when it parses as one.
\<close>

type_synonym usage_acc = "memory_usage \<times> int list"

definition usage_step :: "pystr \<Rightarrow> pystr \<Rightarrow> pystr \<Rightarrow> usage_acc \<Rightarrow> usage_acc outcome" where
  "usage_step token following unit acc =
     (case acc of (usage, unkeyed) \<Rightarrow>
       (let key = lower token
        in if contains_str (u ''used'') key \<or> contains_str (u ''allocated'') key then
             bind_outcome (parse_byte_value following unit) (\<lambda>parsed.
               Inr (if parsed \<noteq> None then usage\<lparr>usage_used_bytes := parsed\<rparr> else usage, unkeyed))
           else if contains_str (u ''total'') key \<or> contains_str (u ''capacity'') key \<or> key = u ''size'' then
             bind_outcome (parse_byte_value following unit) (\<lambda>parsed.
               Inr (if parsed \<noteq> None then usage\<lparr>usage_total_bytes := parsed\<rparr> else usage, unkeyed))
           else
             bind_outcome (parse_byte_value token following) (\<lambda>parsed.
               Inr (usage, case parsed of None \<Rightarrow> unkeyed | Some v \<Rightarrow> unkeyed @ [v]))))"

fun usage_tokens :: "pystr list \<Rightarrow> usage_acc \<Rightarrow> usage_acc outcome" where
  "usage_tokens [] acc = Inr acc"
| "usage_tokens (token # rest) acc =
     bind_outcome
       (usage_step token (case rest of [] \<Rightarrow> [] | t # _ \<Rightarrow> t)
          (case rest of [] \<Rightarrow> [] | [_] \<Rightarrow> [] | _ # t # _ \<Rightarrow> t) acc)
       (usage_tokens rest)"

fun usage_lines :: "pystr list \<Rightarrow> usage_acc \<Rightarrow> usage_acc outcome" where
  "usage_lines [] acc = Inr acc"
| "usage_lines (line # lines) acc = bind_outcome (usage_tokens (tokenize line) acc) (usage_lines lines)"

definition usage_defaults :: "usage_acc \<Rightarrow> memory_usage" where
  "usage_defaults acc =
     (case acc of (usage, unkeyed) \<Rightarrow>
        (let usage1 = (if usage_used_bytes usage = None \<and> unkeyed \<noteq> []
                       then usage\<lparr>usage_used_bytes := Some (unkeyed ! 0)\<rparr> else usage)
         in if usage_total_bytes usage1 = None \<and> 2 \<le> length unkeyed
            then usage1\<lparr>usage_total_bytes := Some (unkeyed ! 1)\<rparr> else usage1))"

definition parse_memory_usage :: "pystr \<Rightarrow> memory_usage outcome" where
  "parse_memory_usage content =
     bind_outcome
       (usage_lines (splitlines content) (\<lparr>usage_used_bytes = None, usage_total_bytes = None\<rparr>, []))
       (\<lambda>acc. Inr (usage_defaults acc))"

section \<open>PCI resources\<close>

definition parse_pci_line :: "nat \<Rightarrow> pystr \<Rightarrow> pci_resource option" where
  "parse_pci_line index line =
     (case split_ws line of
        a # b # c # _ \<Rightarrow>
          (case (parse_uint64 a, parse_uint64 b, parse_uint64 c) of
             (Some start, Some end, Some flags) \<Rightarrow>
               if (start = end \<and> end = flags \<and> flags = 0) \<or> end < start then None
               else Some \<lparr>res_index = index, res_start = start, res_end = end, res_flags = flags,
                          res_size_bytes = end - start + 1\<rparr>
           | _ \<Rightarrow> None)
      | _ \<Rightarrow> None)"

definition parse_pci_resources :: "pystr \<Rightarrow> pci_resource list" where
  "parse_pci_resources content =
     List.map_filter (\<lambda>(index, line). parse_pci_line index line) (List.enumerate 0 (splitlines content))"

end
