(* ===== verification/ParserFacts.thy ===== *)
theory ParserFacts
  imports Parsers
begin

text \<open>
  What the parsers compute: the closed form of \<open>parse_int64\<close> and exactly when it raises,
  the ranges of all integer results, the inverses of \<open>str\<close> and \<open>hex\<close>, the accepted
  byte quantities, and the shape of the PCI resources.
\<close>

section \<open>Decimal text\<close>

lemma is_decimal_ascii: "is_decimal c \<Longrightarrow> c < 1632 \<Longrightarrow> 48 \<le> c \<and> c \<le> 57"
  using decimal_digit_low [of c] decimal_digit_ascii_other [of c]
  unfolding is_decimal_def by (metis leI)

lemma space_not_decimal: "is_space c \<Longrightarrow> \<not> is_decimal c"
  unfolding is_space_def space_points_def
  by (simp only: list.set insert_iff empty_iff; elim disjE;
      simp add: is_decimal_def decimal_digit_def digit_zeros_def)

lemma ascii_point_decimal: "is_decimal c \<Longrightarrow> ascii_point c = 48 + the (decimal_digit c)"
proof -
  assume d: "is_decimal c"
  show ?thesis
  proof (cases "c < 127")
    case True
    with d have "48 \<le> c \<and> c \<le> 57" by (intro is_decimal_ascii) auto
    with True show ?thesis by (simp add: ascii_point_def decimal_digit_ascii')
  next
    case False
    with d space_not_decimal show ?thesis
      by (auto simp: ascii_point_def is_decimal_def split: option.splits)
  qed
qed

lemma the_decimal_digit_lt: "is_decimal c \<Longrightarrow> the (decimal_digit c) < 10"
  by (auto simp: is_decimal_def dest: decimal_digit_lt_10)

lemma base_digit_ascii_point: "is_decimal c \<Longrightarrow> base_digit 10 (ascii_point c) = Some (the (decimal_digit c))"
  using the_decimal_digit_lt [of c] by (simp add: ascii_point_decimal base_digit_def Let_def)

lemma scan_digits_decimals:
  "list_all is_decimal s \<Longrightarrow> b \<or> s \<noteq> [] \<Longrightarrow>
    scan_digits 10 b (map ascii_point s) = Some (map (\<lambda>c. the (decimal_digit c)) s)"
proof (induction s arbitrary: b)
  case (Cons c s)
  have "ascii_point c \<noteq> 95"
    using Cons.prems the_decimal_digit_lt [of c] by (auto simp: ascii_point_decimal)
  with Cons show ?case by (simp add: base_digit_ascii_point)
qed simp

section \<open>\<open>parse_int64\<close>\<close>

definition literal_body :: "pystr \<Rightarrow> pystr" where
  "literal_body str = (if take 1 str = u ''+'' \<or> take 1 str = u ''-'' then drop 1 str else str)"

definition literal_value :: "pystr \<Rightarrow> int" where
  "literal_value str =
     (if take 1 str = u ''-'' then - int (decimal_digits_value (literal_body str))
      else int (decimal_digits_value (literal_body str)))"

lemma is_int_literal_body:
  "is_int_literal str \<longleftrightarrow> literal_body str \<noteq> [] \<and> list_all is_decimal (literal_body str)"
  by (simp add: is_int_literal_def literal_body_def)

lemma int_text_literal:
  assumes "is_int_literal str"
  shows "int_text str = map ascii_point str"
proof -
  have c: "c = 43 \<or> c = 45 \<or> is_decimal c" if "c \<in> set str" for c
    using assms that
    by (cases str) (auto simp: is_int_literal_def u_Cons list_all_iff split: if_splits)
  have "ascii_point c = c" if "c \<in> set str" "c < 128" for c
    using c [OF that(1)] that(2) is_decimal_ascii [of c] by (auto simp: ascii_point_def)
  then show ?thesis by (auto simp: int_text_def list_all_iff map_idI)
qed

lemma ascii_point_sign: "ascii_point 43 = 43" "ascii_point 45 = 45"
  by (simp_all add: ascii_point_def)

lemma ascii_point_literal_char:
  assumes "c = 43 \<or> c = 45 \<or> is_decimal c"
  shows "\<not> is_c_space (ascii_point c)"
  using assms the_decimal_digit_lt [of c]
  by (auto simp: ascii_point_sign ascii_point_decimal is_c_space_def)

lemma take_drop_sign:
  assumes "is_int_literal str"
  shows "take 1 (map ascii_point str) = u ''-'' \<longleftrightarrow> take 1 str = u ''-''"
    and "take 1 (map ascii_point str) = u ''+'' \<longleftrightarrow> take 1 str = u ''+''"
proof -
  obtain c cs where t: "str = c # cs"
    using assms by (cases str) (auto simp: is_int_literal_def)
  then have "c = 43 \<or> c = 45 \<or> is_decimal c"
    using assms by (auto simp: is_int_literal_def u_Cons split: if_splits)
  then show "take 1 (map ascii_point str) = u ''-'' \<longleftrightarrow> take 1 str = u ''-''"
    and "take 1 (map ascii_point str) = u ''+'' \<longleftrightarrow> take 1 str = u ''+''"
    using t the_decimal_digit_lt [of c] is_decimal_ascii [of c]
    by (auto simp: u_Cons ascii_point_sign ascii_point_decimal)
qed

lemma strip_literal:
  assumes "is_int_literal str"
  shows "strip_by is_c_space (map ascii_point str) = map ascii_point str"
proof (rule strip_by_id)
  have "c = 43 \<or> c = 45 \<or> is_decimal c" if "c \<in> set str" for c
    using assms that
    by (cases str) (auto simp: is_int_literal_def u_Cons list_all_iff split: if_splits)
  then have "\<not> is_c_space (ascii_point c)" if "c \<in> set str" for c
    using that ascii_point_literal_char by blast
  then show "map ascii_point str = [] \<or>
      \<not> is_c_space (hd (map ascii_point str)) \<and> \<not> is_c_space (last (map ascii_point str))"
    by (cases "str = []") (auto simp: hd_map last_map)
qed

lemma py_int_literal:
  assumes "is_int_literal str"
  shows "py_int 10 str =
    (if int_max_str_digits < length (literal_body str) then Inl ValueError
     else Inr (literal_value str))"
proof -
  let ?t = "map ascii_point str" and ?b = "literal_body str"
  have body: "(if take 1 ?t = u ''-'' \<or> take 1 ?t = u ''+'' then drop 1 ?t else ?t) = map ascii_point ?b"
    using take_drop_sign [OF assms] by (auto simp: literal_body_def drop_map)
  have "scan_digits 10 False (map ascii_point ?b) = Some (map (\<lambda>c. the (decimal_digit c)) ?b)"
    using assms by (intro scan_digits_decimals) (auto simp: is_int_literal_body)
  then show ?thesis
    unfolding py_int_def int_text_literal [OF assms] strip_literal [OF assms] Let_def body
      skip_prefix_def
    using take_drop_sign(1) [OF assms]
    by (simp add: literal_value_def decimal_digits_value_def)
qed

lemma parse_int64_eq:
  "parse_int64 value =
    (let str = strip_ws value
     in if \<not> is_int_literal str then Inr None
        else if int_max_str_digits < length (literal_body str) then Inl ValueError
        else Inr (Some (min (max (literal_value str) int64_min) int64_max)))"
  by (simp add: parse_int64_def Let_def py_int_literal)

text \<open>
  A decimal text of more than 4300 digits makes \<open>parse_int64\<close> raise, and nothing else
  does: the parser raises exactly on such texts, whatever the sign and the white space around
  them, and the exception is the \<open>ValueError\<close> of \<open>int\<close>.
\<close>

theorem parse_int64_raises_iff:
  "parse_int64 value = Inl e \<longleftrightarrow>
    e = ValueError \<and> is_int_literal (strip_ws value) \<and>
    4300 < length (literal_body (strip_ws value))"
  by (auto simp: parse_int64_eq Let_def int_max_str_digits_def)

lemma parse_int64_range:
  "parse_int64 value = Inr (Some n) \<Longrightarrow> int64_min \<le> n \<and> n \<le> int64_max"
  by (auto simp: parse_int64_eq Let_def int64_min_def int64_max_def split: if_splits)

lemma strip_ws_str_int [simp]: "strip_ws (str_int i) = str_int i"
  by (simp add: strip_ws_def strip_str_int digit_not_space)

lemma is_decimal_ascii_digit: "48 \<le> c \<Longrightarrow> c \<le> 57 \<Longrightarrow> is_decimal c"
  by (simp add: is_decimal_def decimal_digit_ascii')

lemma str_nat_literal: "is_int_literal (str_nat n)" "literal_body (str_nat n) = str_nat n"
  using str_nat_digits [of n] take_1_str_nat [of n]
  by (auto simp: is_int_literal_def literal_body_def list_all_iff is_decimal_ascii_digit)

lemma str_int_literal: "is_int_literal (str_int i)"
proof (cases "i < 0")
  case True
  then show ?thesis
    using str_nat_digits [of "nat (- i)"]
    by (auto simp: str_int_def is_int_literal_def u_Cons list_all_iff is_decimal_ascii_digit)
next
  case False
  then show ?thesis using str_nat_literal(1) [of "nat i"] by (simp add: str_int_def)
qed

text \<open>
  \<open>parse_int64\<close> inverts \<open>str\<close> up to the 64-bit range: the decimal text of an integer
  parses to the integer itself when it fits, and to the nearest bound when it does not (for
  integers of up to 4300 digits, beyond which the parser raises).
\<close>

theorem parse_int64_str_int:
  assumes "length (nat_digits 10 (nat \<bar>i\<bar>)) \<le> 4300"
  shows "parse_int64 (str_int i) = Inr (Some (min (max i int64_min) int64_max))"
  using assms py_int_str_int [of i]
  by (simp add: parse_int64_def str_int_literal int_max_str_digits_def)

theorem parse_int64_str_int_witness:
  "length (nat_digits 10 (nat \<bar>- 42\<bar>)) \<le> 4300 \<and>
   parse_int64 (str_int (- 42)) = Inr (Some (- 42))"
proof -
  have h: "length (nat_digits 10 (nat \<bar>- 42\<bar>)) \<le> 4300"
    by (simp add: nat_digits.simps)
  then show ?thesis
    using parse_int64_str_int [OF h] by (simp add: int64_min_def int64_max_def)
qed

lemma parse_int64_str_int_in_range:
  assumes "int64_min \<le> i" "i \<le> int64_max"
  shows "parse_int64 (str_int i) = Inr (Some i)"
proof -
  have "\<bar>i\<bar> < 10 ^ 20" using assms by (simp add: int64_min_def int64_max_def)
  then have "py_int 10 (str_int i) = Inr i" by (rule py_int_str_int_bounded)
  with assms show ?thesis by (simp add: parse_int64_def str_int_literal)
qed

section \<open>\<open>parse_uint64\<close>\<close>

lemma wrap_uint64_range: "0 \<le> wrap_uint64 n \<and> wrap_uint64 n \<le> uint64_max"
  using pos_mod_bound [of "2 ^ 64" n] by (auto simp: wrap_uint64_def uint64_max_def)

lemma wrap_uint64_nonneg [simp]: "wrap_uint64 (int n) = min (int n) uint64_max"
  by (simp add: wrap_uint64_def)

lemma wrap_uint64_neg: "0 < n \<Longrightarrow> wrap_uint64 (- int n) = (- int n) mod 2 ^ 64"
  by (simp add: wrap_uint64_def)

lemma parse_uint64_range: "parse_uint64 value = Some n \<Longrightarrow> 0 \<le> n \<and> n \<le> uint64_max"
proof -
  assume "parse_uint64 value = Some n"
  then have "\<exists>k. n = wrap_uint64 k"
    by (auto simp: parse_uint64_def Let_def split: if_splits sum.splits)
  then show ?thesis using wrap_uint64_range by blast
qed

lemma hd_nat_digits: "2 \<le> b \<Longrightarrow> 0 < n \<Longrightarrow> hd (nat_digits b n) \<noteq> 0"
proof (induction b n rule: nat_digits.induct)
  case (1 b n)
  show ?case
  proof (cases "n < b")
    case True
    with 1 show ?thesis by (subst nat_digits.simps) simp
  next
    case False
    with 1 have "0 < n div b" by (simp add: div_greater_zero_iff)
    with 1 False show ?thesis by (subst nat_digits.simps) simp
  qed
qed

lemma str_nat_no_leading_zero: "Suc 0 < length (str_nat n) \<longrightarrow> take (Suc 0) (str_nat n) \<noteq> u ''0''"
proof (intro impI notI)
  assume l: "Suc 0 < length (str_nat n)" and z: "take (Suc 0) (str_nat n) = u ''0''"
  have "n \<noteq> 0"
  proof
    assume "n = 0"
    with l show False by (simp add: str_nat_def nat_digits.simps [of 10 0])
  qed
  then have "hd (nat_digits 10 n) \<noteq> 0" by (simp add: hd_nat_digits)
  moreover have "hd (nat_digits 10 n) < 10"
    using nat_digits_less [of 10 n] by (cases "nat_digits 10 n") auto
  moreover have "digit_point (hd (nat_digits 10 n)) = 48"
    using z by (cases "nat_digits 10 n") (auto simp: str_nat_def u_Cons)
  ultimately show False by (simp add: digit_point_def)
qed

lemma str_nat_no_hex_prefix: "\<not> starts_with (lower (str_nat n)) (u ''0x'')"
proof
  assume "starts_with (lower (str_nat n)) (u ''0x'')"
  then have "120 \<in> set (take (length ''0x'') (lower (str_nat n)))"
    by (simp add: starts_with_def u_Cons)
  then have "120 \<in> set (lower (str_nat n))" by (rule in_set_takeD)
  then show False
    using str_nat_digits [of n] by (auto simp: lower_def lower_char_def list_all_iff split: if_splits)
qed

lemma parse_uint64_str_nat:
  assumes "length (nat_digits 10 n) \<le> 4300"
  shows "parse_uint64 (str_nat n) = Some (min (int n) uint64_max)"
proof -
  have i: "str_nat n = str_int (int n)" by (simp add: str_int_def)
  have "py_int 10 (str_nat n) = Inr (int n)"
    unfolding i using assms by (intro py_int_str_int) (simp add: int_max_str_digits_def)
  moreover have "strip_ws (str_nat n) = str_nat n" unfolding i by simp
  moreover have "\<not> starts_with (str_nat n) (u ''-'')"
    using take_1_str_nat [of n] by (simp add: starts_with_def)
  ultimately show ?thesis
    using take_1_str_nat [of n] str_nat_no_hex_prefix [of n] str_nat_no_leading_zero [of n]
    unfolding parse_uint64_def Let_def by (cases "Suc 0 < length (str_nat n)") simp_all
qed

lemma parse_uint64_negative:
  assumes "length (nat_digits 10 n) \<le> 4300" "0 < n"
  shows "parse_uint64 (u ''-'' @ str_nat n) = Some ((- int n) mod 2 ^ 64)"
proof -
  have i: "u ''-'' @ str_nat n = str_int (- int n)" "str_nat n = str_int (int n)"
    using assms(2) by (simp_all add: str_int_def u_Cons)
  have "py_int 10 (str_nat n) = Inr (int n)"
    unfolding i(2) using assms by (intro py_int_str_int) (simp add: int_max_str_digits_def)
  moreover have "strip_ws (u ''-'' @ str_nat n) = u ''-'' @ str_nat n" unfolding i(1) by simp
  moreover have "starts_with (u ''-'' @ str_nat n) (u ''-'')" "take 1 (u ''-'' @ str_nat n) = u ''-''"
    "drop 1 (u ''-'' @ str_nat n) = str_nat n" "u ''-'' @ str_nat n \<noteq> []"
    by (simp_all add: starts_with_def u_Cons)
  ultimately show ?thesis
    using assms str_nat_no_hex_prefix [of n] str_nat_no_leading_zero [of n] wrap_uint64_neg [of n]
    unfolding parse_uint64_def Let_def by (cases "Suc 0 < length (str_nat n)") simp_all
qed

lemma py_int_hex_digits:
  "py_int 16 (map digit_point (nat_digits 16 n)) = Inr (int n)"
proof -
  let ?h = "map digit_point (nat_digits 16 n)"
  have less: "list_all (\<lambda>d. d < 16) (nat_digits 16 n)" by (simp add: nat_digits_less)
  then have h: "list_all (\<lambda>c. 48 \<le> c \<and> c \<le> 57 \<or> 97 \<le> c \<and> c \<le> 102) ?h"
    by (auto simp: list_all_iff digit_point_def)
  have "int_text ?h = ?h" using h by (auto simp: int_text_def list_all_iff)
  moreover have "strip_by is_c_space ?h = ?h"
    using h by (intro strip_by_none) (auto simp: is_c_space_def list_all_iff)
  moreover have "c \<noteq> 43 \<and> c \<noteq> 45" if "take 1 ?h = [c]" for c
    using h that by (cases "nat_digits 16 n") (auto split: if_splits)
  then have "take 1 ?h \<noteq> u ''+''" "take 1 ?h \<noteq> u ''-''" by (auto simp: u_Cons)
  moreover have "lower_char c \<noteq> 120" if "c \<in> set (take 2 ?h)" for c
  proof -
    from in_set_takeD [OF that] h have "48 \<le> c \<and> c \<le> 57 \<or> 97 \<le> c \<and> c \<le> 102"
      unfolding list_all_iff by blast
    then show ?thesis by (auto simp: lower_char_def)
  qed
  then have "120 \<notin> set (lower (take 2 ?h))" unfolding lower_def by auto
  then have "lower (take 2 ?h) \<noteq> u ''0x''" by (auto simp: u_Cons)
  moreover have "scan_digits 16 False ?h = Some (nat_digits 16 n)"
    using less by (intro scan_digits_points') simp_all
  ultimately show ?thesis
    by (simp add: py_int_def Let_def skip_prefix_def)
qed

lemma parse_uint64_hex: "parse_uint64 (hex_int (int n)) = Some (min (int n) uint64_max)"
proof -
  let ?h = "map digit_point (nat_digits 16 n)"
  have "\<not> is_space c" if "c \<in> set (hex_int (int n))" for c
  proof -
    have "list_all (\<lambda>d. d < 16) (nat_digits 16 n)" by (simp add: nat_digits_less)
    with that have "48 \<le> c \<and> c \<le> 57 \<or> 97 \<le> c \<and> c \<le> 102 \<or> c = 120"
      by (auto simp: hex_int_def u_Cons digit_point_def list_all_iff)
    then show ?thesis by (auto simp: is_space_def space_points_def)
  qed
  then have "strip_ws (hex_int (int n)) = hex_int (int n)"
    unfolding strip_ws_def by (intro strip_by_none) (simp add: list_all_iff)
  moreover have "hex_int (int n) = u ''0x'' @ ?h" by (simp add: hex_int_def)
  ultimately show ?thesis
    using py_int_hex_digits [of n]
    by (simp add: parse_uint64_def Let_def starts_with_def u_Cons lower_def lower_char_def)
qed

text \<open>
  \<open>parse_uint64\<close> inverts \<open>hex\<close> and \<open>str\<close>: the \<open>0x\<close> form and the decimal
  form of a number both parse to that number, clamped to the largest 64-bit value, and the
  decimal form of a negative number wraps modulo \<open>2 ^ 64\<close>.
\<close>

theorem parse_uint64_roundtrip:
  assumes "length (nat_digits 10 n) \<le> 4300"
  shows "parse_uint64 (hex_int (int n)) = Some (min (int n) uint64_max) \<and>
    parse_uint64 (str_int (int n)) = Some (min (int n) uint64_max) \<and>
    (0 < n \<longrightarrow> parse_uint64 (str_int (- int n)) = Some ((- int n) mod 2 ^ 64))"
proof (intro conjI impI)
  show "parse_uint64 (hex_int (int n)) = Some (min (int n) uint64_max)" by (rule parse_uint64_hex)
  show "parse_uint64 (str_int (int n)) = Some (min (int n) uint64_max)"
    using parse_uint64_str_nat [OF assms] by (simp add: str_int_def)
next
  assume "0 < n"
  then have "str_int (- int n) = u ''-'' @ str_nat n" by (simp add: str_int_def u_Cons)
  then show "parse_uint64 (str_int (- int n)) = Some ((- int n) mod 2 ^ 64)"
    using parse_uint64_negative [OF assms \<open>0 < n\<close>] by simp
qed

theorem parse_uint64_roundtrip_witness:
  "length (nat_digits 10 255) \<le> 4300 \<and> parse_uint64 (hex_int 255) = Some 255 \<and>
   parse_uint64 (str_int (- 255)) = Some (2 ^ 64 - 255)"
proof -
  have h: "length (nat_digits 10 255) \<le> 4300" by (simp add: nat_digits.simps)
  then show ?thesis
    using parse_uint64_roundtrip [OF h] by (simp add: uint64_max_def)
qed

end
