(* ===== verification/QuantityFacts.thy ===== *)
theory QuantityFacts
  imports ParserFacts
begin

text \<open>
  Byte quantities, memory usage, mesh sizes and PCI resources: ranges, exact values on the
  texts the drivers write, and the one exception the byte parser lets through.
\<close>

section \<open>Byte quantities\<close>

lemma decimal_times_sign: "decimal_times d m = Inr v \<Longrightarrow> dec_negative v = dec_negative d"
  by (auto simp: decimal_times_def Let_def split: if_splits)

lemma decimal_times_zero:
  "decimal_times d m = Inr v \<Longrightarrow> dec_coefficient d = 0 \<Longrightarrow> dec_coefficient v = 0"
  by (auto simp: decimal_times_def Let_def nat_digits.simps [of 10 0] split: if_splits)

lemma decimal_to_int_nonneg:
  "\<not> dec_negative v \<or> dec_coefficient v = 0 \<Longrightarrow> 0 \<le> decimal_to_int v"
  by (auto simp: decimal_to_int_def Let_def)

lemma scaled_bytes_range:
  assumes "scaled_bytes d m = Inr (Some n)" and "\<not> dec_negative d \<or> dec_coefficient d = 0"
  shows "0 \<le> n \<and> n \<le> uint64_max"
proof -
  from assms(1) obtain v where v: "decimal_times d m = Inr v"
    and n: "n = decimal_to_int v" "n \<le> uint64_max"
    by (auto simp: scaled_bytes_def bind_outcome_Inr Let_def split: if_splits)
  from v assms(2) have "\<not> dec_negative v \<or> dec_coefficient v = 0"
    by (metis decimal_times_sign decimal_times_zero)
  with n show ?thesis by (simp add: decimal_to_int_nonneg)
qed

lemma scaled_bytes_raises: "scaled_bytes d m = Inl e \<Longrightarrow> e = DecimalOverflow"
  by (auto simp: scaled_bytes_def decimal_times_def Let_def split: if_splits)

lemma parse_byte_value_cases:
  assumes "parse_byte_value t nxt = r" "r \<noteq> Inr None"
  obtains d m where "r = scaled_bytes d m" "\<not> dec_negative d \<or> dec_coefficient d = 0"
  using assms
  by (auto simp: parse_byte_value_def Let_def split: option.splits prod.splits if_splits)

lemma parse_byte_value_range:
  "parse_byte_value t nxt = Inr (Some n) \<Longrightarrow> 0 \<le> n \<and> n \<le> uint64_max"
  by (metis option.distinct(1) parse_byte_value_cases scaled_bytes_range sum.inject(2))

lemma parse_byte_value_raises: "parse_byte_value t nxt = Inl e \<Longrightarrow> e = DecimalOverflow"
  by (metis parse_byte_value_cases scaled_bytes_raises sum.distinct(1))

lemma decimal_digits_value_str_nat [simp]: "decimal_digits_value (str_nat n) = n"
proof -
  have "map (\<lambda>c. the (decimal_digit c)) (str_nat n) = nat_digits 10 n"
    using nat_digits_less [of 10 n]
    by (auto simp: str_nat_def list_all_iff digit_point_def comp_def intro!: map_idI)
  then show ?thesis by (simp add: decimal_digits_value_def)
qed

lemma str_nat_decimals: "takeWhile is_decimal (str_nat n @ rest) = str_nat n @ takeWhile is_decimal rest"
  "dropWhile is_decimal (str_nat n @ rest) = dropWhile is_decimal rest"
proof -
  have d: "is_decimal c" if "c \<in> set (str_nat n)" for c
    using that str_nat_digits [of n] by (auto simp: list_all_iff is_decimal_ascii_digit)
  then show "takeWhile is_decimal (str_nat n @ rest) = str_nat n @ takeWhile is_decimal rest"
    by (simp add: takeWhile_append)
  from d show "dropWhile is_decimal (str_nat n @ rest) = dropWhile is_decimal rest"
    by (simp add: dropWhile_append)
qed

lemma takeWhile_str_nat: "takeWhile is_decimal (str_nat n) = str_nat n"
  using str_nat_decimals(1) [of n "[]"] by simp

lemma dropWhile_str_nat: "dropWhile is_decimal (str_nat n) = []"
  using str_nat_decimals(2) [of n "[]"] by simp

lemma number_prefix_str_nat:
  assumes "rest = [] \<or> \<not> is_decimal (hd rest) \<and> hd rest \<noteq> cp CHR ''.''"
  shows "number_prefix (str_nat n @ rest) =
    (case scan_exponent rest of (e, r) \<Rightarrow>
      Some (\<lparr>dec_negative = False, dec_coefficient = n, dec_exponent = e\<rparr>, r))"
proof -
  have "take 1 (str_nat n @ rest) = take 1 (str_nat n)" by (cases "str_nat n") simp_all
  then have "take 1 (str_nat n @ rest) \<noteq> u ''-''" "take 1 (str_nat n @ rest) \<noteq> u ''+''"
    by (metis take_1_str_nat)+
  moreover have "takeWhile is_decimal rest = []" "dropWhile is_decimal rest = rest"
    using assms by (cases rest; simp)+
  moreover have "take 1 rest \<noteq> u ''.''" using assms by (cases rest) (auto simp: u_Cons)
  ultimately show ?thesis
    by (simp add: number_prefix_def Let_def str_nat_decimals del: take_append split: prod.splits)
qed

lemma digit_count_bound: "n < 10 ^ Suc k \<Longrightarrow> digit_count n \<le> int (Suc k)"
  using length_nat_digits [of 10 n k] by (simp add: digit_count_def)

lemma digit_count_pos: "1 \<le> digit_count n"
  by (simp add: digit_count_def Suc_le_eq)

lemma decimal_times_small:
  assumes "c * m < 10 ^ 28"
  shows "decimal_times \<lparr>dec_negative = b, dec_coefficient = c, dec_exponent = 0\<rparr> m =
    Inr \<lparr>dec_negative = b, dec_coefficient = c * m, dec_exponent = 0\<rparr>"
proof -
  have "length (nat_digits 10 (c * m)) \<le> 28"
    using assms length_nat_digits [of 10 "c * m" 27] by simp
  moreover from this have "digit_count (c * m) \<le> 28" by (simp add: digit_count_def)
  ultimately show ?thesis using assms by (simp add: decimal_times_def Let_def)
qed

lemma byte_multiplier_Nil: "byte_multiplier [] = Some 1"
  by (simp add: byte_multiplier_def byte_multipliers_def)

lemma byte_multiplier_digits: "byte_multiplier (lower (str_nat n)) = None"
proof -
  have "hd (lower (str_nat n)) \<le> 57" "lower (str_nat n) \<noteq> []"
    using str_nat_digits [of n]
    by (cases "str_nat n"; auto simp: lower_def lower_char_def)+
  then show ?thesis
    by (cases "lower (str_nat n)") (auto simp: byte_multiplier_def byte_multipliers_def u_Cons)
qed

lemma parse_byte_value_scaled:
  assumes "byte_multiplier (lower unit) = Some m" "n * m < 10 ^ 28" "n < 10 ^ 28"
  shows "parse_byte_value (str_nat n) unit =
    Inr (if int (n * m) \<le> uint64_max then Some (int (n * m)) else None)"
proof -
  have "number_prefix (str_nat n) = Some (\<lparr>dec_negative = False, dec_coefficient = n, dec_exponent = 0\<rparr>, [])"
    using number_prefix_str_nat [of "[]" n] by (simp add: scan_exponent_def)
  moreover have "decimal_valid \<lparr>dec_negative = False, dec_coefficient = n, dec_exponent = 0\<rparr>"
    using digit_count_bound [of n 27] assms(3) by (simp add: decimal_valid_def)
  ultimately show ?thesis
    using assms(1,2) decimal_times_small [of n m False]
    by (simp add: parse_byte_value_def scaled_bytes_def decimal_to_int_def)
qed

text \<open>
  A decimal number followed by a byte unit is multiplied exactly: the result is the
  product when it fits in 64 bits and is refused, not wrapped, when it does not.
\<close>

theorem parse_byte_value_exact:
  assumes "byte_multiplier (lower unit) = Some m" and "n < 10 ^ 15"
  shows "parse_byte_value (str_nat n) unit =
    Inr (if int n * int m \<le> uint64_max then Some (int n * int m) else None)"
proof -
  have "m \<le> 2 ^ 40"
    using assms(1) by (auto simp: byte_multiplier_def byte_multipliers_def split: if_splits)
  then have "n * m \<le> 10 ^ 15 * 2 ^ 40" using assms(2) by (intro mult_le_mono) auto
  then have "n * m < 10 ^ 28" by simp
  moreover have "n < 10 ^ 28" using assms(2) by simp
  ultimately show ?thesis using parse_byte_value_scaled [OF assms(1)] by simp
qed

theorem parse_byte_value_exact_witness:
  "byte_multiplier (lower (u ''KiB'')) = Some 1024 \<and> (7 :: nat) < 10 ^ 15 \<and>
   parse_byte_value (str_nat 7) (u ''KiB'') = Inr (Some 7168)"
proof -
  have h: "byte_multiplier (lower (u ''KiB'')) = Some 1024"
    by (simp add: byte_multiplier_def byte_multipliers_def u_Cons lower_def lower_char_def)
  have g: "(7 :: nat) < 10 ^ 15" by simp
  show ?thesis using h g parse_byte_value_exact [OF h g] by (simp add: uint64_max_def)
qed

text \<open>
  A byte quantity with a decimal exponent of a million or more is not rejected as a bad
  value: the product leaves the default decimal context and the parser raises
  \<open>decimal.Overflow\<close>, which no caller in the collector handles.
\<close>

theorem parse_byte_value_overflow:
  assumes "0 < n" "n < 10 ^ 28" "1000000 \<le> k" "k \<le> 10 ^ 17"
  shows "parse_byte_value (str_nat n @ u ''e'' @ str_nat k) [] = Inl DecimalOverflow"
proof -
  let ?d = "\<lparr>dec_negative = False, dec_coefficient = n, dec_exponent = int k\<rparr>"
  have "take 1 (str_nat k) \<noteq> u ''-''" "take 1 (str_nat k) \<noteq> u ''+''"
    by (rule take_1_str_nat)+
  then have "scan_exponent (u ''e'' @ str_nat k) = (int k, [])"
    using takeWhile_str_nat [of k] dropWhile_str_nat [of k]
    by (simp add: scan_exponent_def Let_def u_Cons del: takeWhile_eq_all_conv dropWhile_eq_Nil_conv)
  moreover have "\<not> is_decimal 101" by (simp add: is_decimal_def decimal_digit_ascii_other)
  ultimately have "number_prefix (str_nat n @ u ''e'' @ str_nat k) = Some (?d, [])"
    using number_prefix_str_nat [of "u ''e'' @ str_nat k" n] by (simp add: u_Cons)
  moreover have d: "digit_count n \<le> 28" using assms(2) digit_count_bound [of n 27] by simp
  moreover from this have "decimal_valid ?d" using assms(4) by (simp add: decimal_valid_def)
  moreover have "decimal_times ?d 1 = Inl DecimalOverflow"
  proof -
    have "length (nat_digits 10 n) \<le> 28" using d by (simp add: digit_count_def)
    then show ?thesis
      using assms digit_count_pos [of n] by (simp add: decimal_times_def Let_def)
  qed
  ultimately show ?thesis
    by (simp add: parse_byte_value_def lower_def byte_multiplier_Nil scaled_bytes_def)
qed

theorem parse_byte_value_overflow_witness:
  "parse_byte_value (str_nat 1 @ u ''e'' @ str_nat 1000000) [] = Inl DecimalOverflow"
  by (rule parse_byte_value_overflow) simp_all

section \<open>Tokens\<close>

lemma is_token_char_alnum: "is_ascii_alnum c \<Longrightarrow> is_token_char c"
  by (simp add: is_token_char_def)

lemma token_char_not_space: "is_token_char c \<Longrightarrow> \<not> is_space c"
  by (auto simp: is_token_char_def is_ascii_alnum_def u_Cons is_space_def space_points_def)

lemma space_32 [simp]: "is_space 32"
  by (simp add: is_space_def space_points_def)

lemma map_token_id: "list_all is_token_char s \<Longrightarrow> map (\<lambda>c. if is_token_char c then c else 32) s = s"
  by (induction s) auto

lemma tokenize_word: "s \<noteq> [] \<Longrightarrow> list_all is_token_char s \<Longrightarrow> tokenize s = [s]"
  unfolding tokenize_def split_ws_def
  by (subst map_token_id) (auto intro!: words_by_word simp: list_all_iff token_char_not_space)

lemma tokenize_sep:
  "s \<noteq> [] \<Longrightarrow> list_all is_token_char s \<Longrightarrow> \<not> is_token_char c \<Longrightarrow>
    tokenize (s @ c # rest) = s # tokenize rest"
  unfolding tokenize_def split_ws_def
  by (simp add: map_token_id words_by_sep list_all_iff token_char_not_space)

text \<open>
  Every token is non-empty and consists of ASCII letters, digits, dots, underscores and
  hyphens only, whatever the input; so what the number parsers see is bounded ASCII.
\<close>

theorem tokenize_tokens:
  "list_all (\<lambda>t. t \<noteq> [] \<and> list_all is_token_char t) (tokenize value)"
  unfolding list_all_iff
proof (intro ballI conjI)
  fix t
  assume "t \<in> set (tokenize value)"
  then have w: "t \<noteq> [] \<and>
      list_all (\<lambda>c. \<not> is_space c \<and> c \<in> set (map (\<lambda>c. if is_token_char c then c else 32) value)) t"
    unfolding tokenize_def split_ws_def by (rule words_by_words)
  then show "t \<noteq> []" by simp
  fix c
  assume "c \<in> set t"
  with w have "\<not> is_space c" "c \<in> set (map (\<lambda>c. if is_token_char c then c else 32) value)"
    unfolding list_all_iff by blast+
  then show "is_token_char c" by auto
qed

section \<open>Memory usage\<close>

definition usage_ok :: "memory_usage \<Rightarrow> bool" where
  "usage_ok usage \<longleftrightarrow>
     (\<forall>n. usage_used_bytes usage = Some n \<longrightarrow> 0 \<le> n \<and> n \<le> uint64_max) \<and>
     (\<forall>n. usage_total_bytes usage = Some n \<longrightarrow> 0 \<le> n \<and> n \<le> uint64_max)"

definition usage_acc_ok :: "usage_acc \<Rightarrow> bool" where
  "usage_acc_ok acc \<longleftrightarrow> usage_ok (fst acc) \<and> list_all (\<lambda>n. 0 \<le> n \<and> n \<le> uint64_max) (snd acc)"

lemma parse_byte_value_bounds:
  "parse_byte_value t nxt = Inr (Some n) \<Longrightarrow> 0 \<le> n"
  "parse_byte_value t nxt = Inr (Some n) \<Longrightarrow> n \<le> uint64_max"
  by (simp_all add: parse_byte_value_range)

lemma usage_step_ok:
  "usage_acc_ok acc \<Longrightarrow> usage_step t f v acc = Inr acc' \<Longrightarrow> usage_acc_ok acc'"
  by (auto simp: usage_step_def usage_acc_ok_def usage_ok_def Let_def bind_outcome_Inr
      parse_byte_value_bounds split: prod.splits if_splits option.splits)

lemma usage_tokens_ok:
  "usage_acc_ok acc \<Longrightarrow> usage_tokens ts acc = Inr acc' \<Longrightarrow> usage_acc_ok acc'"
  by (induction ts arbitrary: acc) (auto simp: bind_outcome_Inr dest: usage_step_ok)

lemma usage_lines_ok:
  "usage_acc_ok acc \<Longrightarrow> usage_lines ls acc = Inr acc' \<Longrightarrow> usage_acc_ok acc'"
  by (induction ls arbitrary: acc) (auto simp: bind_outcome_Inr dest: usage_tokens_ok)

lemma parse_memory_usage_ok:
  assumes "parse_memory_usage content = Inr usage"
  shows "usage_ok usage"
proof -
  from assms obtain acc where
    run: "usage_lines (splitlines content) (\<lparr>usage_used_bytes = None, usage_total_bytes = None\<rparr>, []) = Inr acc"
    and usage: "usage = usage_defaults acc"
    by (auto simp: parse_memory_usage_def bind_outcome_Inr)
  have "usage_acc_ok acc"
    by (rule usage_lines_ok [OF _ run]) (simp add: usage_acc_ok_def usage_ok_def)
  then show ?thesis
    unfolding usage usage_defaults_def
    by (auto simp: usage_acc_ok_def usage_ok_def Let_def list_all_length split: prod.splits)
qed

text \<open>
  Whatever the text of a memory-usage attribute, the two values that come out are unsigned
  64-bit quantities, in every combination of keyed and positional notation.
\<close>

theorem parse_memory_usage_range:
  assumes "parse_memory_usage content = Inr usage"
  shows "usage_ok usage"
  using assms by (rule parse_memory_usage_ok)

theorem parse_memory_usage_range_witness:
  "parse_memory_usage [] = Inr \<lparr>usage_used_bytes = None, usage_total_bytes = None\<rparr> \<and>
   usage_ok \<lparr>usage_used_bytes = None, usage_total_bytes = None\<rparr>"
proof -
  have h: "parse_memory_usage [] = Inr \<lparr>usage_used_bytes = None, usage_total_bytes = None\<rparr>"
    by (simp add: parse_memory_usage_def usage_defaults_def)
  from h parse_memory_usage_range [OF h] show ?thesis by simp
qed

lemma token_digits: "list_all is_token_char (str_nat n)"
  using str_nat_digits [of n]
  by (auto simp: list_all_iff is_token_char_def is_ascii_alnum_def)

lemma no_break_str_nat: "no_break (str_nat n)"
  using str_nat_digits [of n]
  by (auto simp: no_break_def list_all_iff is_line_break_def line_break_points_def)

lemma starts_with_points: "starts_with s p \<Longrightarrow> set p \<subseteq> set s"
  by (metis starts_with_def set_take_subset)

lemma contains_str_points: "contains_str sub s \<Longrightarrow> set sub \<subseteq> set s"
proof (induction s)
  case (Cons c s)
  then show ?case using starts_with_points [of "c # s" sub] by auto
qed simp

lemma usage_step_number:
  assumes "parse_byte_value (str_nat n) f = Inr (Some v)"
  shows "usage_step (str_nat n) f x (usage, unkeyed) = Inr (usage, unkeyed @ [v])"
proof -
  have digits: "list_all (\<lambda>c. c \<le> 57) (lower (str_nat n))"
    using str_nat_digits [of n] by (auto simp: list_all_iff lower_def lower_char_def)
  have no: "\<not> contains_str sub (lower (str_nat n))" if "\<exists>c \<in> set sub. 57 < c" for sub
    using that digits contains_str_points [of sub "lower (str_nat n)"] by (force simp: list_all_iff)
  have "lower (str_nat n) \<noteq> u ''size''" using digits by (auto simp: u_Cons)
  then show ?thesis
    using assms no [of "u ''used''"] no [of "u ''allocated''"] no [of "u ''total''"] no [of "u ''capacity''"]
    by (simp add: usage_step_def Let_def u_Cons)
qed

lemma usage_step_key:
  assumes "parse_byte_value f x = Inr (Some v)"
  shows "usage_step (u ''used'') f x (usage, unkeyed) = Inr (usage\<lparr>usage_used_bytes := Some v\<rparr>, unkeyed)"
    and "usage_step (u ''total'') f x (usage, unkeyed) = Inr (usage\<lparr>usage_total_bytes := Some v\<rparr>, unkeyed)"
  using assms
  by (simp_all add: usage_step_def Let_def u_Cons lower_def lower_char_def starts_with_def)

lemma number_prefix_B: "number_prefix (u ''B'') = None"
  by (simp add: number_prefix_def Let_def u_Cons is_decimal_def decimal_digit_ascii_other)

lemma usage_step_unit: "usage_step (u ''B'') f x (usage, unkeyed) = Inr (usage, unkeyed)"
  by (simp add: usage_step_def Let_def parse_byte_value_def number_prefix_B,
      simp add: u_Cons lower_def lower_char_def starts_with_def)

lemma tokenize_Nil [simp]: "tokenize [] = []"
  by (simp add: tokenize_def split_ws_def)

lemma tokenize_skip: "\<not> is_token_char c \<Longrightarrow> tokenize (c # s) = tokenize s"
  by (simp add: tokenize_def split_ws_def)

lemma token_punctuation: "\<not> is_token_char 32" "\<not> is_token_char 58"
  by (simp_all add: is_token_char_def is_ascii_alnum_def u_Cons)

lemma token_keys: "list_all is_token_char (u ''used'')" "list_all is_token_char (u ''total'')"
  "list_all is_token_char (u ''B'')"
  by (simp_all add: is_token_char_def is_ascii_alnum_def u_Cons)

lemma tokenize_keyed:
  "tokenize (u ''used'' @ 58 # 32 # str_nat n @ 32 # u ''B'') = [u ''used'', str_nat n, u ''B'']"
  "tokenize (u ''total'' @ 58 # 32 # str_nat n @ 32 # u ''B'') = [u ''total'', str_nat n, u ''B'']"
  by (simp_all add: tokenize_sep tokenize_word tokenize_skip token_punctuation token_keys token_digits)

lemma byte_value_unit:
  assumes "n < 10 ^ 15"
  shows "parse_byte_value (str_nat n) (u ''B'') = Inr (Some (int n))"
    and "parse_byte_value (str_nat n) [] = Inr (Some (int n))"
    and "parse_byte_value (str_nat n) (str_nat m) = Inr (Some (int n))"
proof -
  have b: "byte_multiplier (lower (u ''B'')) = Some 1"
    by (simp add: byte_multiplier_def byte_multipliers_def u_Cons lower_def lower_char_def)
  have small: "int n * 1 \<le> uint64_max" using assms by (simp add: uint64_max_def)
  show "parse_byte_value (str_nat n) (u ''B'') = Inr (Some (int n))"
    using parse_byte_value_exact [OF b assms] small by simp
  show nil: "parse_byte_value (str_nat n) [] = Inr (Some (int n))"
    using parse_byte_value_exact [of "[]" 1 n] byte_multiplier_Nil assms small by (simp add: lower_def)
  show "parse_byte_value (str_nat n) (str_nat m) = Inr (Some (int n))"
    using nil byte_multiplier_digits [of m] number_prefix_str_nat [of "[]" n]
    by (simp add: parse_byte_value_def scan_exponent_def lower_def byte_multiplier_Nil Let_def split: if_splits)
qed

lemma no_break_keyed:
  "no_break (u ''used'' @ 58 # 32 # str_nat n @ 32 # u ''B'')"
  "no_break (u ''total'' @ 58 # 32 # str_nat n @ 32 # u ''B'')"
  by (simp_all add: no_break_str_nat, simp_all add: u_Cons is_line_break_def line_break_points_def)

text \<open>
  A keyed report gives back the two amounts it states, in bytes.
\<close>

theorem parse_memory_usage_keyed:
  assumes "used < 10 ^ 15" and "capacity < 10 ^ 15"
  shows "parse_memory_usage
      (u ''used'' @ 58 # 32 # str_nat used @ 32 # u ''B'' @ 10 #
       u ''total'' @ 58 # 32 # str_nat capacity @ 32 # u ''B'' @ [10]) =
    Inr \<lparr>usage_used_bytes = Some (int used), usage_total_bytes = Some (int capacity)\<rparr>"
proof -
  let ?l1 = "u ''used'' @ 58 # 32 # str_nat used @ 32 # u ''B''"
  let ?l2 = "u ''total'' @ 58 # 32 # str_nat capacity @ 32 # u ''B''"
  have "splitlines (?l1 @ 10 # ?l2 @ 10 # []) = [?l1, ?l2]"
    by (simp only: splitlines_line no_break_keyed splitlines.simps)
  moreover note b = byte_value_unit [OF assms(1)] byte_value_unit [OF assms(2)]
  ultimately show ?thesis
    by (simp add: parse_memory_usage_def tokenize_keyed usage_step_key usage_step_number
        usage_step_unit usage_defaults_def)
qed

theorem parse_memory_usage_keyed_witness:
  "(5 :: nat) < 10 ^ 15 \<and> (8 :: nat) < 10 ^ 15 \<and>
   parse_memory_usage
      (u ''used'' @ 58 # 32 # str_nat 5 @ 32 # u ''B'' @ 10 #
       u ''total'' @ 58 # 32 # str_nat 8 @ 32 # u ''B'' @ [10]) =
    Inr \<lparr>usage_used_bytes = Some 5, usage_total_bytes = Some 8\<rparr>"
proof -
  have h: "(5 :: nat) < 10 ^ 15" "(8 :: nat) < 10 ^ 15" by simp_all
  show ?thesis using h parse_memory_usage_keyed [OF h] by simp
qed

text \<open>
  A report that states only the total also reports that total as used: the value token
  of a key is read a second time as a positional value, and the positional default for the
  used amount takes it.
\<close>

theorem parse_memory_usage_total_only:
  assumes "capacity < 10 ^ 15"
  shows "parse_memory_usage (u ''total'' @ 58 # 32 # str_nat capacity @ 32 # u ''B'' @ [10]) =
    Inr \<lparr>usage_used_bytes = Some (int capacity), usage_total_bytes = Some (int capacity)\<rparr>"
proof -
  let ?l = "u ''total'' @ 58 # 32 # str_nat capacity @ 32 # u ''B''"
  have "splitlines (?l @ 10 # []) = [?l]"
    by (simp only: splitlines_line no_break_keyed splitlines.simps)
  moreover note byte_value_unit [OF assms]
  ultimately show ?thesis
    by (simp add: parse_memory_usage_def tokenize_keyed usage_step_key usage_step_number
        usage_step_unit usage_defaults_def)
qed

theorem parse_memory_usage_total_only_witness:
  "(8 :: nat) < 10 ^ 15 \<and>
   parse_memory_usage (u ''total'' @ 58 # 32 # str_nat 8 @ 32 # u ''B'' @ [10]) =
    Inr \<lparr>usage_used_bytes = Some 8, usage_total_bytes = Some 8\<rparr>"
proof -
  have h: "(8 :: nat) < 10 ^ 15" by simp
  show ?thesis using h parse_memory_usage_total_only [OF h] by simp
qed

section \<open>PCI resources\<close>

definition resource_ok :: "pci_resource \<Rightarrow> bool" where
  "resource_ok r \<longleftrightarrow> 0 \<le> res_start r \<and> res_start r \<le> res_end r \<and> res_end r \<le> uint64_max \<and>
     0 \<le> res_flags r \<and> res_flags r \<le> uint64_max \<and>
     res_size_bytes r = res_end r - res_start r + 1 \<and>
     (res_start r \<noteq> 0 \<or> res_end r \<noteq> 0 \<or> res_flags r \<noteq> 0)"

lemma parse_pci_line_ok: "parse_pci_line i l = Some r \<Longrightarrow> resource_ok r \<and> res_index r = i"
  by (auto simp: parse_pci_line_def resource_ok_def parse_uint64_range
      dest: parse_uint64_range split: list.splits option.splits if_splits)

lemma pci_lines_indices:
  "sorted_wrt (<) (map res_index (List.map_filter (\<lambda>(i, l). parse_pci_line i l) (List.enumerate n ls))) \<and>
   list_all (\<lambda>r. n \<le> res_index r \<and> res_index r < n + length ls \<and> resource_ok r)
     (List.map_filter (\<lambda>(i, l). parse_pci_line i l) (List.enumerate n ls))"
proof (induction ls arbitrary: n)
  case Nil
  then show ?case by (simp add: map_filter_simps)
next
  case (Cons l ls)
  from Cons [of "Suc n"] show ?case
    by (auto simp: map_filter_simps list_all_iff parse_pci_line_ok Suc_le_eq split: option.splits)
qed

text \<open>
  Every region parsed from a resource file is a real one: its bounds are ordered unsigned
  64-bit values, its size is the number of bytes between them, it is not the all-zero entry of
  an unused slot, and its index is the number of its line, so indices strictly increase and stay
  below the number of lines.
\<close>

theorem parse_pci_resources_ok:
  "list_all (\<lambda>r. resource_ok r \<and> res_index r < length (splitlines content)) (parse_pci_resources content) \<and>
   sorted_wrt (<) (map res_index (parse_pci_resources content))"
  using pci_lines_indices [of 0 "splitlines content"]
  by (auto simp: parse_pci_resources_def list_all_iff)

text \<open>
  A line in the format the kernel writes, three hexadecimal numbers, gives back the region:
  it is kept exactly when the bounds are ordered and the numbers are not all zero.
\<close>

theorem parse_pci_line_kernel:
  assumes "lo < 2 ^ 64" "hi < 2 ^ 64" "flags < 2 ^ 64"
  shows "parse_pci_line index
      (hex_int (int lo) @ 32 # hex_int (int hi) @ 32 # hex_int (int flags)) =
    (if (lo = 0 \<and> hi = 0 \<and> flags = 0) \<or> hi < lo then None
     else Some \<lparr>res_index = index, res_start = int lo, res_end = int hi,
            res_flags = int flags, res_size_bytes = int hi - int lo + 1\<rparr>)"
proof -
  have ok: "hex_int (int n) \<noteq> [] \<and> list_all (\<lambda>c. \<not> is_space c) (hex_int (int n))" for n
  proof -
    have "\<not> is_space (digit_point d)" if "d < 16" for d
      using that by (auto simp: digit_point_def is_space_def space_points_def)
    then show ?thesis
      using nat_digits_less [of 16 n]
      by (auto simp: hex_int_def list_all_iff u_Cons is_space_def [of 48] is_space_def [of 120] space_points_def)
  qed
  then have "split_ws (hex_int (int lo) @ 32 # hex_int (int hi) @ 32 # hex_int (int flags)) =
      [hex_int (int lo), hex_int (int hi), hex_int (int flags)]"
    by (simp add: split_ws_def words_by_sep words_by_word)
  moreover have "parse_uint64 (hex_int (int n)) = Some (int n)" if "n < 2 ^ 64" for n
  using parse_uint64_hex [of n] that by (simp add: uint64_max_def)
  ultimately show ?thesis using assms by (auto simp: parse_pci_line_def)
qed

theorem parse_pci_line_kernel_witness:
  "(4096 :: nat) < 2 ^ 64 \<and> (8191 :: nat) < 2 ^ 64 \<and> (512 :: nat) < 2 ^ 64 \<and>
   parse_pci_line 2 (hex_int (int 4096) @ 32 # hex_int (int 8191) @ 32 # hex_int (int 512)) =
    Some \<lparr>res_index = 2, res_start = 4096, res_end = 8191, res_flags = 512, res_size_bytes = 4096\<rparr>"
proof -
  have h: "(4096 :: nat) < 2 ^ 64" "(8191 :: nat) < 2 ^ 64" "(512 :: nat) < 2 ^ 64" by simp_all
  show ?thesis using h parse_pci_line_kernel [OF h, of 2] by simp
qed

end
