(* ===== verification/SysfsIO.thy ===== *)
theory SysfsIO
  imports EnvironmentFacts QuantityFacts
begin

text \<open>
  The attribute readers of \<open>collection/sysfs_io.py\<close>. A reader takes a path and the source
  its diagnostics belong to, and returns the value or \<open>None\<close>. \<open>attribute_reader\<close> is
  the contract \<open>_read_first\<close> relies on; every reader of the module is shown to meet it.
\<close>

section \<open>Readers\<close>

definition maximum_sysfs_file_bytes :: nat where
  "maximum_sysfs_file_bytes = 64 * 1024"

definition os_error_issue :: "errno \<Rightarrow> collection_issue" where
  "os_error_issue e = (if permission_errno e then PERMISSION_DENIED else READ_FAILED)"

text \<open>A missing file is no issue; any other error is.\<close>

definition read_error :: "telemetry_source \<Rightarrow> errno \<Rightarrow> (world, 'a option) act" where
  "read_error src e = (if e = ENOENT then return_act None else reject src (os_error_issue e))"

definition accept_content :: "telemetry_source \<Rightarrow> nat \<Rightarrow> bytes \<Rightarrow> (world, pystr option) act" where
  "accept_content src maximum content =
     (if maximum < length content then reject src OVERSIZED_RECORD
      else then_act (note_file_read src)
        (case decode_utf8 content of
           None \<Rightarrow> reject src INVALID_VALUE
         | Some decoded \<Rightarrow>
             (if strip_ascii decoded = [] then reject src INVALID_VALUE
              else return_act (Some (strip_ascii decoded)))))"

definition read_text :: "os_env \<Rightarrow> path \<Rightarrow> telemetry_source \<Rightarrow> (world, pystr option) act" where
  "read_text env p src =
     bind_act (path_stat env p) (\<lambda>r. case r of
         Inl e \<Rightarrow> read_error src e
       | Inr status \<Rightarrow>
           if st_kind status \<noteq> RegularFile then reject src INVALID_VALUE
           else if int maximum_sysfs_file_bytes < st_size status then reject src OVERSIZED_RECORD
           else bind_act (path_read env p (Suc maximum_sysfs_file_bytes)) (\<lambda>c. case c of
               Inl e \<Rightarrow> read_error src e
             | Inr content \<Rightarrow> accept_content src maximum_sysfs_file_bytes content))"

fun read_first ::
    "(path \<Rightarrow> telemetry_source \<Rightarrow> (world, 'a option) act) \<Rightarrow> path \<Rightarrow> string list \<Rightarrow> telemetry_source \<Rightarrow>
     (world, 'a option) act" where
  "read_first reader root [] src = return_act None"
| "read_first reader root (name # names) src =
     bind_act (reader (path_join root (u name)) src) (\<lambda>value. case value of
         Some x \<Rightarrow> return_act (Some x)
       | None \<Rightarrow> read_first reader root names src)"

definition parse_attribute ::
    "os_env \<Rightarrow> (pystr \<Rightarrow> int option outcome) \<Rightarrow> path \<Rightarrow> telemetry_source \<Rightarrow> (world, int option) act" where
  "parse_attribute env parser p src =
     bind_act (read_text env p src) (\<lambda>value. case value of
         None \<Rightarrow> return_act None
       | Some v \<Rightarrow> bind_act (lift_act (parser v)) (\<lambda>parsed. case parsed of
             None \<Rightarrow> reject src INVALID_VALUE
           | Some n \<Rightarrow> return_act (Some n)))"

definition read_int :: "os_env \<Rightarrow> path \<Rightarrow> telemetry_source \<Rightarrow> (world, int option) act" where
  "read_int env = parse_attribute env parse_int64"

definition read_uint :: "os_env \<Rightarrow> path \<Rightarrow> telemetry_source \<Rightarrow> (world, int option) act" where
  "read_uint env = parse_attribute env (\<lambda>v. Inr (parse_uint64 v))"

definition read_boolish :: "os_env \<Rightarrow> path \<Rightarrow> telemetry_source \<Rightarrow> (world, int option) act" where
  "read_boolish env = parse_attribute env parse_boolish_int"

definition read_byte :: "os_env \<Rightarrow> path \<Rightarrow> telemetry_source \<Rightarrow> (world, int option) act" where
  "read_byte env p src =
     bind_act (read_text env p src) (\<lambda>value. case value of
         None \<Rightarrow> return_act None
       | Some v \<Rightarrow> (case tokenize v of
             [] \<Rightarrow> return_act None
           | token # rest \<Rightarrow>
               bind_act (lift_act (parse_byte_value token (case rest of [] \<Rightarrow> [] | t # _ \<Rightarrow> t)))
                 (\<lambda>parsed. case parsed of
                     None \<Rightarrow> reject src INVALID_VALUE
                   | Some n \<Rightarrow> return_act (Some n))))"

definition read_first_text :: "os_env \<Rightarrow> path \<Rightarrow> string list \<Rightarrow> telemetry_source \<Rightarrow> (world, pystr option) act" where
  "read_first_text env = read_first (read_text env)"

definition read_first_int :: "os_env \<Rightarrow> path \<Rightarrow> string list \<Rightarrow> telemetry_source \<Rightarrow> (world, int option) act" where
  "read_first_int env = read_first (read_int env)"

definition read_first_boolish :: "os_env \<Rightarrow> path \<Rightarrow> string list \<Rightarrow> telemetry_source \<Rightarrow> (world, int option) act" where
  "read_first_boolish env = read_first (read_boolish env)"

definition read_first_byte :: "os_env \<Rightarrow> path \<Rightarrow> string list \<Rightarrow> telemetry_source \<Rightarrow> (world, int option) act" where
  "read_first_byte env = read_first (read_byte env)"

section \<open>The calls of a sysfs reader\<close>

text \<open>No descriptor outlives the call, and no read is longer than the bound and one byte.\<close>

fun sysfs_call :: "os_call \<Rightarrow> bool" where
  "sysfs_call (CStat p) = True"
| "sysfs_call (COpenRead p n) = (n = Suc maximum_sysfs_file_bytes)"
| "sysfs_call (CScandir p) = True"
| "sysfs_call (CEntryIsDir p) = True"
| "sysfs_call (CIterdir p) = True"
| "sysfs_call (CReadlink p) = True"
| "sysfs_call _ = False"

lemma keeps_read_error [frame_rules]: "src \<in> S \<Longrightarrow> keeps (grows S C) (read_error src e)"
  unfolding read_error_def by (intro grows_rules keeps_reject)

lemma keeps_accept_content [frame_rules]: "src \<in> S \<Longrightarrow> keeps (grows S C) (accept_content src n c)"
  unfolding accept_content_def by (intro grows_rules frame_rules)

lemma keeps_read_text: "keeps (grows {src} sysfs_call) (read_text env p src)"
  unfolding read_text_def by (intro grows_rules frame_rules) simp_all

section \<open>The text a reader accepts\<close>

definition attribute_text :: "nat \<Rightarrow> pystr \<Rightarrow> bool" where
  "attribute_text maximum s \<longleftrightarrow> s \<noteq> [] \<and> length s \<le> maximum \<and>
     \<not> is_c_space (hd s) \<and> \<not> is_c_space (last s) \<and> list_all is_scalar s"

lemma returns_reject [returns_rules]: "P None \<Longrightarrow> returns (reject src i) P"
  unfolding reject_def by (intro returns_rules)

lemma decoded_text:
  assumes "decode_utf8 content = Some s" "length content \<le> n" "strip_ascii s \<noteq> []"
  shows "attribute_text n (strip_ascii s)"
proof -
  have "list_all is_scalar s" using assms(1) decode_points_Some unfolding decode_utf8_def by blast
  then have "list_all is_scalar (strip_ascii s)"
    using set_strip_by [of is_c_space s] by (auto simp: strip_ascii_def list_all_iff)
  moreover have "length (strip_ascii s) \<le> n"
    using length_strip_by [of is_c_space s] decode_utf8_length [OF assms(1)] assms(2)
    by (simp add: strip_ascii_def)
  ultimately show ?thesis
    using assms(3) strip_by_hd [of is_c_space s] strip_by_last [of is_c_space s]
    by (simp add: attribute_text_def strip_ascii_def)
qed

lemma returns_accept_content:
  "returns (accept_content src n content) (\<lambda>v. \<forall>x. v = Some x \<longrightarrow> attribute_text n x)"
  unfolding accept_content_def
  by (auto intro!: returns_rules decoded_text split: option.splits)

lemma returns_read_error: "returns (read_error src e) (\<lambda>v. \<forall>x. v = Some x \<longrightarrow> P x)"
  unfolding read_error_def by (auto intro!: returns_rules)

lemma returns_read_text:
  "returns (read_text env p src) (\<lambda>v. \<forall>x. v = Some x \<longrightarrow> attribute_text maximum_sysfs_file_bytes x)"
  unfolding read_text_def
  by (auto intro!: returns_rules returns_read_error returns_accept_content split: sum.splits)

section \<open>The contract of a reader\<close>

locale attribute_reader =
  fixes reader :: "path \<Rightarrow> telemetry_source \<Rightarrow> (world, 'a option) act"
    and ok :: "'a \<Rightarrow> bool"
  assumes reader_frame: "keeps (grows {src} sysfs_call) (reader p src)"
    and reader_value: "returns (reader p src) (\<lambda>v. \<forall>x. v = Some x \<longrightarrow> ok x)"
begin

lemma first_frame: "keeps (grows {src} sysfs_call) (read_first reader root names src)"
  by (induction names) (auto intro!: grows_rules reader_frame)

lemma first_value: "returns (read_first reader root names src) (\<lambda>v. \<forall>x. v = Some x \<longrightarrow> ok x)"
proof (induction names)
  case (Cons name names)
  show ?case
    unfolding read_first.simps
    by (rule returns_bind_strong [OF reader_value])
      (auto intro!: returns_rules Cons split: option.splits)
qed (simp add: returns_return)

text \<open>The names are tried in order: once one has a value, the rest is not read.\<close>

lemma first_append_miss:
  assumes "read_first reader root names src w = (Inr None, v)"
  shows "read_first reader root (names @ others) src w = read_first reader root others src v"
  using assms
proof (induction names arbitrary: w)
  case (Cons name names)
  then show ?case
    by (auto simp: bind_act_def return_act_def split: prod.splits sum.splits option.splits)
qed (simp add: return_act_def)

lemma first_append_hit:
  assumes "read_first reader root names src w = (Inr (Some x), v)"
  shows "read_first reader root (names @ others) src w = (Inr (Some x), v)"
  using assms
proof (induction names arbitrary: w)
  case (Cons name names)
  then show ?case
    by (auto simp: bind_act_def return_act_def split: prod.splits sum.splits option.splits)
qed (simp add: return_act_def)

end

text \<open>A parser with a range gives a reader with that range.\<close>

locale ranged_parser =
  fixes parser :: "pystr \<Rightarrow> int option outcome"
    and lower_bound upper_bound :: int
  assumes parser_range: "parser v = Inr (Some n) \<Longrightarrow> lower_bound \<le> n \<and> n \<le> upper_bound"
begin

lemma parsed_frame: "keeps (grows {src} sysfs_call) (parse_attribute env parser p src)"
  unfolding parse_attribute_def by (intro grows_rules frame_rules keeps_read_text) simp

lemma parsed_value: "returns (parse_attribute env parser p src)
    (\<lambda>v. \<forall>n. v = Some n \<longrightarrow> lower_bound \<le> n \<and> n \<le> upper_bound)"
  unfolding parse_attribute_def
proof (rule returns_bind, split option.split, intro conjI allI impI)
  show "returns (return_act None) (\<lambda>v. \<forall>n. v = Some n \<longrightarrow> lower_bound \<le> n \<and> n \<le> upper_bound)"
    by (rule returns_return) simp
  fix v
  show "returns (bind_act (lift_act (parser v))
      (\<lambda>parsed. case parsed of None \<Rightarrow> reject src INVALID_VALUE | Some n \<Rightarrow> return_act (Some n)))
      (\<lambda>v. \<forall>n. v = Some n \<longrightarrow> lower_bound \<le> n \<and> n \<le> upper_bound)"
    by (rule returns_bind_strong [where Q = "\<lambda>q. parser v = Inr q"])
      (auto intro!: returns_lift returns_rules simp: parser_range split: option.splits)
qed

sublocale parsed: attribute_reader "parse_attribute env parser" "\<lambda>n. lower_bound \<le> n \<and> n \<le> upper_bound"
  for env
  by unfold_locales (rule parsed_frame parsed_value)+

end

interpretation text_reader: attribute_reader "read_text env" "attribute_text maximum_sysfs_file_bytes"
  for env
  by unfold_locales (rule keeps_read_text returns_read_text)+

interpretation int_parser: ranged_parser parse_int64 int64_min int64_max
  by unfold_locales (rule parse_int64_range)

interpretation uint_parser: ranged_parser "\<lambda>v. Inr (parse_uint64 v)" 0 uint64_max
  by unfold_locales (simp add: parse_uint64_range)

lemma parse_boolish_int_range: "parse_boolish_int v = Inr (Some n) \<Longrightarrow> int64_min \<le> n \<and> n \<le> int64_max"
  using parse_int64_range [of "lower (strip_ws v)" n]
  by (auto simp: parse_boolish_int_def Let_def int64_min_def int64_max_def split: if_splits)

interpretation boolish_parser: ranged_parser parse_boolish_int int64_min int64_max
  by unfold_locales (rule parse_boolish_int_range)

lemma keeps_read_byte: "keeps (grows {src} sysfs_call) (read_byte env p src)"
  unfolding read_byte_def
  by (intro grows_rules keeps_read_text allI impI conjI, split list.split)
    (auto intro!: grows_rules frame_rules)

lemma returns_read_byte: "returns (read_byte env p src) (\<lambda>v. \<forall>n. v = Some n \<longrightarrow> 0 \<le> n \<and> n \<le> uint64_max)"
proof -
  have "returns (bind_act (lift_act (parse_byte_value t f))
      (\<lambda>parsed. case parsed of None \<Rightarrow> reject src INVALID_VALUE | Some n \<Rightarrow> return_act (Some n)))
      (\<lambda>v. \<forall>n. v = Some n \<longrightarrow> 0 \<le> n \<and> n \<le> uint64_max)" for t f
    by (rule returns_bind_strong [where Q = "\<lambda>q. parse_byte_value t f = Inr q"])
      (auto intro!: returns_lift returns_rules simp: parse_byte_value_bounds split: option.splits)
  then show ?thesis
    unfolding read_byte_def
    by (auto intro!: returns_bind returns_return split: option.splits list.splits)
qed

interpretation byte_reader: attribute_reader "read_byte env" "\<lambda>n. 0 \<le> n \<and> n \<le> uint64_max" for env
  by unfold_locales (rule keeps_read_byte returns_read_byte)+

lemmas sysfs_reader_frames =
  text_reader.first_frame [folded read_first_text_def]
  int_parser.parsed.first_frame [folded read_int_def, folded read_first_int_def]
  boolish_parser.parsed.first_frame [folded read_boolish_def, folded read_first_boolish_def]
  byte_reader.first_frame [folded read_first_byte_def]
  int_parser.parsed_frame [folded read_int_def]
  uint_parser.parsed_frame [folded read_uint_def]
  keeps_read_text

section \<open>Accounting\<close>

definition issue_total :: "source_diagnostics \<Rightarrow> nat" where
  "issue_total d = sum_list (map (diag_issues d) all_issues)"

lemma issue_total_bump [simp]: "issue_total (bump_issue i d) = Suc (issue_total d)"
  by (cases i) (simp_all add: issue_total_def bump_issue_def all_issues_eq)

lemma issue_total_files [simp]: "issue_total (diag_files_read_update f d) = issue_total d"
  by (simp add: issue_total_def)

lemma bump_issue_counters [simp]:
  "diag_files_read (bump_issue i d) = diag_files_read d"
  "diag_records_accepted (bump_issue i d) = diag_records_accepted d"
  "diag_issues (bump_issue i d) = (diag_issues d)(i := Suc (diag_issues d i))"
  by (simp_all add: bump_issue_def)

lemma run_reject: "reject src i w = (Inr None, w\<lparr>w_sources := (w_sources w)(src := bump_issue i (w_sources w src))\<rparr>)"
  by (simp add: reject_def note_issue_def update_source_def act_defs)

text \<open>The two answers a missing file can give, at the first call or after it.\<close>

definition file_missing :: "os_env \<Rightarrow> path \<Rightarrow> history \<Rightarrow> bool" where
  "file_missing env p h \<longleftrightarrow> env_stat env h p = Inl ENOENT \<or>
     (\<exists>st. env_stat env h p = Inr st \<and> st_kind st = RegularFile \<and> st_size st \<le> 65536 \<and>
       env_content env (h @ [CStat p]) p = Inl ENOENT)"

text \<open>The value or exactly one more issue, or neither when the file is missing.\<close>

definition accounted ::
    "telemetry_source \<Rightarrow> bool \<Rightarrow> world \<Rightarrow> pystr option outcome \<times> world \<Rightarrow> bool" where
  "accounted src missing w run = (case run of
       (Inl e, v) \<Rightarrow> False
     | (Inr r, v) \<Rightarrow> issue_total (w_sources v src) =
         issue_total (w_sources w src) + (if r \<noteq> None \<or> missing then 0 else 1))"

lemma run_note_file_read: "note_file_read src w = (Inr (), w\<lparr>w_sources :=
    (w_sources w)(src := (w_sources w src)\<lparr>diag_files_read := Suc (diag_files_read (w_sources w src))\<rparr>)\<rparr>)"
  by (simp add: note_file_read_def update_source_def act_defs)

lemma accounted_trace [simp]: "accounted src m (w\<lparr>w_trace := t\<rparr>) run = accounted src m w run"
  by (simp add: accounted_def split: prod.splits sum.splits)

lemma accounted_reject: "accounted src False w (reject src i w)"
  by (simp add: accounted_def run_reject)

lemma accounted_error: "accounted src (e = ENOENT) w (read_error src e w)"
  by (simp add: accounted_def read_error_def run_reject return_act_def)

lemma accounted_content: "accounted src False w (accept_content src n content w)"
proof (cases "n < length content")
  case True
  then show ?thesis using accounted_reject by (simp add: accept_content_def)
next
  case False
  let ?v = "snd (note_file_read src w)"
  have v: "accounted src False w x = accounted src False ?v x" for x
    by (simp add: accounted_def run_note_file_read split: prod.splits sum.splits)
  have "accept_content src n content w = (case decode_utf8 content of
      None \<Rightarrow> reject src INVALID_VALUE
    | Some s \<Rightarrow> if strip_ascii s = [] then reject src INVALID_VALUE
               else return_act (Some (strip_ascii s))) ?v"
    using False by (simp add: accept_content_def then_act_def bind_act_def run_note_file_read)
  then show ?thesis
    unfolding v using accounted_reject [of src ?v]
    by (auto simp: accounted_def [of _ _ _ "(_, _)"] return_act_def split: option.splits)
qed

text \<open>
  Reading an attribute never raises, and every outcome is accounted for: a value that is
  returned adds no issue, and a value that is not adds exactly one issue to the source, except
  when the file is missing, which adds none. No value is lost silently.
\<close>

theorem read_text_accounting:
  "accounted src (file_missing env p (w_trace w)) w (read_text env p src w)"
proof (cases "env_stat env (w_trace w) p")
  case (Inl e)
  let ?v = "w\<lparr>w_trace := w_trace w @ [CStat p]\<rparr>"
  have "read_text env p src w = read_error src e ?v"
    using Inl by (simp add: read_text_def bind_act_def path_stat_def call_os_def)
  moreover have "file_missing env p (w_trace w) = (e = ENOENT)"
    using Inl by (simp add: file_missing_def)
  ultimately show ?thesis using accounted_error [of src e ?v] by simp
next
  case (Inr st)
  let ?v = "w\<lparr>w_trace := w_trace w @ [CStat p]\<rparr>"
  let ?x = "w\<lparr>w_trace := w_trace w @ [CStat p, COpenRead p 65537]\<rparr>"
  show ?thesis
  proof (cases "st_kind st = RegularFile \<and> st_size st \<le> 65536")
    case False
    then have "\<exists>i. read_text env p src w = reject src i ?v"
      using Inr by (auto simp: read_text_def bind_act_def path_stat_def call_os_def
          maximum_sysfs_file_bytes_def)
    moreover have "\<not> file_missing env p (w_trace w)"
      using False Inr by (auto simp: file_missing_def)
    ultimately show ?thesis using accounted_reject [of src ?v] by auto
  next
    case True
    have "read_text env p src w =
        (case env_content env (w_trace w @ [CStat p]) p of
           Inl e \<Rightarrow> read_error src e ?x
         | Inr content \<Rightarrow> accept_content src 65536 (take 65537 content) ?x)"
      using True Inr by (simp add: read_text_def bind_act_def path_stat_def path_read_def call_os_def
          maximum_sysfs_file_bytes_def split: sum.splits)
    moreover have "file_missing env p (w_trace w) \<longleftrightarrow>
        env_content env (w_trace w @ [CStat p]) p = Inl ENOENT"
      using True Inr by (simp add: file_missing_def)
    ultimately show ?thesis
      using accounted_error [of src _ ?x] accounted_content [of src ?x]
      by (cases "env_content env (w_trace w @ [CStat p]) p") simp_all
  qed
qed

text \<open>
  A value that is returned is text of at most 65536 characters without blanks at its ends,
  and the reader opens nothing that stays open, reads at most 65537 bytes, and touches the
  diagnostics of its own source only, whatever the files contain.
\<close>

theorem read_text_safe:
  "grows {src} sysfs_call w (snd (read_text env p src w)) \<and>
   (\<forall>v. fst (read_text env p src w) = Inr (Some v) \<longrightarrow> attribute_text maximum_sysfs_file_bytes v)"
  using keeps_read_text [of src env p] returns_read_text [of env p src]
  unfolding keeps_def returns_def by (metis prod.collapse)

theorem read_text_safe_witness:
  "let env = denied_env\<lparr>
         env_stat := (\<lambda>h p. Inr \<lparr>st_kind = RegularFile, st_size = 4096, st_nlink = 1\<rparr>),
         env_content := (\<lambda>h p. Inr ''42 '')\<rparr>
   in fst (read_text env (u ''/x'') SYSFS_ROOT initial_world) = Inr (Some (u ''42'')) \<and>
      attribute_text maximum_sysfs_file_bytes (u ''42'')"
proof -
  let ?env = "denied_env\<lparr>
         env_stat := (\<lambda>h p. Inr \<lparr>st_kind = RegularFile, st_size = 4096, st_nlink = 1\<rparr>),
         env_content := (\<lambda>h p. Inr ''42 '')\<rparr>"
  have run: "fst (read_text ?env (u ''/x'') SYSFS_ROOT initial_world) = Inr (Some (u ''42''))"
    by (simp add: read_text_def bind_act_def path_stat_def path_read_def call_os_def
        maximum_sysfs_file_bytes_def accept_content_def then_act_def note_file_read_def
        update_source_def modify_act_def return_act_def decode_utf8_def strip_ascii_def
        strip_by_def is_c_space_def u_Cons)
  show ?thesis
    using run read_text_safe [of SYSFS_ROOT initial_world ?env "u ''/x''"] by (simp add: Let_def)
qed

text \<open>
  Alternative attribute names are tried strictly in order: when none of the first group
  has a value the search goes on with the rest, and once one has a value the rest is not read.
\<close>

theorem read_first_text_order:
  "read_first_text env root (names @ others) src w =
    (case read_first_text env root names src w of
       (Inr None, v) \<Rightarrow> read_first_text env root others src v
     | hit \<Rightarrow> hit)"
proof -
  obtain r v where run: "read_first_text env root names src w = (r, v)"
    by (cases "read_first_text env root names src w")
  show ?thesis
  proof (cases r)
    case (Inl e)
    have "read_first (read_text env) root (names @ others) src w = (Inl e, v)"
      using run Inl unfolding read_first_text_def
    proof (induction names arbitrary: w)
      case (Cons name names)
      then show ?case
        by (auto simp: bind_act_def return_act_def split: prod.splits sum.splits option.splits)
    qed (simp add: return_act_def)
    then show ?thesis using run Inl by (simp add: read_first_text_def)
  next
    case (Inr x)
    then show ?thesis
      using run text_reader.first_append_miss [of env root names src w v others]
        text_reader.first_append_hit [of env root names src w _ v others]
      by (auto simp: read_first_text_def split: option.splits)
  qed
qed

end
