(* ===== verification/SecureIO.thy ===== *)
theory SecureIO
  imports SysfsIO
begin

text \<open>
  Descriptor-relative access of \<open>collection/secure_io.py\<close>. A \<open>SecureDirectory\<close> is the
  descriptor it owns; \<open>secure_close\<close> is its \<open>close\<close>, which forgets the descriptor so
  that a second call does nothing. \<open>secure_call\<close> is what every call on untrusted state
  satisfies: one path component at a time, never through a symbolic link, never blocking on a
  FIFO, with bounded reads.
\<close>

section \<open>Operations\<close>

definition valid_component :: "pystr \<Rightarrow> nat \<Rightarrow> bool" where
  "valid_component s maximum_bytes \<longleftrightarrow>
     list_all (\<lambda>c. c < 128) s \<and> s \<noteq> [] \<and> length s \<le> maximum_bytes \<and>
     s \<noteq> u ''.'' \<and> s \<noteq> u ''..'' \<and> cp CHR ''/'' \<notin> set s \<and> 0 \<notin> set s \<and>
     list_all (\<lambda>b. 33 \<le> b \<and> b \<le> 126) s"

definition directory_flags :: "open_flag list" where
  "directory_flags = [O_RDONLY, O_CLOEXEC, O_DIRECTORY, O_NOFOLLOW]"

definition file_flags :: "open_flag list" where
  "file_flags = [O_RDONLY, O_CLOEXEC, O_NOFOLLOW, O_NONBLOCK]"

definition open_root :: "os_env \<Rightarrow> path \<Rightarrow> telemetry_source \<Rightarrow> (world, nat option) act" where
  "open_root env p src =
     bind_act (os_open env p directory_flags) (\<lambda>r. case r of
         Inl e \<Rightarrow>
           then_act
             (note_issue src
               (if e \<in> {ENOENT, ENOTDIR} then MISSING_ROOT else os_error_issue e))
             (then_act (set_accessible src False) (return_act None))
       | Inr fd \<Rightarrow> then_act (set_accessible src True) (return_act (Some fd)))"

definition secure_close :: "int \<Rightarrow> world \<Rightarrow> int \<times> world" where
  "secure_close d w = (if 0 \<le> d then (- 1, os_close (nat d) w) else (d, w))"

text \<open>\<open>with directory: ...\<close>\<close>

definition with_directory :: "nat \<Rightarrow> (world, 'a) act \<Rightarrow> (world, 'a) act" where
  "with_directory fd m = finally_act m (\<lambda>w. snd (secure_close (int fd) w))"

definition open_directory :: "os_env \<Rightarrow> nat \<Rightarrow> pystr \<Rightarrow> telemetry_source \<Rightarrow> (world, nat option) act" where
  "open_directory env fd component src =
     (if \<not> valid_component component 128 then reject src INVALID_VALUE
      else bind_act (os_openat env fd component directory_flags) (\<lambda>r. case r of
          Inl e \<Rightarrow> read_error src e
        | Inr d \<Rightarrow> return_act (Some d)))"

text \<open>The read is repeated while it is interrupted; \<open>n\<close> counts the interruptions to come.\<close>

fun read_loop :: "os_env \<Rightarrow> nat \<Rightarrow> nat \<Rightarrow> nat \<Rightarrow> (world, errno + bytes) act" where
  "read_loop env fd limit 0 = os_read env fd limit"
| "read_loop env fd limit (Suc n) = then_act (os_read env fd limit) (read_loop env fd limit n)"

definition interruptions :: "os_env \<Rightarrow> nat \<Rightarrow> (world, nat) act" where
  "interruptions env fd = get_act (\<lambda>w. case map_of (w_descriptors w) fd of
       None \<Rightarrow> 0
     | Some n \<Rightarrow> env_interrupts env (w_trace w) n)"

definition read_descriptor :: "os_env \<Rightarrow> nat \<Rightarrow> nat \<Rightarrow> telemetry_source \<Rightarrow> (world, bytes option) act" where
  "read_descriptor env fd maximum src =
     bind_act (os_fstat env fd) (\<lambda>r. case r of
         Inl e \<Rightarrow> reject src (os_error_issue e)
       | Inr status \<Rightarrow>
           if st_kind status \<noteq> RegularFile \<or> st_nlink status \<noteq> 1 then reject src INVALID_VALUE
           else if st_size status < 0 \<or> int maximum < st_size status then reject src OVERSIZED_RECORD
           else bind_act (interruptions env fd) (\<lambda>n.
                bind_act (read_loop env fd (Suc maximum) n) (\<lambda>c. case c of
                    Inl e \<Rightarrow> reject src (os_error_issue e)
                  | Inr content \<Rightarrow> return_act (Some content))))"

definition secure_read_text ::
    "os_env \<Rightarrow> nat \<Rightarrow> pystr \<Rightarrow> nat \<Rightarrow> telemetry_source \<Rightarrow> (world, pystr option) act" where
  "secure_read_text env fd name maximum src =
     (if \<not> valid_component name 255 then reject src INVALID_VALUE
      else bind_act (os_openat env fd name file_flags) (\<lambda>r. case r of
          Inl e \<Rightarrow> read_error src e
        | Inr d \<Rightarrow>
            bind_act (finally_act (read_descriptor env d maximum src) (os_close d)) (\<lambda>c. case c of
                None \<Rightarrow> return_act None
              | Some content \<Rightarrow> accept_content src maximum content)))"

definition dir_entries :: "os_env \<Rightarrow> nat \<Rightarrow> nat \<Rightarrow> telemetry_source \<Rightarrow> (world, pystr list) act" where
  "dir_entries env fd maximum src =
     bind_act (os_listdir env fd) (\<lambda>r. case r of
         Inl e \<Rightarrow> then_act (note_issue src (os_error_issue e)) (return_act [])
       | Inr names \<Rightarrow>
           if maximum < length names
           then then_act (note_issue src CARDINALITY_LIMIT) (return_act (take maximum names))
           else return_act names)"

section \<open>Calls on untrusted state\<close>

definition single_component :: "pystr \<Rightarrow> bool" where
  "single_component s \<longleftrightarrow> split_on (cp CHR ''/'') s = [s] \<and> s \<notin> {[], u ''.'', u ''..''} \<and>
     0 \<notin> set s \<and> length s \<le> 255"

fun secure_call :: "os_call \<Rightarrow> bool" where
  "secure_call (COpen p flags) = ({O_RDONLY, O_CLOEXEC, O_DIRECTORY, O_NOFOLLOW} \<subseteq> set flags)"
| "secure_call (COpenAt n name flags) =
     (single_component name \<and> {O_RDONLY, O_CLOEXEC, O_NOFOLLOW} \<subseteq> set flags \<and>
      (O_DIRECTORY \<in> set flags \<or> O_NONBLOCK \<in> set flags))"
| "secure_call (CFstat n) = True"
| "secure_call (CRead n k) = (k \<le> 16385)"
| "secure_call (CListdir n) = True"
| "secure_call (CClose fd) = True"
| "secure_call CTime = True"
| "secure_call _ = False"

lemma split_on_single: "c \<notin> set s \<Longrightarrow> split_on c s = [s]"
  by (induction s) auto

lemma valid_component_single: "valid_component s n \<Longrightarrow> n \<le> 255 \<Longrightarrow> single_component s"
  by (auto simp: valid_component_def single_component_def split_on_single)

lemma valid_component_mono: "valid_component s n \<Longrightarrow> n \<le> m \<Longrightarrow> valid_component s m"
  by (auto simp: valid_component_def)

lemma secure_close_idem: "fst (secure_close d w) < 0 \<and>
    secure_close (fst (secure_close d w)) v = (fst (secure_close d w), v)"
  by (simp add: secure_close_def)

lemma with_directory_eq: "with_directory = with_descriptor"
  by (intro ext) (simp add: with_directory_def with_descriptor_def secure_close_def)

lemma opens_open_directory:
  assumes "src \<in> S" "\<And>c. secure_call c \<Longrightarrow> C c"
  shows "opens S C id (open_directory env fd component src)"
proof (cases "valid_component component 128")
  case True
  have "single_component component" using True by (rule valid_component_single) simp
  then have "C (COpenAt n component directory_flags)" for n
    using assms(2) by (simp add: directory_flags_def)
  then have "opens S C id (bind_act (os_openat env fd component directory_flags)
      (\<lambda>r. case r of Inl e \<Rightarrow> read_error src e | Inr d \<Rightarrow> return_act (Some d)))"
  proof (intro opens_bind [OF opens_os_openat])
    fix r
    assume "picked_answer r = None"
    then obtain e where "r = Inl e" by (cases r) auto
    then show "opens S C id (case r of Inl e \<Rightarrow> read_error src e | Inr d \<Rightarrow> return_act (Some d))"
      using assms(1) by (auto intro!: opens_keeps frame_rules returns_weaken [OF returns_read_error [where P = "\<lambda>_. False"]])
  qed (auto split: sum.splits)
  then show ?thesis using True by (simp add: open_directory_def)
next
  case False
  then show ?thesis
    using assms(1)
    by (auto simp: open_directory_def intro!: opens_keeps frame_rules returns_reject)
qed

lemma opens_open_root:
  assumes "src \<in> S" "\<And>c. secure_call c \<Longrightarrow> C c" and other: "src \<noteq> SYSFS_ROOT"
  shows "opens S C id (open_root env p src)"
  unfolding opens_def
proof
  fix w :: world
  have c: "C (COpen p directory_flags)" using assms(2) by (simp add: directory_flags_def)
  let ?t = "w\<lparr>w_trace := w_trace w @ [COpen p directory_flags]\<rparr>"
  have call: "grows S C w ?t" using c by (simp add: grows_def grows_log_def)
  show "opened_or S C w (picked id (fst (open_root env p src w))) (snd (open_root env p src w))"
  proof (cases "env_open env (w_trace w) p directory_flags")
    case (Inl e)
    let ?k = "then_act (note_issue src (if e \<in> {ENOENT, ENOTDIR} then MISSING_ROOT else os_error_issue e))
             (then_act (set_accessible src False) (return_act None)) :: (world, nat option) act"
    have run: "open_root env p src w = ?k ?t"
      using Inl by (simp add: open_root_def os_open_def bind_act_def call_os_def opened_def)
    have "keeps (grows S C) ?k" using assms(1) other by (intro grows_rules frame_rules) simp_all
    then have "grows S C ?t (snd (?k ?t))" by (simp add: keeps_def)
    with call have g: "grows S C w (snd (?k ?t))" by (rule gr.trans_R)
    have "fst (?k ?t) = Inr None"
      by (simp add: run_simps note_issue_def set_accessible_def update_source_def)
    with g show ?thesis unfolding run by simp
  next
    case (Inr n)
    let ?d = "new_descriptor (w_descriptors w)"
    let ?o = "?t\<lparr>w_descriptors := (?d, n) # w_descriptors w\<rparr>"
    have run: "open_root env p src w = (Inr (Some ?d), snd (set_accessible src True ?o))"
      using Inr by (simp add: open_root_def os_open_def run_simps opened_def Let_def
          set_accessible_def update_source_def)
    have "keeps (grows S C) (set_accessible src True)" using assms(1) by (rule keeps_set_accessible) simp
    then have g: "grows S C ?o (snd (set_accessible src True ?o))" by (simp add: keeps_def)
    have "grows_log S C w ?o" using c by (simp add: grows_log_def)
    with g have "grows_log S C w (snd (set_accessible src True ?o))"
      by (auto simp: grows_def intro: grows_log_trans)
    with g show ?thesis
      unfolding run using new_descriptor_fresh by (auto simp: fresh_open_def grows_def)
  qed
qed

lemma keeps_read_loop: "(\<And>n. C (CRead n limit)) \<Longrightarrow> keeps (grows S C) (read_loop env fd limit k)"
  by (induction k) (auto intro!: grows_rules frame_rules)

lemma keeps_read_descriptor:
  "src \<in> S \<Longrightarrow> (\<And>n. C (CFstat n)) \<Longrightarrow> (\<And>n. C (CRead n (Suc k))) \<Longrightarrow>
    keeps (grows S C) (read_descriptor env fd k src)"
  unfolding read_descriptor_def interruptions_def
  by (intro grows_rules frame_rules keeps_read_loop)

lemma keeps_secure_read_text:
  assumes "src \<in> S" "\<And>c. secure_call c \<Longrightarrow> C c" "k \<le> 16384"
  shows "keeps (grows S C) (secure_read_text env fd name k src)"
proof (cases "valid_component name 255")
  case True
  have "single_component name" using True by (rule valid_component_single) simp
  then have "C (COpenAt n name file_flags)" for n
    using assms(2) by (simp add: file_flags_def)
  then have o: "opens S C picked_answer (os_openat env fd name file_flags)"
    by (rule opens_os_openat)
  have "keeps (grows S C) (bind_act (os_openat env fd name file_flags) (\<lambda>r. case r of
          Inl e \<Rightarrow> read_error src e
        | Inr d \<Rightarrow>
            bind_act (with_descriptor d (read_descriptor env d k src)) (\<lambda>c. case c of
                None \<Rightarrow> return_act None
              | Some content \<Rightarrow> accept_content src k content)))"
  proof (rule keeps_open_bind [OF o])
    show "keeps (grows S C) (case r of Inl e \<Rightarrow> read_error src e
        | Inr d \<Rightarrow> bind_act (with_descriptor d (read_descriptor env d k src)) (\<lambda>c. case c of
                None \<Rightarrow> return_act None | Some content \<Rightarrow> accept_content src k content))"
      if "picked_answer r = None" for r
      using that assms(1) by (cases r) (auto intro!: frame_rules)
    show "closes S C d (case r of Inl e \<Rightarrow> read_error src e
        | Inr d \<Rightarrow> bind_act (with_descriptor d (read_descriptor env d k src)) (\<lambda>c. case c of
                None \<Rightarrow> return_act None | Some content \<Rightarrow> accept_content src k content))"
      if "picked_answer r = Some d" for r d
      using that assms
      by (cases r) (auto intro!: closes_bind closes_with keeps_read_descriptor grows_rules frame_rules)
  qed
  then show ?thesis using True unfolding secure_read_text_def with_descriptor_def by simp
next
  case False
  then show ?thesis using assms(1) by (simp add: secure_read_text_def frame_rules)
qed

lemma keeps_dir_entries:
  "src \<in> S \<Longrightarrow> (\<And>c. secure_call c \<Longrightarrow> C c) \<Longrightarrow> keeps (grows S C) (dir_entries env fd k src)"
  unfolding dir_entries_def by (intro grows_rules frame_rules) simp_all

lemma returns_secure_read_text:
  "returns (secure_read_text env fd name k src) (\<lambda>v. \<forall>x. v = Some x \<longrightarrow> attribute_text k x)"
  unfolding secure_read_text_def
  by (auto intro!: returns_rules returns_read_error returns_accept_content split: sum.splits option.splits)

lemma returns_dir_entries: "returns (dir_entries env fd k src) (\<lambda>names. length names \<le> k)"
  unfolding dir_entries_def by (auto intro!: returns_rules split: sum.splits)

section \<open>Safety of a read\<close>


definition plain_file_env :: "bytes \<Rightarrow> os_env" where
  "plain_file_env content = denied_env\<lparr>
     env_openat := (\<lambda>h n c f. Inr 7),
     env_fstat := (\<lambda>h n. Inr \<lparr>st_kind = RegularFile, st_size = 3, st_nlink = 1\<rparr>),
     env_interrupts := (\<lambda>h n. 2),
     env_read := (\<lambda>h n. Inr content)\<rparr>"

lemma run_plain_file:
  "secure_read_text (plain_file_env ''ok '') 3 (u ''state'') 128 JANITOR_STATE
      (initial_world\<lparr>w_descriptors := [(3, 5)]\<rparr>) =
    (Inr (Some (u ''ok'')), initial_world\<lparr>w_descriptors := [(3, 5)],
       w_sources := empty_sources(JANITOR_STATE := (new_diagnostics JANITOR_STATE)\<lparr>diag_files_read := 1\<rparr>),
       w_trace := [COpenAt 5 (u ''state'') file_flags, CFstat 7, CRead 7 129, CRead 7 129, CRead 7 129,
         CClose 0]\<rparr>)"
  by (simp add: secure_read_text_def valid_component_def u_Cons os_openat_def descriptor_node_def
      opened_def new_descriptor_def read_descriptor_def os_fstat_def on_descriptor_def run_simps
      interruptions_def plain_file_env_def numeral_2_eq_2 os_read_def os_close_def accept_content_def
      note_file_read_def update_source_def decode_utf8_def strip_ascii_def strip_by_def is_c_space_def
      initial_world_def empty_sources_def new_diagnostics_def Let_def)


lemma run_fstat: "map_of (w_descriptors w) fd = Some n \<Longrightarrow>
    os_fstat env fd w = (Inr (env_fstat env (w_trace w) n), w\<lparr>w_trace := w_trace w @ [CFstat n]\<rparr>)"
  by (simp add: os_fstat_def on_descriptor_def descriptor_node_def run_simps)

lemma run_read: "map_of (w_descriptors w) fd = Some n \<Longrightarrow>
    os_read env fd limit w = (Inr (map_sum id (take limit) (env_read env (w_trace w) n)),
      w\<lparr>w_trace := w_trace w @ [CRead n limit]\<rparr>)"
  by (simp add: os_read_def on_descriptor_def descriptor_node_def run_simps)

lemma read_loop_run:
  assumes "map_of (w_descriptors w) fd = Some n"
  shows "\<exists>h. read_loop env fd limit k w =
    (Inr (map_sum id (take limit) (env_read env h n)), w\<lparr>w_trace := h @ [CRead n limit]\<rparr>)"
  using assms
proof (induction k arbitrary: w)
  case 0
  then show ?case using run_read [of w fd n env limit] unfolding read_loop.simps by blast
next
  case (Suc k)
  then have "map_of (w_descriptors (w\<lparr>w_trace := w_trace w @ [CRead n limit]\<rparr>)) fd = Some n" by simp
  from Suc.IH [OF this] show ?case
    using run_read [OF Suc.prems, of env limit] by (simp add: then_act_def bind_act_def)
qed

lemma read_descriptor_source:
  assumes "read_descriptor env fd k src w = (Inr (Some content), v)"
  shows "\<exists>n st h h' full. map_of (w_descriptors w) fd = Some n \<and> env_fstat env h n = Inr st \<and>
    st_kind st = RegularFile \<and> st_nlink st = 1 \<and> 0 \<le> st_size st \<and> st_size st \<le> int k \<and>
    env_read env h' n = Inr full \<and> content = take (Suc k) full"
proof (cases "map_of (w_descriptors w) fd")
  case None
  then show ?thesis
    using assms by (simp add: read_descriptor_def os_fstat_def on_descriptor_def descriptor_node_def
        run_simps run_reject)
next
  case (Some n)
  let ?w = "w\<lparr>w_trace := w_trace w @ [CFstat n]\<rparr>"
  from Some have m: "map_of (w_descriptors ?w) fd = Some n" by simp
  obtain st where st: "env_fstat env (w_trace w) n = Inr st"
    and ok: "st_kind st = RegularFile" "st_nlink st = 1" "0 \<le> st_size st" "st_size st \<le> int k"
    and run: "bind_act (read_loop env fd (Suc k) (env_interrupts env (w_trace w @ [CFstat n]) n))
      (\<lambda>c. case c of Inl e \<Rightarrow> reject src (os_error_issue e) | Inr content \<Rightarrow> return_act (Some content)) ?w
      = (Inr (Some content), v)"
  proof (cases "env_fstat env (w_trace w) n")
    case (Inl e)
    then show ?thesis
      using assms
      by (simp add: read_descriptor_def run_reject bind_run [of "os_fstat env fd", OF run_fstat [OF Some]])
  next
    case (Inr st)
    have i: "interruptions env fd ?w = (Inr (env_interrupts env (w_trace w @ [CFstat n]) n), ?w)"
      using Some by (simp add: interruptions_def get_act_def)
    show ?thesis
      using assms Inr that [of st]
      by (auto simp: read_descriptor_def run_reject bind_run [of "os_fstat env fd", OF run_fstat [OF Some]]
          bind_run [of "interruptions env fd", OF i] split: if_splits)
  qed
  from read_loop_run [OF m] obtain h where
    "read_loop env fd (Suc k) (env_interrupts env (w_trace w @ [CFstat n]) n) ?w =
      (Inr (map_sum id (take (Suc k)) (env_read env h n)), ?w\<lparr>w_trace := h @ [CRead n (Suc k)]\<rparr>)"
    by blast
  with run obtain full where "env_read env h n = Inr full" "content = take (Suc k) full"
    by (cases "env_read env h n") (auto simp: bind_act_def run_reject return_act_def)
  with Some st ok show ?thesis by blast
qed

lemma run_openat:
  assumes "map_of (w_descriptors w) fd = Some dir"
  shows "os_openat env fd name flags w =
    (case env_openat env (w_trace w) dir name flags of
       Inl e \<Rightarrow> (Inr (Inl e), w\<lparr>w_trace := w_trace w @ [COpenAt dir name flags]\<rparr>)
     | Inr n \<Rightarrow> (Inr (Inr (new_descriptor (w_descriptors w))),
         w\<lparr>w_trace := w_trace w @ [COpenAt dir name flags],
           w_descriptors := (new_descriptor (w_descriptors w), n) # w_descriptors w\<rparr>))"
  using assms
  by (simp add: os_openat_def descriptor_node_def run_simps opened_def Let_def split: sum.splits)

lemma accept_content_source:
  assumes "accept_content src k content w = (Inr (Some v), x)"
  shows "length content \<le> k \<and> (\<exists>s. decode_utf8 content = Some s \<and> v = strip_ascii s \<and> v \<noteq> [])"
  using assms
  by (auto simp: accept_content_def run_reject then_act_def bind_act_def run_note_file_read
      return_act_def split: if_splits option.splits)

lemma read_error_none: "read_error src e w = (Inr (Some v), x) \<Longrightarrow> False"
  by (auto simp: read_error_def run_reject return_act_def split: if_splits)

text \<open>
  C24: Text taken from an untrusted directory comes from a file that, when it was inspected
  through the very descriptor it is read from, was a regular file with a single link and a size
  within the bound: no symbolic link, no hard link to a file elsewhere, no FIFO or device.
\<close>

theorem secure_read_text_provenance:
  assumes "secure_read_text env fd name maximum src w = (Inr (Some v), x)"
  shows "\<exists>dir n h h' st content decoded.
    map_of (w_descriptors w) fd = Some dir \<and> single_component name \<and>
    env_openat env (w_trace w) dir name file_flags = Inr n \<and>
    env_fstat env h n = Inr st \<and> st_kind st = RegularFile \<and> st_nlink st = 1 \<and>
    0 \<le> st_size st \<and> st_size st \<le> int maximum \<and>
    env_read env h' n = Inr content \<and> length content \<le> maximum \<and>
    decode_utf8 content = Some decoded \<and> v = strip_ascii decoded"
proof -
  have valid: "valid_component name 255"
    using assms by (auto simp: secure_read_text_def run_reject split: if_splits)
  then have single: "single_component name" by (rule valid_component_single) simp
  show ?thesis
  proof (cases "map_of (w_descriptors w) fd")
    case None
    then have "os_openat env fd name file_flags w = (Inr (Inl EBADF), w)"
      by (simp add: os_openat_def descriptor_node_def run_simps)
    then show ?thesis
      using assms valid
      by (auto simp: secure_read_text_def bind_run [of "os_openat env fd name file_flags"] dest: read_error_none)
  next
    case (Some dir)
    note at = run_openat [OF Some, of env name file_flags]
    show ?thesis
    proof (cases "env_openat env (w_trace w) dir name file_flags")
      case (Inl e)
      then show ?thesis
        using assms valid at
        by (auto simp: secure_read_text_def bind_run [of "os_openat env fd name file_flags"] dest: read_error_none)
    next
      case (Inr n)
      let ?d = "new_descriptor (w_descriptors w)"
      let ?w = "w\<lparr>w_trace := w_trace w @ [COpenAt dir name file_flags],
           w_descriptors := (?d, n) # w_descriptors w\<rparr>"
      obtain r y where run: "read_descriptor env ?d maximum src ?w = (r, y)"
        by (cases "read_descriptor env ?d maximum src ?w")
      have "bind_act (finally_act (read_descriptor env ?d maximum src) (os_close ?d)) (\<lambda>c. case c of
                None \<Rightarrow> return_act None
              | Some content \<Rightarrow> accept_content src maximum content) ?w = (Inr (Some v), x)"
        using assms valid at Inr
        by (simp add: secure_read_text_def bind_run [of "os_openat env fd name file_flags"])
      then obtain content where "r = Inr (Some content)"
        and acc: "accept_content src maximum content (os_close ?d y) = (Inr (Some v), x)"
        using run by (auto simp: bind_act_def finally_act_def return_act_def split: sum.splits option.splits)
      with run obtain n' st h h' full where "map_of (w_descriptors ?w) ?d = Some n'"
        and "env_fstat env h n' = Inr st \<and> st_kind st = RegularFile \<and> st_nlink st = 1 \<and>
          0 \<le> st_size st \<and> st_size st \<le> int maximum \<and> env_read env h' n' = Inr full"
        and content: "content = take (Suc maximum) full"
        using read_descriptor_source by blast
      moreover from this(1) have "n' = n" by simp
      moreover from accept_content_source [OF acc] obtain s where "length content \<le> maximum"
        "decode_utf8 content = Some s" "v = strip_ascii s" by blast
      moreover from this(1) content have "full = content" by (cases "length full \<le> Suc maximum") simp_all
      ultimately show ?thesis using Some single Inr by metis
    qed
  qed
qed

theorem secure_read_text_provenance_witness:
  "single_component (u ''state'') \<and>
   (\<exists>h st. env_fstat (plain_file_env ''ok '') h 7 = Inr st \<and> st_kind st = RegularFile \<and> st_nlink st = 1)"
proof -
  from secure_read_text_provenance [OF run_plain_file] obtain dir n h st where
    "single_component (u ''state'')" and "env_fstat (plain_file_env ''ok '') h n = Inr st"
    and "st_kind st = RegularFile" "st_nlink st = 1"
    by (elim exE conjE) (rule that)
  then show ?thesis by (auto simp: plain_file_env_def)
qed

end
