(* ===== verification/StateIngest.thy ===== *)
theory StateIngest
  imports SecureIO
begin

text \<open>
  Ingestion of allocation, janitor and profiler state, \<open>collection/state.py\<close>. A parsed
  record is the list of its entries in the order the dictionary keeps them. The open roots of
  a \<open>StateIngestor\<close> are the list of the sources with their descriptors. A device is
  returned with the fields the code assigns.
\<close>

definition maximum_state_file_bytes :: nat where "maximum_state_file_bytes = 16 * 1024"
definition maximum_state_files :: nat where "maximum_state_files = 4096"
definition maximum_state_fields :: nat where "maximum_state_fields = 32"
definition maximum_workloads :: nat where "maximum_workloads = 1024"
definition maximum_workload_id_bytes :: nat where "maximum_workload_id_bytes = 128"
definition maximum_namespace_bytes :: nat where "maximum_namespace_bytes = 63"
definition maximum_pod_name_bytes :: nat where "maximum_pod_name_bytes = 253"
definition maximum_container_name_bytes :: nat where "maximum_container_name_bytes = 63"

lemmas state_limits = maximum_state_file_bytes_def maximum_state_files_def maximum_state_fields_def
  maximum_workloads_def maximum_workload_id_bytes_def maximum_namespace_bytes_def
  maximum_pod_name_bytes_def maximum_container_name_bytes_def

section \<open>Records\<close>

fun bounded_label :: "pystr option \<Rightarrow> nat \<Rightarrow> bool \<Rightarrow> bool" where
  "bounded_label None maximum required = (\<not> required)"
| "bounded_label (Some v) maximum required =
     (list_all (\<lambda>c. c < 128) v \<and> v \<noteq> [] \<and> length v \<le> maximum \<and> list_all (\<lambda>b. 32 \<le> b \<and> b \<le> 126) v)"

type_synonym key_values = "(pystr \<times> pystr) list"

fun key_value_lines :: "pystr list \<Rightarrow> key_values \<Rightarrow> key_values option" where
  "key_value_lines [] values = Some values"
| "key_value_lines (line # lines) values =
     (case split_once (cp CHR ''='') line of
        None \<Rightarrow> key_value_lines lines values
      | Some (k, v) \<Rightarrow>
          (let key = strip_ascii k
           in if key = [] then key_value_lines lines values
              else if maximum_state_fields \<le> length values \<or> key \<in> set (map fst values) then None
              else key_value_lines lines (values @ [(key, strip_ascii v)])))"

definition parse_key_values :: "pystr \<Rightarrow> key_values option" where
  "parse_key_values content =
     (if 0 \<in> set content then None else key_value_lines (splitlines content) [])"

definition state_string :: "key_values \<Rightarrow> string \<Rightarrow> pystr option" where
  "state_string values key =
     (case map_of values (u key) of
        None \<Rightarrow> None
      | Some v \<Rightarrow> if v = [] then None else Some v)"

definition state_non_negative_int :: "key_values \<Rightarrow> string \<Rightarrow> int option outcome" where
  "state_non_negative_int values key =
     bind_outcome (parse_int64 (case state_string values key of None \<Rightarrow> [] | Some v \<Rightarrow> v)) (\<lambda>parsed.
       Inr (case parsed of None \<Rightarrow> None | Some n \<Rightarrow> if 0 \<le> n then Some n else None))"

section \<open>Workload records\<close>

text \<open>The record a list of entries describes, its integers parsed in the order of the fields.\<close>

definition workload_fields :: "key_values \<Rightarrow> workload_telemetry outcome" where
  "workload_fields values =
     bind_outcome (state_non_negative_int values ''active'') (\<lambda>active.
     bind_outcome (state_non_negative_int values ''programs_observed'') (\<lambda>programs.
     bind_outcome (state_non_negative_int values ''tensix_cores_used'') (\<lambda>used.
     bind_outcome (state_non_negative_int values ''tensix_cores_total'') (\<lambda>cores.
     bind_outcome (state_non_negative_int values ''sample_timestamp_seconds'') (\<lambda>timestamp.
       Inr \<lparr>wl_id = (case state_string values ''workload_id'' of None \<Rightarrow> [] | Some v \<Rightarrow> v),
            wl_pod_namespace = state_string values ''pod_namespace'',
            wl_pod_name = state_string values ''pod_name'',
            wl_container_name = state_string values ''container_name'',
            wl_active = active, wl_programs_observed = programs, wl_cores_used = used,
            wl_cores_total = cores, wl_timestamp = timestamp, wl_stale = False\<rparr>)))))"

definition invalid_workload :: "workload_telemetry \<Rightarrow> bool" where
  "invalid_workload w \<longleftrightarrow>
     \<not> bounded_label (Some (wl_id w)) maximum_workload_id_bytes True \<or>
     \<not> bounded_label (wl_pod_namespace w) maximum_namespace_bytes False \<or>
     \<not> bounded_label (wl_pod_name w) maximum_pod_name_bytes False \<or>
     \<not> bounded_label (wl_container_name w) maximum_container_name_bytes False \<or>
     (case wl_active w of None \<Rightarrow> True | Some a \<Rightarrow> 1 < a) \<or>
     wl_programs_observed w = None \<or>
     wl_cores_used w = None \<or>
     wl_timestamp w = None \<or>
     (case wl_cores_total w of
        None \<Rightarrow> False
      | Some cores \<Rightarrow> cores = 0 \<or> cores < the (wl_cores_used w))"

definition is_stale :: "int \<Rightarrow> int \<Rightarrow> int \<Rightarrow> bool" where
  "is_stale stale_after now timestamp \<longleftrightarrow>
     0 < stale_after \<and> (timestamp < now - stale_after \<or> now + stale_after < timestamp)"

definition parse_workload ::
    "os_env \<Rightarrow> int \<Rightarrow> pystr \<Rightarrow> int \<Rightarrow> telemetry_source \<Rightarrow> (world, workload_telemetry option) act" where
  "parse_workload env stale_after content expected_schema src =
     (case parse_key_values content of
        None \<Rightarrow> reject src INVALID_VALUE
      | Some values \<Rightarrow>
          bind_act (lift_act (state_non_negative_int values ''schema_version'')) (\<lambda>schema.
            if schema \<noteq> Some expected_schema then reject src UNSUPPORTED_SCHEMA
            else bind_act (lift_act (workload_fields values)) (\<lambda>workload.
              if invalid_workload workload then reject src INVALID_VALUE
              else bind_act (os_time env) (\<lambda>now.
                let stale = is_stale stale_after now (the (wl_timestamp workload))
                in then_act (if stale then note_issue src STALE_RECORD else return_act ())
                     (then_act (note_accepted src)
                       (return_act (Some (workload\<lparr>wl_stale := stale\<rparr>))))))))"

section \<open>Device directories\<close>

definition device_keys :: "device_telemetry \<Rightarrow> pystr list" where
  "device_keys device =
     filter (\<lambda>c. valid_component c 128)
       ([dev_id device] @
        (case pci_bdf (dev_pci device) of None \<Rightarrow> [] | Some bdf \<Rightarrow> [bdf]) @
        (case dev_character_device device of
           None \<Rightarrow> []
         | Some c \<Rightarrow> (case chr_dev_name c of None \<Rightarrow> [] | Some n \<Rightarrow> [path_name n])))"

fun first_directory :: "os_env \<Rightarrow> nat \<Rightarrow> pystr list \<Rightarrow> telemetry_source \<Rightarrow> (world, nat option) act" where
  "first_directory env fd [] src = return_act None"
| "first_directory env fd (candidate # candidates) src =
     bind_act (open_directory env fd candidate src) (\<lambda>d. case d of
         Some directory \<Rightarrow> return_act (Some directory)
       | None \<Rightarrow> first_directory env fd candidates src)"

definition first_device_directory ::
    "os_env \<Rightarrow> nat \<Rightarrow> device_telemetry \<Rightarrow> telemetry_source \<Rightarrow> (world, nat option) act" where
  "first_device_directory env fd device src = first_directory env fd (device_keys device) src"

definition validate_label :: "pystr option \<Rightarrow> nat \<Rightarrow> telemetry_source \<Rightarrow> (world, pystr option) act" where
  "validate_label value maximum src =
     (if value \<noteq> None \<and> \<not> bounded_label value maximum False then reject src INVALID_VALUE
      else return_act value)"

section \<open>Allocation and janitor state\<close>

definition allocation_files :: "os_env \<Rightarrow> nat \<Rightarrow> telemetry_source \<Rightarrow> (world, allocation_telemetry) act" where
  "allocation_files env fd src =
     bind_act (secure_read_text env fd (u ''claim_namespace'') maximum_namespace_bytes src) (\<lambda>claim_namespace.
     bind_act (secure_read_text env fd (u ''claim_name'') maximum_pod_name_bytes src) (\<lambda>claim_name.
     bind_act (secure_read_text env fd (u ''claim_uid'') maximum_workload_id_bytes src) (\<lambda>claim_uid.
     bind_act (secure_read_text env fd (u ''pod_namespace'') maximum_namespace_bytes src) (\<lambda>pod_namespace.
     bind_act (secure_read_text env fd (u ''pod_name'') maximum_pod_name_bytes src) (\<lambda>pod_name.
     bind_act (secure_read_text env fd (u ''container_name'') maximum_container_name_bytes src) (\<lambda>container.
       return_act \<lparr>alc_claim_namespace = claim_namespace, alc_claim_name = claim_name,
         alc_claim_uid = claim_uid, alc_pod_namespace = pod_namespace, alc_pod_name = pod_name,
         alc_container_name = container\<rparr>))))))"

definition validate_allocation ::
    "allocation_telemetry \<Rightarrow> telemetry_source \<Rightarrow> (world, allocation_telemetry) act" where
  "validate_allocation a src =
     bind_act (validate_label (alc_claim_namespace a) maximum_namespace_bytes src) (\<lambda>claim_namespace.
     bind_act (validate_label (alc_claim_name a) maximum_pod_name_bytes src) (\<lambda>claim_name.
     bind_act (validate_label (alc_claim_uid a) maximum_workload_id_bytes src) (\<lambda>claim_uid.
     bind_act (validate_label (alc_pod_namespace a) maximum_namespace_bytes src) (\<lambda>pod_namespace.
     bind_act (validate_label (alc_pod_name a) maximum_pod_name_bytes src) (\<lambda>pod_name.
     bind_act (validate_label (alc_container_name a) maximum_container_name_bytes src) (\<lambda>container.
       return_act \<lparr>alc_claim_namespace = claim_namespace, alc_claim_name = claim_name,
         alc_claim_uid = claim_uid, alc_pod_namespace = pod_namespace, alc_pod_name = pod_name,
         alc_container_name = container\<rparr>))))))"

definition read_allocation :: "os_env \<Rightarrow> device_telemetry \<Rightarrow> nat \<Rightarrow> (world, allocation_telemetry) act" where
  "read_allocation env device root =
     bind_act (first_device_directory env root device ALLOCATION_STATE) (\<lambda>d. case d of
         None \<Rightarrow> return_act new_allocation
       | Some directory \<Rightarrow>
           bind_act (with_directory directory (allocation_files env directory ALLOCATION_STATE)) (\<lambda>a.
           bind_act (validate_allocation a ALLOCATION_STATE) (\<lambda>b.
             then_act (note_accepted ALLOCATION_STATE) (return_act b))))"

definition read_state_int :: "os_env \<Rightarrow> nat \<Rightarrow> string \<Rightarrow> telemetry_source \<Rightarrow> (world, int option) act" where
  "read_state_int env fd name src =
     bind_act (secure_read_text env fd (u name) maximum_state_file_bytes src) (\<lambda>value. case value of
         None \<Rightarrow> return_act None
       | Some v \<Rightarrow> bind_act (lift_act (parse_int64 v)) (\<lambda>parsed. case parsed of
             None \<Rightarrow> reject src INVALID_VALUE
           | Some n \<Rightarrow> return_act (Some n)))"

definition janitor_files :: "os_env \<Rightarrow> nat \<Rightarrow> telemetry_source \<Rightarrow> (world, janitor_telemetry) act" where
  "janitor_files env fd src =
     bind_act (secure_read_text env fd (u ''state'') 128 src) (\<lambda>state.
     bind_act (secure_read_text env fd (u ''quarantine_reason'') 256 src) (\<lambda>reason.
     bind_act (secure_read_text env fd (u ''last_scrub_status'') 128 src) (\<lambda>scrub_status.
     bind_act (secure_read_text env fd (u ''last_reset_status'') 128 src) (\<lambda>reset_status.
     bind_act (read_state_int env fd ''scrub_count'' src) (\<lambda>scrub_count.
     bind_act (read_state_int env fd ''reset_count'' src) (\<lambda>reset_count.
     bind_act (read_state_int env fd ''last_scrub_timestamp_seconds'' src) (\<lambda>scrub_time.
     bind_act (read_state_int env fd ''last_reset_timestamp_seconds'' src) (\<lambda>reset_time.
       return_act \<lparr>jan_state = state, jan_quarantine_reason = reason,
         jan_last_scrub_status = scrub_status, jan_last_reset_status = reset_status,
         jan_scrub_count = scrub_count, jan_reset_count = reset_count,
         jan_last_scrub_timestamp = scrub_time, jan_last_reset_timestamp = reset_time\<rparr>))))))))"

definition validate_janitor :: "janitor_telemetry \<Rightarrow> telemetry_source \<Rightarrow> (world, janitor_telemetry) act" where
  "validate_janitor j src =
     bind_act (validate_label (jan_state j) 128 src) (\<lambda>state.
     bind_act (validate_label (jan_quarantine_reason j) 256 src) (\<lambda>reason.
     bind_act (validate_label (jan_last_scrub_status j) 128 src) (\<lambda>scrub_status.
     bind_act (validate_label (jan_last_reset_status j) 128 src) (\<lambda>reset_status.
       return_act (j\<lparr>jan_state := state, jan_quarantine_reason := reason,
         jan_last_scrub_status := scrub_status, jan_last_reset_status := reset_status\<rparr>)))))"

definition read_janitor :: "os_env \<Rightarrow> device_telemetry \<Rightarrow> nat \<Rightarrow> (world, janitor_telemetry) act" where
  "read_janitor env device root =
     bind_act (first_device_directory env root device JANITOR_STATE) (\<lambda>d. case d of
         None \<Rightarrow> return_act new_janitor
       | Some directory \<Rightarrow>
           bind_act (with_directory directory (janitor_files env directory JANITOR_STATE)) (\<lambda>j.
           bind_act (validate_janitor j JANITOR_STATE) (\<lambda>k.
             then_act (note_accepted JANITOR_STATE) (return_act k))))"

section \<open>Workloads\<close>

text \<open>The list of workloads and the set of workload identities declared by v2 records.\<close>

type_synonym workload_acc = "workload_telemetry list \<times> pystr list"

definition read_v2_pod ::
    "os_env \<Rightarrow> int \<Rightarrow> device_telemetry \<Rightarrow> nat \<Rightarrow> telemetry_source \<Rightarrow> pystr \<Rightarrow> workload_acc \<Rightarrow>
     (world, workload_acc) act" where
  "read_v2_pod env stale_after device fd src pod_uid acc =
     (if \<not> valid_component pod_uid maximum_workload_id_bytes
      then then_act (note_issue src INVALID_VALUE) (return_act acc)
      else bind_act (open_directory env fd pod_uid src) (\<lambda>p. case p of
          None \<Rightarrow> return_act acc
        | Some pod \<Rightarrow>
            bind_act (with_directory pod
              (bind_act (first_device_directory env pod device src) (\<lambda>d. case d of
                  None \<Rightarrow> return_act None
                | Some directory \<Rightarrow> with_directory directory
                    (secure_read_text env directory (u ''snapshot.state'') maximum_state_file_bytes src))))
              (\<lambda>c. case c of
                  None \<Rightarrow> return_act acc
                | Some content \<Rightarrow>
                    bind_act (parse_workload env stale_after content 2 src) (\<lambda>w. case w of
                        None \<Rightarrow> return_act acc
                      | Some workload \<Rightarrow>
                          return_act (fst acc @ [workload\<lparr>wl_id := pod_uid\<rparr>],
                                      wl_id workload # snd acc)))))"

definition read_v2_workloads ::
    "os_env \<Rightarrow> int \<Rightarrow> device_telemetry \<Rightarrow> nat \<Rightarrow> telemetry_source \<Rightarrow> workload_acc \<Rightarrow>
     (world, workload_acc) act" where
  "read_v2_workloads env stale_after device fd src acc =
     bind_act (dir_entries env fd maximum_state_files src) (\<lambda>names.
       fold_act (read_v2_pod env stale_after device fd src) names acc)"

definition read_v2_root ::
    "os_env \<Rightarrow> int \<Rightarrow> device_telemetry \<Rightarrow> nat \<Rightarrow> telemetry_source \<Rightarrow> (world, workload_acc) act" where
  "read_v2_root env stale_after device root src =
     bind_act (open_directory env root (u ''v2'') src) (\<lambda>v. case v of
         None \<Rightarrow> return_act ([], [])
       | Some v2 \<Rightarrow> with_directory v2
           (bind_act (open_directory env v2 (u ''workloads'') src) (\<lambda>d. case d of
               None \<Rightarrow> return_act ([], [])
             | Some directory \<Rightarrow> with_directory directory
                 (read_v2_workloads env stale_after device directory src ([], [])))))"

definition read_v1_file ::
    "os_env \<Rightarrow> int \<Rightarrow> nat \<Rightarrow> telemetry_source \<Rightarrow> pystr list \<Rightarrow> pystr \<Rightarrow> workload_telemetry list \<Rightarrow>
     (world, workload_telemetry list) act" where
  "read_v1_file env stale_after fd src v2_identities filename workloads =
     (if length filename \<le> 6 \<or> \<not> ends_with filename (u ''.state'') then return_act workloads
      else bind_act (secure_read_text env fd filename maximum_state_file_bytes src) (\<lambda>c. case c of
          None \<Rightarrow> return_act workloads
        | Some content \<Rightarrow>
            bind_act (parse_workload env stale_after content 1 src) (\<lambda>w. case w of
                None \<Rightarrow> return_act workloads
              | Some workload \<Rightarrow>
                  return_act (if wl_id workload \<in> set v2_identities then workloads
                              else workloads @ [workload]))))"

definition read_v1_root ::
    "os_env \<Rightarrow> int \<Rightarrow> device_telemetry \<Rightarrow> nat \<Rightarrow> telemetry_source \<Rightarrow> workload_acc \<Rightarrow>
     (world, workload_telemetry list) act" where
  "read_v1_root env stale_after device root src acc =
     bind_act (first_device_directory env root device src) (\<lambda>d. case d of
         None \<Rightarrow> return_act (fst acc)
       | Some directory \<Rightarrow> with_directory directory
           (bind_act (dir_entries env directory maximum_state_files src) (\<lambda>names.
              fold_act (read_v1_file env stale_after directory src (snd acc)) names (fst acc))))"

text \<open>Fresh before stale, then the latest sample, then the identity.\<close>

definition workload_key :: "workload_telemetry \<Rightarrow> bool \<times> int \<times> pystr" where
  "workload_key w = (wl_stale w, - (case wl_timestamp w of None \<Rightarrow> 0 | Some t \<Rightarrow> t), wl_id w)"

fun unique_workloads ::
    "telemetry_source \<Rightarrow> pystr list \<Rightarrow> workload_telemetry list \<Rightarrow> (world, workload_telemetry list) act" where
  "unique_workloads src identities [] = return_act []"
| "unique_workloads src identities (w # ws) =
     (if wl_id w \<in> set identities
      then then_act (note_issue src INVALID_VALUE) (unique_workloads src identities ws)
      else bind_act (unique_workloads src (wl_id w # identities) ws) (\<lambda>rest. return_act (w # rest)))"

definition finish_workloads :: "workload_telemetry list \<Rightarrow> (world, workload_telemetry list) act" where
  "finish_workloads workloads =
     bind_act (unique_workloads METALIUM_PROFILER_STATE [] (sort_key workload_key workloads)) (\<lambda>unique.
       if maximum_workloads < length unique
       then then_act (note_issue METALIUM_PROFILER_STATE CARDINALITY_LIMIT)
              (return_act (take maximum_workloads unique))
       else return_act unique)"

definition read_workloads ::
    "os_env \<Rightarrow> int \<Rightarrow> device_telemetry \<Rightarrow> nat \<Rightarrow> (world, workload_telemetry list) act" where
  "read_workloads env stale_after device root =
     bind_act (read_v2_root env stale_after device root METALIUM_PROFILER_STATE) (\<lambda>acc.
     bind_act (read_v1_root env stale_after device root METALIUM_PROFILER_STATE acc) (\<lambda>workloads.
       finish_workloads workloads))"

definition fresh_workloads :: "device_telemetry \<Rightarrow> workload_telemetry list" where
  "fresh_workloads device = filter (\<lambda>w. \<not> wl_stale w) (dev_workloads device)"

definition profiler_cores_total :: "workload_telemetry list \<Rightarrow> int option" where
  "profiler_cores_total fresh =
     (case List.map_filter wl_cores_total fresh of [] \<Rightarrow> None | t # ts \<Rightarrow> Some (fold max ts t))"

definition profiler_cores_used :: "workload_telemetry list \<Rightarrow> int" where
  "profiler_cores_used fresh =
     (let used = sum_list (map (\<lambda>w. case wl_cores_used w of None \<Rightarrow> 0 | Some n \<Rightarrow> n)
                   (filter (\<lambda>w. wl_active w \<noteq> None \<and> wl_active w \<noteq> Some 0) fresh))
      in case profiler_cores_total fresh of None \<Rightarrow> used | Some cores \<Rightarrow> min used cores)"

definition apply_workloads :: "device_telemetry \<Rightarrow> device_telemetry" where
  "apply_workloads device =
     (let fresh = fresh_workloads device;
          used = profiler_cores_used fresh;
          tensix = dev_tensix device;
          profiler = Some (u ''metalium_profiler'');
          tensix1 = (if tsx_used tensix = None
                     then tensix\<lparr>tsx_used := Some used, tsx_source := profiler\<rparr> else tensix);
          tensix2 = (case profiler_cores_total fresh of
                       None \<Rightarrow> tensix1
                     | Some cores \<Rightarrow>
                         if tsx_total tensix1 = None
                         then tensix1\<lparr>tsx_total := Some cores, tsx_source := profiler\<rparr> else tensix1);
          tensix3 = (case profiler_cores_total fresh of
                       None \<Rightarrow> tensix2
                     | Some cores \<Rightarrow>
                         if tsx_available tensix2 = None
                         then tensix2\<lparr>tsx_available := Some (max 0 (cores - used)), tsx_source := profiler\<rparr>
                         else tensix2)
      in if fresh = [] then device else device\<lparr>dev_tensix := tensix3\<rparr>)"

section \<open>The ingestor\<close>

type_synonym state_roots = "(telemetry_source \<times> nat) list"

definition open_state_root ::
    "os_env \<Rightarrow> telemetry_source \<Rightarrow> path option \<Rightarrow> state_roots \<Rightarrow> (world, state_roots) act" where
  "open_state_root env src root roots =
     then_act (set_configured src (root \<noteq> None))
       (case root of
          None \<Rightarrow> return_act roots
        | Some p \<Rightarrow> bind_act (open_root env p src) (\<lambda>d. case d of
              None \<Rightarrow> return_act roots
            | Some fd \<Rightarrow> return_act (roots @ [(src, fd)])))"

definition open_ingestor :: "os_env \<Rightarrow> collector_config \<Rightarrow> (world, state_roots) act" where
  "open_ingestor env config =
     bind_act (open_state_root env ALLOCATION_STATE (cfg_allocation_root config) []) (\<lambda>roots1.
     bind_act (open_state_root env JANITOR_STATE (cfg_janitor_root config) roots1) (\<lambda>roots2.
       open_state_root env METALIUM_PROFILER_STATE (cfg_profiler_root config) roots2))"

definition close_ingestor :: "state_roots \<Rightarrow> world \<Rightarrow> world" where
  "close_ingestor roots w = fold (\<lambda>(src, fd) v. snd (secure_close (int fd) v)) roots w"

definition populate_allocation ::
    "os_env \<Rightarrow> state_roots \<Rightarrow> device_telemetry \<Rightarrow> (world, device_telemetry) act" where
  "populate_allocation env roots device = (case map_of roots ALLOCATION_STATE of
       None \<Rightarrow> return_act device
     | Some root \<Rightarrow> bind_act (read_allocation env device root) (\<lambda>a.
         return_act (device\<lparr>dev_allocation := a\<rparr>)))"

definition populate_janitor ::
    "os_env \<Rightarrow> state_roots \<Rightarrow> device_telemetry \<Rightarrow> (world, device_telemetry) act" where
  "populate_janitor env roots device = (case map_of roots JANITOR_STATE of
       None \<Rightarrow> return_act device
     | Some root \<Rightarrow> bind_act (read_janitor env device root) (\<lambda>j.
         return_act (device\<lparr>dev_janitor := j\<rparr>)))"

definition populate_workloads ::
    "os_env \<Rightarrow> int \<Rightarrow> state_roots \<Rightarrow> device_telemetry \<Rightarrow> (world, device_telemetry) act" where
  "populate_workloads env stale_after roots device = (case map_of roots METALIUM_PROFILER_STATE of
       None \<Rightarrow> return_act device
     | Some root \<Rightarrow> bind_act (read_workloads env stale_after device root) (\<lambda>ws.
         return_act (apply_workloads (device\<lparr>dev_workloads := ws\<rparr>))))"

definition ingest ::
    "os_env \<Rightarrow> int \<Rightarrow> state_roots \<Rightarrow> device_telemetry \<Rightarrow> (world, device_telemetry) act" where
  "ingest env stale_after roots device =
     bind_act (populate_allocation env roots device) (\<lambda>d1.
     bind_act (populate_janitor env roots d1) (\<lambda>d2.
       populate_workloads env stale_after roots d2))"

end
