(* ===== verification/StateFacts.thy ===== *)
theory StateFacts
  imports StateIngest
begin

text \<open>
  What the ingestor guarantees about untrusted state: the calls it makes, the descriptors it
  leaves, the records it accepts and the order and number of the workloads it reports.
\<close>

section \<open>Frame\<close>

lemma keeps_open_case:
  assumes "opens S C id m" "keeps (grows S C) k" "\<And>fd. closes S C fd (f fd)"
  shows "keeps (grows S C) (bind_act m (\<lambda>d. case d of None \<Rightarrow> k | Some fd \<Rightarrow> f fd))"
  by (rule keeps_open_bind [OF assms(1)]) (auto simp: assms)

lemma closes_with_directory:
  "keeps (grows S secure_call) m \<Longrightarrow> closes S secure_call fd (with_directory fd m)"
  unfolding with_directory_eq by (rule closes_with) simp_all

lemma opens_first_directory:
  "src \<in> S \<Longrightarrow> opens S secure_call id (first_directory env fd cs src)"
proof (induction cs)
  case Nil
  then show ?case by (simp add: opens_return_None)
next
  case (Cons c cs)
  show ?case
    unfolding first_directory.simps
    by (rule opens_bind [OF opens_open_directory]) (use Cons in \<open>auto split: option.splits\<close>)
qed

lemma opens_first_device_directory:
  "src \<in> S \<Longrightarrow> opens S secure_call id (first_device_directory env fd device src)"
  unfolding first_device_directory_def by (rule opens_first_directory)

lemma opens_component:
  "src \<in> S \<Longrightarrow> opens S secure_call id (open_directory env fd component src)"
  by (rule opens_open_directory) simp_all

lemma keeps_secure_read:
  "src \<in> S \<Longrightarrow> k \<le> 16384 \<Longrightarrow> keeps (grows S secure_call) (secure_read_text env fd name k src)"
  by (rule keeps_secure_read_text) simp_all

lemma keeps_secure_entries:
  "src \<in> S \<Longrightarrow> keeps (grows S secure_call) (dir_entries env fd k src)"
  by (rule keeps_dir_entries) simp_all

lemma keeps_validate_label [frame_rules]:
  "src \<in> S \<Longrightarrow> keeps (grows S C) (validate_label v k src)"
  unfolding validate_label_def by (intro grows_rules frame_rules)

lemma keeps_allocation_files: "src \<in> S \<Longrightarrow> keeps (grows S secure_call) (allocation_files env fd src)"
  unfolding allocation_files_def
  by (intro grows_rules keeps_secure_read) (simp_all add: state_limits)

lemma keeps_validate_allocation: "src \<in> S \<Longrightarrow> keeps (grows S C) (validate_allocation a src)"
  unfolding validate_allocation_def by (intro grows_rules frame_rules)

lemma keeps_read_allocation:
  "ALLOCATION_STATE \<in> S \<Longrightarrow> keeps (grows S secure_call) (read_allocation env device root)"
  unfolding read_allocation_def
  by (intro keeps_open_case opens_first_device_directory closes_bind closes_with_directory
      grows_rules frame_rules keeps_allocation_files keeps_validate_allocation)

lemma keeps_read_state_int:
  "src \<in> S \<Longrightarrow> keeps (grows S secure_call) (read_state_int env fd name src)"
  unfolding read_state_int_def
  by (intro grows_rules frame_rules keeps_secure_read) (simp_all add: state_limits)

lemma keeps_janitor_files: "src \<in> S \<Longrightarrow> keeps (grows S secure_call) (janitor_files env fd src)"
  unfolding janitor_files_def
  by (intro grows_rules keeps_secure_read keeps_read_state_int) simp_all

lemma keeps_validate_janitor: "src \<in> S \<Longrightarrow> keeps (grows S C) (validate_janitor j src)"
  unfolding validate_janitor_def by (intro grows_rules frame_rules)

lemma keeps_read_janitor:
  "JANITOR_STATE \<in> S \<Longrightarrow> keeps (grows S secure_call) (read_janitor env device root)"
  unfolding read_janitor_def
  by (intro keeps_open_case opens_first_device_directory closes_bind closes_with_directory
      grows_rules frame_rules keeps_janitor_files keeps_validate_janitor)

lemma keeps_parse_workload:
  "src \<in> S \<Longrightarrow> keeps (grows S secure_call) (parse_workload env stale content schema src)"
  unfolding parse_workload_def
  by (intro grows_rules frame_rules) simp_all

lemma keeps_read_v2_pod:
  "src \<in> S \<Longrightarrow> keeps (grows S secure_call) (read_v2_pod env stale device fd src pod acc)"
  unfolding read_v2_pod_def
  by (intro gr.keeps_if keeps_open_case opens_component opens_first_device_directory closes_bind
      closes_with_directory grows_rules frame_rules keeps_secure_read keeps_parse_workload)
    (simp_all add: state_limits)

lemma keeps_read_v2_root:
  "src \<in> S \<Longrightarrow> keeps (grows S secure_call) (read_v2_root env stale device root src)"
  unfolding read_v2_root_def read_v2_workloads_def
  by (intro keeps_open_case opens_component closes_with_directory grows_rules
      keeps_secure_entries keeps_read_v2_pod)

lemma keeps_read_v1_file:
  "src \<in> S \<Longrightarrow> keeps (grows S secure_call) (read_v1_file env stale fd src ids name ws)"
  unfolding read_v1_file_def
  by (intro grows_rules keeps_secure_read keeps_parse_workload) (simp_all add: state_limits)

lemma keeps_read_v1_root:
  "src \<in> S \<Longrightarrow> keeps (grows S secure_call) (read_v1_root env stale device root src acc)"
  unfolding read_v1_root_def
  by (intro keeps_open_case opens_first_device_directory closes_with_directory grows_rules
      keeps_secure_entries keeps_read_v1_file)

lemma keeps_unique_workloads: "src \<in> S \<Longrightarrow> keeps (grows S C) (unique_workloads src ids ws)"
  by (induction ws arbitrary: ids) (auto intro!: grows_rules frame_rules)

lemma keeps_read_workloads:
  "METALIUM_PROFILER_STATE \<in> S \<Longrightarrow> keeps (grows S secure_call) (read_workloads env stale device root)"
  unfolding read_workloads_def finish_workloads_def
  by (intro grows_rules frame_rules keeps_read_v2_root keeps_read_v1_root keeps_unique_workloads)

definition state_sources :: "telemetry_source set" where
  "state_sources = {ALLOCATION_STATE, JANITOR_STATE, METALIUM_PROFILER_STATE}"

lemma keeps_ingest: "keeps (grows state_sources secure_call) (ingest env stale roots device)"
  unfolding ingest_def populate_allocation_def populate_janitor_def populate_workloads_def
  by (intro grows_rules keeps_read_allocation keeps_read_janitor keeps_read_workloads)
    (simp_all add: state_sources_def)

text \<open>
  C26: Ingesting the untrusted state of a device only makes descriptor-relative calls on single
  path components that refuse symbolic links, closes every descriptor it opened, also when
  parsing raises, and leaves the diagnostics of the sysfs source alone.
\<close>

theorem ingest_safe:
  "grows state_sources secure_call w (snd (ingest env stale roots device w))"
  using keeps_ingest [of env stale roots device] by (simp add: keeps_def)

section \<open>Key-value records\<close>

definition entry_of :: "pystr list \<Rightarrow> pystr \<times> pystr \<Rightarrow> bool" where
  "entry_of lines e \<longleftrightarrow> fst e \<noteq> [] \<and>
     (\<exists>line \<in> set lines. \<exists>a b. split_once (cp CHR ''='') line = Some (a, b) \<and>
        fst e = strip_ascii a \<and> snd e = strip_ascii b)"

lemma key_value_lines_ok:
  assumes "key_value_lines lines kvs = Some r" "distinct (map fst kvs)"
    "length kvs \<le> maximum_state_fields" "list_all (entry_of all) kvs" "set lines \<subseteq> set all"
  shows "distinct (map fst r) \<and> length r \<le> maximum_state_fields \<and> list_all (entry_of all) r"
  using assms
proof (induction lines arbitrary: kvs)
  case (Cons line lines)
  show ?case
  proof (cases "split_once (cp CHR ''='') line")
    case None
    then show ?thesis using Cons by simp
  next
    case (Some kv)
    obtain k v where kv: "kv = (k, v)" by (cases kv)
    show ?thesis
    proof (cases "strip_ascii k = []")
      case True
      then show ?thesis using Cons Some kv by simp
    next
      case False
      have e: "entry_of all (strip_ascii k, strip_ascii v)"
        using False Some kv Cons.prems(5) by (auto simp: entry_of_def)
      from Cons.prems(1) Some kv False
      have "length kvs < maximum_state_fields" "strip_ascii k \<notin> set (map fst kvs)"
        and "key_value_lines lines (kvs @ [(strip_ascii k, strip_ascii v)]) = Some r"
        by (auto simp: Let_def split: if_splits)
      from Cons.IH [OF this(3)] this(1,2) show ?thesis using Cons.prems e by simp
    qed
  qed
qed simp

text \<open>
  A parsed record has at most 32 fields, no field twice and none without a name, and each
  of its fields stands on a line of its own: nothing is merged across lines.
\<close>

theorem parse_key_values_fields:
  assumes "parse_key_values content = Some kvs"
  shows "length kvs \<le> 32 \<and> distinct (map fst kvs) \<and>
    list_all (entry_of (splitlines content)) kvs \<and> 0 \<notin> set content"
  using assms key_value_lines_ok [of "splitlines content" "[]" kvs "splitlines content"]
  by (auto simp: parse_key_values_def maximum_state_fields_def split: if_splits)

definition field_text :: "pystr \<Rightarrow> bool" where
  "field_text s \<longleftrightarrow> no_break s \<and> strip_ascii s = s \<and> 0 \<notin> set s"

definition field_ok :: "pystr \<times> pystr \<Rightarrow> bool" where
  "field_ok e \<longleftrightarrow> field_text (fst e) \<and> fst e \<noteq> [] \<and> cp CHR ''='' \<notin> set (fst e) \<and> field_text (snd e)"

definition field_line :: "pystr \<times> pystr \<Rightarrow> pystr" where
  "field_line e = fst e @ u ''='' @ snd e"

definition render_fields :: "key_values \<Rightarrow> pystr" where
  "render_fields kvs = concat (map (\<lambda>e. field_line e @ [10]) kvs)"

lemma key_value_lines_fields:
  "list_all field_ok kvs \<Longrightarrow> distinct (map fst (before @ kvs)) \<Longrightarrow>
    length (before @ kvs) \<le> maximum_state_fields \<Longrightarrow>
    key_value_lines (map field_line kvs) before = Some (before @ kvs)"
proof (induction kvs arbitrary: before)
  case (Cons e kvs)
  have "split_once (cp CHR ''='') (field_line e) = Some (fst e, snd e)"
    using Cons.prems(1) split_once_append [of "cp CHR ''=''" "fst e" "snd e"]
    by (simp add: field_ok_def field_line_def u_Cons)
  moreover have "strip_ascii (fst e) = fst e" "strip_ascii (snd e) = snd e" "fst e \<noteq> []"
    using Cons.prems(1) by (auto simp: field_ok_def field_text_def)
  moreover have "length before < maximum_state_fields" "fst e \<notin> fst ` set before"
    using Cons.prems by auto
  ultimately show ?case
    using Cons.IH [of "before @ [e]"] Cons.prems by (cases e) (simp add: Let_def)
qed simp

lemma parse_render_fields:
  assumes "list_all field_ok kvs" "distinct (map fst kvs)" "length kvs \<le> 32"
  shows "parse_key_values (render_fields kvs) = Some kvs"
proof -
  have "no_break (field_line e)" if "e \<in> set kvs" for e
    using assms(1) that
    by (auto simp: field_line_def field_ok_def field_text_def list_all_iff u_Cons
        is_line_break_def line_break_points_def)
  then have "splitlines (render_fields kvs) = map field_line kvs"
    unfolding render_fields_def
    using splitlines_concat [of "map field_line kvs"] by (simp add: list_all_iff comp_def)
  moreover have "0 \<notin> set (render_fields kvs)"
    using assms(1)
    by (auto simp: render_fields_def field_line_def field_ok_def field_text_def list_all_iff u_Cons)
  ultimately show ?thesis
    using key_value_lines_fields [of kvs "[]"] assms
    by (simp add: parse_key_values_def maximum_state_fields_def)
qed

text \<open>
  Writing a record one field a line and parsing it gives the record back, whatever printable
  text its kvs hold, equality signs included.
\<close>

theorem parse_key_values_roundtrip:
  assumes "list_all field_ok kvs" and "distinct (map fst kvs)" and "length kvs \<le> 32"
  shows "parse_key_values (render_fields kvs) = Some kvs"
  using assms by (rule parse_render_fields)

theorem parse_key_values_roundtrip_witness:
  "parse_key_values (render_fields [(u ''a'', u ''x=y''), (u ''b'', [])]) =
    Some [(u ''a'', u ''x=y''), (u ''b'', [])]"
  by (rule parse_key_values_roundtrip)
    (simp_all add: field_ok_def field_text_def u_Cons strip_ascii_def strip_by_def is_c_space_def
      is_line_break_def line_break_points_def)

theorem parse_key_values_fields_witness:
  "distinct (map fst [(u ''a'', u ''x=y''), (u ''b'', [])]) \<and>
   list_all (entry_of (splitlines (render_fields [(u ''a'', u ''x=y''), (u ''b'', [])])))
     [(u ''a'', u ''x=y''), (u ''b'', [])]"
proof -
  have h: "parse_key_values (render_fields [(u ''a'', u ''x=y''), (u ''b'', [])]) =
    Some [(u ''a'', u ''x=y''), (u ''b'', [])]"
    by (rule parse_render_fields)
      (simp_all add: field_ok_def field_text_def u_Cons strip_ascii_def strip_by_def is_c_space_def
        is_line_break_def line_break_points_def)
  show ?thesis using parse_key_values_fields [OF h] by blast
qed

section \<open>Accepted workloads\<close>

definition workload_ok :: "workload_telemetry \<Rightarrow> bool" where
  "workload_ok w \<longleftrightarrow> bounded_label (Some (wl_id w)) 128 True \<and>
     bounded_label (wl_pod_namespace w) 63 False \<and> bounded_label (wl_pod_name w) 253 False \<and>
     bounded_label (wl_container_name w) 63 False \<and>
     (wl_active w = Some 0 \<or> wl_active w = Some 1) \<and>
     (\<exists>programs used time. wl_programs_observed w = Some programs \<and> wl_cores_used w = Some used \<and>
        wl_timestamp w = Some time \<and> 0 \<le> programs \<and> programs \<le> int64_max \<and> 0 \<le> used \<and>
        used \<le> int64_max \<and> 0 \<le> time \<and> time \<le> int64_max \<and>
        (\<forall>cores. wl_cores_total w = Some cores \<longrightarrow> 0 < cores \<and> used \<le> cores \<and> cores \<le> int64_max))"

lemma state_int_range:
  "state_non_negative_int kvs key = Inr (Some n) \<Longrightarrow> 0 \<le> n \<and> n \<le> int64_max"
  using parse_int64_range
  by (fastforce simp: state_non_negative_int_def bind_outcome_Inr split: option.splits if_splits)

lemma workload_fields_ok:
  assumes "workload_fields kvs = Inr w" "\<not> invalid_workload w"
  shows "workload_ok (w\<lparr>wl_stale := b\<rparr>)"
proof -
  from assms(1) obtain active programs used cores time where
    a: "state_non_negative_int kvs ''active'' = Inr active"
    and p: "state_non_negative_int kvs ''programs_observed'' = Inr programs"
    and us: "state_non_negative_int kvs ''tensix_cores_used'' = Inr used"
    and c: "state_non_negative_int kvs ''tensix_cores_total'' = Inr cores"
    and t: "state_non_negative_int kvs ''sample_timestamp_seconds'' = Inr time"
    and w: "wl_active w = active" "wl_programs_observed w = programs" "wl_cores_used w = used"
      "wl_cores_total w = cores" "wl_timestamp w = time"
    by (auto simp: workload_fields_def bind_outcome_Inr)
  from assms(2) w obtain a' p' u' t' where
    s: "active = Some a'" "programs = Some p'" "used = Some u'" "time = Some t'" and le: "a' \<le> 1"
    by (auto simp: invalid_workload_def split: option.splits)
  have "a' = 0 \<or> a' = 1" using state_int_range [of kvs "''active''" a'] a s le by force
  moreover have "0 < n \<and> u' \<le> n \<and> n \<le> int64_max" if "cores = Some n" for n
    using assms(2) w s that state_int_range [of kvs "''tensix_cores_total''" n] c
    by (fastforce simp: invalid_workload_def)
  ultimately show ?thesis
    using assms(2) w s p us t state_int_range
    by (auto simp: workload_ok_def invalid_workload_def state_limits)
qed

lemma returns_parse_workload:
  "returns (parse_workload env stale content schema src) (\<lambda>v. \<forall>w. v = Some w \<longrightarrow> workload_ok w)"
proof (cases "parse_key_values content")
  case None
  then show ?thesis by (simp add: parse_workload_def returns_reject)
next
  case (Some kvs)
  let ?P = "\<lambda>v. \<forall>w. v = Some w \<longrightarrow> workload_ok w"
  have "returns (if invalid_workload x then reject src INVALID_VALUE
     else bind_act (os_time env) (\<lambda>now.
        let stale = is_stale stale now (the (wl_timestamp x))
        in then_act (if stale then note_issue src STALE_RECORD else return_act ())
             (then_act (note_accepted src) (return_act (Some (x\<lparr>wl_stale := stale\<rparr>)))))) ?P"
    if "workload_fields kvs = Inr x" for x
    using workload_fields_ok [OF that] by (auto intro!: returns_rules simp: Let_def)
  then have "returns (bind_act (lift_act (workload_fields kvs)) (\<lambda>x. if invalid_workload x then reject src INVALID_VALUE
     else bind_act (os_time env) (\<lambda>now.
        let stale = is_stale stale now (the (wl_timestamp x))
        in then_act (if stale then note_issue src STALE_RECORD else return_act ())
             (then_act (note_accepted src) (return_act (Some (x\<lparr>wl_stale := stale\<rparr>))))))) ?P"
    by (rule returns_bind_strong [where Q = "\<lambda>x. workload_fields kvs = Inr x", rotated])
      (auto intro: returns_lift)
  then show ?thesis
    using Some by (auto simp: parse_workload_def intro!: returns_bind returns_reject)
qed

end
