(* ===== verification/WorkloadFacts.thy ===== *)
theory WorkloadFacts
  imports StateFacts
begin

text \<open>
  Workload records beyond parsing: which records of several survive, what they contribute to a
  device, when a record is stale, and the one way a record can stop the whole collection.
\<close>

section \<open>Selection\<close>

fun dedupe :: "pystr list \<Rightarrow> workload_telemetry list \<Rightarrow> workload_telemetry list" where
  "dedupe ids [] = []"
| "dedupe ids (w # ws) = (if wl_id w \<in> set ids then dedupe ids ws else w # dedupe (wl_id w # ids) ws)"

lemma unique_workloads_dedupe: "fst (unique_workloads src ids ws w) = Inr (dedupe ids ws)"
proof (induction ws arbitrary: ids w)
  case (Cons x ws)
  have "fst (unique_workloads src ids ws v) = Inr (dedupe ids ws)" for v by (rule Cons)
  moreover have "fst (unique_workloads src (wl_id x # ids) ws v) = Inr (dedupe (wl_id x # ids) ws)" for v
    by (rule Cons)
  ultimately show ?case
    by (auto simp: then_act_def bind_act_def note_issue_def update_source_def modify_act_def
        return_act_def prod_eq_iff split: prod.splits sum.splits)
qed (simp add: return_act_def)

lemma set_dedupe: "x \<in> set (dedupe ids ws) \<Longrightarrow> x \<in> set ws \<and> wl_id x \<notin> set ids"
proof (induction ws arbitrary: ids)
  case (Cons w ws)
  show ?case
  proof (cases "wl_id w \<in> set ids")
    case True
    then show ?thesis using Cons.IH [of ids] Cons.prems by simp
  next
    case False
    then show ?thesis using Cons.IH [of "wl_id w # ids"] Cons.prems by auto
  qed
qed simp

lemma dedupe_ids: "set (map wl_id (dedupe ids ws)) = set (map wl_id ws) - set ids"
  by (induction ws arbitrary: ids) auto

lemma distinct_dedupe: "distinct (map wl_id (dedupe ids ws))"
proof (induction ws arbitrary: ids)
  case (Cons w ws)
  then show ?case using dedupe_ids [of "wl_id w # ids" ws] by auto
qed simp

lemma sorted_dedupe:
  "sorted (map workload_key ws) \<Longrightarrow> sorted (map workload_key (dedupe ids ws))"
  by (induction ws arbitrary: ids) (auto dest: set_dedupe)

lemma dedupe_least:
  assumes "sorted (map workload_key ws)" "x \<in> set (dedupe ids ws)" "y \<in> set ws" "wl_id y = wl_id x"
  shows "workload_key x \<le> workload_key y"
  using assms
proof (induction ws arbitrary: ids)
  case (Cons w ws)
  show ?case
  proof (cases "x = w")
    case True
    then show ?thesis using Cons.prems by auto
  next
    case False
    have t: "wl_id w \<noteq> wl_id x" if "wl_id w \<notin> set ids"
      using Cons.prems(2) False that set_dedupe [of x "wl_id w # ids" ws] by auto
    have n: "wl_id x \<notin> set ids" using set_dedupe [OF Cons.prems(2)] by simp
    have "y \<noteq> w" using Cons.prems(4) t n by auto
    then show ?thesis
      using Cons.prems False by (cases "wl_id w \<in> set ids") (auto intro: Cons.IH)
  qed
qed simp

definition select_workloads :: "workload_telemetry list \<Rightarrow> workload_telemetry list" where
  "select_workloads ws = take 1024 (dedupe [] (sort_key workload_key ws))"

lemma select_sorted: "sorted (map workload_key (select_workloads ws))"
  unfolding select_workloads_def by (intro sorted_map_take sorted_dedupe sorted_map_sort_key)

lemma select_distinct: "distinct (map wl_id (select_workloads ws))"
  unfolding select_workloads_def take_map [symmetric] by (intro distinct_take distinct_dedupe)

lemma select_member: "x \<in> set (select_workloads ws) \<Longrightarrow> x \<in> set ws"
  unfolding select_workloads_def using set_dedupe [of x "[]" "sort_key workload_key ws"]
  by (auto dest: in_set_takeD)

lemma select_least:
  "x \<in> set (select_workloads ws) \<Longrightarrow> y \<in> set ws \<Longrightarrow> wl_id y = wl_id x \<Longrightarrow> workload_key x \<le> workload_key y"
  unfolding select_workloads_def
  by (rule dedupe_least [of "sort_key workload_key ws" x "[]"]) (auto dest: in_set_takeD)

lemma fst_finish_workloads: "fst (finish_workloads ws w) = Inr (select_workloads ws)"
proof -
  obtain r v where run: "unique_workloads METALIUM_PROFILER_STATE [] (sort_key workload_key ws) w = (r, v)"
    by (cases "unique_workloads METALIUM_PROFILER_STATE [] (sort_key workload_key ws) w")
  then have "r = Inr (dedupe [] (sort_key workload_key ws))"
    by (metis fst_conv unique_workloads_dedupe)
  then show ?thesis
    using run by (simp add: finish_workloads_def bind_act_def then_act_def note_issue_def
        update_source_def modify_act_def return_act_def select_workloads_def maximum_workloads_def)
qed

section \<open>The workloads of a device\<close>

lemma valid_component_label: "valid_component s 128 \<Longrightarrow> bounded_label (Some s) 128 True"
  by (auto simp: valid_component_def list_all_iff)

lemma returns_read_v2_pod:
  assumes "list_all workload_ok (fst acc)"
  shows "returns (read_v2_pod env stale device fd src pod acc) (\<lambda>a. list_all workload_ok (fst a))"
proof -
  have "returns (bind_act (parse_workload env stale c 2 src) (\<lambda>w. case w of
            None \<Rightarrow> return_act acc
          | Some workload \<Rightarrow> return_act (fst acc @ [workload\<lparr>wl_id := pod\<rparr>], wl_id workload # snd acc)))
      (\<lambda>a. list_all workload_ok (fst a))"
    if "valid_component pod 128" for c
  proof (rule returns_bind_strong [OF returns_parse_workload])
    fix w
    assume ok: "\<forall>x. w = Some x \<longrightarrow> workload_ok x"
    show "returns (case w of None \<Rightarrow> return_act acc
        | Some workload \<Rightarrow> return_act (fst acc @ [workload\<lparr>wl_id := pod\<rparr>], wl_id workload # snd acc))
      (\<lambda>a. list_all workload_ok (fst a))"
      using ok assms valid_component_label [OF that]
      by (auto intro!: returns_return simp: workload_ok_def split: option.splits)
  qed
  then show ?thesis
    unfolding read_v2_pod_def maximum_workload_id_bytes_def
    using assms by (auto intro!: returns_rules split: option.splits)
qed

lemma returns_with_directory [returns_rules]: "returns m P \<Longrightarrow> returns (with_directory fd m) P"
  unfolding with_directory_def by (rule returns_finally)

lemma returns_read_v2_root:
  "returns (read_v2_root env stale device root src) (\<lambda>a. list_all workload_ok (fst a))"
  unfolding read_v2_root_def read_v2_workloads_def
  by (auto intro!: returns_rules returns_fold returns_read_v2_pod split: option.splits)

lemma returns_read_v1_file:
  assumes "list_all workload_ok ws"
  shows "returns (read_v1_file env stale fd src ids name ws) (list_all workload_ok)"
proof -
  have "returns (bind_act (parse_workload env stale c 1 src) (\<lambda>w. case w of
            None \<Rightarrow> return_act ws
          | Some workload \<Rightarrow> return_act (if wl_id workload \<in> set ids then ws else ws @ [workload])))
      (list_all workload_ok)" for c
    by (rule returns_bind_strong [OF returns_parse_workload])
      (auto intro!: returns_return assms simp: assms split: option.splits)
  then show ?thesis
    unfolding read_v1_file_def
    using assms by (auto intro!: returns_rules split: option.splits)
qed

lemma returns_read_v1_root:
  "list_all workload_ok (fst acc) \<Longrightarrow>
    returns (read_v1_root env stale device root src acc) (list_all workload_ok)"
  unfolding read_v1_root_def
  by (auto intro!: returns_rules returns_fold returns_read_v1_file split: option.splits)

text \<open>What the list of workloads of a device promises its readers.\<close>

definition workloads_ok :: "workload_telemetry list \<Rightarrow> bool" where
  "workloads_ok ws \<longleftrightarrow> list_all workload_ok ws \<and> sorted (map workload_key ws) \<and>
     distinct (map wl_id ws) \<and> length ws \<le> 1024"

lemma returns_read_workloads: "returns (read_workloads env stale device root) workloads_ok"
proof -
  have "returns (finish_workloads ws) workloads_ok" if "list_all workload_ok ws" for ws
  proof -
    have "workloads_ok (select_workloads ws)"
      using that select_sorted [of ws] select_distinct [of ws] select_member [of _ ws]
      by (auto simp: workloads_ok_def list_all_iff select_workloads_def)
    moreover have "x = select_workloads ws" if "finish_workloads ws s = (Inr x, t)" for s x t
      using that fst_finish_workloads [of ws s] by simp
    ultimately show ?thesis unfolding returns_def by blast
  qed
  then have "returns (bind_act (read_v1_root env stale device root METALIUM_PROFILER_STATE acc) finish_workloads) workloads_ok"
    if "list_all workload_ok (fst acc)" for acc
    using returns_read_v1_root [OF that] by (rule returns_bind_strong [rotated])
  then show ?thesis
    unfolding read_workloads_def
    by (rule returns_bind_strong [OF returns_read_v2_root])
qed

text \<open>
  C23: However many records the profiler root holds and whatever is in them, the workloads
  reported for a device are valid records, fresh ones before stale ones and later samples before
  earlier ones, one for each identity, and at most 1024.
\<close>

theorem read_workloads_ok:
  assumes "read_workloads env stale device root w = (Inr ws, v)"
  shows "workloads_ok ws"
  using returns_read_workloads assms by (rule returnsD)

theorem read_workloads_ok_witness:
  "fst (read_workloads denied_env 15 (new_device (u ''0'') (u ''/x'')) 3 initial_world) = Inr [] \<and>
   workloads_ok []"
proof -
  have run: "fst (read_workloads denied_env 15 (new_device (u ''0'') (u ''/x'')) 3 initial_world) = Inr []"
    by code_simp
  then have "read_workloads denied_env 15 (new_device (u ''0'') (u ''/x'')) 3 initial_world =
      (Inr [], snd (read_workloads denied_env 15 (new_device (u ''0'') (u ''/x'')) 3 initial_world))"
    by (simp add: prod_eq_iff)
  from read_workloads_ok [OF this] run show ?thesis by blast
qed

text \<open>
  Of several records with one identity, the one that is kept is fresh if any of them is,
  and no other fresh one was sampled later; every identity is represented while there are at
  most 1024 of them.
\<close>

theorem select_workloads_spec:
  "(\<forall>x \<in> set (select_workloads ws). x \<in> set ws \<and>
      (\<forall>y \<in> set ws. wl_id y = wl_id x \<longrightarrow> workload_key x \<le> workload_key y)) \<and>
   (length (select_workloads ws) < 1024 \<longrightarrow> wl_id ` set (select_workloads ws) = wl_id ` set ws) \<and>
   fst (finish_workloads ws w) = Inr (select_workloads ws)"
proof (intro conjI ballI impI)
  show "wl_id ` set (select_workloads ws) = wl_id ` set ws" if "length (select_workloads ws) < 1024"
  proof -
    have "select_workloads ws = dedupe [] (sort_key workload_key ws)"
      using that by (simp add: select_workloads_def)
    then show ?thesis using dedupe_ids [of "[]" "sort_key workload_key ws"] by simp
  qed
qed (auto simp: fst_finish_workloads select_member select_least)

section \<open>Staleness\<close>

text \<open>
  A record is stale exactly when staleness is enabled and its timestamp is further from the
  clock than the limit, in the past or in the future.
\<close>

theorem is_stale_distance:
  "is_stale limit now timestamp \<longleftrightarrow> 0 < limit \<and> limit < \<bar>now - timestamp\<bar>"
  by (auto simp: is_stale_def)

section \<open>What workloads contribute to a device\<close>

lemma fold_max_ge: "(x :: int) \<in> set (y # ys) \<Longrightarrow> x \<le> fold max ys y"
  by (metis List.finite_set Max_ge Max.set_eq_fold)

lemma set_reported_totals:
  "m \<in> set (List.map_filter wl_cores_total fresh) \<longleftrightarrow> (\<exists>w \<in> set fresh. wl_cores_total w = Some m)"
  by (force simp: List.map_filter_def)

lemma profiler_total_max:
  assumes "profiler_cores_total fresh = Some n" "w \<in> set fresh" "wl_cores_total w = Some m"
  shows "m \<le> n"
proof -
  have "m \<in> set (List.map_filter wl_cores_total fresh)" using assms by (auto simp: set_reported_totals)
  then show ?thesis
    using assms(1) fold_max_ge by (auto simp: profiler_cores_total_def split: list.splits)
qed

lemma profiler_total_reported:
  assumes "profiler_cores_total fresh = Some n"
  obtains w m where "w \<in> set fresh" "wl_cores_total w = Some m"
proof -
  from assms obtain m where "m \<in> set (List.map_filter wl_cores_total fresh)"
    by (auto simp: profiler_cores_total_def split: list.splits)
  then show ?thesis using that by (auto simp: set_reported_totals)
qed

text \<open>
  Profiler workloads never override what sysfs reported: a core count that was known stays
  as it was, and everything else of the device is untouched.
\<close>

theorem apply_workloads_keeps:
  "(tsx_used (dev_tensix d) \<noteq> None \<longrightarrow> tsx_used (dev_tensix (apply_workloads d)) = tsx_used (dev_tensix d)) \<and>
   (tsx_total (dev_tensix d) \<noteq> None \<longrightarrow> tsx_total (dev_tensix (apply_workloads d)) = tsx_total (dev_tensix d)) \<and>
   (tsx_available (dev_tensix d) \<noteq> None \<longrightarrow>
      tsx_available (dev_tensix (apply_workloads d)) = tsx_available (dev_tensix d)) \<and>
   apply_workloads d = d\<lparr>dev_tensix := dev_tensix (apply_workloads d)\<rparr> \<and>
   (list_all wl_stale (dev_workloads d) \<longrightarrow> apply_workloads d = d)"
proof (cases "profiler_cores_total (fresh_workloads d)")
  case None
  then show ?thesis
    by (auto simp: apply_workloads_def Let_def fresh_workloads_def filter_empty_conv list_all_iff)
next
  case (Some t)
  then show ?thesis
    by (auto simp: apply_workloads_def Let_def fresh_workloads_def filter_empty_conv list_all_iff)
qed

lemma profiler_cores_used_range:
  assumes "list_all workload_ok fresh"
  shows "0 \<le> profiler_cores_used fresh \<and>
    (\<forall>t. profiler_cores_total fresh = Some t \<longrightarrow> 0 < t \<and> profiler_cores_used fresh \<le> t)"
proof -
  let ?used = "sum_list (map (\<lambda>w. case wl_cores_used w of None \<Rightarrow> 0 | Some n \<Rightarrow> n)
                   (filter (\<lambda>w. wl_active w \<noteq> None \<and> wl_active w \<noteq> Some 0) fresh))"
  have "0 \<le> ?used"
    using assms by (intro sum_list_nonneg) (auto simp: list_all_iff workload_ok_def)
  moreover have "0 < t" if t: "profiler_cores_total fresh = Some t" for t
  proof -
    from t obtain w m where "w \<in> set fresh" "wl_cores_total w = Some m"
      by (rule profiler_total_reported)
    moreover from this have "0 < m" using assms by (auto simp: list_all_iff workload_ok_def)
    ultimately show ?thesis using profiler_total_max [OF t] by fastforce
  qed
  ultimately show ?thesis
    by (auto simp: profiler_cores_used_def Let_def split: option.splits)
qed

text \<open>
  When sysfs reports no core counts and a fresh workload does, the derived numbers are
  consistent: the used cores are not negative, and with a total they do not exceed it and the
  available cores are the rest, however many workloads claim the same cores.
\<close>

theorem apply_workloads_consistent:
  assumes "list_all workload_ok (dev_workloads d)" and "fresh_workloads d \<noteq> []"
    and "dev_tensix d = new_tensix"
  shows "\<exists>used. tsx_used (dev_tensix (apply_workloads d)) = Some used \<and> 0 \<le> used \<and>
    tsx_source (dev_tensix (apply_workloads d)) = Some (u ''metalium_profiler'') \<and>
    (case tsx_total (dev_tensix (apply_workloads d)) of
       None \<Rightarrow> tsx_available (dev_tensix (apply_workloads d)) = None
     | Some cores \<Rightarrow> used \<le> cores \<and>
         tsx_available (dev_tensix (apply_workloads d)) = Some (cores - used))"
proof -
  have "list_all workload_ok (fresh_workloads d)"
    using assms(1) by (auto simp: fresh_workloads_def list_all_iff)
  then show ?thesis
    using profiler_cores_used_range [of "fresh_workloads d"] assms(2,3)
    by (cases "profiler_cores_total (fresh_workloads d)")
      (auto simp: apply_workloads_def Let_def new_tensix_def)
qed

definition sample_workload :: workload_telemetry where
  "sample_workload = \<lparr>wl_id = u ''job'', wl_pod_namespace = None, wl_pod_name = None,
     wl_container_name = None, wl_active = Some 1, wl_programs_observed = Some 3,
     wl_cores_used = Some 48, wl_cores_total = Some 64, wl_timestamp = Some 100, wl_stale = False\<rparr>"

theorem apply_workloads_consistent_witness:
  "let d = (new_device (u ''0'') (u ''/x''))\<lparr>dev_workloads := [sample_workload]\<rparr>
   in list_all workload_ok (dev_workloads d) \<and> fresh_workloads d \<noteq> [] \<and> dev_tensix d = new_tensix \<and>
      (\<exists>used. tsx_used (dev_tensix (apply_workloads d)) = Some used \<and> 0 \<le> used)"
proof -
  let ?d = "(new_device (u ''0'') (u ''/x''))\<lparr>dev_workloads := [sample_workload]\<rparr>"
  have h: "list_all workload_ok (dev_workloads ?d)" "fresh_workloads ?d \<noteq> []" "dev_tensix ?d = new_tensix"
    by (simp_all add: workload_ok_def sample_workload_def fresh_workloads_def new_device_def u_Cons
        int64_max_def)
  show ?thesis using h apply_workloads_consistent [OF h] by (auto simp: Let_def)
qed

section \<open>A record that stops the collection\<close>

lemma digits_int_literal:
  assumes "list_all (\<lambda>c. 48 \<le> c \<and> c \<le> 57) ds" "ds \<noteq> []"
  shows "is_int_literal ds \<and> literal_body ds = ds \<and> strip_ws ds = ds \<and> strip_ascii ds = ds \<and> no_break ds"
proof -
  have "take 1 ds \<noteq> u ''+''" "take 1 ds \<noteq> u ''-''" using assms by (cases ds; auto simp: u_Cons)+
  then have "literal_body ds = ds" by (simp add: literal_body_def)
  moreover have "list_all is_decimal ds"
    using assms(1) by (auto simp: list_all_iff is_decimal_ascii_digit)
  moreover have "strip_ws ds = ds" "strip_ascii ds = ds"
    unfolding strip_ws_def strip_ascii_def
    using assms(1) by (auto intro!: strip_by_none simp: list_all_iff digit_not_space digit_not_c_space)
  moreover have "no_break ds"
    using assms(1) by (auto simp: no_break_def list_all_iff is_line_break_def line_break_points_def)
  ultimately show ?thesis using assms(2) by (simp add: is_int_literal_body)
qed

text \<open>
  A record whose schema version is written with more than 4300 digits, which the 16 KiB
  limit on a record allows, is not counted as an invalid value: parsing it raises
  \<open>ValueError\<close>, and nothing between the record and the collection handles it.
\<close>

theorem parse_workload_raises:
  assumes "list_all (\<lambda>c. 48 \<le> c \<and> c \<le> 57) ds" and "4300 < length ds"
  shows "parse_workload env stale (u ''schema_version='' @ ds) schema src w = (Inl ValueError, w)"
proof -
  have ds: "is_int_literal ds" "literal_body ds = ds" "strip_ws ds = ds" "strip_ascii ds = ds" "no_break ds"
    using digits_int_literal [OF assms(1)] assms(2) by fastforce+
  let ?content = "u ''schema_version='' @ ds"
  have "no_break ?content"
    using ds(5) by (simp add: u_Cons is_line_break_def line_break_points_def)
  then have lines: "splitlines ?content = [?content]"
    by (intro splitlines_last) simp_all
  have "0 \<notin> set ?content" using assms(1) by (auto simp: u_Cons list_all_iff)
  moreover have "split_once (cp CHR ''='') ?content = Some (u ''schema_version'', ds)"
    using split_once_append [of "cp CHR ''=''" "u ''schema_version''" ds] by (simp add: u_Cons)
  moreover have "strip_ascii (u ''schema_version'') = u ''schema_version''"
    unfolding strip_ascii_def by (rule strip_by_none) (simp add: u_Cons is_c_space_def)
  ultimately have "parse_key_values ?content = Some [(u ''schema_version'', ds)]"
    using ds(4) by (simp add: parse_key_values_def lines maximum_state_fields_def)
  moreover have "parse_int64 ds = Inl ValueError"
    using ds assms(2) by (simp add: parse_int64_eq int_max_str_digits_def)
  moreover have "ds \<noteq> []" using assms(2) by auto
  ultimately show ?thesis
    by (simp add: parse_workload_def state_non_negative_int_def state_string_def raise_act_def)
qed

theorem parse_workload_raises_witness:
  "parse_workload denied_env 15 (u ''schema_version='' @ replicate 4301 57) 2 METALIUM_PROFILER_STATE
     initial_world = (Inl ValueError, initial_world)"
  by (rule parse_workload_raises) (simp_all add: list_all_iff)

section \<open>Instances\<close>

text \<open>Two samples of one job, the first one stale, and a device whose used cores sysfs reports.\<close>

definition stale_sample :: workload_telemetry where
  "stale_sample = sample_workload\<lparr>wl_timestamp := Some 500, wl_stale := True\<rparr>"

theorem select_workloads_spec_witness:
  "sample_workload \<in> set (select_workloads [stale_sample, sample_workload]) \<and>
   workload_key sample_workload \<le> workload_key stale_sample \<and>
   length (select_workloads [stale_sample, sample_workload]) < 1024"
proof -
  have s: "select_workloads [stale_sample, sample_workload] = [sample_workload]"
    by (simp add: select_workloads_def sort_key_def workload_key_def stale_sample_def sample_workload_def)
  have i: "wl_id stale_sample = wl_id sample_workload" by (simp add: stale_sample_def)
  show ?thesis using select_workloads_spec [of "[stale_sample, sample_workload]" initial_world] s i by simp
qed

definition sysfs_used_device :: device_telemetry where
  "sysfs_used_device = (new_device (u ''0'') (u ''/x''))\<lparr>
     dev_tensix := new_tensix\<lparr>tsx_used := Some 7\<rparr>, dev_workloads := [sample_workload]\<rparr>"

theorem apply_workloads_keeps_witness:
  "tsx_used (dev_tensix (apply_workloads sysfs_used_device)) = Some 7 \<and>
   fresh_workloads sysfs_used_device = [sample_workload]"
proof -
  have u: "tsx_used (dev_tensix sysfs_used_device) = Some 7"
    and f: "fresh_workloads sysfs_used_device = [sample_workload]"
    by (simp_all add: sysfs_used_device_def fresh_workloads_def sample_workload_def)
  show ?thesis using apply_workloads_keeps [of sysfs_used_device] u f by simp
qed

end
