(* ===== verification/WorkloadVersions.thy ===== *)
theory WorkloadVersions
  imports WorkloadFacts
begin

text \<open>
  A concrete profiler root with a version 2 record and a version 1 record of one pod, on which
  the whole reading of workloads is evaluated.
\<close>

section \<open>Two records of one pod\<close>

definition two_versions_record :: "string \<Rightarrow> string \<Rightarrow> string \<Rightarrow> bytes" where
  "two_versions_record schema identity time =
     ''schema_version='' @ schema @ [CHR 0x0A] @ ''workload_id='' @ identity @ [CHR 0x0A] @
     ''active=1'' @ [CHR 0x0A] @ ''programs_observed=0'' @ [CHR 0x0A] @
     ''tensix_cores_used=1'' @ [CHR 0x0A] @ ''sample_timestamp_seconds='' @ time"

definition two_versions_workload :: "string \<Rightarrow> int \<Rightarrow> workload_telemetry" where
  "two_versions_workload identity time =
     \<lparr>wl_id = u identity, wl_pod_namespace = None, wl_pod_name = None,
     wl_container_name = None, wl_active = Some 1, wl_programs_observed = Some 0,
     wl_cores_used = Some 1, wl_cores_total = None, wl_timestamp = Some time, wl_stale = False\<rparr>"

definition two_versions_tree :: "((node \<times> pystr) \<times> node) list" where
  "two_versions_tree = [((1, u ''v2''), 2), ((2, u ''workloads''), 3), ((3, u ''pod-1''), 4),
         ((4, u ''0''), 5), ((5, u ''snapshot.state''), 6), ((1, u ''0''), 7), ((7, u ''a.state''), 8)]"

definition two_versions_env :: os_env where
  "two_versions_env = denied_env\<lparr>
     env_openat := (\<lambda>h n c f. case map_of two_versions_tree (n, c) of None \<Rightarrow> Inl ENOENT | Some m \<Rightarrow> Inr m),
     env_listdir := (\<lambda>h n. Inr (if n = 3 then [u ''pod-1''] else [u ''a.state''])),
     env_fstat := (\<lambda>h n. Inr \<lparr>st_kind = RegularFile, st_size = 112, st_nlink = 1\<rparr>),
     env_read := (\<lambda>h n. Inr (if n = 6 then two_versions_record ''2'' ''job'' ''100''
                             else two_versions_record ''1'' ''pod-1'' ''101'')),
     env_time := (\<lambda>h. 100)\<rparr>"

lemmas text_eval = u_Cons u_append is_line_break_def line_break_points_def strip_ascii_def strip_ws_def
  strip_by_def is_c_space_def is_space_def space_points_def

lemma two_versions_parse:
  "parse_key_values (u (two_versions_record ''2'' ''job'' ''100'')) =
    Some [(u ''schema_version'', u ''2''), (u ''workload_id'', u ''job''), (u ''active'', u ''1''),
      (u ''programs_observed'', u ''0''), (u ''tensix_cores_used'', u ''1''), (u ''sample_timestamp_seconds'', u ''100'')]"
  "parse_key_values (u (two_versions_record ''1'' ''pod-1'' ''101'')) =
    Some [(u ''schema_version'', u ''1''), (u ''workload_id'', u ''pod-1''), (u ''active'', u ''1''),
      (u ''programs_observed'', u ''0''), (u ''tensix_cores_used'', u ''1''), (u ''sample_timestamp_seconds'', u ''101'')]"
  by (simp_all add: two_versions_record_def parse_key_values_def maximum_state_fields_def Let_def text_eval)

lemma two_versions_ints: "parse_int64 (u ''0'') = Inr (Some 0)" "parse_int64 (u ''1'') = Inr (Some 1)"
  "parse_int64 (u ''2'') = Inr (Some 2)" "parse_int64 (u ''100'') = Inr (Some 100)" "parse_int64 (u ''101'') = Inr (Some 101)"
  "parse_int64 [] = Inr None"
  by (simp_all add: parse_int64_eq literal_body_def literal_value_def is_int_literal_def text_eval is_decimal_def decimal_digit_ascii'
     int64_min_def int64_max_def int_max_str_digits_def digits_value_def decimal_digits_value_def)

definition accepted_world :: "world \<Rightarrow> world" where
  "accepted_world w = snd (note_accepted METALIUM_PROFILER_STATE (w\<lparr>w_trace := w_trace w @ [CTime]\<rparr>))"

lemma two_versions_records:
  "parse_workload two_versions_env 15 (u (two_versions_record ''2'' ''job'' ''100'')) 2 METALIUM_PROFILER_STATE w =
    (Inr (Some (two_versions_workload ''job'' 100)), accepted_world w)"
  "parse_workload two_versions_env 15 (u (two_versions_record ''1'' ''pod-1'' ''101'')) 1 METALIUM_PROFILER_STATE w =
    (Inr (Some (two_versions_workload ''pod-1'' 101)), accepted_world w)"
  by (simp_all add: parse_workload_def two_versions_parse state_non_negative_int_def state_string_def two_versions_ints
     workload_fields_def invalid_workload_def run_simps os_time_def two_versions_env_def is_stale_def note_accepted_def
     update_source_def two_versions_workload_def state_limits accepted_world_def Let_def, simp_all add: u_Cons)


lemma two_versions_decode:
  "strip_ascii (u (two_versions_record ''2'' ''job'' ''100'')) = u (two_versions_record ''2'' ''job'' ''100'')"
  "decode_utf8 (two_versions_record ''2'' ''job'' ''100'') = Some (u (two_versions_record ''2'' ''job'' ''100''))"
  "strip_ascii (u (two_versions_record ''1'' ''pod-1'' ''101'')) = u (two_versions_record ''1'' ''pod-1'' ''101'')"
  "decode_utf8 (two_versions_record ''1'' ''pod-1'' ''101'') = Some (u (two_versions_record ''1'' ''pod-1'' ''101''))"
  "length (two_versions_record ''1'' ''pod-1'' ''101'') = 112" "length (two_versions_record ''2'' ''job'' ''100'') = 110"
  "two_versions_record ''1'' ''pod-1'' ''101'' \<noteq> []" "two_versions_record ''2'' ''job'' ''100'' \<noteq> []"
  by (simp_all add: two_versions_record_def text_eval decode_utf8_ascii)

lemma two_versions_keys: "device_keys (new_device (u ''0'') p) = [u ''0'']"
  by (simp add: device_keys_def new_device_def new_pci_info_def valid_component_def u_Cons)

lemma two_versions_names: "valid_component (u ''0'') 128" "valid_component (u ''v2'') 128" "valid_component (u ''workloads'') 128" "valid_component (u ''pod-1'') 128"
   "valid_component (u ''snapshot.state'') 255" "valid_component (u ''a.state'') 255" "ends_with (u ''a.state'') (u ''.state'')"
  by (simp_all add: valid_component_def u_Cons ends_with_def)

lemma two_versions_answers: "env_openat two_versions_env h 1 (u ''v2'') f = Inr 2"
 "env_openat two_versions_env h (Suc 0) (u ''v2'') f = Inr 2"
 "env_openat two_versions_env h 2 (u ''workloads'') f = Inr 3"
 "env_openat two_versions_env h 3 (u ''pod-1'') f = Inr 4"
 "env_openat two_versions_env h 4 (u ''0'') f = Inr 5"
 "env_openat two_versions_env h 5 (u ''snapshot.state'') f = Inr 6"
 "env_openat two_versions_env h (Suc 0) (u ''0'') f = Inr 7"
 "env_openat two_versions_env h 7 (u ''a.state'') f = Inr 8"
 "env_fstat two_versions_env h n = Inr \<lparr>st_kind = RegularFile, st_size = 112, st_nlink = 1\<rparr>"
 "env_interrupts two_versions_env h n = 0"
 "env_read two_versions_env h 6 = Inr (two_versions_record ''2'' ''job'' ''100'')"
 "env_read two_versions_env h 8 = Inr (two_versions_record ''1'' ''pod-1'' ''101'')"
 "env_listdir two_versions_env h 3 = Inr [u ''pod-1'']"
 "env_listdir two_versions_env h 7 = Inr [u ''a.state'']"
  by (simp_all add: two_versions_env_def two_versions_tree_def denied_env_def)

lemmas two_versions_eval = read_v2_root_def read_v2_workloads_def read_v2_pod_def read_v1_root_def
  read_v1_file_def open_directory_def secure_read_text_def first_device_directory_def
  two_versions_keys two_versions_names two_versions_answers run_simps os_openat_def
  descriptor_node_def opened_def new_descriptor_def read_descriptor_def os_fstat_def
  on_descriptor_def with_directory_def secure_close_def os_listdir_def dir_entries_def
  interruptions_def os_read_def os_close_def accept_content_def two_versions_decode
  two_versions_records state_limits note_file_read_def update_source_def note_accepted_def
  accepted_world_def Let_def

text \<open>
  The documentation says that a version 1 record cannot replace a version 2 record with the
  same workload identity. The identity of a version 2 record is the name of its pod directory,
  but the check is against the identity written inside the record; so a version 1 record that
  names the pod is let in, and when it is fresher it is the only one reported for that pod.
\<close>

theorem v1_record_replaces_v2:
  "let device = new_device (u ''0'') (u ''/sys/class/tenstorrent/0'');
       w = initial_world\<lparr>w_descriptors := [(0, 1)]\<rparr>
   in fst (read_v2_root two_versions_env 15 device 0 METALIUM_PROFILER_STATE w) =
        Inr ([two_versions_workload ''pod-1'' 100], [u ''job'']) \<and>
      fst (read_workloads two_versions_env 15 device 0 w) =
        Inr [two_versions_workload ''pod-1'' 101]"
  unfolding Let_def
proof
  let ?d = "new_device (u ''0'') (u ''/sys/class/tenstorrent/0'')"
  let ?w = "initial_world\<lparr>w_descriptors := [(0, 1)]\<rparr>"
  show "fst (read_v2_root two_versions_env 15 ?d 0 METALIUM_PROFILER_STATE ?w) =
      Inr ([two_versions_workload ''pod-1'' 100], [u ''job''])"
    by (simp add: two_versions_eval) (simp add: two_versions_workload_def)
  have "fst (read_workloads two_versions_env 15 ?d 0 ?w) =
      Inr (select_workloads [two_versions_workload ''pod-1'' 100, two_versions_workload ''pod-1'' 101])"
    by (simp add: read_workloads_def two_versions_eval fst_finish_workloads)
      (simp add: two_versions_workload_def)
  also have "select_workloads [two_versions_workload ''pod-1'' 100, two_versions_workload ''pod-1'' 101] =
      [two_versions_workload ''pod-1'' 101]"
    by (simp add: select_workloads_def sort_key_def workload_key_def two_versions_workload_def)
  finally show "fst (read_workloads two_versions_env 15 ?d 0 ?w) = Inr [two_versions_workload ''pod-1'' 101]" .
qed

end
