(* ===== verification/Floats.thy ===== *)
theory Floats
  imports Complex_Main PyStrFacts
begin

text \<open>
  Finite binary floating-point numbers as the exact rationals they stand for. \<open>round_double\<close>
  is rounding to 53 significant bits, ties to even, which is what a Python \<open>float\<close>
  operation does to the exact result; \<open>float_sub\<close> and \<open>true_division\<close> are the two
  operations the exporter uses. Overflow, subnormal numbers and the sign of zero do not occur
  for the times and core counts involved and are not modelled. \<open>format_g p x\<close> is
  \<open>format(x, ".<p>g")\<close>: \<open>p\<close> significant digits of the exact value, rounded half to
  even, without trailing zeros, in scientific notation outside the exponents \<open>-4 .. p-1\<close>.
\<close>

section \<open>Rounding\<close>

text \<open>\<open>n / d\<close> rounded to the nearest integer, ties to even.\<close>

definition round_div :: "nat \<Rightarrow> nat \<Rightarrow> nat" where
  "round_div n d =
     (let q = n div d; r = n mod d
      in if 2 * r < d then q else if d < 2 * r then q + 1 else if even q then q else q + 1)"

text \<open>The exponent \<open>e\<close> with \<open>b ^ e \<le> n / d < b ^ (e + 1)\<close>, and \<open>n / d / b ^ e\<close> as a fraction.\<close>

definition exponent_of :: "nat \<Rightarrow> nat \<Rightarrow> nat \<Rightarrow> int" where
  "exponent_of b n d =
     (let k = int (length (nat_digits b n)) - int (length (nat_digits b d))
      in if d * b ^ nat k \<le> n * b ^ nat (- k) then k else k - 1)"

definition shift_fraction :: "nat \<Rightarrow> nat \<Rightarrow> nat \<Rightarrow> int \<Rightarrow> nat \<times> nat" where
  "shift_fraction b n d e = (n * b ^ nat (- e), d * b ^ nat e)"

definition round_significand :: "nat \<Rightarrow> nat \<Rightarrow> nat \<Rightarrow> int \<Rightarrow> nat" where
  "round_significand b n d e = (case shift_fraction b n d e of (p, q) \<Rightarrow> round_div p q)"

definition round_double :: "rat \<Rightarrow> rat" where
  "round_double x =
     (case quotient_of x of (n, d) \<Rightarrow>
        if n = 0 then 0
        else let e = exponent_of 2 (nat \<bar>n\<bar>) (nat d) - 52;
                 m = round_significand 2 (nat \<bar>n\<bar>) (nat d) e
             in of_int (sgn n) * of_nat m * of_nat (2 ^ nat e) / of_nat (2 ^ nat (- e)))"

text \<open>\<open>int(x)\<close> of a float cuts toward zero.\<close>

definition int_of_float :: "rat \<Rightarrow> int" where
  "int_of_float x = (if x < 0 then - \<lfloor>- x\<rfloor> else \<lfloor>x\<rfloor>)"

definition float_sub :: "rat \<Rightarrow> rat \<Rightarrow> rat" where
  "float_sub a b = round_double (a - b)"

text \<open>\<open>a / b\<close> on integers, for a \<open>b\<close> that is not zero.\<close>

definition true_division :: "int \<Rightarrow> int \<Rightarrow> rat" where
  "true_division a b = round_double (Fract a b)"

section \<open>General format\<close>

definition strip_zeros :: "nat list \<Rightarrow> nat list" where
  "strip_zeros ds = rev (dropWhile (\<lambda>d. d = 0) (rev ds))"

definition with_fraction :: "nat list \<Rightarrow> nat list \<Rightarrow> pystr" where
  "with_fraction whole fraction =
     map digit_point whole
       @ (if strip_zeros fraction = [] then []
          else u ''.'' @ map digit_point (strip_zeros fraction))"

definition exponent_text :: "int \<Rightarrow> pystr" where
  "exponent_text e =
     (if e < 0 then u ''e-'' else u ''e+'')
       @ (if \<bar>e\<bar> < 10 then u ''0'' else []) @ str_nat (nat \<bar>e\<bar>)"

definition general_text :: "nat \<Rightarrow> nat list \<Rightarrow> int \<Rightarrow> pystr" where
  "general_text p ds e =
     (if - 4 \<le> e \<and> e < int p then
        (if 0 \<le> e then with_fraction (take (nat e + 1) ds) (drop (nat e + 1) ds)
         else with_fraction [0] (replicate (nat (- e) - 1) 0 @ ds))
      else with_fraction (take 1 ds) (drop 1 ds) @ exponent_text e)"

definition format_positive :: "nat \<Rightarrow> nat \<Rightarrow> nat \<Rightarrow> pystr" where
  "format_positive p n d =
     (let e = exponent_of 10 n d;
          m = round_significand 10 n d (e - int p + 1)
      in if m = 10 ^ p then general_text p (nat_digits 10 (10 ^ (p - 1))) (e + 1)
         else general_text p (nat_digits 10 m) e)"

definition format_g :: "nat \<Rightarrow> rat \<Rightarrow> pystr" where
  "format_g p x =
     (case quotient_of x of (n, d) \<Rightarrow>
        if n = 0 then u ''0''
        else (if n < 0 then u ''-'' else []) @ format_positive p (nat \<bar>n\<bar>) (nat d))"

section \<open>Evaluation\<close>

lemma nat_digits_base: "n < b \<Longrightarrow> nat_digits b n = [n]"
  by (subst nat_digits.simps) simp

lemma nat_digits_step:
  "2 \<le> b \<Longrightarrow> b \<le> n \<Longrightarrow> nat_digits b n = nat_digits b (n div b) @ [n mod b]"
  by (subst nat_digits.simps) simp

lemmas format_defs = format_g_def format_positive_def general_text_def exponent_text_def
  with_fraction_def strip_zeros_def round_significand_def shift_fraction_def exponent_of_def
  round_div_def str_nat_def nat_digits_base nat_digits_step digit_point_def

lemma quotient_of_fraction:
  "0 < d \<Longrightarrow> coprime n d \<Longrightarrow> quotient_of (of_int n / of_int d) = (n, d)"
  using quotient_of_Fract [of n d] by (simp add: Fract_of_int_quotient normalize_def)

section \<open>The characters of a formatted number\<close>

text \<open>Digits, sign, point and exponent mark: nothing that separates fields or lines.\<close>

definition number_point :: "nat \<Rightarrow> bool" where
  "number_point c \<longleftrightarrow> 48 \<le> c \<and> c \<le> 57 \<or> c = 43 \<or> c = 45 \<or> c = 46 \<or> c = 101"

lemma digit_point_number: "d < 10 \<Longrightarrow> number_point (digit_point d)"
  by (simp add: number_point_def digit_point_def)

lemma digits_number_point: "list_all (\<lambda>d. d < 10) ds \<Longrightarrow> list_all number_point (map digit_point ds)"
  by (auto simp: list_all_iff digit_point_number)

lemma str_nat_number_point: "list_all number_point (str_nat n)"
  unfolding str_nat_def by (rule digits_number_point) (simp add: nat_digits_less)

lemma str_int_number_point: "list_all number_point (str_int i)"
  using str_nat_number_point by (auto simp: str_int_def number_point_def)

lemma set_strip_zeros: "set (strip_zeros ds) \<subseteq> set ds"
  using set_dropWhile [of "\<lambda>d. d = 0" "rev ds"] by (simp add: strip_zeros_def)

lemma strip_zeros_all: "list_all P ds \<Longrightarrow> list_all P (strip_zeros ds)"
  using set_strip_zeros [of ds] by (auto simp: list_all_iff)

lemma with_fraction_number_point:
  "list_all (\<lambda>d. d < 10) w \<Longrightarrow> list_all (\<lambda>d. d < 10) f \<Longrightarrow> list_all number_point (with_fraction w f)"
  by (simp add: with_fraction_def digits_number_point strip_zeros_all)
    (simp add: u_Cons number_point_def)

lemma exponent_number_point: "list_all number_point (exponent_text e)"
  using str_nat_number_point by (simp add: exponent_text_def u_Cons number_point_def)

lemma list_all_take_drop: "list_all P xs \<Longrightarrow> list_all P (take n xs) \<and> list_all P (drop n xs)"
  by (auto simp: list_all_iff dest: in_set_takeD in_set_dropD)

lemma general_number_point: "list_all (\<lambda>d. d < 10) ds \<Longrightarrow> list_all number_point (general_text p ds e)"
  unfolding general_text_def
  by (auto intro!: with_fraction_number_point simp: list_all_take_drop exponent_number_point)
    (simp add: list_all_iff)

lemma format_g_number_point: "list_all number_point (format_g p x)"
proof -
  have "list_all (\<lambda>d. d < 10) (nat_digits 10 m)" for m
    by (simp add: nat_digits_less)
  then have "list_all number_point (format_positive p n d)" for n d
    by (simp add: format_positive_def general_number_point Let_def)
  then show ?thesis
    by (simp add: format_g_def number_point_def u_Cons split: prod.splits)
qed

lemma general_neq_Nil: "ds \<noteq> [] \<Longrightarrow> general_text p ds e \<noteq> []"
  by (auto simp: general_text_def with_fraction_def exponent_text_def)

lemma format_g_neq_Nil: "format_g p x \<noteq> []"
proof -
  have "format_positive p n d \<noteq> []" for n d
    by (simp add: format_positive_def general_neq_Nil Let_def)
  then show ?thesis
    by (simp add: format_g_def split: prod.splits)
qed

end
