(* ===== verification/Prometheus.thy ===== *)
theory Prometheus
  imports Models Floats
begin

text \<open>
  \<open>renderers/prometheus.py\<close>: the text exposition of a list of devices. A label value is
  absent, a string or an integer. A metric family is a name, a help text, a type and the writer
  that gives the sample lines of one device; \<open>contract_families\<close> lists the families in the
  order in which \<open>render_prometheus\<close> writes them.
\<close>

section \<open>Labels\<close>

datatype label_value =
    Absent
  | Text pystr
  | Number int

type_synonym label = "pystr \<times> label_value"

fun opt_text :: "pystr option \<Rightarrow> label_value" where
  "opt_text None = Absent"
| "opt_text (Some s) = Text s"

fun opt_number :: "int option \<Rightarrow> label_value" where
  "opt_number None = Absent"
| "opt_number (Some i) = Number i"

fun prom_value :: "label_value \<Rightarrow> pystr" where
  "prom_value Absent = u ''unknown''"
| "prom_value (Text s) = (if s = [] then u ''unknown'' else s)"
| "prom_value (Number i) = str_int i"

text \<open>
  The three replacements, in the order of the code; the chain is written once more in
  \<open>app/runtime.py\<close>.
\<close>

definition escape_text :: "pystr \<Rightarrow> pystr" where
  "escape_text s =
     replace_char 34 [92, 34] (replace_char 10 [92, 110] (replace_char 92 [92, 92] s))"

definition prom_escape :: "label_value \<Rightarrow> pystr" where
  "prom_escape v = escape_text (prom_value v)"

definition label_text :: "label \<Rightarrow> pystr" where
  "label_text l = fst l @ [61, 34] @ prom_escape (snd l) @ [34]"

definition prom_labels :: "label list \<Rightarrow> pystr" where
  "prom_labels pairs = join [44] (map label_text pairs)"

definition lab :: "string \<Rightarrow> label_value \<Rightarrow> label" where
  "lab name v = (u name, v)"

definition device_labels :: "device_telemetry \<Rightarrow> label list" where
  "device_labels d =
     [lab ''device'' (Text (dev_id d)),
      lab ''architecture'' (opt_text (dev_architecture d)),
      lab ''board_type'' (opt_text (dev_board_type d)),
      lab ''pci_bdf'' (opt_text (pci_bdf (dev_pci d)))]"

definition info_labels :: "device_telemetry \<Rightarrow> label list" where
  "info_labels d = (let p = dev_pci d; character = dev_character_device d in device_labels d @
     [lab ''sysfs_path'' (Text (dev_sysfs_path d)),
      lab ''health'' (opt_text (dev_health d)),
      lab ''dev_major'' (case character of None \<Rightarrow> Absent | Some c \<Rightarrow> Number (chr_major c)),
      lab ''dev_minor'' (case character of None \<Rightarrow> Absent | Some c \<Rightarrow> Number (chr_minor c)),
      lab ''dev_name'' (case character of None \<Rightarrow> Absent | Some c \<Rightarrow> opt_text (chr_dev_name c)),
      lab ''pci_vendor_id'' (opt_text (pci_vendor_id p)),
      lab ''pci_device_id'' (opt_text (pci_device_id p)),
      lab ''pci_driver'' (opt_text (pci_driver p)),
      lab ''pci_class_id'' (opt_text (pci_class_id p)),
      lab ''pci_revision'' (opt_text (pci_revision p)),
      lab ''pci_subsystem_vendor_id'' (opt_text (pci_subsystem_vendor_id p)),
      lab ''pci_subsystem_device_id'' (opt_text (pci_subsystem_device_id p)),
      lab ''numa_node'' (opt_number (pci_numa_node p)),
      lab ''iommu_group'' (opt_number (pci_iommu_group p)),
      lab ''pci_current_link_speed'' (opt_text (pci_current_link_speed p)),
      lab ''pci_current_link_width'' (opt_number (pci_current_link_width p)),
      lab ''pci_max_link_speed'' (opt_text (pci_max_link_speed p)),
      lab ''pci_max_link_width'' (opt_number (pci_max_link_width p)),
      lab ''pci_reset_method'' (opt_text (pci_reset_method p))])"

definition workload_labels :: "device_telemetry \<Rightarrow> workload_telemetry \<Rightarrow> label list" where
  "workload_labels d w = device_labels d @
     [lab ''workload_id'' (Text (wl_id w)),
      lab ''pod_namespace'' (opt_text (wl_pod_namespace w)),
      lab ''pod_name'' (opt_text (wl_pod_name w)),
      lab ''container_name'' (opt_text (wl_container_name w))]"

definition firmware_labels :: "device_telemetry \<Rightarrow> label list" where
  "firmware_labels d = (let f = dev_firmware d in device_labels d @
     [lab ''serial'' (opt_text (fw_serial f)),
      lab ''card_type'' (opt_text (fw_card_type f)),
      lab ''asic_id'' (opt_text (fw_asic_id f)),
      lab ''fw_bundle_version'' (opt_text (fw_bundle_version f)),
      lab ''m3_app_fw_version'' (opt_text (fw_m3_app_version f)),
      lab ''m3_bl_fw_version'' (opt_text (fw_m3_bl_version f)),
      lab ''arc_fw_version'' (opt_text (fw_arc_version f)),
      lab ''eth_fw_version'' (opt_text (fw_eth_version f)),
      lab ''ttflash_version'' (opt_text (fw_ttflash_version f))])"

section \<open>Samples and families\<close>

text \<open>One sample line, \<open>name{labels} value\<close>.\<close>

definition sample_line :: "string \<Rightarrow> label list \<Rightarrow> pystr \<Rightarrow> pystr" where
  "sample_line name pairs v = u name @ [123] @ prom_labels pairs @ [125, 32] @ v"

record family =
  fam_name :: string
  fam_help :: string
  fam_type :: string
  fam_writer :: "device_telemetry \<Rightarrow> pystr list"

definition help_line :: "string \<Rightarrow> string \<Rightarrow> pystr" where
  "help_line name help_text = u ''# HELP '' @ u name @ u '' '' @ u help_text"

definition type_line :: "string \<Rightarrow> string \<Rightarrow> pystr" where
  "type_line name metric_type = u ''# TYPE '' @ u name @ u '' '' @ u metric_type"

definition family_lines :: "device_telemetry list \<Rightarrow> family \<Rightarrow> pystr list" where
  "family_lines devices f =
     [help_line (fam_name f) (fam_help f), type_line (fam_name f) (fam_type f)]
       @ concat (map (fam_writer f) devices) @ [[]]"

text \<open>A family with at most one sample for a device: none when the getter gives \<open>None\<close>.\<close>

definition optional_samples ::
    "string \<Rightarrow> (device_telemetry \<Rightarrow> int option) \<Rightarrow> device_telemetry \<Rightarrow> pystr list" where
  "optional_samples name getter d = (case getter d of
       None \<Rightarrow> []
     | Some v \<Rightarrow> [sample_line name (device_labels d) (str_int v)])"

definition optional_family ::
    "string \<Rightarrow> string \<Rightarrow> string \<Rightarrow> (device_telemetry \<Rightarrow> int option) \<Rightarrow> family" where
  "optional_family name help_text metric_type getter =
     \<lparr>fam_name = name, fam_help = help_text, fam_type = metric_type,
      fam_writer = optional_samples name getter\<rparr>"

text \<open>A family with at most one sample for each workload of a device.\<close>

definition workload_samples ::
    "string \<Rightarrow> (workload_telemetry \<Rightarrow> pystr option) \<Rightarrow> device_telemetry \<Rightarrow> pystr list" where
  "workload_samples name value_of d =
     concat (map (\<lambda>w. case value_of w of
         None \<Rightarrow> []
       | Some v \<Rightarrow> [sample_line name (workload_labels d w) v]) (dev_workloads d))"

definition workload_family ::
    "string \<Rightarrow> string \<Rightarrow> (workload_telemetry \<Rightarrow> pystr option) \<Rightarrow> family" where
  "workload_family name help_text value_of =
     \<lparr>fam_name = name, fam_help = help_text, fam_type = ''gauge'',
      fam_writer = workload_samples name value_of\<rparr>"

definition gauge :: "string \<Rightarrow> string \<Rightarrow> (string \<Rightarrow> device_telemetry \<Rightarrow> pystr list) \<Rightarrow> family" where
  "gauge name help_text writer =
     \<lparr>fam_name = name, fam_help = help_text, fam_type = ''gauge'', fam_writer = writer name\<rparr>"

definition counter :: "string \<Rightarrow> string \<Rightarrow> (string \<Rightarrow> device_telemetry \<Rightarrow> pystr list) \<Rightarrow> family" where
  "counter name help_text writer =
     \<lparr>fam_name = name, fam_help = help_text, fam_type = ''counter'', fam_writer = writer name\<rparr>"

section \<open>The writers\<close>

text \<open>Each takes the name of its family first.\<close>

definition info_samples :: "(device_telemetry \<Rightarrow> label list) \<Rightarrow> string \<Rightarrow> device_telemetry \<Rightarrow> pystr list" where
  "info_samples labels_of name d = [sample_line name (labels_of d) (u ''1'')]"

text \<open>Two or three samples told apart by one more label, each present when its value is.\<close>

definition keyed_samples ::
    "string \<Rightarrow> device_telemetry \<Rightarrow> (label list \<times> pystr option) list \<Rightarrow> pystr list" where
  "keyed_samples name d entries =
     concat (map (\<lambda>(more_labels, v). case v of
         None \<Rightarrow> []
       | Some t \<Rightarrow> [sample_line name (device_labels d @ more_labels) t]) entries)"

definition clocks :: "string \<Rightarrow> device_telemetry \<Rightarrow> pystr list" where
  "clocks name d = (let f = dev_firmware d in keyed_samples name d
     [([lab ''clock'' (Text (u ''ai''))], map_option str_int (fw_ai_clock_mhz f)),
      ([lab ''clock'' (Text (u ''axi''))], map_option str_int (fw_axi_clock_mhz f)),
      ([lab ''clock'' (Text (u ''arc''))], map_option str_int (fw_arc_clock_mhz f))])"

definition sensors :: "string \<Rightarrow> device_telemetry \<Rightarrow> pystr list" where
  "sensors name d = map (\<lambda>s.
     sample_line name (device_labels d @
       [lab ''sensor'' (Text (sen_name s)), lab ''label'' (opt_text (sen_label s)),
        lab ''unit'' (Text (sen_unit s))]) (str_int (sen_value s))) (dev_hwmon_sensors d)"

definition resources :: "string \<Rightarrow> device_telemetry \<Rightarrow> pystr list" where
  "resources name d = map (\<lambda>r.
     sample_line name (device_labels d @
       [lab ''resource'' (Number (int (res_index r))), lab ''start'' (Text (hex_int (res_start r))),
        lab ''end'' (Text (hex_int (res_end r))), lab ''flags'' (Text (hex_int (res_flags r)))])
       (str_int (res_size_bytes r))) (dev_pci_resources d)"

definition link_info :: "string \<Rightarrow> device_telemetry \<Rightarrow> pystr list" where
  "link_info name d = (let p = dev_pci d; entry = (\<lambda>state speed.
       ([lab ''state'' (Text (u state)), lab ''speed'' (opt_text speed)],
        map_option (\<lambda>_. u ''1'') speed)) in
     keyed_samples name d
       [entry ''current'' (pci_current_link_speed p), entry ''max'' (pci_max_link_speed p)])"

definition link_width :: "string \<Rightarrow> device_telemetry \<Rightarrow> pystr list" where
  "link_width name d = (let p = dev_pci d in keyed_samples name d
     [([lab ''state'' (Text (u ''current''))], map_option str_int (pci_current_link_width p)),
      ([lab ''state'' (Text (u ''max''))], map_option str_int (pci_max_link_width p))])"

definition power_labels :: "device_telemetry \<Rightarrow> label list" where
  "power_labels d = (let p = dev_power d in device_labels d @
     [lab ''runtime_status'' (opt_text (pow_runtime_status p)),
      lab ''control'' (opt_text (pow_control p)),
      lab ''runtime_enabled'' (opt_text (pow_runtime_enabled p))])"

definition counters :: "string \<Rightarrow> device_telemetry \<Rightarrow> pystr list" where
  "counters name d = map (\<lambda>c.
     sample_line name (device_labels d @ [lab ''counter'' (Text (ctr_name c))])
       (str_int (ctr_value c))) (dev_pcie_counters d)"

text \<open>An information sample, written when one of the optional values is there.\<close>

definition guarded_info :: "bool \<Rightarrow> string \<Rightarrow> device_telemetry \<Rightarrow> label list \<Rightarrow> pystr list" where
  "guarded_info present name d more_labels =
     (if present then [sample_line name (device_labels d @ more_labels) (u ''1'')] else [])"

definition memory_info :: "string \<Rightarrow> device_telemetry \<Rightarrow> pystr list" where
  "memory_info name d = (let m = dev_memory d in
     guarded_info (mem_type m \<noteq> None \<or> mem_controller_layout m \<noteq> None) name d
       [lab ''type'' (opt_text (mem_type m)),
        lab ''controller_layout'' (opt_text (mem_controller_layout m))])"

definition tensix_info :: "string \<Rightarrow> device_telemetry \<Rightarrow> pystr list" where
  "tensix_info name d = (let t = dev_tensix d in
     guarded_info (tsx_topology t \<noteq> None \<or> tsx_active_regions t \<noteq> None) name d
       [lab ''topology'' (opt_text (tsx_topology t)),
        lab ''active_regions'' (opt_text (tsx_active_regions t))])"

definition health_info :: "string \<Rightarrow> device_telemetry \<Rightarrow> pystr list" where
  "health_info name d = (let h = dev_health_detail d in
     guarded_info (hlt_fault_code h \<noteq> None \<or> hlt_fault_reason h \<noteq> None) name d
       [lab ''fault_code'' (opt_text (hlt_fault_code h)),
        lab ''fault_reason'' (opt_text (hlt_fault_reason h))])"

definition interconnect_info :: "string \<Rightarrow> device_telemetry \<Rightarrow> pystr list" where
  "interconnect_info name d = map (\<lambda>l.
     sample_line name (device_labels d @
       [lab ''link'' (Text (lnk_name l)), lab ''type'' (opt_text (lnk_type l)),
        lab ''state'' (opt_text (lnk_state l)), lab ''peer'' (opt_text (lnk_peer l)),
        lab ''ring_id'' (opt_text (lnk_ring_id l))]) (u ''1'')) (dev_links d)"

definition interconnect_speed :: "string \<Rightarrow> device_telemetry \<Rightarrow> pystr list" where
  "interconnect_speed name d = keyed_samples name d (map (\<lambda>l.
     ([lab ''link'' (Text (lnk_name l))], map_option str_int (lnk_speed_gbps l))) (dev_links d))"

definition allocation_samples :: "string \<Rightarrow> device_telemetry \<Rightarrow> pystr list" where
  "allocation_samples name d = (let a = dev_allocation d;
       pairs = [(''claim_namespace'', alc_claim_namespace a), (''claim_name'', alc_claim_name a),
                (''claim_uid'', alc_claim_uid a), (''pod_namespace'', alc_pod_namespace a),
                (''pod_name'', alc_pod_name a), (''container_name'', alc_container_name a)] in
     guarded_info (list_ex (\<lambda>(_, v). v \<noteq> None) pairs) name d
       (map (\<lambda>(n, v). lab n (opt_text v)) pairs))"

definition janitor_samples :: "string \<Rightarrow> device_telemetry \<Rightarrow> pystr list" where
  "janitor_samples name d = (let j = dev_janitor d;
       strings = [(''state'', jan_state j), (''quarantine_reason'', jan_quarantine_reason j),
                  (''last_scrub_status'', jan_last_scrub_status j),
                  (''last_reset_status'', jan_last_reset_status j)];
       numbers = [jan_scrub_count j, jan_reset_count j, jan_last_scrub_timestamp j,
                  jan_last_reset_timestamp j] in
     guarded_info (list_ex (\<lambda>(_, v). v \<noteq> None) strings \<or> list_ex (\<lambda>v. v \<noteq> None) numbers) name d
       (map (\<lambda>(n, v). lab n (opt_text v)) strings))"

text \<open>The values of a workload: activity, staleness, the optional ones and the occupancy.\<close>

definition flag_text :: "bool \<Rightarrow> pystr" where
  "flag_text b = str_int (of_bool b)"

definition active_value :: "workload_telemetry \<Rightarrow> pystr option" where
  "active_value w =
     Some (flag_text (\<not> wl_stale w \<and> (case wl_active w of None \<Rightarrow> False | Some a \<Rightarrow> a \<noteq> 0)))"

definition stale_value :: "workload_telemetry \<Rightarrow> pystr option" where
  "stale_value w = Some (flag_text (wl_stale w))"

definition optional_value ::
    "(workload_telemetry \<Rightarrow> int option) \<Rightarrow> bool \<Rightarrow> workload_telemetry \<Rightarrow> pystr option" where
  "optional_value attribute fresh_only w =
     (if attribute w = None \<or> (fresh_only \<and> wl_stale w) then None
      else map_option str_int (attribute w))"

definition occupancy :: "workload_telemetry \<Rightarrow> pystr option" where
  "occupancy w = (case (wl_cores_used w, wl_cores_total w) of
       (Some cores, Some capacity) \<Rightarrow>
         if wl_stale w \<or> capacity = 0 \<or> capacity < 0 then None
         else Some (format_g 6 (true_division cores capacity))
     | _ \<Rightarrow> None)"

section \<open>The whole exposition\<close>

definition contract_families :: "family list" where
  "contract_families = [
     gauge ''tt_device_info''
       ''Static Tenstorrent device identity and PCI metadata.'' (info_samples info_labels),
     gauge ''tt_device_present''
       ''Whether a Tenstorrent sysfs device is present.'' (info_samples info_labels),
     gauge ''tt_firmware_info''
       ''Firmware-reported Tenstorrent board and firmware identity.'' (info_samples firmware_labels),
     gauge ''tt_firmware_clock_frequency_mhz''
       ''Firmware-reported Tenstorrent clock frequencies in MHz.'' clocks,
     optional_family ''tt_firmware_heartbeat_total''
       ''Firmware heartbeat counter; increasing values indicate live firmware.''
       ''counter'' (\<lambda>d. fw_heartbeat (dev_firmware d)),
     optional_family ''tt_thermal_trips_total''
       ''Firmware-reported critical thermal trip count since power cycle.''
       ''counter'' (\<lambda>d. fw_thermal_trip_count (dev_firmware d)),
     gauge ''tt_hwmon_sensor_value''
       ''Raw Tenstorrent hwmon sensor value with Linux hwmon units.'' sensors,
     gauge ''tt_pci_resource_size_bytes''
       ''Size of non-empty PCI resource ranges exposed by the device.'' resources,
     gauge ''tt_pci_link_info''
       ''PCIe link speed labels read from backing PCI sysfs.'' link_info,
     gauge ''tt_pci_link_width_lanes''
       ''PCIe link width in lanes read from backing PCI sysfs.'' link_width,
     gauge ''tt_power_state_info''
       ''Runtime power-management state labels for the device.'' (info_samples power_labels),
     optional_family ''tt_power_runtime_active_time_ms''
       ''Milliseconds that Linux runtime PM reports the device active.''
       ''gauge'' (\<lambda>d. pow_runtime_active_time_ms (dev_power d)),
     optional_family ''tt_power_runtime_suspended_time_ms''
       ''Milliseconds that Linux runtime PM reports the device suspended.''
       ''gauge'' (\<lambda>d. pow_runtime_suspended_time_ms (dev_power d)),
     optional_family ''tt_power_runtime_usage''
       ''Linux runtime PM usage count for the device.''
       ''gauge'' (\<lambda>d. pow_runtime_usage (dev_power d)),
     optional_family ''tt_power_runtime_active_children''
       ''Linux runtime PM active child count for the device.''
       ''gauge'' (\<lambda>d. pow_runtime_active_kids (dev_power d)),
     optional_family ''tt_power_autosuspend_delay_ms''
       ''Linux runtime PM autosuspend delay in milliseconds.''
       ''gauge'' (\<lambda>d. pow_autosuspend_delay_ms (dev_power d)),
     counter ''tt_pcie_perf_counter_words_total''
       ''Optional PCIe performance counter values in words.'' counters,
     optional_family ''tt_memory_used_bytes''
       ''Tenstorrent device memory currently used in bytes.''
       ''gauge'' (\<lambda>d. mem_used_bytes (dev_memory d)),
     optional_family ''tt_memory_total_bytes''
       ''Tenstorrent device total memory in bytes.''
       ''gauge'' (\<lambda>d. mem_total_bytes (dev_memory d)),
     optional_family ''tt_memory_free_bytes''
       ''Tenstorrent device memory free in bytes.''
       ''gauge'' (\<lambda>d. mem_free_bytes (dev_memory d)),
     optional_family ''tt_memory_available_bytes''
       ''Tenstorrent device memory available in bytes.''
       ''gauge'' (\<lambda>d. mem_available_bytes (dev_memory d)),
     optional_family ''tt_memory_bandwidth_bytes_per_second''
       ''Observed or reported local memory bandwidth in bytes per second.''
       ''gauge'' (\<lambda>d. mem_bandwidth_bytes_per_second (dev_memory d)),
     gauge ''tt_memory_info''
       ''Memory technology and controller layout reported by safe sources.'' memory_info,
     optional_family ''tt_memory_controller_count''
       ''Memory controller count reported by a safe source.''
       ''gauge'' (\<lambda>d. mem_controller_count (dev_memory d)),
     optional_family ''tt_memory_controllers_per_asic''
       ''Memory controllers per ASIC reported by a safe source.''
       ''gauge'' (\<lambda>d. mem_controllers_per_asic (dev_memory d)),
     optional_family ''tt_memory_channel_count''
       ''Memory channel count reported by a safe source.''
       ''gauge'' (\<lambda>d. mem_channel_count (dev_memory d)),
     optional_family ''tt_tensix_cores_used''
       ''Tenstorrent Tensix cores currently active or reserved.''
       ''gauge'' (\<lambda>d. tsx_used (dev_tensix d)),
     optional_family ''tt_tensix_cores_available''
       ''Tenstorrent Tensix cores available on the device.''
       ''gauge'' (\<lambda>d. tsx_available (dev_tensix d)),
     optional_family ''tt_tensix_cores_total''
       ''Total Tensix cores reported by a safe source.''
       ''gauge'' (\<lambda>d. tsx_total (dev_tensix d)),
     optional_family ''tt_tensix_mesh_rows''
       ''Tensix mesh row count reported by a safe source.''
       ''gauge'' (\<lambda>d. tsx_mesh_rows (dev_tensix d)),
     optional_family ''tt_tensix_mesh_cols''
       ''Tensix mesh column count reported by a safe source.''
       ''gauge'' (\<lambda>d. tsx_mesh_cols (dev_tensix d)),
     gauge ''tt_tensix_info''
       ''Tensix topology labels reported by a safe source.'' tensix_info,
     workload_family ''tt_metalium_workload_active''
       ''Whether a fresh TT-Metalium workload profiler sample reported activity.'' active_value,
     workload_family ''tt_metalium_workload_profile_stale''
       ''Whether the TT-Metalium workload profiler sample exceeded its freshness window.'' stale_value,
     workload_family ''tt_metalium_workload_tensix_cores_used''
       ''Maximum Tensix core footprint among programs in the latest fresh TT-Metalium sample.'' (optional_value wl_cores_used True),
     workload_family ''tt_metalium_workload_tensix_cores_total''
       ''Tensix cores available to programs in the latest fresh TT-Metalium sample.'' (optional_value wl_cores_total True),
     workload_family ''tt_metalium_workload_core_occupancy_ratio''
       ''Latest profiled program core footprint divided by available Tensix cores; this is spatial occupancy, not time-weighted busy percentage.'' occupancy,
     workload_family ''tt_metalium_workload_programs_observed''
       ''Programs represented by the latest fresh TT-Metalium profiler read.'' (optional_value wl_programs_observed True),
     workload_family ''tt_metalium_workload_sample_timestamp_seconds''
       ''Unix timestamp of the latest TT-Metalium workload profiler sample.'' (optional_value wl_timestamp False),
     gauge ''tt_health_fault_info''
       ''Fault details reported by safe driver or janitor sources.'' health_info,
     optional_family ''tt_health_reset_required''
       ''Whether a safe source reports that the device requires reset.''
       ''gauge'' (\<lambda>d. hlt_reset_required (dev_health_detail d)),
     optional_family ''tt_health_oom_faults_total''
       ''OOM fault count reported by a safe source.''
       ''counter'' (\<lambda>d. hlt_oom_fault_count (dev_health_detail d)),
     optional_family ''tt_health_hang_faults_total''
       ''Device hang fault count reported by a safe source.''
       ''counter'' (\<lambda>d. hlt_hang_fault_count (dev_health_detail d)),
     gauge ''tt_interconnect_link_info''
       ''Scale-out or fabric link state reported by safe sources.'' interconnect_info,
     gauge ''tt_interconnect_link_speed_gbps''
       ''Interconnect link speed in Gbps reported by safe sources.'' interconnect_speed,
     gauge ''tt_dra_allocation_info''
       ''Kubernetes DRA allocation labels from a node-local state source.'' allocation_samples,
     gauge ''tt_janitor_state_info''
       ''Hardware janitor state labels from a node-local state source.'' janitor_samples,
     optional_family ''tt_janitor_scrub_total''
       ''Total scrub attempts reported by the hardware janitor.''
       ''counter'' (\<lambda>d. jan_scrub_count (dev_janitor d)),
     optional_family ''tt_janitor_reset_total''
       ''Total reset attempts reported by the hardware janitor.''
       ''counter'' (\<lambda>d. jan_reset_count (dev_janitor d)),
     optional_family ''tt_janitor_last_scrub_timestamp_seconds''
       ''Unix timestamp for the last scrub attempt.''
       ''gauge'' (\<lambda>d. jan_last_scrub_timestamp (dev_janitor d)),
     optional_family ''tt_janitor_last_reset_timestamp_seconds''
       ''Unix timestamp for the last reset attempt.''
       ''gauge'' (\<lambda>d. jan_last_reset_timestamp (dev_janitor d))]"

definition discovered_lines :: "device_telemetry list \<Rightarrow> pystr list" where
  "discovered_lines devices =
     [help_line ''tt_devices_discovered'' ''Number of Tenstorrent sysfs devices discovered.'',
      type_line ''tt_devices_discovered'' ''gauge'',
      u ''tt_devices_discovered '' @ str_int (int (length devices)),
      []]"

definition render_lines :: "device_telemetry list \<Rightarrow> pystr list" where
  "render_lines devices =
     discovered_lines devices @ concat (map (family_lines devices) contract_families)"

definition render_prometheus :: "device_telemetry list \<Rightarrow> pystr" where
  "render_prometheus devices = join [10] (render_lines devices) @ [10]"

end
