(* ===== verification/Runtime.thy ===== *)
theory Runtime
  imports Models Prometheus
begin

text \<open>
  \<open>app/snapshot.py\<close> and \<open>app/runtime.py\<close>: the store of published generations and the
  exporter's own state. Each method that holds the lock is one function on the state. The two
  clocks the code reads inside a method are arguments, as rationals; \<open>deepcopy\<close> is the identity
  on values. The texts of \<open>render_prometheus\<close> are written line by line in the order of the code.
\<close>

section \<open>Published generations\<close>

record exporter_snapshot =
  snap_generation :: nat
  snap_collection :: collection_result
  snap_prometheus :: pystr
  snap_devices_json :: pystr

type_synonym snapshot_store = "exporter_snapshot option"

definition store_load :: "snapshot_store \<Rightarrow> exporter_snapshot option" where
  "store_load store = store"

definition store_publish ::
    "collection_result \<Rightarrow> pystr \<Rightarrow> pystr \<Rightarrow> snapshot_store \<Rightarrow> exporter_snapshot \<times> snapshot_store" where
  "store_publish collection prometheus devices_json store =
     (let generation = (case store of None \<Rightarrow> 1 | Some s \<Rightarrow> snap_generation s + 1);
          snapshot = \<lparr>snap_generation = generation, snap_collection = collection,
                      snap_prometheus = prometheus, snap_devices_json = devices_json\<rparr>
      in (snapshot, Some snapshot))"

section \<open>Enumerations\<close>

datatype http_route =
    METRICS
  | DEVICES
  | HEALTH
  | READY_ROUTE
  | OTHER

datatype readiness_reason =
    READY
  | INITIAL_COLLECTION
  | CRITICAL_SOURCE
  | SNAPSHOT_STALE
  | DEVICE_REQUIRED
  | SHUTTING_DOWN

datatype code_class =
    Class2xx
  | Class4xx
  | Class5xx

definition all_routes :: "http_route list" where
  "all_routes = [METRICS, DEVICES, HEALTH, READY_ROUTE, OTHER]"

definition all_classes :: "code_class list" where
  "all_classes = [Class2xx, Class4xx, Class5xx]"

fun route_value :: "http_route \<Rightarrow> string" where
  "route_value METRICS = ''metrics''"
| "route_value DEVICES = ''devices''"
| "route_value HEALTH = ''health''"
| "route_value READY_ROUTE = ''ready''"
| "route_value OTHER = ''other''"

fun reason_value :: "readiness_reason \<Rightarrow> string" where
  "reason_value READY = ''ready''"
| "reason_value INITIAL_COLLECTION = ''initial_collection''"
| "reason_value CRITICAL_SOURCE = ''critical_source''"
| "reason_value SNAPSHOT_STALE = ''snapshot_stale''"
| "reason_value DEVICE_REQUIRED = ''device_required''"
| "reason_value SHUTTING_DOWN = ''shutting_down''"

fun class_value :: "code_class \<Rightarrow> string" where
  "class_value Class2xx = ''2xx''"
| "class_value Class4xx = ''4xx''"
| "class_value Class5xx = ''5xx''"

definition code_class :: "int \<Rightarrow> code_class" where
  "code_class status = (if 500 \<le> status then Class5xx else if 400 \<le> status then Class4xx else Class2xx)"

section \<open>The state\<close>

record runtime_status =
  rs_version :: pystr
  rs_revision :: pystr
  rs_max_snapshot_age :: rat
  rs_require_device :: bool
  rs_process_start :: rat
  rs_last_success :: "rat option"
  rs_last_success_wall :: "rat option"
  rs_last_duration :: rat
  rs_successes :: nat
  rs_failures :: nat
  rs_consecutive_failures :: nat
  rs_generation :: nat
  rs_device_count :: nat
  rs_shutting_down :: bool
  rs_sources :: "telemetry_source \<Rightarrow> source_diagnostics"
  rs_issue_totals :: "telemetry_source \<Rightarrow> collection_issue \<Rightarrow> nat"
  rs_http_requests :: "http_route \<Rightarrow> code_class \<Rightarrow> nat"
  rs_http_durations :: "http_route \<Rightarrow> rat"
  rs_active_connections :: nat
  rs_rejected_connections :: nat

definition new_status :: "pystr \<Rightarrow> pystr \<Rightarrow> rat \<Rightarrow> bool \<Rightarrow> rat \<Rightarrow> runtime_status" where
  "new_status version revision max_age require_device now =
     \<lparr>rs_version = version, rs_revision = revision, rs_max_snapshot_age = max_age,
      rs_require_device = require_device, rs_process_start = now, rs_last_success = None,
      rs_last_success_wall = None, rs_last_duration = 0, rs_successes = 0, rs_failures = 0,
      rs_consecutive_failures = 0, rs_generation = 0, rs_device_count = 0,
      rs_shutting_down = False, rs_sources = new_diagnostics,
      rs_issue_totals = (\<lambda>_ _. 0), rs_http_requests = (\<lambda>_ _. 0), rs_http_durations = (\<lambda>_. 0),
      rs_active_connections = 0, rs_rejected_connections = 0\<rparr>"

definition record_collection ::
    "collection_result \<Rightarrow> rat \<Rightarrow> bool \<Rightarrow> nat \<Rightarrow> rat \<Rightarrow> rat \<Rightarrow> runtime_status \<Rightarrow> runtime_status" where
  "record_collection result duration snapshot_published generation steady_now wall_now st =
     (let st1 = st\<lparr>rs_last_duration := duration,
                   rs_sources := col_sources result,
                   rs_issue_totals := (\<lambda>src issue.
                     rs_issue_totals st src issue + diag_issues (col_sources result src) issue)\<rparr>
      in if col_critical_ok result \<and> snapshot_published
         then st1\<lparr>rs_successes := rs_successes st1 + 1,
                  rs_consecutive_failures := 0,
                  rs_last_success := Some steady_now,
                  rs_last_success_wall := Some wall_now,
                  rs_generation := generation,
                  rs_device_count := length (col_devices result)\<rparr>
         else st1\<lparr>rs_failures := rs_failures st1 + 1,
                  rs_consecutive_failures := rs_consecutive_failures st1 + 1\<rparr>)"

definition record_http_request :: "http_route \<Rightarrow> int \<Rightarrow> rat \<Rightarrow> runtime_status \<Rightarrow> runtime_status" where
  "record_http_request route status_code duration st =
     (let code = code_class status_code
      in st\<lparr>rs_http_requests := (rs_http_requests st)
              (route := (rs_http_requests st route)(code := rs_http_requests st route code + 1)),
            rs_http_durations := (rs_http_durations st)(route := duration)\<rparr>)"

definition connection_opened :: "runtime_status \<Rightarrow> runtime_status" where
  "connection_opened st = st\<lparr>rs_active_connections := rs_active_connections st + 1\<rparr>"

text \<open>\<open>max(0, n - 1)\<close> is the subtraction of natural numbers.\<close>

definition connection_closed :: "runtime_status \<Rightarrow> runtime_status" where
  "connection_closed st = st\<lparr>rs_active_connections := rs_active_connections st - 1\<rparr>"

definition connection_rejected :: "runtime_status \<Rightarrow> runtime_status" where
  "connection_rejected st = st\<lparr>rs_rejected_connections := rs_rejected_connections st + 1\<rparr>"

definition begin_shutdown :: "runtime_status \<Rightarrow> runtime_status" where
  "begin_shutdown st = st\<lparr>rs_shutting_down := True\<rparr>"

section \<open>Readiness\<close>

definition readiness :: "rat \<Rightarrow> runtime_status \<Rightarrow> readiness_reason" where
  "readiness now st =
     (if rs_shutting_down st then SHUTTING_DOWN
      else (case rs_last_success st of
         None \<Rightarrow> INITIAL_COLLECTION
       | Some success \<Rightarrow>
           if rs_generation st = 0 then INITIAL_COLLECTION
           else if \<not> diag_accessible (rs_sources st SYSFS_ROOT) then CRITICAL_SOURCE
           else if rs_max_snapshot_age st < float_sub now success then SNAPSHOT_STALE
           else if rs_require_device st \<and> rs_device_count st = 0 then DEVICE_REQUIRED
           else READY))"

section \<open>Snapshot of the state\<close>

record runtime_snapshot =
  rts_collection_attempts :: nat
  rts_successful_collections :: nat
  rts_failed_collections :: nat
  rts_consecutive_critical_failures :: nat
  rts_generation :: nat
  rts_device_count :: nat
  rts_shutting_down :: bool
  rts_issue_totals :: "collection_issue \<Rightarrow> nat"

definition status_snapshot :: "runtime_status \<Rightarrow> runtime_snapshot" where
  "status_snapshot st =
     \<lparr>rts_collection_attempts = rs_successes st + rs_failures st,
      rts_successful_collections = rs_successes st,
      rts_failed_collections = rs_failures st,
      rts_consecutive_critical_failures = rs_consecutive_failures st,
      rts_generation = rs_generation st,
      rts_device_count = rs_device_count st,
      rts_shutting_down = rs_shutting_down st,
      rts_issue_totals = (\<lambda>issue. sum_list (map (\<lambda>src. rs_issue_totals st src issue) all_sources))\<rparr>"

section \<open>The exporter's own metrics\<close>

definition float_text :: "rat \<Rightarrow> pystr" where
  "float_text x = format_g 9 x"

definition nat_text :: "nat \<Rightarrow> pystr" where
  "nat_text n = str_int (int n)"

definition quoted_label :: "string \<Rightarrow> pystr \<Rightarrow> pystr" where
  "quoted_label name v = u name @ [61, 34] @ v @ [34]"

definition status_sample :: "string \<Rightarrow> pystr list \<Rightarrow> pystr \<Rightarrow> pystr" where
  "status_sample name labels v =
     u name @ (if labels = [] then [] else [123] @ join [44] labels @ [125]) @ [32] @ v"

definition status_family :: "string \<Rightarrow> string \<Rightarrow> string \<Rightarrow> pystr list \<Rightarrow> pystr list" where
  "status_family name help_text metric_type samples =
     [help_line name help_text, type_line name metric_type] @ samples"

definition rejected_records :: "source_diagnostics \<Rightarrow> nat" where
  "rejected_records d =
     sum_list (map (diag_issues d) (filter (\<lambda>issue. issue \<noteq> STALE_RECORD) all_issues))"

definition snapshot_age :: "rat \<Rightarrow> runtime_status \<Rightarrow> rat" where
  "snapshot_age now st = (case rs_last_success st of
       None \<Rightarrow> 0
     | Some success \<Rightarrow> max 0 (float_sub now success))"

definition status_families :: "rat \<Rightarrow> runtime_status \<Rightarrow> (string \<times> string \<times> string \<times> pystr list) list" where
  "status_families now st =
     [(''tt_exporter_build_info'', ''Exporter build information.'', ''gauge'',
       [status_sample ''tt_exporter_build_info''
          [quoted_label ''version'' (escape_text (rs_version st)),
           quoted_label ''revision'' (escape_text (rs_revision st))] (u ''1'')]),
      (''tt_exporter_uptime_seconds'', ''Seconds since process start.'', ''gauge'',
       [status_sample ''tt_exporter_uptime_seconds'' [] (float_text (float_sub now (rs_process_start st)))]),
      (''tt_exporter_ready'', ''Whether the exporter is ready.'', ''gauge'',
       [status_sample ''tt_exporter_ready'' [] (flag_text (readiness now st = READY))]),
      (''tt_exporter_collection_attempts_total'', ''Collection attempts by result.'', ''counter'',
       [status_sample ''tt_exporter_collection_attempts_total''
          [quoted_label ''result'' (u ''success'')] (nat_text (rs_successes st)),
        status_sample ''tt_exporter_collection_attempts_total''
          [quoted_label ''result'' (u ''failure'')] (nat_text (rs_failures st))]),
      (''tt_exporter_collection_duration_seconds'', ''Last collection duration.'', ''gauge'',
       [status_sample ''tt_exporter_collection_duration_seconds'' [] (float_text (rs_last_duration st))]),
      (''tt_exporter_last_success_timestamp_seconds'',
       ''Unix timestamp of the last successful collection.'', ''gauge'',
       [status_sample ''tt_exporter_last_success_timestamp_seconds'' []
          (float_text (case rs_last_success_wall st of None \<Rightarrow> 0 | Some t \<Rightarrow> t))]),
      (''tt_exporter_snapshot_age_seconds'', ''Age of the current complete snapshot.'', ''gauge'',
       [status_sample ''tt_exporter_snapshot_age_seconds'' [] (float_text (snapshot_age now st))]),
      (''tt_exporter_source_accessible'', ''Whether a configured source root is accessible.'', ''gauge'',
       map (\<lambda>src. status_sample ''tt_exporter_source_accessible''
              [quoted_label ''source'' (source_value src)]
              (flag_text (diag_accessible (rs_sources st src)))) all_sources),
      (''tt_exporter_collection_issues_total'',
       ''Collection issues by bounded source and reason.'', ''counter'',
       concat (map (\<lambda>src. map (\<lambda>issue. status_sample ''tt_exporter_collection_issues_total''
              [quoted_label ''source'' (source_value src), quoted_label ''reason'' (issue_value issue)]
              (nat_text (rs_issue_totals st src issue))) all_issues) all_sources)),
      (''tt_exporter_state_records'', ''Current state records by source and status.'', ''gauge'',
       concat (map (\<lambda>src. let d = rs_sources st src in
          [status_sample ''tt_exporter_state_records''
             [quoted_label ''source'' (source_value src), quoted_label ''status'' (u ''accepted'')]
             (nat_text (diag_records_accepted d)),
           status_sample ''tt_exporter_state_records''
             [quoted_label ''source'' (source_value src), quoted_label ''status'' (u ''rejected'')]
             (nat_text (rejected_records d))]) all_sources)),
      (''tt_exporter_http_requests_total'',
       ''HTTP requests by bounded route and status class.'', ''counter'',
       concat (map (\<lambda>route. map (\<lambda>code. status_sample ''tt_exporter_http_requests_total''
              [quoted_label ''route'' (u (route_value route)),
               quoted_label ''code_class'' (u (class_value code))]
              (nat_text (rs_http_requests st route code))) all_classes) all_routes)),
      (''tt_exporter_http_request_duration_seconds'', ''Last HTTP request duration by route.'', ''gauge'',
       map (\<lambda>route. status_sample ''tt_exporter_http_request_duration_seconds''
              [quoted_label ''route'' (u (route_value route))]
              (float_text (rs_http_durations st route))) all_routes),
      (''tt_exporter_http_connections_active'', ''Active HTTP connections.'', ''gauge'',
       [status_sample ''tt_exporter_http_connections_active'' [] (nat_text (rs_active_connections st))]),
      (''tt_exporter_http_connections_rejected_total'', ''Rejected HTTP connections.'', ''counter'',
       [status_sample ''tt_exporter_http_connections_rejected_total'' []
          (nat_text (rs_rejected_connections st))])]"

definition status_lines :: "rat \<Rightarrow> runtime_status \<Rightarrow> pystr list" where
  "status_lines now st =
     concat (map (\<lambda>(name, help_text, metric_type, samples).
       status_family name help_text metric_type samples) (status_families now st))"

definition render_status :: "rat \<Rightarrow> runtime_status \<Rightarrow> pystr" where
  "render_status now st = join [10] (status_lines now st) @ [10]"

end
