(* ===== verification/Quoting.thy ===== *)
theory Quoting
  imports PyStrFacts
begin

text \<open>
  Text written between double quotes and read back. The exporter quotes label values in two
  modules and JSON strings in a third; \<open>quoted_text\<close> is the contract they share: what is
  written up to the closing quote is read back exactly, whatever follows it, and holds no line
  feed, so that one record stays on one line. The last part shows that text joined with line
  feeds splits into the same lines.
\<close>

locale quoted_text =
  fixes put :: "pystr \<Rightarrow> pystr"
    and get :: "pystr \<Rightarrow> (pystr \<times> pystr) option"
    and good :: "pystr \<Rightarrow> bool"
  assumes get_put: "good s \<Longrightarrow> get (put s @ 34 # rest) = Some (s, rest)"
    and put_line: "good s \<Longrightarrow> 10 \<notin> set (put s)"
begin

text \<open>Two quoted texts, whatever follows them, cannot be confused with each other.\<close>

lemma put_prefix:
  assumes "good s" "good t" and eq: "put s @ 34 # x = put t @ 34 # y"
  shows "s = t \<and> x = y"
proof -
  have "Some (s, x) = get (put s @ 34 # x)" by (rule get_put [OF assms(1), symmetric])
  also have "\<dots> = Some (t, y)" unfolding eq by (rule get_put [OF assms(2)])
  finally show ?thesis by simp
qed

lemma put_inj:
  assumes "good s" "good t" and eq: "put s = put t"
  shows "s = t"
proof -
  from eq have "put s @ 34 # [] = put t @ 34 # []" by (rule arg_cong)
  from put_prefix [OF assms(1,2) this] show ?thesis ..
qed

end

section \<open>Joining and splitting lines\<close>

lemma join_Cons: "xs \<noteq> [] \<Longrightarrow> join sep (x # xs) = x @ sep @ join sep xs"
  by (cases xs) simp_all

lemma join_points: "set (join sep ls) \<subseteq> set sep \<union> (\<Union>l \<in> set ls. set l)"
  by (induction sep ls rule: join.induct) auto

lemma split_on_no_sep: "c \<notin> set s \<Longrightarrow> split_on c s = [s]"
  by (induction s) auto

lemma split_on_append: "c \<notin> set s \<Longrightarrow> split_on c (s @ c # t) = s # split_on c t"
  by (induction s) auto

lemma split_on_join:
  "ls \<noteq> [] \<Longrightarrow> list_all (\<lambda>l. c \<notin> set l) ls \<Longrightarrow> split_on c (join [c] ls @ c # rest) = ls @ split_on c rest"
proof (induction ls rule: induct_list012)
  case (3 x y zs)
  then have "c \<notin> set x" by simp
  with 3 show ?case
    using split_on_append [of c x "join [c] (y # zs) @ c # rest"] by simp
qed (auto simp: split_on_append)

section \<open>Text without a line feed\<close>

lemma line_feed_u: "10 \<in> set (u s) \<longleftrightarrow> CHR 0x0A \<in> set s"
proof -
  have "(10 :: nat) = of_char (CHR 0x0A)" by simp
  then show ?thesis
    unfolding u_def by (metis inj_image_mem_iff inj_of_char list.set_map)
qed

definition line_ok :: "pystr \<Rightarrow> bool" where
  "line_ok s \<longleftrightarrow> 10 \<notin> set s"

lemma line_ok_simps [simp]:
  "line_ok []" "line_ok (c # s) \<longleftrightarrow> c \<noteq> 10 \<and> line_ok s" "line_ok (s @ t) \<longleftrightarrow> line_ok s \<and> line_ok t"
  "line_ok (u n) \<longleftrightarrow> CHR 0x0A \<notin> set n"
  by (auto simp: line_ok_def line_feed_u)

lemma line_ok_join: "line_ok sep \<Longrightarrow> list_all line_ok ls \<Longrightarrow> line_ok (join sep ls)"
  using join_points [of sep ls] by (auto simp: line_ok_def list_all_iff)

end
