(* ===== verification/Json.thy ===== *)
theory Json
  imports Quoting
begin

text \<open>
  The part of Python's \<open>json.dumps(..., ensure_ascii=False, separators=(",", ":"))\<close> that
  the exporter uses, and a reader for it. A document is \<open>null\<close>, a truth value, an integer, a
  string, an array or an object with its members in order. The reader takes a bound on the
  number of values it may open; the length of the text is always enough.
\<close>

datatype json =
    JNull
  | JBool bool
  | JInt int
  | JString pystr
  | JArray "json list"
  | JObject "(pystr \<times> json) list"

section \<open>Writing\<close>

text \<open>
  The escapes of \<open>json.encoder\<close>: the quote, the backslash, five named control characters,
  and \<open>\u00xx\<close> for the other characters below the blank.
\<close>

definition json_escape_char :: "nat \<Rightarrow> pystr" where
  "json_escape_char c =
     (if c = 92 then [92, 92]
      else if c = 34 then [92, 34]
      else if c = 10 then [92, 110]
      else if c = 13 then [92, 114]
      else if c = 9 then [92, 116]
      else if c = 12 then [92, 102]
      else if c = 8 then [92, 98]
      else if c < 32 then [92, 117, 48, 48, digit_point (c div 16), digit_point (c mod 16)]
      else [c])"

definition json_escape :: "pystr \<Rightarrow> pystr" where
  "json_escape s = concat (map json_escape_char s)"

definition json_string :: "pystr \<Rightarrow> pystr" where
  "json_string s = [34] @ json_escape s @ [34]"

fun dumps :: "json \<Rightarrow> pystr" where
  "dumps JNull = u ''null''"
| "dumps (JBool b) = (if b then u ''true'' else u ''false'')"
| "dumps (JInt i) = str_int i"
| "dumps (JString s) = json_string s"
| "dumps (JArray vs) = [91] @ join [44] (map dumps vs) @ [93]"
| "dumps (JObject kvs) =
     [123] @ join [44] (map (\<lambda>(k, v). json_string k @ [58] @ dumps v) kvs) @ [125]"

section \<open>Reading\<close>

definition hex_value :: "nat \<Rightarrow> nat" where
  "hex_value c = (if c < 58 then c - 48 else c - 87)"

definition named_escape :: "nat \<Rightarrow> nat option" where
  "named_escape c =
     (if c = 92 then Some 92 else if c = 34 then Some 34 else if c = 110 then Some 10
      else if c = 114 then Some 13 else if c = 116 then Some 9 else if c = 102 then Some 12
      else if c = 98 then Some 8 else None)"

fun read_string :: "pystr \<Rightarrow> (pystr \<times> pystr) option" where
  "read_string [] = None"
| "read_string (c # cs) =
     (if c = 34 then Some ([], cs)
      else if c < 32 then None
      else if c \<noteq> 92 then map_option (\<lambda>(s, r). (c # s, r)) (read_string cs)
      else (case cs of
         [] \<Rightarrow> None
       | e # es \<Rightarrow>
           if e = 117 then
             (case es of
                _ # _ # x # y # rest \<Rightarrow>
                  map_option (\<lambda>(s, r). ((hex_value x * 16 + hex_value y) # s, r)) (read_string rest)
              | _ \<Rightarrow> None)
           else (case named_escape e of
              None \<Rightarrow> None
            | Some d \<Rightarrow> map_option (\<lambda>(s, r). (d # s, r)) (read_string es))))"

definition is_digit :: "nat \<Rightarrow> bool" where
  "is_digit c \<longleftrightarrow> 48 \<le> c \<and> c \<le> 57"

definition read_number :: "pystr \<Rightarrow> (int \<times> pystr) option" where
  "read_number s =
     (let negative = (take 1 s = u ''-'');
          body = (if negative then drop 1 s else s);
          ds = takeWhile is_digit body;
          n = int (digits_value 10 (map (\<lambda>c. c - 48) ds))
      in if ds = [] then None
         else Some (if negative then - n else n, dropWhile is_digit body))"

fun read_value :: "nat \<Rightarrow> pystr \<Rightarrow> (json \<times> pystr) option"
  and read_items :: "nat \<Rightarrow> pystr \<Rightarrow> (json list \<times> pystr) option"
  and read_members :: "nat \<Rightarrow> pystr \<Rightarrow> ((pystr \<times> json) list \<times> pystr) option" where
  "read_value 0 s = None"
| "read_value (Suc n) s =
     (if take 1 s = [34] then map_option (\<lambda>(t, r). (JString t, r)) (read_string (drop 1 s))
      else if take 1 s = [91] then
        (if take 1 (drop 1 s) = [93] then Some (JArray [], drop 2 s)
         else map_option (\<lambda>(vs, r). (JArray vs, r)) (read_items n (drop 1 s)))
      else if take 1 s = [123] then
        (if take 1 (drop 1 s) = [125] then Some (JObject [], drop 2 s)
         else map_option (\<lambda>(kvs, r). (JObject kvs, r)) (read_members n (drop 1 s)))
      else if starts_with s (u ''null'') then Some (JNull, drop 4 s)
      else if starts_with s (u ''true'') then Some (JBool True, drop 4 s)
      else if starts_with s (u ''false'') then Some (JBool False, drop 5 s)
      else map_option (\<lambda>(i, r). (JInt i, r)) (read_number s))"
| "read_items 0 s = None"
| "read_items (Suc n) s =
     (case read_value n s of
        None \<Rightarrow> None
      | Some (v, r) \<Rightarrow>
          if take 1 r = [44]
          then map_option (\<lambda>(vs, r'). (v # vs, r')) (read_items n (drop 1 r))
          else if take 1 r = [93] then Some ([v], drop 1 r) else None)"
| "read_members 0 s = None"
| "read_members (Suc n) s =
     (if take 1 s \<noteq> [34] then None
      else (case read_string (drop 1 s) of
         None \<Rightarrow> None
       | Some (k, r) \<Rightarrow>
           if take 1 r \<noteq> [58] then None
           else (case read_value n (drop 1 r) of
              None \<Rightarrow> None
            | Some (v, r') \<Rightarrow>
                if take 1 r' = [44]
                then map_option (\<lambda>(kvs, r''). ((k, v) # kvs, r'')) (read_members n (drop 1 r'))
                else if take 1 r' = [125] then Some ([(k, v)], drop 1 r') else None)))"

text \<open>A document on one line, with its line feed.\<close>

definition read_json :: "pystr \<Rightarrow> json option" where
  "read_json s =
     (case read_value (length s) s of
        None \<Rightarrow> None
      | Some (v, r) \<Rightarrow> if r = [10] then Some v else None)"

section \<open>Strings\<close>

lemma hex_digit_point: "d < 16 \<Longrightarrow> hex_value (digit_point d) = d"
  by (simp add: hex_value_def digit_point_def)

lemma read_string_escaped: "read_string (json_escape s @ 34 # rest) = Some (s, rest)"
proof (induction s)
  case Nil
  then show ?case by (simp add: json_escape_def)
next
  case (Cons c s)
  let ?t = "json_escape s @ 34 # rest"
  have "read_string (json_escape_char c @ ?t) = Some (c # s, rest)"
  proof -
    consider "c = 92" | "c = 34" | "c = 10" | "c = 13" | "c = 9" | "c = 12" | "c = 8"
      | "c < 32" "c \<notin> {10, 13, 9, 12, 8}" | "32 \<le> c" "c \<noteq> 92" "c \<noteq> 34"
      by fastforce
    then show ?thesis
    proof cases
      case 8
      then have "c div 16 < 16" "c mod 16 < 16" by simp_all
      with 8 Cons.IH show ?thesis
        by (simp add: json_escape_char_def hex_digit_point)
    qed (simp_all add: Cons.IH json_escape_char_def named_escape_def split: list.splits)
  qed
  then show ?case by (simp add: json_escape_def)
qed

lemma json_escape_line: "10 \<notin> set (json_escape s)"
proof -
  have "digit_point d \<noteq> 10" for d
    by (simp add: digit_point_def)
  then have "10 \<notin> set (json_escape_char c)" for c
    by (simp add: json_escape_char_def)
  then show ?thesis
    by (simp add: json_escape_def)
qed

interpretation json_text: quoted_text json_escape read_string "\<lambda>_. True"
  by unfold_locales (simp_all add: read_string_escaped json_escape_line)

section \<open>Numbers\<close>

definition stops :: "pystr \<Rightarrow> bool" where
  "stops s \<longleftrightarrow> s = [] \<or> \<not> is_digit (hd s)"

lemma stops_simps [simp]: "stops []" "stops (c # s) \<longleftrightarrow> \<not> is_digit c"
  by (simp_all add: stops_def)

lemma take_drop_digits:
  assumes "list_all is_digit ds" "stops rest"
  shows "takeWhile is_digit (ds @ rest) = ds" "dropWhile is_digit (ds @ rest) = rest"
  using assms by (auto simp: list_all_iff stops_def takeWhile_append dropWhile_append)
    (cases rest; simp)+

lemma str_nat_is_digit: "list_all is_digit (str_nat n)"
  using str_nat_digits [of n] by (simp add: is_digit_def [abs_def])

lemma digits_back: "map (\<lambda>c. c - 48) (str_nat n) = nat_digits 10 n"
  using nat_digits_less [of 10 n]
  by (auto simp: str_nat_def list_all_iff digit_point_ascii intro: map_idI)

lemma str_nat_no_sign: "take 1 (str_nat n @ rest) \<noteq> u ''-''"
  using take_1_str_nat(1) [of n] by (cases "str_nat n") auto

lemma read_number_str_int:
  assumes "stops rest"
  shows "read_number (str_int i @ rest) = Some (i, rest)"
  using take_drop_digits [OF str_nat_is_digit assms] str_nat_no_sign [unfolded u_Cons]
  by (simp add: read_number_def str_int_def digits_back Let_def u_Cons)

section \<open>Documents\<close>

fun json_size :: "json \<Rightarrow> nat" where
  "json_size (JArray vs) = Suc (sum_list (map (\<lambda>v. Suc (json_size v)) vs))"
| "json_size (JObject kvs) = Suc (sum_list (map (\<lambda>(k, v). Suc (json_size v)) kvs))"
| "json_size _ = 1"

lemma str_int_hd: "\<exists>c cs. str_int i = c # cs \<and> (is_digit c \<or> c = 45)"
  using str_int_points [of i] by (cases "str_int i") (auto simp: is_digit_def)

text \<open>The first character tells the kind of a value.\<close>

lemma dumps_hd: "\<exists>c cs. dumps v = c # cs \<and> c \<noteq> 93 \<and> c \<noteq> 125"
  using str_int_hd by (cases v) (fastforce simp: json_string_def u_Cons is_digit_def)+

lemma read_items_correct:
  assumes "\<And>v n rest. v \<in> set vs \<Longrightarrow> json_size v \<le> n \<Longrightarrow> stops rest \<Longrightarrow>
      read_value n (dumps v @ rest) = Some (v, rest)"
    and "vs \<noteq> []" "sum_list (map (\<lambda>v. Suc (json_size v)) vs) \<le> n"
  shows "read_items n (join [44] (map dumps vs) @ 93 # rest) = Some (vs, rest)"
  using assms
proof (induction vs arbitrary: n)
  case (Cons v vs)
  then obtain m where n: "n = Suc m" by (cases n) auto
  have got: "read_value m (dumps v @ c # r) = Some (v, c # r)" if "\<not> is_digit c" for c r
    using Cons.prems n that by simp
  show ?case
  proof (cases "vs = []")
    case True
    then show ?thesis
      using got [of 93 rest] by (simp add: n is_digit_def)
  next
    case False
    with Cons n have "read_items m (join [44] (map dumps vs) @ 93 # rest) = Some (vs, rest)"
      by simp
    with False show ?thesis
      using got [of 44 "join [44] (map dumps vs) @ 93 # rest"]
      by (simp add: n join_Cons is_digit_def)
  qed
qed simp

definition dump_member :: "pystr \<times> json \<Rightarrow> pystr" where
  "dump_member kv = json_string (fst kv) @ [58] @ dumps (snd kv)"

lemma dumps_object: "dumps (JObject kvs) = [123] @ join [44] (map dump_member kvs) @ [125]"
  by (simp add: dump_member_def case_prod_unfold cong: map_cong)

lemma dump_member_eq: "dump_member (k, v) = 34 # json_escape k @ 34 # 58 # dumps v"
  by (simp add: dump_member_def json_string_def)

lemma read_members_correct:
  assumes "\<And>kv n rest. kv \<in> set kvs \<Longrightarrow> json_size (snd kv) \<le> n \<Longrightarrow> stops rest \<Longrightarrow>
      read_value n (dumps (snd kv) @ rest) = Some (snd kv, rest)"
    and "kvs \<noteq> []" "sum_list (map (\<lambda>(k, v). Suc (json_size v)) kvs) \<le> n"
  shows "read_members n (join [44] (map dump_member kvs) @ 125 # rest) = Some (kvs, rest)"
  using assms
proof (induction kvs arbitrary: n)
  case (Cons kv kvs)
  obtain k v where kv: "kv = (k, v)" by fastforce
  from Cons.prems obtain m where n: "n = Suc m" by (cases n) (auto simp: kv)
  have got: "read_value m (dumps v @ c # r) = Some (v, c # r)" if "\<not> is_digit c" for c r
    using Cons.prems(1) [of kv m "c # r"] Cons.prems(3) n that by (simp add: kv)
  show ?case
  proof (cases "kvs = []")
    case True
    then show ?thesis
      using got [of 125 rest] by (simp add: n dump_member_eq json_text.get_put is_digit_def kv)
  next
    case False
    with Cons n have "read_members m (join [44] (map dump_member kvs) @ 125 # rest) = Some (kvs, rest)"
      by (simp add: kv)
    with False show ?thesis
      using got [of 44 "join [44] (map dump_member kvs) @ 125 # rest"]
      by (simp add: n join_Cons dump_member_eq json_text.get_put is_digit_def kv)
  qed
qed simp

theorem read_dumps:
  "json_size v \<le> n \<Longrightarrow> stops rest \<Longrightarrow> read_value n (dumps v @ rest) = Some (v, rest)"
proof (induction v arbitrary: n rest)
  case (JInt i)
  obtain c cs where "str_int i = c # cs" "is_digit c \<or> c = 45" using str_int_hd by blast
  with JInt show ?case
    using read_number_str_int [of rest i]
    by (cases n) (auto simp: is_digit_def starts_with_def u_Cons)
next
  case (JArray vs)
  then obtain m where n: "n = Suc m" by (cases n) auto
  show ?case
  proof (cases "vs = []")
    case True
    then show ?thesis by (simp add: n)
  next
    case False
    then obtain v ws where "vs = v # ws" by (cases vs) auto
    then have "take 1 (join [44] (map dumps vs) @ 93 # rest) \<noteq> [93]"
      using dumps_hd [of v] by (cases ws) auto
    moreover have "read_items m (join [44] (map dumps vs) @ 93 # rest) = Some (vs, rest)"
      using JArray n False by (intro read_items_correct) auto
    ultimately show ?thesis by (simp add: n)
  qed
next
  case (JObject kvs)
  then obtain m where n: "n = Suc m" by (cases n) auto
  show ?case
  proof (cases "kvs = []")
    case True
    then show ?thesis by (simp add: n)
  next
    case False
    then obtain kv ws where "kvs = kv # ws" by (cases kvs) auto
    then have "take 1 (join [44] (map dump_member kvs) @ 125 # rest) \<noteq> [125]"
      by (cases ws) (simp_all add: dump_member_def json_string_def)
    moreover have "read_members m (join [44] (map dump_member kvs) @ 125 # rest) = Some (kvs, rest)"
      using JObject n False by (intro read_members_correct) (auto simp: snds.simps)
    ultimately show ?thesis by (simp add: n dumps_object del: dumps.simps)
  qed
qed (auto simp: json_string_def json_text.get_put starts_with_def u_Cons dest!: Suc_le_D)

lemma json_size_dumps: "json_size v \<le> length (dumps v)"
proof (induction v)
  case (JArray vs)
  have "sum_list (map (\<lambda>v. Suc (json_size v)) vs) \<le> Suc (length (join [44] (map dumps vs)))"
    using JArray by (induction vs rule: induct_list012) fastforce+
  then show ?case by simp
next
  case (JObject kvs)
  have "sum_list (map (\<lambda>(k, v). Suc (json_size v)) kvs) \<le> Suc (length (join [44] (map dump_member kvs)))"
    using JObject
    by (induction kvs rule: induct_list012) (fastforce simp: dump_member_def)+
  then show ?case by (simp add: dumps_object del: dumps.simps(6))
qed (simp_all add: json_string_def Suc_le_eq)

lemma read_json_dumps: "read_json (dumps v @ [10]) = Some v"
  using read_dumps [of v "length (dumps v @ [10])" "[10]"] json_size_dumps [of v]
  by (simp add: read_json_def is_digit_def)

lemma dumps_line: "10 \<notin> set (dumps v)"
proof (induction v)
  case (JInt i)
  then show ?case using str_int_points [of i] by (auto simp: list_all_iff)
next
  case (JArray vs)
  then show ?case
    using join_points [of "[44]" "map dumps vs"] by auto
next
  case (JObject kvs)
  have "10 \<notin> set (dump_member kv)" if "kv \<in> set kvs" for kv
    using JObject [of kv "snd kv"] that json_text.put_line
    by (auto simp: dump_member_def json_string_def snds.simps)
  then show ?case
    using join_points [of "[44]" "map dump_member kvs"]
    by (auto simp: dumps_object simp del: dumps.simps)
qed (simp_all add: json_string_def json_text.put_line u_Cons)

end
