(* ===== verification/Logging.thy ===== *)
theory Logging
  imports Floats Utf8 Json "HOL-Library.AList"
begin

text \<open>
  \<open>app/logging.py\<close>: severities, bounded record fields, the two line formats and the rate limit.
  The logger's state is the table of the last emissions by key and the text written so far. The
  readings of the two clocks are arguments. A field value is the text \<open>str(value)\<close>; encoding
  raises on a lone surrogate, so emitting is an action that may raise.
\<close>

section \<open>Severities\<close>

datatype log_level =
    DEBUG
  | INFO
  | WARN
  | ERROR

fun level_value :: "log_level \<Rightarrow> nat" where
  "level_value DEBUG = 0"
| "level_value INFO = 1"
| "level_value WARN = 2"
| "level_value ERROR = 3"

lemma level_value_inj: "level_value a = level_value b \<Longrightarrow> a = b"
  by (cases a; cases b) simp_all

instantiation log_level :: linorder
begin

definition less_eq_log_level :: "log_level \<Rightarrow> log_level \<Rightarrow> bool" where
  "a \<le> b \<longleftrightarrow> level_value a \<le> level_value b"

definition less_log_level :: "log_level \<Rightarrow> log_level \<Rightarrow> bool" where
  "a < b \<longleftrightarrow> level_value a < level_value b"

instance
  by standard (auto simp: less_eq_log_level_def less_log_level_def dest: level_value_inj)

end

fun level_name :: "log_level \<Rightarrow> pystr" where
  "level_name DEBUG = u ''debug''"
| "level_name INFO = u ''info''"
| "level_name WARN = u ''warn''"
| "level_name ERROR = u ''error''"

section \<open>Bounded text\<close>

text \<open>
  \<open>decode(errors="ignore")\<close> on the beginning of well-formed text: at most the incomplete last
  character is dropped.
\<close>

function decode_ignore :: "bytes \<Rightarrow> pystr" where
  "decode_ignore bs = (case decode_utf8 bs of
       Some s \<Rightarrow> s
     | None \<Rightarrow> if bs = [] then [] else decode_ignore (butlast bs))"
  by auto

termination
  by (relation "measure length") auto

declare decode_ignore.simps [simp del]

definition bounded :: "pystr \<Rightarrow> nat \<Rightarrow> pystr outcome" where
  "bounded text_value maximum =
     bind_outcome (encode_utf8 text_value) (\<lambda>bs. Inr (decode_ignore (take maximum bs)))"

section \<open>Time stamps\<close>

text \<open>
  The UTC calendar date of a number of days since 1970-01-01, on the proleptic Gregorian
  calendar: 400 years have 146097 days, and the year starts in March.
\<close>

definition civil_date :: "int \<Rightarrow> int \<times> int \<times> int" where
  "civil_date days =
     (let z = days + 719468;
          era = z div 146097;
          day_of_era = z mod 146097;
          year_of_era = (day_of_era - day_of_era div 1460 + day_of_era div 36524
                           - day_of_era div 146096) div 365;
          day_of_year = day_of_era - (365 * year_of_era + year_of_era div 4 - year_of_era div 100);
          month_index = (5 * day_of_year + 2) div 153;
          day = day_of_year - (153 * month_index + 2) div 5 + 1;
          month = (if month_index < 10 then month_index + 3 else month_index - 9)
      in (year_of_era + era * 400 + (if month \<le> 2 then 1 else 0), month, day))"

definition pad :: "nat \<Rightarrow> int \<Rightarrow> pystr" where
  "pad width n = replicate (width - length (str_int n)) 48 @ str_int n"

text \<open>The instant is first rounded to microseconds, ties to even, as \<open>fromtimestamp\<close> does.\<close>

definition round_even :: "rat \<Rightarrow> int" where
  "round_even x =
     (let q = \<lfloor>x\<rfloor>; r = x - of_int q
      in if r < 1 / 2 then q else if 1 / 2 < r then q + 1 else if even q then q else q + 1)"

definition timestamp_text :: "rat \<Rightarrow> pystr" where
  "timestamp_text wall =
     (let micros = round_even (wall * 1000000);
          seconds = micros div 1000000;
          day_seconds = seconds mod 86400
      in case civil_date (seconds div 86400) of (year, month, day) \<Rightarrow>
           pad 4 year @ u ''-'' @ pad 2 month @ u ''-'' @ pad 2 day @ u ''T''
             @ pad 2 (day_seconds div 3600) @ u '':'' @ pad 2 (day_seconds div 60 mod 60) @ u '':''
             @ pad 2 (day_seconds mod 60) @ u ''.''
             @ pad 3 (micros mod 1000000 div 1000) @ u ''Z'')"

section \<open>Records\<close>

type_synonym log_fields = "(pystr \<times> pystr) list"

text \<open>A dictionary keeps the place of a key that is assigned again.\<close>

fun assoc_put :: "pystr \<Rightarrow> pystr \<Rightarrow> log_fields \<Rightarrow> log_fields" where
  "assoc_put k v [] = [(k, v)]"
| "assoc_put k v ((k', v') # kvs) = (if k' = k then (k, v) # kvs else (k', v') # assoc_put k v kvs)"

definition field_name_ok :: "pystr \<Rightarrow> bool" where
  "field_name_ok name \<longleftrightarrow> 1 \<le> length name \<and> length name \<le> 32
     \<and> list_all (\<lambda>c. is_ascii_alnum c \<or> c = 95) name"

fun bounded_fields :: "log_fields \<Rightarrow> log_fields \<Rightarrow> log_fields outcome" where
  "bounded_fields [] acc = Inr acc"
| "bounded_fields ((name, v) # fields) acc =
     (if field_name_ok name
      then bind_outcome (bounded v 256) (\<lambda>t. bounded_fields fields (assoc_put name t acc))
      else bounded_fields fields acc)"

definition log_record ::
    "rat \<Rightarrow> log_level \<Rightarrow> pystr \<Rightarrow> pystr \<Rightarrow> log_fields \<Rightarrow> log_fields outcome" where
  "log_record wall level event message fields =
     bind_outcome (bounded event 64) (\<lambda>e.
     bind_outcome (bounded message 512) (\<lambda>m.
     bounded_fields fields
       [(u ''timestamp'', timestamp_text wall), (u ''severity'', level_name level),
        (u ''event'', e), (u ''message'', m)]))"

definition contract_fields :: "pystr list" where
  "contract_fields = [u ''timestamp'', u ''severity'', u ''event'', u ''message'']"

definition escape_line :: "pystr \<Rightarrow> pystr" where
  "escape_line s = replace_char 9 [92, 116] (replace_char 13 [92, 114] (replace_char 10 [92, 110] s))"

definition record_value :: "log_fields \<Rightarrow> pystr \<Rightarrow> pystr" where
  "record_value kvs name = (case map_of kvs name of None \<Rightarrow> [] | Some v \<Rightarrow> v)"

definition render_text :: "log_fields \<Rightarrow> pystr" where
  "render_text kvs =
     join [32] (map (\<lambda>name. escape_line (record_value kvs name)) contract_fields)
       @ concat (map (\<lambda>(name, v). [32] @ name @ [61] @ escape_line v)
           (filter (\<lambda>(name, v). name \<notin> set contract_fields) kvs))"

definition render_json_record :: "log_fields \<Rightarrow> pystr" where
  "render_json_record kvs = dumps (JObject (map (\<lambda>(k, v). (k, JString v)) kvs))"

section \<open>The logger\<close>

record logger =
  log_json :: bool
  log_minimum :: log_level
  log_last_emitted :: "(pystr \<times> rat) list"
  log_output :: pystr

definition new_logger :: "pystr \<Rightarrow> log_level \<Rightarrow> logger" where
  "new_logger log_format minimum_level =
     \<lparr>log_json = (log_format = u ''json''), log_minimum = minimum_level,
      log_last_emitted = [], log_output = []\<rparr>"

definition emit ::
    "rat \<Rightarrow> log_level \<Rightarrow> pystr \<Rightarrow> pystr \<Rightarrow> log_fields \<Rightarrow> (logger, unit) act" where
  "emit wall level event message extra =
     bind_act (lift_act (log_record wall level event message extra)) (\<lambda>kvs.
       modify_act (\<lambda>lg. lg\<lparr>log_output := log_output lg
         @ (if log_json lg then render_json_record kvs else render_text kvs) @ [10]\<rparr>))"

definition log ::
    "rat \<Rightarrow> log_level \<Rightarrow> pystr \<Rightarrow> pystr \<Rightarrow> log_fields \<Rightarrow> (logger, unit) act" where
  "log wall level event message extra =
     bind_act (get_act log_minimum) (\<lambda>minimum.
       if level < minimum then return_act () else emit wall level event message extra)"

definition maximum_keys :: nat where
  "maximum_keys = 64"

definition log_rate_limited ::
    "rat \<Rightarrow> rat \<Rightarrow> log_level \<Rightarrow> pystr \<Rightarrow> pystr \<Rightarrow> pystr \<Rightarrow> rat \<Rightarrow> log_fields \<Rightarrow> (logger, unit) act" where
  "log_rate_limited now wall level event message key interval extra =
     bind_act (get_act log_minimum) (\<lambda>minimum.
       if level < minimum then return_act ()
       else bind_act (lift_act (encode_utf8 key)) (\<lambda>bs.
         if \<not> (0 < length bs \<and> length bs \<le> 64) then return_act ()
         else bind_act (get_act log_last_emitted) (\<lambda>table.
           case map_of table key of
             Some previous \<Rightarrow>
               if float_sub now previous < interval then return_act ()
               else then_act (modify_act (\<lambda>lg. lg\<lparr>log_last_emitted := AList.update key now table\<rparr>))
                      (emit wall level event message extra)
           | None \<Rightarrow>
               if maximum_keys \<le> length table then return_act ()
               else then_act (modify_act (\<lambda>lg. lg\<lparr>log_last_emitted := AList.update key now table\<rparr>))
                      (emit wall level event message extra))))"

end
