(* ===== verification/Http.thy ===== *)
theory Http
  imports Runtime Logging
begin

text \<open>
  \<open>app/http.py\<close>: responses, the contract middleware, the endpoints, and the protocol that caps
  the connections. Starlette and uvicorn are parameters: \<open>router\<close> says which endpoint a path
  is sent to, and \<open>base_made\<close> and \<open>base_lost\<close> are what the inherited methods do to the set of
  open connections. A request is the ASGI scope; the messages sent are a list.
\<close>

section \<open>Configuration and responses\<close>

record http_config =
  hc_workers :: nat
  hc_queue_depth :: nat
  hc_request_deadline :: rat
  hc_maximum_header_bytes :: nat
  hc_shutdown_grace_period :: rat

definition new_http_config :: http_config where
  "new_http_config = \<lparr>hc_workers = 4, hc_queue_depth = 64, hc_request_deadline = 2,
     hc_maximum_header_bytes = 8 * 1024, hc_shutdown_grace_period = 10\<rparr>"

record http_response =
  resp_status :: int
  resp_headers :: "(string \<times> string) list"
  resp_body :: bytes

definition response ::
    "int \<Rightarrow> string \<Rightarrow> pystr \<Rightarrow> (string \<times> string) list \<Rightarrow> http_response outcome" where
  "response status content_type body headers =
     bind_outcome (encode_utf8 body) (\<lambda>content.
       Inr \<lparr>resp_status = status,
            resp_headers = [(''Content-Type'', content_type), (''Connection'', ''close''),
                            (''X-Content-Type-Options'', ''nosniff'')] @ headers,
            resp_body = content\<rparr>)"

definition route_of :: "pystr \<Rightarrow> http_route" where
  "route_of path =
     (if path = u ''/metrics'' then METRICS
      else if path = u ''/v1/devices'' then DEVICES
      else if path = u ''/healthz'' then HEALTH
      else if path = u ''/readyz'' then READY_ROUTE
      else OTHER)"

section \<open>The middleware\<close>

record http_scope =
  sc_type :: string
  sc_method :: string
  sc_path :: pystr
  sc_raw_path :: bytes
  sc_query_string :: bytes
  sc_http_version :: string
  sc_headers :: "(bytes \<times> bytes) list"

datatype asgi_message =
    ResponseStart int
  | ResponseBody bytes

text \<open>An application: the messages it sends, and the exception it ends with.\<close>

type_synonym asgi_result = "asgi_message list \<times> exn option"

definition response_messages :: "http_response outcome \<Rightarrow> asgi_result" where
  "response_messages r = (case r of
       Inl e \<Rightarrow> ([], Some e)
     | Inr a \<Rightarrow> ([ResponseStart (resp_status a), ResponseBody (resp_body a)], None))"

definition header_bytes :: "http_scope \<Rightarrow> nat" where
  "header_bytes s =
     length (sc_method s) + (length (sc_raw_path s) + length (sc_query_string s))
       + length (sc_http_version s) + 12
       + sum_list (map (\<lambda>(name, v). length name + length v + 4) (sc_headers s))"

text \<open>The dictionary of headers: of several with one name the last counts.\<close>

definition header_map :: "http_scope \<Rightarrow> pystr \<Rightarrow> pystr option" where
  "header_map s = map_of (rev (map (\<lambda>(name, v). (lower (u name), strip_ascii (u v))) (sc_headers s)))"

definition has_body :: "http_scope \<Rightarrow> bool" where
  "has_body s \<longleftrightarrow> header_map s (u ''transfer-encoding'') \<noteq> None
     \<or> (case header_map s (u ''content-length'') of None \<Rightarrow> u ''0'' | Some v \<Rightarrow> v) \<noteq> u ''0''"

definition contract_response :: "nat \<Rightarrow> http_scope \<Rightarrow> http_response outcome option" where
  "contract_response maximum_header_bytes s =
     (if maximum_header_bytes < header_bytes s
      then Some (response 431 ''text/plain'' (u ''headers too large'' @ [10]) [])
      else if has_body s then Some (response 400 ''text/plain'' (u ''bad request'' @ [10]) [])
      else if sc_method s \<noteq> ''GET''
      then Some (response 405 ''text/plain'' (u ''method not allowed'' @ [10]) [(''Allow'', ''GET'')])
      else None)"

text \<open>The status the middleware records: the last one started, 500 before that.\<close>

fun recorded_status :: "int \<Rightarrow> asgi_message list \<Rightarrow> int" where
  "recorded_status code [] = code"
| "recorded_status code (ResponseStart status # messages) = recorded_status status messages"
| "recorded_status code (ResponseBody _ # messages) = recorded_status code messages"

definition contract_middleware ::
    "nat \<Rightarrow> (http_scope \<Rightarrow> asgi_result) \<Rightarrow> http_scope \<Rightarrow> rat \<Rightarrow> runtime_status
       \<Rightarrow> asgi_result \<times> runtime_status" where
  "contract_middleware maximum_header_bytes app s duration st =
     (if sc_type s \<noteq> ''http'' then (app s, st)
      else let result = (case contract_response maximum_header_bytes s of
                           Some r \<Rightarrow> response_messages r
                         | None \<Rightarrow> app s)
           in (result,
               record_http_request (route_of (sc_path s)) (recorded_status 500 (fst result)) duration st))"

section \<open>The endpoints\<close>

definition ready_body :: "readiness_reason \<Rightarrow> pystr" where
  "ready_body reason =
     [123] @ u ''\"ready\":'' @ (if reason = READY then u ''true'' else u ''false'')
       @ u '',\"reason\":\"'' @ u (reason_value reason) @ u ''\"'' @ [125, 10]"

definition endpoint ::
    "pystr \<Rightarrow> pystr \<Rightarrow> readiness_reason \<Rightarrow> http_route \<Rightarrow> http_response outcome" where
  "endpoint metrics_text devices_text reason route = (case route of
       METRICS \<Rightarrow> response 200 ''text/plain; version=0.0.4; charset=utf-8'' metrics_text []
     | DEVICES \<Rightarrow> response 200 ''application/json'' devices_text []
     | HEALTH \<Rightarrow> response 200 ''text/plain'' (u ''ok'' @ [10]) []
     | READY_ROUTE \<Rightarrow>
         response (if reason = READY then 200 else 503) ''application/json'' (ready_body reason) []
     | OTHER \<Rightarrow> response 404 ''text/plain'' (u ''not found'' @ [10]) [])"

text \<open>
  The application behind the middleware. An endpoint that raises makes the framework answer
  for it: \<open>on_error\<close> are the messages it sends then.
\<close>

definition application ::
    "(pystr \<Rightarrow> http_route) \<Rightarrow> (exn \<Rightarrow> asgi_message list) \<Rightarrow> pystr \<Rightarrow> pystr \<Rightarrow> readiness_reason
       \<Rightarrow> http_scope \<Rightarrow> asgi_result" where
  "application router on_error metrics_text devices_text reason s =
     (case endpoint metrics_text devices_text reason (router (sc_path s)) of
        Inl e \<Rightarrow> (on_error e, Some e)
      | Inr r \<Rightarrow> response_messages (Inr r))"

section \<open>The connection cap\<close>

record server_state =
  srv_connections :: "nat list"
  srv_timers :: "nat list"
  srv_requests :: "nat list"
  srv_closing :: "nat list"
  srv_written :: "(nat \<times> string) list"
  srv_status :: runtime_status
  srv_logger :: logger

definition busy_response :: string where
  "busy_response = ''HTTP/1.1 503 Service Unavailable'' @ [CHR 0x0D, CHR 0x0A]
     @ ''Content-Length: 20'' @ [CHR 0x0D, CHR 0x0A] @ ''Content-Type: text/plain''
     @ [CHR 0x0D, CHR 0x0A] @ ''Connection: close'' @ [CHR 0x0D, CHR 0x0A, CHR 0x0D, CHR 0x0A]
     @ ''service unavailable'' @ [CHR 0x0A]"

definition timeout_response :: string where
  "timeout_response = ''HTTP/1.1 400 Bad Request'' @ [CHR 0x0D, CHR 0x0A]
     @ ''Content-Length: 12'' @ [CHR 0x0D, CHR 0x0A] @ ''Content-Type: text/plain''
     @ [CHR 0x0D, CHR 0x0A] @ ''Connection: close'' @ [CHR 0x0D, CHR 0x0A, CHR 0x0D, CHR 0x0A]
     @ ''bad request'' @ [CHR 0x0A]"

definition maximum_connections :: "http_config \<Rightarrow> nat" where
  "maximum_connections config = hc_workers config + hc_queue_depth config"

definition transport_write :: "nat \<Rightarrow> string \<Rightarrow> server_state \<Rightarrow> server_state" where
  "transport_write c content sv = sv\<lparr>srv_written := srv_written sv @ [(c, content)]\<rparr>"

definition transport_close :: "nat \<Rightarrow> server_state \<Rightarrow> server_state" where
  "transport_close c sv = sv\<lparr>srv_closing := c # srv_closing sv\<rparr>"

definition log_connection_limit :: "rat \<Rightarrow> rat \<Rightarrow> server_state \<Rightarrow> server_state" where
  "log_connection_limit now wall sv = sv\<lparr>srv_logger :=
     snd (log_rate_limited now wall WARN (u ''http.request_rejected'')
       (u ''HTTP connection limit reached'') (u ''http:connection_limit'') 60 [] (srv_logger sv))\<rparr>"

definition connection_made ::
    "http_config \<Rightarrow> (nat \<Rightarrow> nat list \<Rightarrow> nat list) \<Rightarrow> nat \<Rightarrow> rat \<Rightarrow> rat \<Rightarrow> server_state \<Rightarrow> server_state" where
  "connection_made config base_made c now wall sv =
     (if maximum_connections config \<le> length (srv_connections sv)
      then transport_close c
             (transport_write c busy_response
               (log_connection_limit now wall
                 (sv\<lparr>srv_status := connection_rejected (srv_status sv)\<rparr>)))
      else sv\<lparr>srv_connections := base_made c (srv_connections sv),
              srv_status := connection_opened (srv_status sv),
              srv_timers := c # srv_timers sv\<rparr>)"

definition cancel_request_timeout :: "nat \<Rightarrow> server_state \<Rightarrow> server_state" where
  "cancel_request_timeout c sv = sv\<lparr>srv_timers := filter (\<lambda>d. d \<noteq> c) (srv_timers sv)\<rparr>"

text \<open>\<open>begun\<close> says whether the inherited parser has a request scope after the data.\<close>

definition data_received :: "nat \<Rightarrow> bool \<Rightarrow> server_state \<Rightarrow> server_state" where
  "data_received c begun sv =
     (let sv1 = (if begun then sv\<lparr>srv_requests := c # srv_requests sv\<rparr> else sv)
      in if c \<in> set (srv_requests sv1) then cancel_request_timeout c sv1 else sv1)"

definition connection_lost :: "(nat \<Rightarrow> nat list \<Rightarrow> nat list) \<Rightarrow> nat \<Rightarrow> server_state \<Rightarrow> server_state" where
  "connection_lost base_lost c sv =
     (let sv1 = cancel_request_timeout c sv;
          sv2 = (if c \<in> set (srv_connections sv1)
                 then sv1\<lparr>srv_status := connection_closed (srv_status sv1)\<rparr> else sv1)
      in sv2\<lparr>srv_connections := base_lost c (srv_connections sv2)\<rparr>)"

definition request_timed_out :: "nat \<Rightarrow> server_state \<Rightarrow> server_state" where
  "request_timed_out c sv =
     (if c \<notin> set (srv_requests sv) \<and> c \<notin> set (srv_closing sv)
      then transport_close c (transport_write c timeout_response sv) else sv)"

end
