(* ===== verification/DeviceResources.thy ===== *)
theory DeviceResources
  imports SysfsIO
begin

text \<open>
  Memory and Tensix resources of a device, \<open>collection/device_resources.py\<close>. The code
  assigns the fields of \<open>device.memory\<close> and \<open>device.tensix\<close> one after the other; the
  model returns the device with the new part.
\<close>

section \<open>Memory\<close>

definition memory_from_usage ::
    "os_env \<Rightarrow> path \<Rightarrow> memory_telemetry \<Rightarrow> telemetry_source \<Rightarrow> (world, memory_telemetry) act" where
  "memory_from_usage env root memory src =
     bind_act (read_first_text env root
         [''memory_usage'', ''dram_usage'', ''device_memory_usage'', ''tt_memory_usage''] src) (\<lambda>usage.
       case usage of
         None \<Rightarrow> return_act memory
       | Some content \<Rightarrow> bind_act (lift_act (parse_memory_usage content)) (\<lambda>parsed.
           return_act (memory\<lparr>mem_used_bytes := usage_used_bytes parsed,
                              mem_total_bytes := usage_total_bytes parsed\<rparr>)))"

definition memory_amounts ::
    "os_env \<Rightarrow> path \<Rightarrow> memory_telemetry \<Rightarrow> telemetry_source \<Rightarrow> (world, memory_telemetry) act" where
  "memory_amounts env root memory src =
     bind_act (if mem_used_bytes memory = None
               then read_first_byte env root [''memory_used_bytes'', ''dram_used_bytes'',
                 ''device_memory_used_bytes'', ''allocated_memory_bytes''] src
               else return_act (mem_used_bytes memory)) (\<lambda>used.
     bind_act (if mem_total_bytes memory = None
               then read_first_byte env root [''memory_total_bytes'', ''memory_capacity_bytes'',
                 ''memory_size_bytes'', ''dram_total_bytes'', ''dram_capacity_bytes'', ''dram_size_bytes''] src
               else return_act (mem_total_bytes memory)) (\<lambda>cap.
     bind_act (read_first_byte env root
         [''memory_free_bytes'', ''dram_free_bytes'', ''device_memory_free_bytes''] src) (\<lambda>unused.
     bind_act (read_first_byte env root
         [''memory_available_bytes'', ''dram_available_bytes'', ''device_memory_available_bytes''] src) (\<lambda>available.
     bind_act (read_first_byte env root [''memory_bandwidth_bytes_per_second'',
         ''dram_bandwidth_bytes_per_second'', ''gddr_bandwidth_bytes_per_second''] src) (\<lambda>bandwidth.
       return_act (memory\<lparr>mem_used_bytes := used, mem_total_bytes := cap, mem_free_bytes := unused,
         mem_available_bytes := available, mem_bandwidth_bytes_per_second := bandwidth\<rparr>))))))"

definition memory_layout ::
    "os_env \<Rightarrow> path \<Rightarrow> memory_telemetry \<Rightarrow> telemetry_source \<Rightarrow> (world, memory_telemetry) act" where
  "memory_layout env root memory src =
     bind_act (read_first_text env root [''memory_type'', ''dram_type'', ''gddr_type''] src) (\<lambda>kind.
     bind_act (read_first_text env root [''gddr_controller_layout'', ''dram_controller_layout'',
         ''memory_controller_layout''] src) (\<lambda>layout.
     bind_act (read_first_int env root [''gddr_controller_count'', ''dram_controller_count'',
         ''memory_controller_count''] src) (\<lambda>controllers.
     bind_act (read_first_int env root [''gddr_controllers_per_asic'', ''dram_controllers_per_asic'',
         ''memory_controllers_per_asic''] src) (\<lambda>per_asic.
     bind_act (read_first_int env root [''dram_channel_count'', ''gddr_channel_count'',
         ''memory_channel_count''] src) (\<lambda>channels.
       return_act (memory\<lparr>mem_type := kind, mem_controller_layout := layout,
         mem_controller_count := controllers, mem_controllers_per_asic := per_asic,
         mem_channel_count := channels\<rparr>))))))"

definition populate_memory ::
    "os_env \<Rightarrow> device_telemetry \<Rightarrow> telemetry_source \<Rightarrow> (world, device_telemetry) act" where
  "populate_memory env device src =
     (let root = dev_sysfs_path device
      in bind_act (memory_from_usage env root (dev_memory device) src) (\<lambda>memory1.
         bind_act (memory_amounts env root memory1 src) (\<lambda>memory2.
         bind_act (memory_layout env root memory2 src) (\<lambda>memory3.
           return_act (device\<lparr>dev_memory := memory3\<rparr>)))))"

section \<open>Tensix\<close>

definition tensix_counts ::
    "os_env \<Rightarrow> path \<Rightarrow> tensix_telemetry \<Rightarrow> telemetry_source \<Rightarrow> (world, tensix_telemetry) act" where
  "tensix_counts env root tensix src =
     bind_act (read_first_int env root [''tensix_cores_used'', ''tensix_used'',
         ''active_tensix_cores'', ''tensix_active_cores''] src) (\<lambda>used.
     bind_act (read_first_int env root [''tensix_cores_available'', ''tensix_available'',
         ''available_tensix_cores''] src) (\<lambda>available.
     bind_act (read_first_int env root [''tensix_cores_total'', ''total_tensix_cores'',
         ''tensix_total'', ''tensix_core_count''] src) (\<lambda>cores.
     bind_act (read_first_int env root [''tensix_mesh_rows'', ''tensix_grid_rows'',
         ''tensix_rows'', ''core_grid_rows''] src) (\<lambda>rows.
     bind_act (read_first_int env root [''tensix_mesh_cols'', ''tensix_grid_cols'',
         ''tensix_cols'', ''core_grid_cols''] src) (\<lambda>cols.
       return_act (tensix\<lparr>tsx_used := used, tsx_available := available, tsx_total := cores,
         tsx_mesh_rows := rows, tsx_mesh_cols := cols\<rparr>))))))"

definition tensix_mesh ::
    "os_env \<Rightarrow> path \<Rightarrow> tensix_telemetry \<Rightarrow> telemetry_source \<Rightarrow> (world, tensix_telemetry) act" where
  "tensix_mesh env root tensix src =
     (if tsx_mesh_rows tensix = None \<or> tsx_mesh_cols tensix = None
      then bind_act (read_first_text env root
               [''tensix_mesh'', ''tensix_grid'', ''core_grid'', ''worker_grid''] src) (\<lambda>dimensions.
           bind_act (lift_act (parse_mesh_dimensions (case dimensions of None \<Rightarrow> [] | Some t \<Rightarrow> t))) (\<lambda>parsed.
             return_act (case parsed of
                 None \<Rightarrow> tensix
               | Some (rows, cols) \<Rightarrow> tensix\<lparr>tsx_mesh_rows := Some rows, tsx_mesh_cols := Some cols\<rparr>)))
      else return_act tensix)"

definition tensix_reported :: "tensix_telemetry \<Rightarrow> bool" where
  "tensix_reported t \<longleftrightarrow> tsx_used t \<noteq> None \<or> tsx_available t \<noteq> None \<or> tsx_total t \<noteq> None \<or>
     tsx_mesh_rows t \<noteq> None \<or> tsx_mesh_cols t \<noteq> None \<or> tsx_topology t \<noteq> None \<or>
     tsx_active_regions t \<noteq> None"

definition populate_tensix ::
    "os_env \<Rightarrow> device_telemetry \<Rightarrow> telemetry_source \<Rightarrow> (world, device_telemetry) act" where
  "populate_tensix env device src =
     (let root = dev_sysfs_path device
      in bind_act (tensix_counts env root (dev_tensix device) src) (\<lambda>tensix1.
         bind_act (tensix_mesh env root tensix1 src) (\<lambda>tensix2.
         bind_act (read_first_text env root [''tensix_topology'', ''tensix_layout''] src) (\<lambda>topology.
         bind_act (read_first_text env root [''tensix_active_regions'', ''active_core_ranges'',
             ''active_core_grids''] src) (\<lambda>regions.
           let tensix3 = tensix2\<lparr>tsx_topology := topology, tsx_active_regions := regions\<rparr>
           in return_act (device\<lparr>dev_tensix :=
                (if tensix_reported tensix3 then tensix3\<lparr>tsx_source := Some (u ''sysfs'')\<rparr>
                 else tensix3)\<rparr>))))))"

section \<open>Facts\<close>

lemma keeps_populate_memory: "keeps (grows {src} sysfs_call) (populate_memory env device src)"
  unfolding populate_memory_def memory_from_usage_def memory_amounts_def memory_layout_def Let_def
  by (intro grows_rules sysfs_reader_frames)

lemma keeps_populate_tensix: "keeps (grows {src} sysfs_call) (populate_tensix env device src)"
  unfolding populate_tensix_def tensix_counts_def tensix_mesh_def Let_def
  by (intro grows_rules sysfs_reader_frames)

text \<open>The amounts of memory of a device are unsigned 64-bit byte counts.\<close>

definition byte_count :: "int option \<Rightarrow> bool" where
  "byte_count v \<longleftrightarrow> (\<forall>n. v = Some n \<longrightarrow> 0 \<le> n \<and> n \<le> uint64_max)"

definition memory_ok :: "memory_telemetry \<Rightarrow> bool" where
  "memory_ok m \<longleftrightarrow> byte_count (mem_used_bytes m) \<and> byte_count (mem_total_bytes m) \<and>
     byte_count (mem_free_bytes m) \<and> byte_count (mem_available_bytes m) \<and>
     byte_count (mem_bandwidth_bytes_per_second m)"

lemma returns_read_first_byte:
  "returns (read_first_byte env root names src) byte_count"
  unfolding read_first_byte_def byte_count_def by (rule byte_reader.first_value)

lemma returns_memory_from_usage:
  "memory_ok m \<Longrightarrow> returns (memory_from_usage env root m src) memory_ok"
  unfolding memory_from_usage_def
proof (rule returns_bind, split option.split, intro conjI allI impI)
  assume ok: "memory_ok m"
  then show "returns (return_act m) memory_ok" by (rule returns_return)
  fix content
  show "returns (bind_act (lift_act (parse_memory_usage content)) (\<lambda>parsed. return_act
      (m\<lparr>mem_used_bytes := usage_used_bytes parsed, mem_total_bytes := usage_total_bytes parsed\<rparr>))) memory_ok"
    by (rule returns_bind_strong [where Q = usage_ok])
      (use ok in \<open>auto intro!: returns_lift returns_return parse_memory_usage_ok
        simp: memory_ok_def byte_count_def usage_ok_def\<close>)
qed

lemma returns_memory_amounts:
  assumes "memory_ok m"
  shows "returns (memory_amounts env root m src) memory_ok"
proof -
  have "returns (if v = None then read_first_byte env root names src else return_act v) byte_count"
    if "byte_count v" for v names
    using that by (auto intro: returns_read_first_byte returns_return)
  then show ?thesis
    unfolding memory_amounts_def
    using assms
    by (intro returns_bind_strong [where Q = byte_count] returns_return returns_read_first_byte)
      (auto simp: memory_ok_def)
qed

lemma returns_memory_layout: "memory_ok m \<Longrightarrow> returns (memory_layout env root m src) memory_ok"
  unfolding memory_layout_def by (intro returns_bind returns_return) (simp add: memory_ok_def)

text \<open>
  However the memory of a device is reported, in one attribute or in several, in bytes or
  with units, every amount in the snapshot is an unsigned 64-bit number of bytes.
\<close>

theorem populate_memory_range:
  assumes "populate_memory env (new_device name root) src w = (Inr device, v)"
  shows "memory_ok (dev_memory device)"
proof -
  have "memory_ok new_memory" by (simp add: memory_ok_def byte_count_def new_memory_def)
  then have "returns (populate_memory env (new_device name root) src) (\<lambda>d. memory_ok (dev_memory d))"
    unfolding populate_memory_def Let_def
    by (intro returns_bind_strong [where Q = memory_ok] returns_memory_from_usage
        returns_memory_amounts returns_memory_layout returns_return) (auto simp: new_device_def)
  with assms show ?thesis by (auto dest: returnsD)
qed

definition one_file_env :: "path \<Rightarrow> bytes \<Rightarrow> os_env" where
  "one_file_env p content = denied_env\<lparr>
     env_stat := (\<lambda>h q. if q = p then Inr \<lparr>st_kind = RegularFile, st_size = 4096, st_nlink = 1\<rparr>
                       else Inl ENOENT),
     env_content := (\<lambda>h q. Inr content)\<rparr>"

lemma one_file_other: "q \<noteq> p \<Longrightarrow>
    read_text (one_file_env p content) q src w = (Inr None, w\<lparr>w_trace := w_trace w @ [CStat q]\<rparr>)"
  by (simp add: read_text_def run_simps path_stat_def one_file_env_def read_error_def)

lemma one_file_read:
  "decode_utf8 content = Some s \<Longrightarrow> strip_ascii s \<noteq> [] \<Longrightarrow> length content \<le> 65536 \<Longrightarrow>
    read_text (one_file_env p content) p src w = (Inr (Some (strip_ascii s)),
      snd (note_file_read src (w\<lparr>w_trace := w_trace w @ [CStat p, COpenRead p 65537]\<rparr>)))"
  by (simp add: read_text_def run_simps path_stat_def path_read_def one_file_env_def
      accept_content_def maximum_sysfs_file_bytes_def note_file_read_def update_source_def)

lemma one_file_byte:
  assumes "n < 10 ^ 15"
  shows "read_byte (one_file_env p (map char_of (str_nat n))) p src w = (Inr (Some (int n)),
    snd (note_file_read src (w\<lparr>w_trace := w_trace w @ [CStat p, COpenRead p 65537]\<rparr>)))"
proof -
  have a: "list_all (\<lambda>c. c < 128) (str_nat n)" and l: "length (str_nat n) \<le> 65536"
    using str_nat_digits [of n] assms length_nat_digits [of 10 n 14]
    by (auto simp: list_all_iff str_nat_def)
  have "u (map char_of (str_nat n)) = str_nat n"
    using a by (auto simp: u_def list_all_iff intro!: map_idI)
  with a have d: "decode_utf8 (map char_of (str_nat n)) = Some (str_nat n)"
    using decode_utf8_ascii [of "map char_of (str_nat n)"] by simp
  have s: "strip_ascii (str_nat n) = str_nat n"
    using strip_str_int [of is_c_space "int n"] digit_not_c_space
    by (simp add: strip_ascii_def str_int_def)
  have t: "tokenize (str_nat n) = [str_nat n]" by (intro tokenize_word) (simp_all add: token_digits)
  show ?thesis
    using one_file_read [OF d, of p src w] l byte_value_unit(2) [OF assms]
    by (simp add: read_byte_def bind_act_def s t return_act_def)
qed

lemma path_join_x: "path_join (u ''/x'') (u n) = u (''/x/'' @ n)"
  by (simp add: path_join_def ends_with_def u_Cons u_append)

lemma one_file_readers:
  assumes "q \<noteq> p"
  shows "read_byte (one_file_env p c) q src w = (Inr None, w\<lparr>w_trace := w_trace w @ [CStat q]\<rparr>)"
    and "read_int (one_file_env p c) q src w = (Inr None, w\<lparr>w_trace := w_trace w @ [CStat q]\<rparr>)"
  using one_file_other [OF assms]
  by (simp_all add: read_byte_def read_int_def parse_attribute_def bind_act_def return_act_def)

theorem populate_memory_range_witness:
  "\<exists>device. fst (populate_memory (one_file_env (u ''/x/memory_used_bytes'') (map char_of (str_nat 5)))
      (new_device (u ''0'') (u ''/x'')) SYSFS_ROOT initial_world) = Inr device \<and>
    mem_used_bytes (dev_memory device) = Some 5 \<and> memory_ok (dev_memory device)"
proof -
  let ?env = "one_file_env (u ''/x/memory_used_bytes'') (map char_of (str_nat 5))"
  have hit: "read_byte ?env (u ''/x/memory_used_bytes'') src w = (Inr (Some 5), snd (note_file_read src
      (w\<lparr>w_trace := w_trace w @ [CStat (u ''/x/memory_used_bytes''), COpenRead (u ''/x/memory_used_bytes'') 65537]\<rparr>)))"
    for src w using one_file_byte [of 5] by simp
  have "\<exists>device v. populate_memory ?env (new_device (u ''0'') (u ''/x'')) SYSFS_ROOT initial_world =
      (Inr device, v) \<and> mem_used_bytes (dev_memory device) = Some 5"
    by (simp add: hit populate_memory_def memory_from_usage_def memory_amounts_def memory_layout_def
      read_first_text_def read_first_byte_def read_first_int_def run_simps path_join_x one_file_other one_file_readers
      new_device_def new_memory_def Let_def)
  then show ?thesis using populate_memory_range by fastforce
qed

end
