(* ===== verification/Collector.thy ===== *)
theory Collector
  imports DeviceResources StateIngest
begin

text \<open>
  The collector, \<open>collection/collector.py\<close>: the readers of one device directory, and
  \<open>collect\<close>, which opens the state roots, lists the sysfs root, reads every device and
  closes the roots again whatever happens in between.
\<close>

section \<open>Small readers\<close>

fun field_line_value :: "pystr \<Rightarrow> pystr list \<Rightarrow> pystr option" where
  "field_line_value prefix [] = None"
| "field_line_value prefix (line # lines) =
     (if starts_with line prefix then Some (strip_ascii (drop (length prefix) line))
      else field_line_value prefix lines)"

definition read_uevent_field :: "os_env \<Rightarrow> path \<Rightarrow> string \<Rightarrow> telemetry_source \<Rightarrow> (world, pystr option) act" where
  "read_uevent_field env root field src =
     bind_act (read_text env (path_join root (u ''uevent'')) src) (\<lambda>content.
       return_act (case content of
           None \<Rightarrow> None
         | Some t \<Rightarrow> field_line_value (u field @ u ''='') (splitlines t)))"

definition read_symlink_basename :: "os_env \<Rightarrow> path \<Rightarrow> (world, pystr option) act" where
  "read_symlink_basename env p =
     bind_act (os_readlink env p) (\<lambda>r. return_act (case r of
         Inl e \<Rightarrow> None
       | Inr target \<Rightarrow> (let name = path_name target in if name = [] then None else Some name)))"

definition read_character_device ::
    "os_env \<Rightarrow> path \<Rightarrow> telemetry_source \<Rightarrow> (world, character_device option) act" where
  "read_character_device env root src =
     bind_act (read_text env (path_join root (u ''dev'')) src) (\<lambda>content.
       case content of
         None \<Rightarrow> return_act None
       | Some t \<Rightarrow> (case split_once (cp CHR '':'') t of
             None \<Rightarrow> return_act None
           | Some (major_text, minor_text) \<Rightarrow>
               (case (parse_uint64 major_text, parse_uint64 minor_text) of
                  (Some major, Some minor) \<Rightarrow>
                    bind_act (read_uevent_field env root ''DEVNAME'' src) (\<lambda>name.
                      return_act (Some \<lparr>chr_major = major, chr_minor = minor, chr_dev_name = name\<rparr>))
                | _ \<Rightarrow> return_act None)))"

text \<open>\<open>parse_int64(self._read_text(path, diagnostics) or "")\<close>, which counts no bad value.\<close>

definition read_plain_int :: "os_env \<Rightarrow> path \<Rightarrow> telemetry_source \<Rightarrow> (world, int option) act" where
  "read_plain_int env p src =
     bind_act (read_text env p src) (\<lambda>t. lift_act (parse_int64 (case t of None \<Rightarrow> [] | Some s \<Rightarrow> s)))"

section \<open>PCI information\<close>

definition pci_identity ::
    "os_env \<Rightarrow> path \<Rightarrow> telemetry_source \<Rightarrow> (world, pystr option \<times> pystr option \<times> int option) act" where
  "pci_identity env pci_root src =
     bind_act (read_uevent_field env pci_root ''PCI_SLOT_NAME'' src) (\<lambda>slot.
     bind_act (if slot = None then read_symlink_basename env pci_root else return_act slot) (\<lambda>bdf.
     bind_act (read_uevent_field env pci_root ''DRIVER'' src) (\<lambda>driver1.
     bind_act (if driver1 = None then read_symlink_basename env (path_join pci_root (u ''driver''))
               else return_act driver1) (\<lambda>driver2.
     bind_act (if driver2 = None then read_text env (path_join pci_root (u ''driver'')) src
               else return_act driver2) (\<lambda>driver3.
     bind_act (read_symlink_basename env (path_join pci_root (u ''iommu_group''))) (\<lambda>group.
     bind_act (lift_act (parse_int64 (case group of None \<Rightarrow> [] | Some s \<Rightarrow> s))) (\<lambda>parsed.
     bind_act (if parsed = None then read_plain_int env (path_join pci_root (u ''iommu_group'')) src
               else return_act parsed) (\<lambda>iommu.
       return_act (bdf, driver3, iommu)))))))))"

definition read_pci_info :: "os_env \<Rightarrow> path \<Rightarrow> telemetry_source \<Rightarrow> (world, pci_info) act" where
  "read_pci_info env root src =
     (let pci_root = path_join root (u ''device'');
          at = (\<lambda>name. path_join pci_root (u name))
      in bind_act (pci_identity env pci_root src) (\<lambda>identity.
         bind_act (read_text env (at ''vendor'') src) (\<lambda>vendor.
         bind_act (read_text env (at ''device'') src) (\<lambda>device.
         bind_act (read_text env (at ''class'') src) (\<lambda>cls.
         bind_act (read_text env (at ''revision'') src) (\<lambda>revision.
         bind_act (read_text env (at ''subsystem_vendor'') src) (\<lambda>subsystem_vendor.
         bind_act (read_text env (at ''subsystem_device'') src) (\<lambda>subsystem_device.
         bind_act (read_plain_int env (at ''numa_node'') src) (\<lambda>numa.
         bind_act (read_text env (at ''current_link_speed'') src) (\<lambda>speed.
         bind_act (read_int env (at ''current_link_width'') src) (\<lambda>width.
         bind_act (read_text env (at ''max_link_speed'') src) (\<lambda>max_speed.
         bind_act (read_int env (at ''max_link_width'') src) (\<lambda>max_width.
         bind_act (read_text env (at ''reset_method'') src) (\<lambda>reset.
           return_act \<lparr>pci_bdf = fst identity, pci_driver = fst (snd identity), pci_vendor_id = vendor,
             pci_device_id = device, pci_class_id = cls, pci_revision = revision,
             pci_subsystem_vendor_id = subsystem_vendor, pci_subsystem_device_id = subsystem_device,
             pci_numa_node = numa, pci_iommu_group = snd (snd identity), pci_current_link_speed = speed,
             pci_current_link_width = width, pci_max_link_speed = max_speed,
             pci_max_link_width = max_width, pci_reset_method = reset\<rparr>))))))))))))))"

section \<open>Firmware, sensors, power and counters\<close>

definition card_types :: "(string \<times> string) list" where
  "card_types = [(''n150d'', ''n150''), (''n150s'', ''n150''), (''n300d'', ''n300''), (''n300s'', ''n300''),
     (''p100a'', ''p100''), (''p100b'', ''p100''), (''p150a'', ''p150''), (''p150b'', ''p150'')]"

definition normalize_card_type :: "pystr \<Rightarrow> pystr" where
  "normalize_card_type value =
     (let normalized = lower (strip_ws value)
      in case map_of (map (\<lambda>(a, b). (u a, u b)) card_types) normalized of
           None \<Rightarrow> normalized
         | Some name \<Rightarrow> name)"

definition read_firmware :: "os_env \<Rightarrow> path \<Rightarrow> telemetry_source \<Rightarrow> (world, firmware_telemetry) act" where
  "read_firmware env root src =
     (let at = (\<lambda>name. path_join root (u name))
      in bind_act (read_int env (at ''tt_aiclk'') src) (\<lambda>ai_clock.
         bind_act (read_int env (at ''tt_axiclk'') src) (\<lambda>axi_clock.
         bind_act (read_int env (at ''tt_arcclk'') src) (\<lambda>arc_clock.
         bind_act (read_int env (at ''tt_heartbeat'') src) (\<lambda>heartbeat.
         bind_act (read_int env (at ''tt_therm_trip_count'') src) (\<lambda>trips.
         bind_act (read_text env (at ''tt_serial'') src) (\<lambda>serial.
         bind_act (read_text env (at ''tt_card_type'') src) (\<lambda>card_type.
         bind_act (read_text env (at ''tt_asic_id'') src) (\<lambda>asic.
         bind_act (read_text env (at ''tt_fw_bundle_ver'') src) (\<lambda>bundle.
         bind_act (read_text env (at ''tt_m3app_fw_ver'') src) (\<lambda>m3_app.
         bind_act (read_text env (at ''tt_m3bl_fw_ver'') src) (\<lambda>m3_bl.
         bind_act (read_text env (at ''tt_arc_fw_ver'') src) (\<lambda>arc.
         bind_act (read_text env (at ''tt_eth_fw_ver'') src) (\<lambda>eth.
         bind_act (read_text env (at ''tt_ttflash_ver'') src) (\<lambda>ttflash.
           return_act \<lparr>fw_ai_clock_mhz = ai_clock, fw_axi_clock_mhz = axi_clock,
             fw_arc_clock_mhz = arc_clock, fw_heartbeat = heartbeat, fw_thermal_trip_count = trips,
             fw_serial = serial, fw_card_type = card_type, fw_asic_id = asic,
             fw_bundle_version = bundle, fw_m3_app_version = m3_app, fw_m3_bl_version = m3_bl,
             fw_arc_version = arc, fw_eth_version = eth, fw_ttflash_version = ttflash\<rparr>)))))))))))))))"

definition hwmon_units :: "(string \<times> string) list" where
  "hwmon_units = [(''temp'', ''millidegrees_celsius''), (''in'', ''millivolts''), (''curr'', ''milliamps''),
     (''power'', ''microwatts''), (''fan'', ''rpm''), (''freq'', ''hertz'')]"

definition hwmon_unit :: "pystr \<Rightarrow> pystr" where
  "hwmon_unit name =
     (case find (\<lambda>(prefix, unit). starts_with name (u prefix)) hwmon_units of
        None \<Rightarrow> u ''raw''
      | Some (prefix, unit) \<Rightarrow> u unit)"

text \<open>\<open>[entry for entry in base.iterdir() if entry.is_dir()]\<close>, with any error the whole list's.\<close>

fun keep_directories :: "os_env \<Rightarrow> path list \<Rightarrow> (world, errno + path list) act" where
  "keep_directories env [] = return_act (Inr [])"
| "keep_directories env (p # ps) =
     bind_act (path_is_dir env p) (\<lambda>r. case r of
         Inl e \<Rightarrow> return_act (Inl e)
       | Inr d \<Rightarrow> bind_act (keep_directories env ps) (\<lambda>s. return_act (case s of
             Inl e \<Rightarrow> Inl e
           | Inr qs \<Rightarrow> Inr (if d then p # qs else qs))))"

definition list_directory :: "os_env \<Rightarrow> path \<Rightarrow> (world, errno + path list) act" where
  "list_directory env base =
     bind_act (path_iterdir env base) (\<lambda>r. return_act (map_sum id (map (path_join base)) r))"

definition subdirectories :: "os_env \<Rightarrow> path \<Rightarrow> (world, errno + path list) act" where
  "subdirectories env base =
     bind_act (list_directory env base) (\<lambda>r. case r of
         Inl e \<Rightarrow> return_act (Inl e)
       | Inr entries \<Rightarrow> keep_directories env entries)"

definition read_hwmon_entry ::
    "os_env \<Rightarrow> path \<Rightarrow> telemetry_source \<Rightarrow> path \<Rightarrow> hwmon_sensor list \<Rightarrow> (world, hwmon_sensor list) act" where
  "read_hwmon_entry env directory src entry sensors =
     bind_act (path_is_file env entry) (\<lambda>r. case r of
         Inl e \<Rightarrow> return_act sensors
       | Inr is_file \<Rightarrow>
           (let name = path_name entry
            in if \<not> (is_file \<and> ends_with name (u ''_input'')) \<or> length name \<le> 6 then return_act sensors
               else bind_act (read_int env entry src) (\<lambda>v. case v of
                   None \<Rightarrow> return_act sensors
                 | Some n \<Rightarrow>
                     (let prefix = take (length name - 6) name
                      in bind_act (read_text env (path_join directory (prefix @ u ''_label'')) src) (\<lambda>label.
                           return_act (sensors @ [\<lparr>sen_name = name, sen_label = label,
                             sen_unit = hwmon_unit prefix, sen_value = n\<rparr>]))))))"

definition read_hwmon_directory ::
    "os_env \<Rightarrow> telemetry_source \<Rightarrow> path \<Rightarrow> hwmon_sensor list \<Rightarrow> (world, hwmon_sensor list) act" where
  "read_hwmon_directory env src directory sensors =
     bind_act (list_directory env directory) (\<lambda>r. case r of
         Inl e \<Rightarrow> return_act sensors
       | Inr entries \<Rightarrow> fold_act (read_hwmon_entry env directory src) entries sensors)"

definition read_hwmon_base ::
    "os_env \<Rightarrow> telemetry_source \<Rightarrow> path \<Rightarrow> hwmon_sensor list \<Rightarrow> (world, hwmon_sensor list) act" where
  "read_hwmon_base env src base sensors =
     bind_act (subdirectories env base) (\<lambda>r. case r of
         Inl e \<Rightarrow> return_act sensors
       | Inr directories \<Rightarrow> fold_act (read_hwmon_directory env src) directories sensors)"

definition read_hwmon_sensors :: "os_env \<Rightarrow> path \<Rightarrow> telemetry_source \<Rightarrow> (world, hwmon_sensor list) act" where
  "read_hwmon_sensors env root src =
     bind_act (fold_act (read_hwmon_base env src)
         [path_join root (u ''hwmon''), path_join root (u ''device/hwmon'')] []) (\<lambda>sensors.
       return_act (sort_key sen_name sensors))"

definition read_power_info :: "os_env \<Rightarrow> path \<Rightarrow> telemetry_source \<Rightarrow> (world, power_info) act" where
  "read_power_info env root src =
     (let at = (\<lambda>name. path_join (path_join root (u ''power'')) (u name))
      in bind_act (read_text env (at ''runtime_status'') src) (\<lambda>status.
         bind_act (read_text env (at ''control'') src) (\<lambda>control.
         bind_act (read_text env (at ''runtime_enabled'') src) (\<lambda>enabled.
         bind_act (read_plain_int env (at ''runtime_active_time'') src) (\<lambda>active_time.
         bind_act (read_plain_int env (at ''runtime_suspended_time'') src) (\<lambda>suspended_time.
         bind_act (read_plain_int env (at ''runtime_usage'') src) (\<lambda>usage.
         bind_act (read_plain_int env (at ''runtime_active_kids'') src) (\<lambda>kids.
         bind_act (read_plain_int env (at ''autosuspend_delay_ms'') src) (\<lambda>delay.
           return_act \<lparr>pow_runtime_status = status, pow_control = control, pow_runtime_enabled = enabled,
             pow_runtime_active_time_ms = active_time, pow_runtime_suspended_time_ms = suspended_time,
             pow_runtime_usage = usage, pow_runtime_active_kids = kids,
             pow_autosuspend_delay_ms = delay\<rparr>)))))))))"

definition read_pcie_counter ::
    "os_env \<Rightarrow> telemetry_source \<Rightarrow> path \<Rightarrow> named_counter list \<Rightarrow> (world, named_counter list) act" where
  "read_pcie_counter env src entry counters =
     bind_act (path_is_file env entry) (\<lambda>r. case r of
         Inl e \<Rightarrow> return_act counters
       | Inr is_file \<Rightarrow>
           if \<not> is_file then return_act counters
           else bind_act (read_uint env entry src) (\<lambda>v. return_act (case v of
               None \<Rightarrow> counters
             | Some n \<Rightarrow> counters @ [\<lparr>ctr_name = path_name entry, ctr_value = n\<rparr>])))"

definition read_pcie_counters :: "os_env \<Rightarrow> path \<Rightarrow> telemetry_source \<Rightarrow> (world, named_counter list) act" where
  "read_pcie_counters env root src =
     bind_act (list_directory env (path_join root (u ''pcie_perf_counters''))) (\<lambda>r. case r of
         Inl e \<Rightarrow> return_act []
       | Inr entries \<Rightarrow> bind_act (fold_act (read_pcie_counter env src) entries []) (\<lambda>counters.
           return_act (sort_key ctr_name counters)))"

section \<open>Health and links\<close>

definition read_health_detail :: "os_env \<Rightarrow> path \<Rightarrow> telemetry_source \<Rightarrow> (world, health_telemetry) act" where
  "read_health_detail env root src =
     bind_act (read_first_text env root [''fault_code'', ''device_fault_code'', ''last_fault_code''] src) (\<lambda>code.
     bind_act (read_first_text env root
         [''fault_reason'', ''device_fault_reason'', ''last_fault_reason'', ''reset_reason''] src) (\<lambda>reason.
     bind_act (read_first_boolish env root [''reset_required'', ''needs_reset'', ''requires_reset''] src) (\<lambda>reset.
     bind_act (read_first_int env root [''oom_fault_count'', ''oom_count'', ''out_of_memory_count''] src) (\<lambda>oom.
     bind_act (read_first_int env root [''hang_fault_count'', ''hang_count'', ''device_hang_count''] src) (\<lambda>hang.
       return_act \<lparr>hlt_fault_code = code, hlt_fault_reason = reason, hlt_reset_required = reset,
         hlt_oom_fault_count = oom, hlt_hang_fault_count = hang\<rparr>)))))"

definition read_link ::
    "os_env \<Rightarrow> telemetry_source \<Rightarrow> string \<Rightarrow> path \<Rightarrow> interconnect_link list \<Rightarrow> (world, interconnect_link list) act" where
  "read_link env src default_type entry links =
     bind_act (read_first_text env entry [''type'', ''link_type''] src) (\<lambda>kind.
     bind_act (read_first_text env entry [''state'', ''status''] src) (\<lambda>state.
     bind_act (read_first_text env entry [''peer'', ''remote'', ''remote_device'', ''remote_bdf''] src) (\<lambda>peer.
     bind_act (read_first_int env entry [''speed_gbps'', ''link_speed_gbps'', ''rate_gbps''] src) (\<lambda>speed.
     bind_act (read_first_text env entry [''ring_id'', ''ring''] src) (\<lambda>ring.
       return_act (links @ [\<lparr>lnk_name = path_name entry,
         lnk_type = Some (case kind of None \<Rightarrow> u default_type | Some k \<Rightarrow> k), lnk_state = state,
         lnk_peer = peer, lnk_speed_gbps = speed, lnk_ring_id = ring\<rparr>]))))))"

definition read_link_base ::
    "os_env \<Rightarrow> path \<Rightarrow> telemetry_source \<Rightarrow> string \<times> string \<Rightarrow> interconnect_link list \<Rightarrow>
     (world, interconnect_link list) act" where
  "read_link_base env root src base links =
     bind_act (subdirectories env (path_join root (u (fst base)))) (\<lambda>r. case r of
         Inl e \<Rightarrow> return_act links
       | Inr entries \<Rightarrow> fold_act (read_link env src (snd base)) entries links)"

definition read_interconnect_links ::
    "os_env \<Rightarrow> path \<Rightarrow> telemetry_source \<Rightarrow> (world, interconnect_link list) act" where
  "read_interconnect_links env root src =
     bind_act (fold_act (read_link_base env root src)
         [(''scaleout_links'', ''scaleout''), (''ethernet_links'', ''ethernet''), (''fabric_links'', ''fabric'')] [])
       (\<lambda>links. return_act (sort_key lnk_name links))"

section \<open>A device\<close>

definition architecture_of_pci_id :: "pystr option \<Rightarrow> pystr option" where
  "architecture_of_pci_id device_id =
     map_of [(u ''0x401e'', u ''wormhole''), (u ''0xb140'', u ''blackhole'')]
       (lower (case device_id of None \<Rightarrow> [] | Some d \<Rightarrow> d))"

definition populate_identity ::
    "os_env \<Rightarrow> device_telemetry \<Rightarrow> telemetry_source \<Rightarrow> (world, device_telemetry) act" where
  "populate_identity env device src =
     (let root = dev_sysfs_path device
      in bind_act (read_first_text env root
             [''architecture'', ''arch'', ''chip_arch'', ''chip_architecture'', ''device_arch'', ''chip''] src) (\<lambda>arch.
         bind_act (read_first_text env root
             [''board_type'', ''board'', ''card_type'', ''card_series'', ''product_name''] src) (\<lambda>board.
         bind_act (read_first_text env root [''health'', ''status'', ''device_status''] src) (\<lambda>health.
         bind_act (read_character_device env root src) (\<lambda>chr.
         bind_act (read_pci_info env root src) (\<lambda>pci.
         bind_act (read_firmware env root src) (\<lambda>firmware.
           return_act (device\<lparr>
             dev_architecture := (if arch = None then architecture_of_pci_id (pci_device_id pci) else arch),
             dev_board_type := (case fw_card_type firmware of
                 None \<Rightarrow> board
               | Some card_type \<Rightarrow> Some (normalize_card_type card_type)),
             dev_health := health, dev_character_device := chr, dev_pci := pci,
             dev_firmware := firmware\<rparr>))))))))"

definition populate_device ::
    "os_env \<Rightarrow> collector_config \<Rightarrow> device_telemetry \<Rightarrow> telemetry_source \<Rightarrow> (world, device_telemetry) act" where
  "populate_device env config device src =
     (let root = dev_sysfs_path device
      in bind_act (populate_identity env device src) (\<lambda>d1.
         bind_act (if cfg_collect_hwmon config then read_hwmon_sensors env root src
                   else return_act (dev_hwmon_sensors d1)) (\<lambda>sensors.
         bind_act (read_power_info env root src) (\<lambda>power.
         bind_act (read_text env (path_join root (u ''device/resource'')) src) (\<lambda>resource.
         bind_act (if cfg_collect_pcie_counters config then read_pcie_counters env root src
                   else return_act (dev_pcie_counters d1)) (\<lambda>counters.
         bind_act (populate_memory env (d1\<lparr>dev_hwmon_sensors := sensors, dev_power := power,
             dev_pci_resources := (case resource of
                 None \<Rightarrow> dev_pci_resources d1
               | Some t \<Rightarrow> parse_pci_resources t),
             dev_pcie_counters := counters\<rparr>) src) (\<lambda>d2.
         bind_act (populate_tensix env d2 src) (\<lambda>d3.
         bind_act (read_health_detail env root src) (\<lambda>detail.
         bind_act (read_interconnect_links env root src) (\<lambda>links.
           return_act (d3\<lparr>dev_health_detail := detail, dev_links := links\<rparr>)))))))))))"

section \<open>A collection\<close>

definition collect_entry ::
    "os_env \<Rightarrow> collector_config \<Rightarrow> state_roots \<Rightarrow> pystr \<Rightarrow> device_telemetry list \<Rightarrow>
     (world, device_telemetry list) act" where
  "collect_entry env config roots name devices =
     (let p = path_join (cfg_sysfs_root config) name
      in bind_act (entry_is_dir env p) (\<lambda>r. case r of
            Inl e \<Rightarrow> return_act devices
          | Inr is_dir \<Rightarrow>
              if \<not> is_dir then return_act devices
              else bind_act (populate_device env config (new_device name p) SYSFS_ROOT) (\<lambda>d1.
                   bind_act (ingest env (cfg_stale_after_seconds config) roots d1) (\<lambda>d2.
                     return_act (devices @ [d2])))))"

text \<open>The listing of the sysfs root: its status first, and it must be a directory.\<close>

definition list_root :: "os_env \<Rightarrow> path \<Rightarrow> (world, errno + pystr list) act" where
  "list_root env root =
     bind_act (path_stat env root) (\<lambda>r. case r of
         Inl e \<Rightarrow> return_act (Inl e)
       | Inr status \<Rightarrow>
           if st_kind status \<noteq> Directory then return_act (Inl ENOTDIR)
           else os_scandir env root)"

definition root_issue :: "errno \<Rightarrow> collection_issue" where
  "root_issue e = (if e \<in> {ENOENT, ENOTDIR} then MISSING_ROOT else os_error_issue e)"

text \<open>The devices, and whether the critical source could be read.\<close>

definition collect_devices ::
    "os_env \<Rightarrow> collector_config \<Rightarrow> state_roots \<Rightarrow> (world, device_telemetry list \<times> bool) act" where
  "collect_devices env config roots =
     bind_act (list_root env (cfg_sysfs_root config)) (\<lambda>r. case r of
         Inl e \<Rightarrow> then_act (note_issue SYSFS_ROOT (root_issue e)) (return_act ([], False))
       | Inr entries \<Rightarrow>
           then_act (set_accessible SYSFS_ROOT True)
             (bind_act (fold_act (collect_entry env config roots) entries []) (\<lambda>devices.
                return_act (sort_key dev_id devices, True))))"

definition collect_world :: "os_env \<Rightarrow> collector_config \<Rightarrow> (world, device_telemetry list \<times> bool) act" where
  "collect_world env config =
     then_act (set_configured SYSFS_ROOT True)
       (bind_act (open_ingestor env config) (\<lambda>roots.
          finally_act (collect_devices env config roots) (close_ingestor roots)))"

text \<open>\<open>collect\<close> starts from fresh diagnostics and returns them with the devices.\<close>

definition collect :: "os_env \<Rightarrow> collector_config \<Rightarrow> world \<Rightarrow> collection_result outcome \<times> world" where
  "collect env config w =
     (case collect_world env config (w\<lparr>w_sources := empty_sources\<rparr>) of
        (Inl e, v) \<Rightarrow> (Inl e, v)
      | (Inr (devices, ok), v) \<Rightarrow>
          (Inr \<lparr>col_devices = devices, col_sources = w_sources v, col_critical_ok = ok\<rparr>, v))"

end
