(* ===== verification/JsonRenderer.thy ===== *)
theory JsonRenderer
  imports Models Json
begin

text \<open>
  \<open>renderers/json.py\<close>: the device list as one JSON document on one line. Every object of the
  source is a definition that gives its members in the order in which they are written. The
  facts at the end show that the document is read back and that it determines the devices.
\<close>

section \<open>Members\<close>

definition field :: "string \<Rightarrow> json \<Rightarrow> pystr \<times> json" where
  "field name v = (u name, v)"

fun json_opt_text :: "pystr option \<Rightarrow> json" where
  "json_opt_text None = JNull"
| "json_opt_text (Some s) = JString s"

fun json_opt_int :: "int option \<Rightarrow> json" where
  "json_opt_int None = JNull"
| "json_opt_int (Some i) = JInt i"

section \<open>The parts of a device\<close>

definition character_json :: "character_device option \<Rightarrow> json" where
  "character_json character = (case character of
       None \<Rightarrow> JNull
     | Some c \<Rightarrow> JObject
         [field ''major'' (JInt (chr_major c)),
          field ''minor'' (JInt (chr_minor c)),
          field ''name'' (json_opt_text (chr_dev_name c)),
          field ''path'' (case chr_dev_name c of
              None \<Rightarrow> JNull
            | Some name \<Rightarrow> JString (u ''/dev/'' @ name))])"

definition pci_fields :: "pci_info \<Rightarrow> (pystr \<times> json) list" where
  "pci_fields p =
     [field ''bdf'' (json_opt_text (pci_bdf p)),
      field ''driver'' (json_opt_text (pci_driver p)),
      field ''vendorId'' (json_opt_text (pci_vendor_id p)),
      field ''deviceId'' (json_opt_text (pci_device_id p)),
      field ''classId'' (json_opt_text (pci_class_id p)),
      field ''revision'' (json_opt_text (pci_revision p)),
      field ''subsystemVendorId'' (json_opt_text (pci_subsystem_vendor_id p)),
      field ''subsystemDeviceId'' (json_opt_text (pci_subsystem_device_id p)),
      field ''numaNode'' (json_opt_int (pci_numa_node p)),
      field ''iommuGroup'' (json_opt_int (pci_iommu_group p)),
      field ''currentLinkSpeed'' (json_opt_text (pci_current_link_speed p)),
      field ''currentLinkWidth'' (json_opt_int (pci_current_link_width p)),
      field ''maxLinkSpeed'' (json_opt_text (pci_max_link_speed p)),
      field ''maxLinkWidth'' (json_opt_int (pci_max_link_width p)),
      field ''resetMethod'' (json_opt_text (pci_reset_method p))]"

definition resource_json :: "pci_resource \<Rightarrow> json" where
  "resource_json r = JObject
     [field ''index'' (JInt (int (res_index r))),
      field ''start'' (JInt (res_start r)),
      field ''end'' (JInt (res_end r)),
      field ''flags'' (JInt (res_flags r)),
      field ''sizeBytes'' (JInt (res_size_bytes r))]"

definition power_json :: "power_info \<Rightarrow> json" where
  "power_json p = JObject
     [field ''runtimeStatus'' (json_opt_text (pow_runtime_status p)),
      field ''control'' (json_opt_text (pow_control p)),
      field ''runtimeEnabled'' (json_opt_text (pow_runtime_enabled p)),
      field ''runtimeActiveTimeMs'' (json_opt_int (pow_runtime_active_time_ms p)),
      field ''runtimeSuspendedTimeMs'' (json_opt_int (pow_runtime_suspended_time_ms p)),
      field ''runtimeUsage'' (json_opt_int (pow_runtime_usage p)),
      field ''runtimeActiveChildren'' (json_opt_int (pow_runtime_active_kids p)),
      field ''autosuspendDelayMs'' (json_opt_int (pow_autosuspend_delay_ms p))]"

definition firmware_json :: "firmware_telemetry \<Rightarrow> json" where
  "firmware_json f = JObject
     [field ''aiClockMhz'' (json_opt_int (fw_ai_clock_mhz f)),
      field ''axiClockMhz'' (json_opt_int (fw_axi_clock_mhz f)),
      field ''arcClockMhz'' (json_opt_int (fw_arc_clock_mhz f)),
      field ''heartbeat'' (json_opt_int (fw_heartbeat f)),
      field ''thermalTripCount'' (json_opt_int (fw_thermal_trip_count f)),
      field ''serial'' (json_opt_text (fw_serial f)),
      field ''cardType'' (json_opt_text (fw_card_type f)),
      field ''asicId'' (json_opt_text (fw_asic_id f)),
      field ''fwBundleVersion'' (json_opt_text (fw_bundle_version f)),
      field ''m3AppFwVersion'' (json_opt_text (fw_m3_app_version f)),
      field ''m3BlFwVersion'' (json_opt_text (fw_m3_bl_version f)),
      field ''arcFwVersion'' (json_opt_text (fw_arc_version f)),
      field ''ethFwVersion'' (json_opt_text (fw_eth_version f)),
      field ''ttflashVersion'' (json_opt_text (fw_ttflash_version f))]"

definition sensor_json :: "hwmon_sensor \<Rightarrow> json" where
  "sensor_json s = JObject
     [field ''name'' (JString (sen_name s)),
      field ''label'' (json_opt_text (sen_label s)),
      field ''unit'' (JString (sen_unit s)),
      field ''value'' (JInt (sen_value s))]"

definition counter_json :: "named_counter \<Rightarrow> json" where
  "counter_json c = JObject
     [field ''name'' (JString (ctr_name c)),
      field ''value'' (JInt (ctr_value c))]"

definition memory_json :: "memory_telemetry \<Rightarrow> json" where
  "memory_json m = JObject
     [field ''usedBytes'' (json_opt_int (mem_used_bytes m)),
      field ''totalBytes'' (json_opt_int (mem_total_bytes m)),
      field ''freeBytes'' (json_opt_int (mem_free_bytes m)),
      field ''availableBytes'' (json_opt_int (mem_available_bytes m)),
      field ''bandwidthBytesPerSecond'' (json_opt_int (mem_bandwidth_bytes_per_second m)),
      field ''type'' (json_opt_text (mem_type m)),
      field ''controllerLayout'' (json_opt_text (mem_controller_layout m)),
      field ''controllerCount'' (json_opt_int (mem_controller_count m)),
      field ''controllersPerAsic'' (json_opt_int (mem_controllers_per_asic m)),
      field ''channelCount'' (json_opt_int (mem_channel_count m))]"

definition tensix_json :: "tensix_telemetry \<Rightarrow> json" where
  "tensix_json t = JObject
     [field ''used'' (json_opt_int (tsx_used t)),
      field ''available'' (json_opt_int (tsx_available t)),
      field ''total'' (json_opt_int (tsx_total t)),
      field ''meshRows'' (json_opt_int (tsx_mesh_rows t)),
      field ''meshCols'' (json_opt_int (tsx_mesh_cols t)),
      field ''topology'' (json_opt_text (tsx_topology t)),
      field ''activeRegions'' (json_opt_text (tsx_active_regions t)),
      field ''source'' (json_opt_text (tsx_source t))]"

definition workload_json :: "workload_telemetry \<Rightarrow> json" where
  "workload_json w = JObject
     [field ''workloadId'' (JString (wl_id w)),
      field ''podNamespace'' (json_opt_text (wl_pod_namespace w)),
      field ''podName'' (json_opt_text (wl_pod_name w)),
      field ''containerName'' (json_opt_text (wl_container_name w)),
      field ''active'' (json_opt_int (wl_active w)),
      field ''programsObserved'' (json_opt_int (wl_programs_observed w)),
      field ''tensixCoresUsed'' (json_opt_int (wl_cores_used w)),
      field ''tensixCoresTotal'' (json_opt_int (wl_cores_total w)),
      field ''sampleTimestampSeconds'' (json_opt_int (wl_timestamp w)),
      field ''stale'' (JBool (wl_stale w))]"

definition health_json :: "health_telemetry \<Rightarrow> json" where
  "health_json h = JObject
     [field ''faultCode'' (json_opt_text (hlt_fault_code h)),
      field ''faultReason'' (json_opt_text (hlt_fault_reason h)),
      field ''resetRequired'' (json_opt_int (hlt_reset_required h)),
      field ''oomFaultCount'' (json_opt_int (hlt_oom_fault_count h)),
      field ''hangFaultCount'' (json_opt_int (hlt_hang_fault_count h))]"

definition link_json :: "interconnect_link \<Rightarrow> json" where
  "link_json l = JObject
     [field ''name'' (JString (lnk_name l)),
      field ''type'' (json_opt_text (lnk_type l)),
      field ''state'' (json_opt_text (lnk_state l)),
      field ''peer'' (json_opt_text (lnk_peer l)),
      field ''speedGbps'' (json_opt_int (lnk_speed_gbps l)),
      field ''ringId'' (json_opt_text (lnk_ring_id l))]"

definition allocation_json :: "allocation_telemetry \<Rightarrow> json" where
  "allocation_json a = JObject
     [field ''claimNamespace'' (json_opt_text (alc_claim_namespace a)),
      field ''claimName'' (json_opt_text (alc_claim_name a)),
      field ''claimUid'' (json_opt_text (alc_claim_uid a)),
      field ''podNamespace'' (json_opt_text (alc_pod_namespace a)),
      field ''podName'' (json_opt_text (alc_pod_name a)),
      field ''containerName'' (json_opt_text (alc_container_name a))]"

definition janitor_json :: "janitor_telemetry \<Rightarrow> json" where
  "janitor_json j = JObject
     [field ''state'' (json_opt_text (jan_state j)),
      field ''quarantineReason'' (json_opt_text (jan_quarantine_reason j)),
      field ''lastScrubStatus'' (json_opt_text (jan_last_scrub_status j)),
      field ''lastResetStatus'' (json_opt_text (jan_last_reset_status j)),
      field ''scrubCount'' (json_opt_int (jan_scrub_count j)),
      field ''resetCount'' (json_opt_int (jan_reset_count j)),
      field ''lastScrubTimestampSeconds'' (json_opt_int (jan_last_scrub_timestamp j)),
      field ''lastResetTimestampSeconds'' (json_opt_int (jan_last_reset_timestamp j))]"

definition pci_json :: "pci_info \<Rightarrow> pci_resource list \<Rightarrow> json" where
  "pci_json p resources =
     JObject (pci_fields p @ [field ''resources'' (JArray (map resource_json resources))])"

section \<open>The document\<close>

definition device_json :: "device_telemetry \<Rightarrow> json" where
  "device_json d = JObject
     [field ''id'' (JString (dev_id d)),
      field ''sysfsPath'' (JString (dev_sysfs_path d)),
      field ''architecture'' (json_opt_text (dev_architecture d)),
      field ''boardType'' (json_opt_text (dev_board_type d)),
      field ''health'' (json_opt_text (dev_health d)),
      field ''characterDevice'' (character_json (dev_character_device d)),
      field ''pci'' (pci_json (dev_pci d) (dev_pci_resources d)),
      field ''power'' (power_json (dev_power d)),
      field ''firmware'' (firmware_json (dev_firmware d)),
      field ''hwmonSensors'' (JArray (map sensor_json (dev_hwmon_sensors d))),
      field ''pcieCounters'' (JArray (map counter_json (dev_pcie_counters d))),
      field ''memory'' (memory_json (dev_memory d)),
      field ''tensix'' (tensix_json (dev_tensix d)),
      field ''metaliumWorkloads'' (JArray (map workload_json (dev_workloads d))),
      field ''healthDetail'' (health_json (dev_health_detail d)),
      field ''interconnectLinks'' (JArray (map link_json (dev_links d))),
      field ''allocation'' (allocation_json (dev_allocation d)),
      field ''janitor'' (janitor_json (dev_janitor d))]"

definition device_document :: "device_telemetry list \<Rightarrow> json" where
  "device_document devices = JObject
     [field ''apiVersion'' (JString (u ''telemetry.tenstorrent.com/v1'')),
      field ''kind'' (JString (u ''DeviceList'')),
      field ''summary'' (JObject [field ''devicesDiscovered'' (JInt (int (length devices)))]),
      field ''devices'' (JArray (map device_json devices))]"

definition render_devices_json :: "device_telemetry list \<Rightarrow> pystr" where
  "render_devices_json devices = dumps (device_document devices) @ [10]"

section \<open>Nothing is lost\<close>

lemma json_opt_text_inj [simp]: "json_opt_text a = json_opt_text b \<longleftrightarrow> a = b"
  by (cases a; cases b) simp_all

lemma json_opt_int_inj [simp]: "json_opt_int a = json_opt_int b \<longleftrightarrow> a = b"
  by (cases a; cases b) simp_all

lemma character_json_inj [simp]: "character_json x = character_json y \<longleftrightarrow> x = y"
proof (cases x; cases y)
  fix a b
  assume "x = Some a" "y = Some b"
  then show ?thesis
    by (cases a; cases b) (auto simp: character_json_def field_def)
qed (simp_all add: character_json_def)

lemma pci_fields_inj [simp]: "pci_fields x = pci_fields y \<longleftrightarrow> x = y"
  by (cases x; cases y) (simp add: pci_fields_def field_def)

lemma resource_json_inj [simp]: "resource_json x = resource_json y \<longleftrightarrow> x = y"
  by (cases x; cases y) (simp add: resource_json_def field_def)

lemma power_json_inj [simp]: "power_json x = power_json y \<longleftrightarrow> x = y"
  by (cases x; cases y) (simp add: power_json_def field_def)

lemma firmware_json_inj [simp]: "firmware_json x = firmware_json y \<longleftrightarrow> x = y"
  by (cases x; cases y) (simp add: firmware_json_def field_def)

lemma sensor_json_inj [simp]: "sensor_json x = sensor_json y \<longleftrightarrow> x = y"
  by (cases x; cases y) (simp add: sensor_json_def field_def)

lemma counter_json_inj [simp]: "counter_json x = counter_json y \<longleftrightarrow> x = y"
  by (cases x; cases y) (simp add: counter_json_def field_def)

lemma memory_json_inj [simp]: "memory_json x = memory_json y \<longleftrightarrow> x = y"
  by (cases x; cases y) (simp add: memory_json_def field_def)

lemma tensix_json_inj [simp]: "tensix_json x = tensix_json y \<longleftrightarrow> x = y"
  by (cases x; cases y) (simp add: tensix_json_def field_def)

lemma workload_json_inj [simp]: "workload_json x = workload_json y \<longleftrightarrow> x = y"
  by (cases x; cases y) (simp add: workload_json_def field_def)

lemma health_json_inj [simp]: "health_json x = health_json y \<longleftrightarrow> x = y"
  by (cases x; cases y) (simp add: health_json_def field_def)

lemma link_json_inj [simp]: "link_json x = link_json y \<longleftrightarrow> x = y"
  by (cases x; cases y) (simp add: link_json_def field_def)

lemma allocation_json_inj [simp]: "allocation_json x = allocation_json y \<longleftrightarrow> x = y"
  by (cases x; cases y) (simp add: allocation_json_def field_def)

lemma janitor_json_inj [simp]: "janitor_json x = janitor_json y \<longleftrightarrow> x = y"
  by (cases x; cases y) (simp add: janitor_json_def field_def)

text \<open>Arrays of objects that are injective are injective.\<close>

lemma map_json_inj:
  "(\<And>x y. f x = f y \<longleftrightarrow> x = y) \<Longrightarrow> map f xs = map f ys \<longleftrightarrow> xs = ys"
  by (metis injI inj_map_eq_map)

lemma pci_json_inj [simp]: "pci_json p rs = pci_json q ss \<longleftrightarrow> p = q \<and> rs = ss"
  by (simp add: pci_json_def field_def map_json_inj)

lemma device_json_inj [simp]: "device_json x = device_json y \<longleftrightarrow> x = y"
proof
  assume "device_json x = device_json y"
  then show "x = y"
    by (simp add: device_json_def field_def map_json_inj device_telemetry.equality)
qed simp

lemma device_document_inj: "device_document ds = device_document es \<longleftrightarrow> ds = es"
  by (auto simp: device_document_def field_def map_json_inj)

text \<open>
  The JSON document is one line, whatever the devices hold, and reading it gives back the
  document that was rendered.
\<close>

theorem render_json_roundtrip:
  "read_json (render_devices_json devices) = Some (device_document devices)
     \<and> split_on 10 (render_devices_json devices) = [dumps (device_document devices), []]"
  using split_on_append [OF dumps_line, of "device_document devices" "[]"]
  by (simp add: render_devices_json_def read_json_dumps)

text \<open>
  C12: The JSON text determines the devices completely: two device lists with the same rendering
  are equal, so no field of the telemetry model is dropped or merged with another.
\<close>

theorem render_json_complete:
  "render_devices_json ds = render_devices_json es \<longleftrightarrow> ds = es"
proof
  assume "render_devices_json ds = render_devices_json es"
  then have "read_json (dumps (device_document ds) @ [10]) = read_json (dumps (device_document es) @ [10])"
    by (simp only: render_devices_json_def)
  then show "ds = es"
    by (simp only: read_json_dumps option.inject device_document_inj)
qed simp

end
