(* ===== verification/Service.thy ===== *)
theory Service
  imports Http Collector JsonRenderer
begin

text \<open>
  \<open>app/cli.py\<close>: options, the exporter service and the command. The service's state holds the
  store, the runtime status, the logger, the operating system's state and the two events. The
  readings of the clocks during one refresh are a record of arguments; those of a log call are
  found under the name of its event or rate-limit key. Argument parsing is click, and the HTTP
  server is uvicorn: both are parameters.
\<close>

section \<open>Options\<close>

record options =
  opt_listen_address :: pystr
  opt_port :: int
  opt_poll_interval :: int
  opt_sysfs_root :: path
  opt_allocation_state_root :: "path option"
  opt_janitor_state_root :: "path option"
  opt_metalium_profiler_state_root :: "path option"
  opt_metalium_profiler_stale_after :: int
  opt_max_snapshot_age :: int
  opt_shutdown_grace_period :: int
  opt_http_request_deadline :: int
  opt_http_workers :: nat
  opt_http_queue_depth :: nat
  opt_maximum_rendered_payload_bytes :: nat
  opt_log_format :: pystr
  opt_log_level :: log_level
  opt_once :: bool
  opt_json :: bool
  opt_collect_hwmon :: bool
  opt_collect_pcie_counters :: bool
  opt_require_device :: bool
  opt_version :: bool

definition new_options :: options where
  "new_options = \<lparr>opt_listen_address = u ''0.0.0.0'', opt_port = 9400, opt_poll_interval = 5,
     opt_sysfs_root = u ''/sys/class/tenstorrent'', opt_allocation_state_root = None,
     opt_janitor_state_root = None, opt_metalium_profiler_state_root = None,
     opt_metalium_profiler_stale_after = 15, opt_max_snapshot_age = 15,
     opt_shutdown_grace_period = 10, opt_http_request_deadline = 2, opt_http_workers = 4,
     opt_http_queue_depth = 64, opt_maximum_rendered_payload_bytes = 16 * 1024 * 1024,
     opt_log_format = u ''text'', opt_log_level = INFO, opt_once = False, opt_json = False,
     opt_collect_hwmon = False, opt_collect_pcie_counters = False, opt_require_device = False,
     opt_version = False\<rparr>"

definition options_config :: "options \<Rightarrow> collector_config" where
  "options_config opts =
     \<lparr>cfg_sysfs_root = opt_sysfs_root opts,
      cfg_allocation_root = opt_allocation_state_root opts,
      cfg_janitor_root = opt_janitor_state_root opts,
      cfg_profiler_root = opt_metalium_profiler_state_root opts,
      cfg_stale_after_seconds = opt_metalium_profiler_stale_after opts,
      cfg_collect_hwmon = opt_collect_hwmon opts,
      cfg_collect_pcie_counters = opt_collect_pcie_counters opts\<rparr>"

text \<open>The ranges declared for the numeric options, which click enforces.\<close>

definition options_in_range :: "options \<Rightarrow> bool" where
  "options_in_range opts \<longleftrightarrow>
     1 \<le> opt_port opts \<and> opt_port opts \<le> 65535
   \<and> 1 \<le> opt_poll_interval opts
   \<and> 1 \<le> opt_metalium_profiler_stale_after opts
   \<and> 1 \<le> opt_max_snapshot_age opts
   \<and> 1 \<le> opt_shutdown_grace_period opts
   \<and> 1 \<le> opt_http_request_deadline opts
   \<and> 1 \<le> opt_http_workers opts \<and> opt_http_workers opts \<le> 256
   \<and> 1 \<le> opt_http_queue_depth opts \<and> opt_http_queue_depth opts \<le> 65535
   \<and> 1024 \<le> opt_maximum_rendered_payload_bytes opts
   \<and> opt_maximum_rendered_payload_bytes opts \<le> 1024 ^ 3"

text \<open>\<open>click_parse\<close> gives the formatted message of a \<open>ClickException\<close> or the options.\<close>

definition parse_args ::
    "(pystr list \<Rightarrow> pystr + options) \<Rightarrow> pystr list \<Rightarrow> options \<times> pystr option" where
  "parse_args click_parse arguments =
     (if u ''--help'' \<in> set arguments \<or> u ''-h'' \<in> set arguments
      then (new_options, Some (u ''help''))
      else case click_parse arguments of
          Inl message \<Rightarrow> (new_options, Some message)
        | Inr opts \<Rightarrow>
            if \<not> opt_once opts \<and> \<not> opt_version opts \<and> opt_max_snapshot_age opts \<le> opt_poll_interval opts
            then (opts, Some (u ''--max-snapshot-age must be greater than --poll-interval''))
            else (opts, None))"

section \<open>The service\<close>

record service =
  svc_options :: options
  svc_running :: bool
  svc_shutdown_requested :: bool
  svc_store :: snapshot_store
  svc_status :: runtime_status
  svc_logger :: logger
  svc_previous_readiness :: readiness_reason
  svc_server_stopped :: bool
  svc_world :: world

definition new_service :: "pystr \<Rightarrow> pystr \<Rightarrow> options \<Rightarrow> logger \<Rightarrow> rat \<Rightarrow> world \<Rightarrow> service" where
  "new_service version revision opts lg now w =
     \<lparr>svc_options = opts, svc_running = True, svc_shutdown_requested = False, svc_store = None,
      svc_status = new_status version revision (of_int (opt_max_snapshot_age opts))
        (opt_require_device opts) now,
      svc_logger = lg, svc_previous_readiness = INITIAL_COLLECTION, svc_server_stopped = False,
      svc_world = w\<rparr>"

definition service_http_config :: "options \<Rightarrow> http_config" where
  "service_http_config opts = new_http_config
     \<lparr>hc_workers := opt_http_workers opts, hc_queue_depth := opt_http_queue_depth opts,
      hc_request_deadline := of_int (opt_http_request_deadline opts),
      hc_shutdown_grace_period := of_int (opt_shutdown_grace_period opts)\<rparr>"

definition service_metrics :: "rat \<Rightarrow> service \<Rightarrow> pystr" where
  "service_metrics now s =
     (case store_load (svc_store s) of None \<Rightarrow> [] | Some p \<Rightarrow> snap_prometheus p)
       @ render_status now (svc_status s)"

definition service_devices :: "service \<Rightarrow> pystr" where
  "service_devices s =
     (case store_load (svc_store s) of None \<Rightarrow> u ''[]'' @ [10] | Some p \<Rightarrow> snap_devices_json p)"

section \<open>Refresh\<close>

record refresh_times =
  rt_started :: rat
  rt_finished :: rat
  rt_steady :: rat
  rt_wall :: rat
  rt_readiness :: rat
  rt_log :: "pystr \<Rightarrow> rat \<times> rat"

definition on_world :: "(world, 'a) act \<Rightarrow> (service, 'a) act" where
  "on_world m s = (case m (svc_world s) of (r, w) \<Rightarrow> (r, s\<lparr>svc_world := w\<rparr>))"

definition on_logger :: "(logger, 'a) act \<Rightarrow> (service, 'a) act" where
  "on_logger m s = (case m (svc_logger s) of (r, lg) \<Rightarrow> (r, s\<lparr>svc_logger := lg\<rparr>))"

definition on_status :: "(runtime_status \<Rightarrow> runtime_status) \<Rightarrow> (service, unit) act" where
  "on_status f = modify_act (\<lambda>s. s\<lparr>svc_status := f (svc_status s)\<rparr>)"

definition service_log ::
    "refresh_times \<Rightarrow> log_level \<Rightarrow> string \<Rightarrow> string \<Rightarrow> log_fields \<Rightarrow> (service, unit) act" where
  "service_log t level event message extra =
     on_logger (log (snd (rt_log t (u event))) level (u event) (u message) extra)"

definition service_log_limited ::
    "refresh_times \<Rightarrow> string \<Rightarrow> string \<Rightarrow> pystr \<Rightarrow> log_fields \<Rightarrow> (service, unit) act" where
  "service_log_limited t event message key extra =
     (case rt_log t key of (now, wall) \<Rightarrow>
        on_logger (log_rate_limited now wall WARN (u event) (u message) key 60 extra))"

text \<open>Both texts must be encodable and within the bound; a \<open>ValueError\<close> means not published.\<close>

definition fits_limit :: "nat \<Rightarrow> pystr \<Rightarrow> bool" where
  "fits_limit limit s = (case encode_utf8 s of Inl _ \<Rightarrow> False | Inr bs \<Rightarrow> length bs \<le> limit)"

definition publish_collection ::
    "nat \<Rightarrow> collection_result \<Rightarrow> snapshot_store \<Rightarrow> exporter_snapshot option \<times> snapshot_store" where
  "publish_collection limit collection store =
     (if \<not> col_critical_ok collection then (None, store)
      else let prometheus = render_prometheus (col_devices collection);
               devices_json = render_devices_json (col_devices collection)
           in if fits_limit limit prometheus \<and> fits_limit limit devices_json
              then (case store_publish collection prometheus devices_json store of
                      (snapshot, store') \<Rightarrow> (Some snapshot, store'))
              else (None, store))"

definition on_store :: "(snapshot_store \<Rightarrow> 'a \<times> snapshot_store) \<Rightarrow> (service, 'a) act" where
  "on_store f s = (case f (svc_store s) of (x, store) \<Rightarrow> (Inr x, s\<lparr>svc_store := store\<rparr>))"

definition failure_reason :: "collection_result \<Rightarrow> string" where
  "failure_reason collection = (if col_critical_ok collection then ''render_failed'' else ''critical_source'')"

definition record_outcome ::
    "refresh_times \<Rightarrow> collection_result \<Rightarrow> exporter_snapshot option \<Rightarrow> (service, unit) act" where
  "record_outcome t collection published =
     (let duration = float_sub (rt_finished t) (rt_started t) in
      case published of
        Some snapshot \<Rightarrow>
          then_act
            (on_status (record_collection (snap_collection snapshot) duration True
               (snap_generation snapshot) (rt_steady t) (rt_wall t)))
            (service_log t DEBUG ''collector.completed'' ''collection completed''
               [(u ''generation'', nat_text (snap_generation snapshot)),
                (u ''duration_ms'', str_int (int_of_float (round_double (duration * 1000)))),
                (u ''count'', nat_text (length (col_devices (snap_collection snapshot))))])
      | None \<Rightarrow>
          then_act
            (on_status (record_collection collection duration False 0 (rt_steady t) (rt_wall t)))
            (service_log_limited t ''collector.failed''
               ''collection did not publish a complete snapshot''
               (u ''collector:'' @ u (failure_reason collection))
               [(u ''status'', u (failure_reason collection))]))"

definition log_issue ::
    "refresh_times \<Rightarrow> source_diagnostics \<Rightarrow> telemetry_source \<Rightarrow> collection_issue \<Rightarrow> (service, unit) act" where
  "log_issue t d src issue =
     (if diag_issues d issue \<noteq> 0
      then service_log_limited t ''state.record_rejected'' ''telemetry input was rejected''
             (u ''issue:'' @ source_value src @ u '':'' @ issue_value issue)
             [(u ''source'', source_value src), (u ''status'', issue_value issue),
              (u ''count'', nat_text (diag_issues d issue))]
      else return_act ())"

definition log_source :: "refresh_times \<Rightarrow> source_diagnostics \<Rightarrow> telemetry_source \<Rightarrow> (service, unit) act" where
  "log_source t d src =
     then_act
       (if diag_configured d \<and> \<not> diag_accessible d
        then service_log_limited t ''collector.source_degraded''
               ''configured telemetry source is inaccessible''
               (u ''source:'' @ source_value src) [(u ''source'', source_value src)]
        else return_act ())
       (fold_act (\<lambda>issue _. log_issue t d src issue) all_issues ())"

definition log_diagnostics ::
    "refresh_times \<Rightarrow> (telemetry_source \<Rightarrow> source_diagnostics) \<Rightarrow> (service, unit) act" where
  "log_diagnostics t diagnostics =
     fold_act (\<lambda>src _. log_source t (diagnostics src) src) all_sources ()"

definition log_readiness :: "refresh_times \<Rightarrow> (service, unit) act" where
  "log_readiness t =
     bind_act (get_act (\<lambda>s. readiness (rt_readiness t) (svc_status s))) (\<lambda>now_ready.
     bind_act (get_act svc_previous_readiness) (\<lambda>previous.
       if now_ready = previous then return_act ()
       else then_act
         (if now_ready = READY
          then service_log t INFO ''exporter.ready'' ''exporter is ready'' []
          else service_log t WARN ''exporter.not_ready'' ''exporter is not ready''
                 [(u ''status'', u (reason_value now_ready))])
         (modify_act (\<lambda>s. s\<lparr>svc_previous_readiness := now_ready\<rparr>))))"

definition refresh :: "os_env \<Rightarrow> refresh_times \<Rightarrow> (service, unit) act" where
  "refresh env t =
     bind_act (get_act svc_options) (\<lambda>opts.
     bind_act (on_world (collect env (options_config opts))) (\<lambda>collection.
     bind_act (on_store (publish_collection (opt_maximum_rendered_payload_bytes opts) collection)) (\<lambda>published.
       then_act (record_outcome t collection published)
         (then_act
            (log_diagnostics t (case published of
                 Some snapshot \<Rightarrow> col_sources (snap_collection snapshot)
               | None \<Rightarrow> col_sources collection))
            (log_readiness t)))))"

section \<open>Shutdown and the poller\<close>

definition request_shutdown :: "service \<Rightarrow> service" where
  "request_shutdown s = s\<lparr>svc_shutdown_requested := True\<rparr>"

definition shutdown :: "rat \<Rightarrow> (service, unit) act" where
  "shutdown wall =
     bind_act (get_act svc_running) (\<lambda>running.
       if \<not> running then return_act ()
       else then_act
         (on_logger (log wall INFO (u ''exporter.shutdown_started'') (u ''exporter shutdown started'') []))
         (modify_act (\<lambda>s. s\<lparr>svc_status := begin_shutdown (svc_status s), svc_running := False,
            svc_shutdown_requested := True, svc_server_stopped := True\<rparr>)))"

text \<open>
  The poller, over the clock readings of the refreshes to come: it ends when the wait reports a
  requested shutdown, or when a refresh raises.
\<close>

fun poll :: "os_env \<Rightarrow> refresh_times list \<Rightarrow> (service, unit) act" where
  "poll env [] = return_act ()"
| "poll env (t # ts) =
     bind_act (get_act svc_shutdown_requested) (\<lambda>requested.
       if requested then return_act () else then_act (refresh env t) (poll env ts))"

section \<open>The command\<close>

definition main_once :: "os_env \<Rightarrow> options \<Rightarrow> world \<Rightarrow> (int \<times> pystr) outcome" where
  "main_once env opts w =
     bind_outcome (fst (collect env (options_config opts) w)) (\<lambda>result.
       Inr (if col_critical_ok result then 0 else 1,
            if opt_json opts then render_devices_json (col_devices result)
            else render_prometheus (col_devices result)))"

text \<open>\<open>run_service\<close> stands for running the service to its end.\<close>

definition main ::
    "(pystr list \<Rightarrow> pystr + options) \<Rightarrow> os_env \<Rightarrow> (options \<Rightarrow> int outcome) \<Rightarrow> pystr \<Rightarrow> world
       \<Rightarrow> pystr list \<Rightarrow> (int \<times> pystr) outcome" where
  "main click_parse env run_service version_text w arguments =
     (case parse_args click_parse arguments of
        (opts, Some message) \<Rightarrow> Inr (if message = u ''help'' then 0 else 2, [])
      | (opts, None) \<Rightarrow>
          if opt_version opts then Inr (0, version_text @ [10])
          else if opt_once opts then main_once env opts w
          else bind_outcome (run_service opts) (\<lambda>code. Inr (code, [])))"

end
