(* ===== verification/Running.thy ===== *)
theory Running
  imports Service
begin

text \<open>
  \<open>HttpServer.serve\<close> and \<open>ExporterService.run\<close>: what the main thread does. While the server runs,
  the poller, the coordinator of the shutdown, the signal handlers and the requests change the
  service; \<open>uvicorn_run\<close> is that phase as a whole, with the value of \<open>started\<close> or the exception
  the server ends with. \<open>OSErrorExn\<close> stands for \<open>OSError\<close> and \<open>SystemExit\<close> there.
  \<open>threads_alive\<close> tells which threads outlive the two joins.
\<close>

definition bool_text :: "bool \<Rightarrow> pystr" where
  "bool_text b = (if b then u ''True'' else u ''False'')"

definition serve ::
    "refresh_times \<Rightarrow> (service, bool) act \<Rightarrow> (service, int) act" where
  "serve t uvicorn_run =
     bind_act (get_act svc_running) (\<lambda>running.
       if \<not> running then return_act 0
       else bind_act (get_act svc_options) (\<lambda>opts.
         then_act (service_log t INFO ''http.listen_started'' ''HTTP listener started''
             [(u ''address'', opt_listen_address opts), (u ''port'', str_int (opt_port opts))])
           (\<lambda>s. case uvicorn_run s of
              (Inl e, s') \<Rightarrow>
                (if e = OSErrorExn
                 then then_act (service_log t ERROR ''http.request_rejected'' ''listener activation failed'' [])
                        (return_act 1) s'
                 else (Inl e, s'))
            | (Inr started, s') \<Rightarrow> (Inr (if started then 0 else 1), s'))))"

definition run ::
    "os_env \<Rightarrow> refresh_times \<Rightarrow> (service, bool) act \<Rightarrow> (service \<Rightarrow> bool \<times> bool) \<Rightarrow> rat
       \<Rightarrow> (service, int) act" where
  "run env t uvicorn_run threads_alive wall =
     bind_act (get_act id) (\<lambda>s.
     then_act (service_log t INFO ''exporter.starting'' ''Tenstorrent metrics exporter starting''
         [(u ''address'', opt_listen_address (svc_options s)), (u ''port'', str_int (opt_port (svc_options s))),
          (u ''version'', rs_version (svc_status s)), (u ''revision'', rs_revision (svc_status s))])
     (then_act (refresh env t)
     (bind_act (serve t uvicorn_run) (\<lambda>result.
      then_act (shutdown wall)
        (bind_act (get_act threads_alive) (\<lambda>(poller, coordinator).
          if poller \<or> coordinator
          then then_act (service_log t WARN ''exporter.shutdown_timeout''
                   ''shutdown did not complete within grace period''
                   [(u ''poller_alive'', bool_text poller), (u ''coordinator_alive'', bool_text coordinator)])
                 (return_act 1)
          else then_act (service_log t INFO ''exporter.shutdown_completed'' ''exporter shutdown completed'' [])
                 (return_act result)))))))"

end
