(* ===== verification/PrometheusFacts.thy ===== *)
theory PrometheusFacts
  imports Prometheus Quoting
begin

text \<open>
  What a scraper can rely on. \<open>read_quoted\<close> and \<open>parse_sample\<close> read a sample line by the
  rules of the exposition format; every sample the writers produce is read back as the name of
  its family, its labels and its value, and no value taken from a device can add a line.
\<close>

section \<open>Escaping\<close>

fun escape_char :: "nat \<Rightarrow> pystr" where
  "escape_char c =
     (if c = 92 then [92, 92] else if c = 10 then [92, 110] else if c = 34 then [92, 34] else [c])"

lemma escape_text_chars: "escape_text s = concat (map escape_char s)"
  unfolding escape_text_def replace_char_def
  by (induction s) simp_all

definition unescape_point :: "nat \<Rightarrow> nat option" where
  "unescape_point c =
     (if c = 92 then Some 92 else if c = 110 then Some 10 else if c = 34 then Some 34 else None)"

fun read_quoted :: "pystr \<Rightarrow> (pystr \<times> pystr) option" where
  "read_quoted [] = None"
| "read_quoted (c # cs) =
     (if c = 34 then Some ([], cs)
      else if c = 10 then None
      else if c = 92 then
        (case cs of
           [] \<Rightarrow> None
         | e # es \<Rightarrow>
             (case unescape_point e of
                None \<Rightarrow> None
              | Some d \<Rightarrow> map_option (\<lambda>(s, r). (d # s, r)) (read_quoted es)))
      else map_option (\<lambda>(s, r). (c # s, r)) (read_quoted cs))"

lemma read_escaped: "read_quoted (escape_text s @ 34 # rest) = Some (s, rest)"
  by (induction s) (simp_all add: escape_text_chars unescape_point_def)

lemma escape_text_line: "10 \<notin> set (escape_text s)"
  by (induction s) (simp_all add: escape_text_chars)

interpretation label: quoted_text escape_text read_quoted "\<lambda>_. True"
  by unfold_locales (simp_all add: read_escaped escape_text_line)

section \<open>Reading a sample line\<close>

fun read_labels :: "nat \<Rightarrow> pystr \<Rightarrow> ((pystr \<times> pystr) list \<times> pystr) option" where
  "read_labels 0 s = None"
| "read_labels (Suc n) s =
     (case split_once 61 s of
        None \<Rightarrow> None
      | Some (name, value_text) \<Rightarrow>
          if take 1 value_text \<noteq> [34] then None
          else (case read_quoted (drop 1 value_text) of
             None \<Rightarrow> None
           | Some (v, rest) \<Rightarrow>
               if take 1 rest = [44]
               then map_option (\<lambda>(ls, r). ((name, v) # ls, r)) (read_labels n (drop 1 rest))
               else if take 1 rest = [125] then Some ([(name, v)], drop 1 rest)
               else None))"

definition parse_sample :: "pystr \<Rightarrow> (pystr \<times> (pystr \<times> pystr) list \<times> pystr) option" where
  "parse_sample line =
     (case split_once 123 line of
        None \<Rightarrow> None
      | Some (name, rest) \<Rightarrow>
          (case read_labels (length rest) rest of
             None \<Rightarrow> None
           | Some (ls, r) \<Rightarrow> if take 1 r = [32] then Some (name, ls, drop 1 r) else None))"

text \<open>Metric and label names of the contract are lower-case letters, digits and underscores.\<close>

definition name_point :: "nat \<Rightarrow> bool" where
  "name_point c \<longleftrightarrow> 97 \<le> c \<and> c \<le> 122 \<or> 48 \<le> c \<and> c \<le> 57 \<or> c = 95"

definition label_names_ok :: "label list \<Rightarrow> bool" where
  "label_names_ok ls \<longleftrightarrow> list_all (\<lambda>l. list_all name_point (fst l)) ls \<and> distinct (map fst ls)"

definition read_values :: "label list \<Rightarrow> (pystr \<times> pystr) list" where
  "read_values = map (\<lambda>l. (fst l, prom_value (snd l)))"

lemma name_point_neq: "list_all name_point s \<Longrightarrow> \<not> name_point c \<Longrightarrow> c \<notin> set s"
  by (auto simp: list_all_iff)

lemma split_once_label: "list_all name_point n \<Longrightarrow> split_once 61 (n @ 61 # rest) = Some (n, rest)"
  by (rule split_once_append) (auto simp: list_all_iff name_point_def)

lemma read_labels_correct:
  "pairs \<noteq> [] \<Longrightarrow> list_all (\<lambda>l. list_all name_point (fst l)) pairs \<Longrightarrow> length pairs \<le> n \<Longrightarrow>
    read_labels n (prom_labels pairs @ 125 # rest) = Some (read_values pairs, rest)"
proof (induction n arbitrary: pairs)
  case (Suc n)
  then obtain l ls where p: "pairs = l # ls" by (cases pairs) auto
  with Suc.prems have name: "list_all name_point (fst l)" by simp
  show ?case
  proof (cases "ls = []")
    case True
    with p name show ?thesis
      by (simp add: prom_labels_def label_text_def prom_escape_def read_values_def
          split_once_label label.get_put)
  next
    case False
    then have "prom_labels pairs = label_text l @ 44 # prom_labels ls"
      using p by (cases ls) (simp_all add: prom_labels_def)
    with Suc p name False show ?thesis
      by (simp add: label_text_def prom_escape_def read_values_def split_once_label label.get_put)
  qed
qed simp

lemma length_prom_labels: "length pairs \<le> length (prom_labels pairs)"
proof (induction pairs rule: induct_list012)
  case (3 x y zs)
  then show ?case by (simp add: prom_labels_def)
qed (simp_all add: prom_labels_def label_text_def)

lemma parse_sample_line:
  assumes "pairs \<noteq> []" "label_names_ok pairs" "list_all name_point (u name)"
  shows "parse_sample (sample_line name pairs v) = Some (u name, read_values pairs, v)"
proof -
  have "123 \<notin> set (u name)"
    using assms(3) by (auto simp: list_all_iff name_point_def)
  then have "split_once 123 (sample_line name pairs v)
      = Some (u name, prom_labels pairs @ 125 # 32 # v)"
    by (simp add: sample_line_def split_once_append)
  moreover have "read_labels (length (prom_labels pairs @ 125 # 32 # v))
      (prom_labels pairs @ 125 # 32 # v) = Some (read_values pairs, 32 # v)"
  proof (rule read_labels_correct)
    show "list_all (\<lambda>l. list_all name_point (fst l)) pairs"
      using assms(2) by (simp add: label_names_ok_def)
    show "length pairs \<le> length (prom_labels pairs @ 125 # 32 # v)"
      using length_prom_labels [of pairs] by simp
  qed fact
  ultimately show ?thesis
    by (simp only: parse_sample_def option.case prod.case) simp
qed

section \<open>The writers\<close>

text \<open>
  A line that is a sample of the given family and device: its own labels follow the four of the
  device, no label name occurs twice, the value is a number, and it is one line.
\<close>

definition number_text :: "pystr \<Rightarrow> bool" where
  "number_text v \<longleftrightarrow> v \<noteq> [] \<and> list_all number_point v"

lemma number_text_str_int [simp]: "number_text (str_int i)"
  by (simp add: number_text_def str_int_number_point)

lemma number_text_one [simp]: "number_text (u ''1'')" "number_text [49]"
  by (simp_all add: u_Cons number_text_def number_point_def)

definition sample_of :: "string \<Rightarrow> device_telemetry \<Rightarrow> pystr \<Rightarrow> bool" where
  "sample_of name d l \<longleftrightarrow> 10 \<notin> set l \<and>
     (case parse_sample l of
        None \<Rightarrow> False
      | Some (n, ls, v) \<Rightarrow>
          n = u name \<and> take 4 ls = read_values (device_labels d) \<and> distinct (map fst ls)
            \<and> number_text v)"

definition writes :: "family \<Rightarrow> bool" where
  "writes f \<longleftrightarrow> list_all name_point (u (fam_name f)) \<and>
     (\<forall>d. list_all (sample_of (fam_name f) d) (fam_writer f d))"

lemma device_labels_length: "length (device_labels d) = 4"
  by (simp add: device_labels_def)

lemma map_fst_read_values: "map fst (read_values ls) = map fst ls"
  by (simp add: read_values_def)

lemma label_text_line: "list_all name_point (fst l) \<Longrightarrow> 10 \<notin> set (label_text l)"
  using label.put_line [of "prom_value (snd l)"]
  by (auto simp: label_text_def prom_escape_def list_all_iff name_point_def)

lemma sample_line_one_line:
  assumes "list_all name_point (u name)" "list_all (\<lambda>l. list_all name_point (fst l)) ls"
    and "list_all number_point v"
  shows "10 \<notin> set (sample_line name ls v)"
proof -
  have "10 \<notin> set (prom_labels ls)"
    using join_points [of "[44]" "map label_text ls"] assms(2) label_text_line
    by (fastforce simp: prom_labels_def list_all_iff)
  with assms show ?thesis
    by (auto simp: sample_line_def list_all_iff name_point_def number_point_def)
qed

lemma sample_of_line:
  assumes "list_all name_point (u name)" "label_names_ok (device_labels d @ ls)"
    and "number_text v"
  shows "sample_of name d (sample_line name (device_labels d @ ls) v)"
proof -
  have "device_labels d @ ls \<noteq> []" by (simp add: device_labels_def)
  from parse_sample_line [OF this assms(2,1)]
  have "parse_sample (sample_line name (device_labels d @ ls) v)
      = Some (u name, read_values (device_labels d @ ls), v)" .
  moreover have "take 4 (read_values (device_labels d @ ls)) = read_values (device_labels d)"
    by (simp add: read_values_def device_labels_length)
  moreover have "distinct (map fst (read_values (device_labels d @ ls)))"
    using assms(2) by (simp only: map_fst_read_values label_names_ok_def)
  moreover have "10 \<notin> set (sample_line name (device_labels d @ ls) v)"
    using assms by (intro sample_line_one_line) (simp_all add: label_names_ok_def number_text_def)
  ultimately show ?thesis
    using assms(3) by (simp add: sample_of_def)
qed

text \<open>Label names are checked by evaluation.\<close>

lemmas label_names_defs = label_names_ok_def device_labels_def lab_def name_point_def u_Cons

lemma names_device: "label_names_ok (device_labels d @ [])"
  by (simp add: label_names_defs)

lemma writes_optional:
  assumes "list_all name_point (u name)"
  shows "writes (optional_family name h t getter)"
  using assms sample_of_line [OF assms names_device]
  by (simp add: writes_def optional_family_def optional_samples_def split: option.splits)

lemma names_workload: "label_names_ok (workload_labels d w)"
  by (simp add: workload_labels_def label_names_defs)

lemma writes_workload:
  assumes "list_all name_point (u name)"
    and "\<And>w v. value_of w = Some v \<Longrightarrow> number_text v"
  shows "writes (workload_family name h value_of)"
proof -
  have "sample_of name d (sample_line name (workload_labels d w) v)" if "value_of w = Some v" for d w v
    using sample_of_line [OF assms(1) names_workload [unfolded workload_labels_def]] assms(2) [OF that]
    by (simp add: workload_labels_def)
  with assms(1) show ?thesis
    by (auto simp: writes_def workload_family_def workload_samples_def list_all_iff split: option.splits)
qed

lemma workload_values:
  "active_value w = Some v \<Longrightarrow> number_text v"
  "stale_value w = Some v \<Longrightarrow> number_text v"
  "optional_value f b w = Some v \<Longrightarrow> number_text v"
  by (auto simp: active_value_def stale_value_def optional_value_def flag_text_def
      split: if_splits)

lemma occupancy_value: "occupancy w = Some v \<Longrightarrow> number_text v"
  by (auto simp: occupancy_def number_text_def format_g_number_point format_g_neq_Nil
      split: option.splits if_splits)

lemma writes_gauge:
  "list_all name_point (u name) \<Longrightarrow> (\<And>d. list_all (sample_of name d) (w name d)) \<Longrightarrow>
    writes (gauge name h w)"
  by (simp add: writes_def gauge_def)

lemma writes_counter:
  "list_all name_point (u name) \<Longrightarrow> (\<And>d. list_all (sample_of name d) (w name d)) \<Longrightarrow>
    writes (counter name h w)"
  by (simp add: writes_def counter_def)

lemma keyed_ok:
  assumes "list_all name_point (u name)"
    and "list_all (\<lambda>(ls, v). label_names_ok (device_labels d @ ls) \<and> pred_option number_text v) entries"
  shows "list_all (sample_of name d) (keyed_samples name d entries)"
  using assms(2) sample_of_line [OF assms(1)]
  by (fastforce simp: keyed_samples_def list_all_iff split: option.splits)

lemma guarded_ok:
  assumes "list_all name_point (u name)" and "label_names_ok (device_labels d @ ls)"
  shows "list_all (sample_of name d) (guarded_info present name d ls)"
  using sample_of_line [OF assms] by (simp add: guarded_info_def)

text \<open>One sample for each element of a list.\<close>

lemma listed_ok:
  assumes "list_all name_point (u name)"
    and "\<And>x. label_names_ok (device_labels d @ f x)"
    and "\<And>x. number_text (g x)"
  shows "list_all (sample_of name d) (map (\<lambda>x. sample_line name (device_labels d @ f x) (g x)) xs)"
  using sample_of_line [OF assms(1) assms(2)] assms(3) by (simp add: list_all_iff)

lemma info_ok:
  assumes "list_all name_point (u name)"
  shows "list_all (sample_of name d) (info_samples info_labels name d)"
    and "list_all (sample_of name d) (info_samples firmware_labels name d)"
    and "list_all (sample_of name d) (info_samples power_labels name d)"
  unfolding info_samples_def info_labels_def firmware_labels_def power_labels_def Let_def
    list.pred_inject
  by (intro conjI TrueI sample_of_line [OF assms] number_text_one; simp add: label_names_defs)+

lemma keyed_writers_ok:
  assumes "list_all name_point (u name)"
  shows "list_all (sample_of name d) (clocks name d)"
    and "list_all (sample_of name d) (link_info name d)"
    and "list_all (sample_of name d) (link_width name d)"
    and "list_all (sample_of name d) (interconnect_speed name d)"
  unfolding clocks_def link_info_def link_width_def interconnect_speed_def Let_def
  by (rule keyed_ok [OF assms];
      simp add: label_names_defs option.pred_map comp_def option.pred_True list_all_iff)+

lemma guarded_writers_ok:
  assumes "list_all name_point (u name)"
  shows "list_all (sample_of name d) (memory_info name d)"
    and "list_all (sample_of name d) (tensix_info name d)"
    and "list_all (sample_of name d) (health_info name d)"
    and "list_all (sample_of name d) (allocation_samples name d)"
    and "list_all (sample_of name d) (janitor_samples name d)"
  unfolding memory_info_def tensix_info_def health_info_def allocation_samples_def
    janitor_samples_def Let_def
  by (rule guarded_ok [OF assms]; simp add: label_names_defs)+

lemma listed_writers_ok:
  assumes "list_all name_point (u name)"
  shows "list_all (sample_of name d) (sensors name d)"
    and "list_all (sample_of name d) (resources name d)"
    and "list_all (sample_of name d) (counters name d)"
    and "list_all (sample_of name d) (interconnect_info name d)"
  unfolding sensors_def resources_def counters_def interconnect_info_def
  by (rule listed_ok [OF assms];
      simp add: label_names_defs)+

lemmas writers_ok = info_ok keyed_writers_ok guarded_writers_ok listed_writers_ok

lemmas writes_rules = writes_optional writes_workload [OF _ workload_values(1)]
  writes_workload [OF _ workload_values(2)] writes_workload [OF _ workload_values(3)]
  writes_workload [OF _ occupancy_value] writes_gauge writes_counter

lemma families_write: "list_all writes contract_families"
  by (simp add: contract_families_def writes_rules writers_ok u_Cons name_point_def)

section \<open>The exposition\<close>

lemma name_points_no_hash: "list_all name_point n \<Longrightarrow> \<not> starts_with (n @ 123 # r) (u ''# '')"
  by (cases n) (auto simp: starts_with_def u_Cons name_point_def)

lemma sample_of_no_hash:
  assumes "list_all name_point (u name)" "sample_of name d l"
  shows "\<not> starts_with l (u ''# '')"
proof -
  from assms(2) obtain r where "split_once 123 l = Some (u name, r)"
    by (auto simp: sample_of_def parse_sample_def split: option.splits if_splits)
  then have "l = u name @ 123 # r"
    by (simp add: split_once_Some)
  with assms(1) show ?thesis
    by (simp add: name_points_no_hash)
qed

text \<open>The comment lines of a family, and those of the whole contract.\<close>

definition metadata_lines :: "family \<Rightarrow> pystr list" where
  "metadata_lines f = [help_line (fam_name f) (fam_help f), type_line (fam_name f) (fam_type f)]"

definition contract_metadata :: "pystr list" where
  "contract_metadata =
     [help_line ''tt_devices_discovered'' ''Number of Tenstorrent sysfs devices discovered.'',
      type_line ''tt_devices_discovered'' ''gauge''] @ concat (map metadata_lines contract_families)"

lemma contract_one_line:
  "list_all (\<lambda>f. CHR 0x0A \<notin> set (fam_name f @ fam_help f @ fam_type f)) contract_families"
  by code_simp

lemma hash_prefix: "starts_with (u ''# '' @ s) (u ''# '')"
  by simp

lemma comment_line:
  "starts_with (help_line n h) (u ''# '')" "starts_with (type_line n h) (u ''# '')"
  using hash_prefix [of "u ''HELP '' @ u n @ u '' '' @ u h"]
    hash_prefix [of "u ''TYPE '' @ u n @ u '' '' @ u h"]
  by (simp_all add: help_line_def type_line_def u_Cons)

lemma comment_line_feed:
  "10 \<in> set (help_line n h) \<longleftrightarrow> CHR 0x0A \<in> set n \<or> CHR 0x0A \<in> set h"
  "10 \<in> set (type_line n h) \<longleftrightarrow> CHR 0x0A \<in> set n \<or> CHR 0x0A \<in> set h"
  by (simp_all add: help_line_def type_line_def line_feed_u)

lemma metadata_ok:
  "f \<in> set contract_families \<Longrightarrow> l \<in> set (metadata_lines f) \<Longrightarrow> 10 \<notin> set l \<and> starts_with l (u ''# '')"
  using contract_one_line
  by (auto simp: list_all_iff metadata_lines_def comment_line comment_line_feed)

lemma samples_ok:
  assumes "f \<in> set contract_families" "l \<in> set (fam_writer f d)"
  shows "sample_of (fam_name f) d l" and "\<not> starts_with l (u ''# '')"
proof -
  from families_write assms(1) have "writes f" by (simp add: list_all_iff)
  then have name: "list_all name_point (u (fam_name f))"
    and "list_all (sample_of (fam_name f) d) (fam_writer f d)"
    by (simp_all add: writes_def)
  with assms(2) show "sample_of (fam_name f) d l"
    by (simp add: list_all_iff)
  with name show "\<not> starts_with l (u ''# '')"
    by (rule sample_of_no_hash)
qed

lemma family_lines_eq:
  "family_lines devices f = metadata_lines f @ concat (map (fam_writer f) devices) @ [[]]"
  by (simp add: family_lines_def metadata_lines_def)

lemma str_int_line: "10 \<notin> set (str_int i)"
  using str_int_number_point [of i] by (auto simp: list_all_iff number_point_def)

lemma discovered_one_line: "l \<in> set (discovered_lines devices) \<Longrightarrow> 10 \<notin> set l"
  by (auto simp: discovered_lines_def comment_line_feed line_feed_u str_int_line)

lemma family_one_line:
  assumes "f \<in> set contract_families" "l \<in> set (family_lines devices f)"
  shows "10 \<notin> set l"
proof -
  from assms(2) consider "l \<in> set (metadata_lines f)" | d where "l \<in> set (fam_writer f d)" | "l = []"
    by (auto simp: family_lines_eq)
  then show ?thesis
    using metadata_ok [OF assms(1)] samples_ok(1) [OF assms(1)]
    by cases (auto simp: sample_of_def)
qed

lemma render_lines_one_line: "l \<in> set (render_lines devices) \<Longrightarrow> 10 \<notin> set l"
  unfolding render_lines_def
  using discovered_one_line family_one_line by fastforce

lemma split_render:
  "split_on 10 (render_prometheus devices) = render_lines devices @ [[]]"
proof -
  have "render_lines devices \<noteq> []" by (simp add: render_lines_def discovered_lines_def)
  moreover have "list_all (\<lambda>l. 10 \<notin> set l) (render_lines devices)"
    using render_lines_one_line by (simp add: list_all_iff)
  ultimately show ?thesis
    using split_on_join [of "render_lines devices" 10 "[]"] by (simp add: render_prometheus_def)
qed

lemma filter_family_lines:
  assumes "f \<in> set contract_families"
  shows "filter (\<lambda>l. starts_with l (u ''# '')) (family_lines devices f) = metadata_lines f"
proof -
  have "filter (\<lambda>l. starts_with l (u ''# '')) (metadata_lines f) = metadata_lines f"
    using metadata_ok [OF assms] by simp
  moreover have "filter (\<lambda>l. starts_with l (u ''# '')) (concat (map (fam_writer f) devices)) = []"
    using samples_ok(2) [OF assms] by (auto simp: filter_empty_conv)
  moreover have "\<not> starts_with [] (u ''# '')"
    by (simp add: starts_with_def u_Cons)
  ultimately show ?thesis
    by (simp add: family_lines_eq)
qed

lemma filter_concat_families:
  "set fs \<subseteq> set contract_families \<Longrightarrow>
    filter (\<lambda>l. starts_with l (u ''# '')) (concat (map (family_lines devices) fs))
      = concat (map metadata_lines fs)"
  by (induction fs) (simp_all add: filter_family_lines)

lemma filter_discovered:
  "filter (\<lambda>l. starts_with l (u ''# '')) (discovered_lines devices)
    = [help_line ''tt_devices_discovered'' ''Number of Tenstorrent sysfs devices discovered.'',
       type_line ''tt_devices_discovered'' ''gauge'']"
  by (simp add: discovered_lines_def comment_line) (simp add: starts_with_def u_Cons)

text \<open>
  C8: Whatever the devices hold, the comment lines of the exposition are exactly those of the
  contract: one help and one type line for every metric, in contract order, every metric name
  once. In particular no value read from a device can add, remove or change a comment line.
\<close>

theorem render_metadata:
  "filter (\<lambda>l. starts_with l (u ''# '')) (split_on 10 (render_prometheus devices)) = contract_metadata
     \<and> distinct (''tt_devices_discovered'' # map fam_name contract_families)"
proof
  have "\<not> starts_with [] (u ''# '')"
    by (simp add: starts_with_def u_Cons)
  then show "filter (\<lambda>l. starts_with l (u ''# '')) (split_on 10 (render_prometheus devices)) = contract_metadata"
    by (simp add: split_render render_lines_def filter_discovered filter_concat_families
        contract_metadata_def)
  show "distinct (''tt_devices_discovered'' # map fam_name contract_families)"
    by code_simp
qed

text \<open>
  C9: Split at line feeds, the exposition is the line with the number of devices, then for every
  family its comment lines, the samples of every device and a blank line. Every sample reads
  back, by the rules of the format, as the name of its family, the four labels of its device
  with their exact values, further labels without a repeated name, and a number.
\<close>

theorem render_samples:
  "split_on 10 (render_prometheus devices)
     = discovered_lines devices @ concat (map (family_lines devices) contract_families) @ [[]]
   \<and> list_all (\<lambda>f. list_all (\<lambda>d. list_all (sample_of (fam_name f) d) (fam_writer f d)) devices)
       contract_families"
  using samples_ok(1) by (simp add: split_render render_lines_def list_all_iff)

section \<open>Stale workloads\<close>

text \<open>The device with everything a stale sample reports erased, but for identity and time.\<close>

definition blank_workload :: "workload_telemetry \<Rightarrow> workload_telemetry" where
  "blank_workload w =
     (if wl_stale w
      then w\<lparr>wl_active := None, wl_programs_observed := None, wl_cores_used := None,
             wl_cores_total := None\<rparr>
      else w)"

definition blank_stale :: "device_telemetry \<Rightarrow> device_telemetry" where
  "blank_stale d = d\<lparr>dev_workloads := map blank_workload (dev_workloads d)\<rparr>"

definition blind :: "family \<Rightarrow> bool" where
  "blind f \<longleftrightarrow> (\<forall>d. fam_writer f (blank_stale d) = fam_writer f d)"

lemma device_labels_blank: "device_labels (blank_stale d) = device_labels d"
  by (simp add: device_labels_def blank_stale_def)

lemma dev_workloads_blank: "dev_workloads (blank_stale d) = map blank_workload (dev_workloads d)"
  by (simp add: blank_stale_def)

lemma workload_labels_blank: "workload_labels (blank_stale d) (blank_workload w) = workload_labels d w"
  by (simp add: workload_labels_def device_labels_blank blank_workload_def)

lemma blind_optional:
  "(\<And>d. getter (blank_stale d) = getter d) \<Longrightarrow> blind (optional_family name h t getter)"
  by (simp add: blind_def optional_family_def optional_samples_def device_labels_blank
      cong: option.case_cong)

lemma blind_workload:
  "(\<And>w. value_of (blank_workload w) = value_of w) \<Longrightarrow> blind (workload_family name h value_of)"
  by (simp add: blind_def workload_family_def workload_samples_def workload_labels_blank comp_def
      dev_workloads_blank cong: option.case_cong)

lemma blind_gauge: "(\<And>d. w name (blank_stale d) = w name d) \<Longrightarrow> blind (gauge name h w)"
  and blind_counter: "(\<And>d. w name (blank_stale d) = w name d) \<Longrightarrow> blind (counter name h w)"
  by (simp_all add: blind_def gauge_def counter_def)

lemma blank_values:
  "active_value (blank_workload w) = active_value w"
  "stale_value (blank_workload w) = stale_value w"
  "optional_value wl_cores_used True (blank_workload w) = optional_value wl_cores_used True w"
  "optional_value wl_cores_total True (blank_workload w) = optional_value wl_cores_total True w"
  "optional_value wl_programs_observed True (blank_workload w) = optional_value wl_programs_observed True w"
  "optional_value wl_timestamp False (blank_workload w) = optional_value wl_timestamp False w"
  "occupancy (blank_workload w) = occupancy w"
  by (simp_all add: blank_workload_def active_value_def stale_value_def optional_value_def
      occupancy_def split: option.splits)

lemma blank_fields:
  "dev_firmware (blank_stale d) = dev_firmware d" "dev_pci (blank_stale d) = dev_pci d"
  "dev_power (blank_stale d) = dev_power d" "dev_memory (blank_stale d) = dev_memory d"
  "dev_tensix (blank_stale d) = dev_tensix d" "dev_janitor (blank_stale d) = dev_janitor d"
  "dev_health_detail (blank_stale d) = dev_health_detail d"
  "dev_allocation (blank_stale d) = dev_allocation d" "dev_links (blank_stale d) = dev_links d"
  "dev_hwmon_sensors (blank_stale d) = dev_hwmon_sensors d"
  "dev_pci_resources (blank_stale d) = dev_pci_resources d"
  "dev_pcie_counters (blank_stale d) = dev_pcie_counters d"
  "dev_character_device (blank_stale d) = dev_character_device d"
  "dev_sysfs_path (blank_stale d) = dev_sysfs_path d" "dev_health (blank_stale d) = dev_health d"
  by (simp_all add: blank_stale_def)

lemma blank_writers:
  "info_samples info_labels name (blank_stale d) = info_samples info_labels name d"
  "info_samples firmware_labels name (blank_stale d) = info_samples firmware_labels name d"
  "info_samples power_labels name (blank_stale d) = info_samples power_labels name d"
  "clocks name (blank_stale d) = clocks name d"
  "sensors name (blank_stale d) = sensors name d"
  "resources name (blank_stale d) = resources name d"
  "link_info name (blank_stale d) = link_info name d"
  "link_width name (blank_stale d) = link_width name d"
  "counters name (blank_stale d) = counters name d"
  "memory_info name (blank_stale d) = memory_info name d"
  "tensix_info name (blank_stale d) = tensix_info name d"
  "health_info name (blank_stale d) = health_info name d"
  "interconnect_info name (blank_stale d) = interconnect_info name d"
  "interconnect_speed name (blank_stale d) = interconnect_speed name d"
  "allocation_samples name (blank_stale d) = allocation_samples name d"
  "janitor_samples name (blank_stale d) = janitor_samples name d"
  by (simp_all only: info_samples_def info_labels_def firmware_labels_def power_labels_def
      clocks_def sensors_def resources_def link_info_def link_width_def counters_def memory_info_def
      tensix_info_def health_info_def interconnect_info_def interconnect_speed_def
      allocation_samples_def janitor_samples_def keyed_samples_def guarded_info_def
      device_labels_blank blank_fields)

lemma families_blind: "list_all blind contract_families"
  by (simp add: contract_families_def blind_optional blind_workload blind_gauge blind_counter
      blank_values blank_writers blank_fields)


end
