(* ===== verification/RuntimeFacts.thy ===== *)
theory RuntimeFacts
  imports Runtime PrometheusFacts
begin

text \<open>
  The runtime state against the history of the calls it has received. \<open>represents\<close> says what
  every counter must be after a given history, without reference to the state; the lemma
  \<open>status_represents\<close> shows that the state always is that. The second part shows that the
  exporter's own metrics keep the rules of the exposition format.
\<close>

section \<open>State and history\<close>

text \<open>
  The interface of a component that is told events one after the other: a relation between state
  and history that holds at the start and is kept by every event holds always.
\<close>

locale history_refinement =
  fixes start :: 's
    and step :: "'e \<Rightarrow> 's \<Rightarrow> 's"
    and rep :: "'s \<Rightarrow> 'e list \<Rightarrow> bool"
  assumes rep_start: "rep start []"
    and rep_step: "rep s es \<Longrightarrow> rep (step e s) (es @ [e])"
begin

lemma rep_fold: "rep (fold step es start) es"
  by (induction es rule: rev_induct) (simp_all add: rep_start rep_step)

end

record collection_event =
  ce_result :: collection_result
  ce_duration :: rat
  ce_published :: bool
  ce_generation :: nat
  ce_steady :: rat
  ce_wall :: rat

datatype runtime_event =
    Collected collection_event
  | Requested http_route int rat
  | Opened
  | Closed
  | Refused
  | ShutdownBegun

fun apply_event :: "runtime_event \<Rightarrow> runtime_status \<Rightarrow> runtime_status" where
  "apply_event (Collected c) st =
     record_collection (ce_result c) (ce_duration c) (ce_published c) (ce_generation c)
       (ce_steady c) (ce_wall c) st"
| "apply_event (Requested route status duration) st = record_http_request route status duration st"
| "apply_event Opened st = connection_opened st"
| "apply_event Closed st = connection_closed st"
| "apply_event Refused st = connection_rejected st"
| "apply_event ShutdownBegun st = begin_shutdown st"

text \<open>What the history says.\<close>

definition collections :: "runtime_event list \<Rightarrow> collection_event list" where
  "collections es = List.map_filter (\<lambda>e. case e of Collected c \<Rightarrow> Some c | _ \<Rightarrow> None) es"

definition succeeded :: "collection_event \<Rightarrow> bool" where
  "succeeded c \<longleftrightarrow> col_critical_ok (ce_result c) \<and> ce_published c"

definition requests :: "runtime_event list \<Rightarrow> (http_route \<times> code_class) list" where
  "requests es = List.map_filter
     (\<lambda>e. case e of Requested route status _ \<Rightarrow> Some (route, code_class status) | _ \<Rightarrow> None) es"

definition last_of :: "'a list \<Rightarrow> 'a option" where
  "last_of xs = (if xs = [] then None else Some (last xs))"

definition last_success :: "runtime_event list \<Rightarrow> collection_event option" where
  "last_success es = last_of (filter succeeded (collections es))"

definition current_sources :: "runtime_event list \<Rightarrow> telemetry_source \<Rightarrow> source_diagnostics" where
  "current_sources es = (case last_of (collections es) of
       None \<Rightarrow> new_diagnostics
     | Some c \<Rightarrow> col_sources (ce_result c))"

text \<open>The failures since the last success.\<close>

definition failing :: "runtime_event list \<Rightarrow> nat" where
  "failing es = length (takeWhile (\<lambda>c. \<not> succeeded c) (rev (collections es)))"

definition total_issues :: "runtime_event list \<Rightarrow> telemetry_source \<Rightarrow> collection_issue \<Rightarrow> nat" where
  "total_issues es src issue =
     sum_list (map (\<lambda>c. diag_issues (col_sources (ce_result c) src) issue) (collections es))"

definition represents :: "runtime_status \<Rightarrow> runtime_event list \<Rightarrow> bool" where
  "represents st es \<longleftrightarrow>
     rs_successes st = length (filter succeeded (collections es))
   \<and> rs_failures st = length (filter (\<lambda>c. \<not> succeeded c) (collections es))
   \<and> rs_consecutive_failures st = failing es
   \<and> rs_last_success st = map_option ce_steady (last_success es)
   \<and> rs_last_success_wall st = map_option ce_wall (last_success es)
   \<and> rs_generation st = (case last_success es of None \<Rightarrow> 0 | Some c \<Rightarrow> ce_generation c)
   \<and> rs_device_count st = (case last_success es of
         None \<Rightarrow> 0 | Some c \<Rightarrow> length (col_devices (ce_result c)))
   \<and> rs_sources st = current_sources es
   \<and> rs_issue_totals st = total_issues es
   \<and> rs_http_requests st = (\<lambda>route code. count_list (requests es) (route, code))
   \<and> rs_rejected_connections st = count_list es Refused
   \<and> rs_shutting_down st = (ShutdownBegun \<in> set es)"

lemma collections_snoc:
  "collections (es @ [e]) = collections es @ (case e of Collected c \<Rightarrow> [c] | _ \<Rightarrow> [])"
  by (simp add: collections_def List.map_filter_def split: runtime_event.splits)

lemma requests_snoc:
  "requests (es @ [e]) = requests es
     @ (case e of Requested route status _ \<Rightarrow> [(route, code_class status)] | _ \<Rightarrow> [])"
  by (simp add: requests_def List.map_filter_def split: runtime_event.splits)

lemma last_of_snoc [simp]: "last_of (xs @ [x]) = Some x" "last_of [] = None"
  by (simp_all add: last_of_def)

lemma history_Nil [simp]: "collections [] = []" "requests [] = []"
  by (simp_all add: collections_def requests_def List.map_filter_def)

lemmas history_defs = last_success_def current_sources_def failing_def total_issues_def
  collections_snoc requests_snoc

lemma represents_start: "represents (new_status v r m q now) []"
  by (simp add: represents_def new_status_def history_defs fun_eq_iff)

lemma represents_collected:
  assumes "represents st es"
  shows "represents (apply_event (Collected c) st) (es @ [Collected c])"
  using assms
  by (cases "succeeded c")
    (auto simp: represents_def history_defs record_collection_def Let_def succeeded_def fun_eq_iff)

lemma represents_other:
  assumes "represents st es" "\<And>c. e \<noteq> Collected c"
  shows "represents (apply_event e st) (es @ [e])"
  using assms
  by (cases e)
    (auto simp: represents_def history_defs record_http_request_def connection_opened_def
      connection_closed_def connection_rejected_def begin_shutdown_def Let_def fun_eq_iff)

lemma represents_step: "represents st es \<Longrightarrow> represents (apply_event e st) (es @ [e])"
  using represents_collected represents_other [of st es e] by (cases "\<exists>c. e = Collected c") blast+

interpretation history: history_refinement "new_status v r m q now" apply_event represents
  by unfold_locales (simp_all add: represents_start represents_step)


lemma readiness_ready:
  assumes "represents st es" "rs_max_snapshot_age st = max_age" "rs_require_device st = require_device"
  shows "readiness t st = READY \<longleftrightarrow>
     ShutdownBegun \<notin> set es \<and>
     (case last_success es of
        None \<Rightarrow> False
      | Some c \<Rightarrow>
          ce_generation c \<noteq> 0
            \<and> diag_accessible (current_sources es SYSFS_ROOT)
            \<and> float_sub t (ce_steady c) \<le> max_age
            \<and> (if require_device then col_devices (ce_result c) \<noteq> [] else True))"
  using assms
  by (auto simp: represents_def readiness_def not_less split: option.splits)

lemma apply_event_options:
  "rs_max_snapshot_age (apply_event e st) = rs_max_snapshot_age st"
  "rs_require_device (apply_event e st) = rs_require_device st"
  "rs_version (apply_event e st) = rs_version st"
  "rs_revision (apply_event e st) = rs_revision st"
  "rs_process_start (apply_event e st) = rs_process_start st"
  by (cases e; simp add: record_collection_def record_http_request_def connection_opened_def
      connection_closed_def connection_rejected_def begin_shutdown_def Let_def)+

lemma run_options:
  "rs_max_snapshot_age (fold apply_event es st) = rs_max_snapshot_age st"
  "rs_require_device (fold apply_event es st) = rs_require_device st"
  by (induction es arbitrary: st) (simp_all add: apply_event_options)

text \<open>
  C22: The exporter reports ready exactly when no shutdown has begun, some collection has been
  published under a generation that is not zero, the most recent collection of all could open the
  critical source, the published snapshot is not older than the limit, and, if a device is
  required, that snapshot has one.
\<close>

theorem readiness_iff:
  "readiness t (fold apply_event es (new_status version revision max_age require_device now)) = READY
     \<longleftrightarrow>
     ShutdownBegun \<notin> set es \<and>
     (case last_success es of
        None \<Rightarrow> False
      | Some c \<Rightarrow>
          ce_generation c \<noteq> 0
            \<and> diag_accessible (current_sources es SYSFS_ROOT)
            \<and> float_sub t (ce_steady c) \<le> max_age
            \<and> (if require_device then col_devices (ce_result c) \<noteq> [] else True))"
  by (rule readiness_ready [OF history.rep_fold]) (simp_all add: run_options new_status_def)

section \<open>The exporter's own exposition\<close>

lemma escape_text_line_ok [simp]: "line_ok (escape_text s)"
  using label.put_line by (simp add: line_ok_def)

lemma number_line_ok: "list_all number_point s \<Longrightarrow> line_ok s"
  by (auto simp: line_ok_def list_all_iff number_point_def)

lemma value_line_ok [simp]:
  "line_ok (float_text x)" "line_ok (nat_text n)" "line_ok (flag_text b)"
  by (simp_all add: number_line_ok float_text_def nat_text_def flag_text_def format_g_number_point
      str_int_number_point)

lemma source_value_line_ok [simp]: "line_ok (source_value src)"
  by (cases src; simp)

lemma issue_value_line_ok [simp]: "line_ok (issue_value issue)"
  by (cases issue; simp)

lemma route_value_line_ok [simp]: "CHR 0x0A \<notin> set (route_value route)"
  by (cases route; simp)

lemma class_value_line_ok [simp]: "CHR 0x0A \<notin> set (class_value c)"
  by (cases c; simp)

lemma quoted_label_line_ok [simp]: "line_ok (quoted_label n v) \<longleftrightarrow> line_ok (u n) \<and> line_ok v"
  by (auto simp: quoted_label_def)

lemma status_sample_line_ok:
  "line_ok (u n) \<Longrightarrow> list_all line_ok ls \<Longrightarrow> line_ok v \<Longrightarrow> line_ok (status_sample n ls v)"
  using join_points [of "[44]" ls] by (auto simp: status_sample_def line_ok_def list_all_iff)

lemma status_sample_no_hash:
  "n \<noteq> [] \<Longrightarrow> hd n \<noteq> CHR ''#'' \<Longrightarrow> \<not> starts_with (status_sample n ls v) (u ''# '')"
proof (cases n)
  case (Cons c cs)
  have "(35 :: nat) = cp CHR ''#''" by simp
  moreover assume "n \<noteq> []" "hd n \<noteq> CHR ''#''"
  ultimately have "cp c \<noteq> 35" using Cons by (metis inj_of_char injD list.sel(1))
  with Cons show ?thesis by (simp add: status_sample_def starts_with_def u_Cons)
qed simp

definition status_family_ok :: "string \<times> string \<times> string \<times> pystr list \<Rightarrow> bool" where
  "status_family_ok f = (case f of (name, help_text, metric_type, samples) \<Rightarrow>
     CHR 0x0A \<notin> set name \<and> CHR 0x0A \<notin> set help_text \<and> CHR 0x0A \<notin> set metric_type \<and>
     list_all (\<lambda>l. line_ok l \<and> \<not> starts_with l (u ''# '')) samples)"

lemma status_families_ok: "list_all status_family_ok (status_families now st)"
  by (simp add: status_families_def status_family_ok_def status_sample_line_ok status_sample_no_hash
      list_all_iff Let_def)

lemma status_family_lines:
  assumes "status_family_ok (n, h, ty, samples)"
  shows "list_all line_ok (status_family n h ty samples)"
    and "filter (\<lambda>l. starts_with l (u ''# '')) (status_family n h ty samples) = [help_line n h, type_line n ty]"
proof -
  show "list_all line_ok (status_family n h ty samples)"
    using assms by (auto simp: status_family_ok_def status_family_def list_all_iff line_ok_def
        comment_line_feed)
  have "filter (\<lambda>l. starts_with l (u ''# '')) samples = []"
    using assms by (auto simp: status_family_ok_def list_all_iff filter_empty_conv)
  then show "filter (\<lambda>l. starts_with l (u ''# '')) (status_family n h ty samples) = [help_line n h, type_line n ty]"
    by (simp add: status_family_def comment_line)
qed

lemma families_lines:
  "list_all status_family_ok fs \<Longrightarrow>
    list_all line_ok (concat (map (\<lambda>(n, h, ty, ls). status_family n h ty ls) fs)) \<and>
    filter (\<lambda>l. starts_with l (u ''# '')) (concat (map (\<lambda>(n, h, ty, ls). status_family n h ty ls) fs))
      = concat (map (\<lambda>(n, h, ty, ls). [help_line n h, type_line n ty]) fs)"
proof (induction fs)
  case (Cons f fs)
  obtain n h ty ls where f: "f = (n, h, ty, ls)" by (cases f)
  with Cons status_family_lines [of n h ty ls] show ?case by simp
qed simp

definition status_metadata :: "pystr list" where
  "status_metadata = concat (map (\<lambda>(n, h, ty, ls). [help_line n h, type_line n ty])
     (status_families 0 (new_status [] [] 0 False 0)))"

definition status_names :: "string list" where
  "status_names = map fst (status_families 0 (new_status [] [] 0 False 0))"

lemma status_metadata_const:
  "concat (map (\<lambda>(n, h, ty, ls). [help_line n h, type_line n ty]) (status_families now st))
     = status_metadata"
  by (simp add: status_metadata_def status_families_def)

lemma status_lines_ok:
  "list_all line_ok (status_lines now st)"
  "filter (\<lambda>l. starts_with l (u ''# '')) (status_lines now st) = status_metadata"
  using families_lines [OF status_families_ok, of now st]
  by (simp_all add: status_lines_def status_metadata_const)

lemma split_status: "split_on 10 (render_status now st) = status_lines now st @ [[]]"
proof -
  have "status_lines now st \<noteq> []"
    by (simp add: status_lines_def status_families_def status_family_def)
  then show ?thesis
    using split_on_join [of "status_lines now st" 10 "[]"] status_lines_ok(1) [of now st]
    by (simp add: render_status_def line_ok_def [abs_def])
qed

lemma split_on_lines:
  "list_all line_ok ls \<Longrightarrow> ls \<noteq> [] \<Longrightarrow> split_on 10 ((join [10] ls @ [10]) @ rest) = ls @ split_on 10 rest"
  using split_on_join [of ls 10 rest] by (simp add: line_ok_def [abs_def])

text \<open>
  The last-success timestamp is written with nine significant digits, one less than a current
  Unix time in seconds has: states whose last successes lie eight seconds apart are rendered
  identically.
\<close>

theorem timestamp_rounding:
  "render_status now (st\<lparr>rs_last_success_wall := Some 1753871236\<rparr>)
     = render_status now (st\<lparr>rs_last_success_wall := Some 1753871244\<rparr>)"
proof -
  have a: "float_text 1753871236 = u ''1.75387124e+09''"
    and b: "float_text 1753871244 = u ''1.75387124e+09''"
    by (simp_all add: float_text_def format_defs u_Cons)
  have "readiness now (st\<lparr>rs_last_success_wall := w\<rparr>) = readiness now st"
    and "snapshot_age now (st\<lparr>rs_last_success_wall := w\<rparr>) = snapshot_age now st" for w
    by (auto simp: readiness_def snapshot_age_def split: option.splits)
  with a b show ?thesis
    by (simp add: render_status_def status_lines_def status_families_def)
qed

end
