(* ===== verification/LoggingFacts.thy ===== *)
theory LoggingFacts
  imports Logging RuntimeFacts
begin

text \<open>
  Log fields are cut at a character boundary, every emission is exactly one line in either
  format, and the rate limit keeps emissions of one key apart and the number of keys bounded.
\<close>

section \<open>Cutting text\<close>

text \<open>The longest beginning of a text whose encoding fits into \<open>n\<close> octets.\<close>

fun fit :: "nat \<Rightarrow> pystr \<Rightarrow> pystr" where
  "fit n [] = []"
| "fit n (c # s) = (if length (utf8_char c) \<le> n then c # fit (n - length (utf8_char c)) s else [])"

lemma fit_prefix: "\<exists>r. s = fit n s @ r"
  by (induction s arbitrary: n) auto

lemma fit_length: "length (utf8_points (fit n s)) \<le> n"
proof (induction s arbitrary: n)
  case (Cons c s)
  from Cons [of "n - length (utf8_char c)"] show ?case by (auto simp: utf8_points_def)
qed (simp add: utf8_points_def)

lemma utf8_points_append: "utf8_points (s @ t) = utf8_points s @ utf8_points t"
  by (simp add: utf8_points_def)

lemma decode_incomplete_char:
  assumes "is_scalar c" "0 < k" "k < length (utf8_char c)"
  shows "decode_points (take k (utf8_char c)) = None"
proof -
  from assms have k: "k = 1 \<or> k = 2 \<or> k = 3"
    by (auto simp: utf8_char_def split: if_splits)
  with assms(3) have c: "128 \<le> c"
    by (auto simp: utf8_char_def split: if_splits)
  show ?thesis
  proof (cases "c < 2048")
    case True
    with c assms(3) k show ?thesis by (auto simp: utf8_char_def)
  next
    case False
    with c assms k show ?thesis
      by (auto simp: utf8_char_def is_scalar_def numeral_2_eq_2 numeral_3_eq_3 split: if_splits)
  qed
qed

lemma decode_take:
  assumes "list_all is_scalar s" "length (utf8_points (fit n s)) < k" "k \<le> n" "k \<le> length (utf8_points s)"
  shows "decode_points (take k (utf8_points s)) = None"
  using assms
proof (induction s arbitrary: n k)
  case (Cons c s)
  show ?case
  proof (cases "length (utf8_char c) \<le> n")
    case True
    with Cons.prems have "decode_points (take (k - length (utf8_char c)) (utf8_points s)) = None"
      by (intro Cons.IH [of "n - length (utf8_char c)"]) (simp_all add: utf8_points_def)
    moreover from True Cons.prems have "length (utf8_char c) \<le> k" by (simp add: utf8_points_def)
    ultimately show ?thesis
      using Cons.prems decode_char [of c] by (simp add: utf8_points_def)
  next
    case False
    with Cons.prems have "0 < k" "k < length (utf8_char c)" by (simp_all add: utf8_points_def)
    with Cons.prems show ?thesis
      by (simp add: utf8_points_def decode_incomplete_char)
  qed
qed simp

lemma take_fit: "take (length (utf8_points (fit n s))) (utf8_points s) = utf8_points (fit n s)"
proof -
  obtain r where "s = fit n s @ r" using fit_prefix by blast
  then have "utf8_points s = utf8_points (fit n s) @ utf8_points r"
    by (metis utf8_points_append)
  then show ?thesis by simp
qed

lemma decode_ignore_shorten:
  assumes "decode_utf8 (take m bs) = Some t" "m \<le> length bs"
    and "\<And>k. m < k \<Longrightarrow> k \<le> length bs \<Longrightarrow> decode_utf8 (take k bs) = None"
  shows "decode_ignore bs = t"
  using assms
proof (induction bs rule: decode_ignore.induct)
  case (1 bs)
  show ?case
  proof (cases "m = length bs")
    case True
    with 1 show ?thesis by (simp add: decode_ignore.simps)
  next
    case False
    with 1 have less: "m < length bs" by simp
    with "1.prems"(3) [of "length bs"] have none: "decode_utf8 bs = None" by simp
    have "decode_ignore (butlast bs) = t"
    proof (rule "1.IH" [OF none])
      show "bs \<noteq> []" using less by auto
      show "m \<le> length (butlast bs)" using less by simp
      show "decode_utf8 (take m (butlast bs)) = Some t"
        using less "1.prems" by (simp add: take_butlast)
      show "decode_utf8 (take k (butlast bs)) = None" if "m < k" "k \<le> length (butlast bs)" for k
        using that less "1.prems"(3) [of k] by (simp add: take_butlast)
    qed
    with none less show ?thesis by (subst decode_ignore.simps) auto
  qed
qed

lemma decode_ignore_fit:
  assumes "list_all is_scalar s"
  shows "decode_ignore (take n (map char_of (utf8_points s))) = fit n s"
proof -
  let ?bs = "take n (map char_of (utf8_points s)) :: bytes"
  let ?m = "length (utf8_points (fit n s))"
  have code: "decode_utf8 (take k ?bs) = decode_points (take (min k n) (utf8_points s))" for k
  proof -
    have "map of_char (map char_of (utf8_points s) :: bytes) = utf8_points s"
      using utf8_points_less [OF assms] by (rule of_char_char_of_map)
    then show ?thesis
      by (simp add: decode_utf8_def take_map [symmetric] min.commute del: map_map)
  qed
  obtain r where r: "s = fit n s @ r" using fit_prefix by blast
  with assms have scalar: "list_all is_scalar (fit n s)" by (metis list_all_append)
  from r have "length (utf8_points s) = ?m + length (utf8_points r)"
    by (metis length_append utf8_points_append)
  with fit_length [of n s] have m: "?m \<le> length ?bs" "min ?m n = ?m" by simp_all
  show ?thesis
  proof (rule decode_ignore_shorten)
    show "decode_utf8 (take ?m ?bs) = Some (fit n s)"
      unfolding code m(2) take_fit by (rule decode_utf8_points [OF scalar])
    show "?m \<le> length ?bs" by (rule m(1))
    show "decode_utf8 (take k ?bs) = None" if "?m < k" "k \<le> length ?bs" for k
      using that decode_take [OF assms, of n k] unfolding code by simp
  qed
qed

lemma bounded_eq: "bounded s n = (if list_all is_scalar s then Inr (fit n s) else Inl ValueError)"
  by (simp add: bounded_def encode_utf8_def decode_ignore_fit)

text \<open>
  C36: A log field is the longest beginning of its value, cut between two characters, whose
  UTF-8 encoding fits into the bound; a value with a lone surrogate raises.
\<close>

theorem bounded_longest_prefix:
  "bounded s n = (if list_all is_scalar s then Inr (fit n s) else Inl ValueError)"
  by (rule bounded_eq)

section \<open>One emission, one line\<close>

definition emitted_line ::
    "logger \<Rightarrow> rat \<Rightarrow> log_level \<Rightarrow> pystr \<Rightarrow> pystr \<Rightarrow> log_fields \<Rightarrow> pystr outcome" where
  "emitted_line lg wall level event message extra =
     bind_outcome (log_record wall level event message extra) (\<lambda>kvs.
       Inr (if log_json lg then render_json_record kvs else render_text kvs))"

lemma emit_eq:
  "emit wall level event message extra lg =
     (case emitted_line lg wall level event message extra of
        Inl e \<Rightarrow> (Inl e, lg)
      | Inr l \<Rightarrow> (Inr (), lg\<lparr>log_output := log_output lg @ l @ [10]\<rparr>))"
  by (simp add: emit_def emitted_line_def bind_act_def lift_act_def modify_act_def split: sum.splits)

text \<open>Field names that may be written: those of the contract and the ones that pass the filter.\<close>

definition record_ok :: "log_fields \<Rightarrow> bool" where
  "record_ok kvs \<longleftrightarrow> list_all (\<lambda>(k, v). line_ok k) kvs \<and> distinct (map fst kvs)"

lemma field_name_line_ok: "field_name_ok name \<Longrightarrow> line_ok name"
  by (auto simp: field_name_ok_def line_ok_def list_all_iff is_ascii_alnum_def)

lemma set_assoc_put: "fst ` set (assoc_put k v kvs) = insert k (fst ` set kvs)"
  by (induction k v kvs rule: assoc_put.induct) auto

lemma record_ok_put: "record_ok kvs \<Longrightarrow> line_ok k \<Longrightarrow> record_ok (assoc_put k v kvs)"
proof (induction k v kvs rule: assoc_put.induct)
  case (2 k v k' v' kvs)
  then show ?case
    using set_assoc_put [of k v kvs] by (auto simp: record_ok_def)
qed (simp add: record_ok_def)

lemma bounded_fields_ok:
  "bounded_fields extra acc = Inr kvs \<Longrightarrow> record_ok acc \<Longrightarrow> record_ok kvs"
proof (induction extra acc rule: bounded_fields.induct)
  case (2 name v extra acc)
  then show ?case
    by (auto simp: bind_outcome_Inr field_name_line_ok record_ok_put split: if_splits)
qed simp

lemma log_record_ok: "log_record wall level event message extra = Inr kvs \<Longrightarrow> record_ok kvs"
  unfolding log_record_def bind_outcome_Inr
  by (elim exE conjE) (erule bounded_fields_ok, simp add: record_ok_def)

lemma escape_line_ok: "line_ok (escape_line s)"
  by (auto simp: escape_line_def replace_char_def line_ok_def split: if_splits)

lemma render_text_line: "record_ok kvs \<Longrightarrow> line_ok (render_text kvs)"
proof -
  assume ok: "record_ok kvs"
  have "line_ok (concat (map (\<lambda>(name, v). [32] @ name @ [61] @ escape_line v) ls))"
    if "list_all (\<lambda>(k, v). line_ok k) ls" for ls
    using that by (induction ls) (auto simp: escape_line_ok)
  moreover have "list_all (\<lambda>(k, v). line_ok k)
      (filter (\<lambda>(name, v). name \<notin> set contract_fields) kvs)"
    using ok by (auto simp: record_ok_def list_all_iff)
  moreover have "line_ok (join [32] (map (\<lambda>name. escape_line (record_value kvs name)) contract_fields))"
    by (rule line_ok_join) (simp_all add: list_all_iff escape_line_ok)
  ultimately show ?thesis by (simp add: render_text_def)
qed

lemma emitted_line_ok:
  assumes "emitted_line lg wall level event message extra = Inr l"
  shows "line_ok l"
proof -
  from assms obtain kvs where ok: "record_ok kvs"
    and l: "l = (if log_json lg then render_json_record kvs else render_text kvs)"
    by (auto simp: emitted_line_def bind_outcome_Inr dest: log_record_ok)
  have "line_ok (render_json_record kvs)"
    unfolding render_json_record_def line_ok_def by (rule dumps_line)
  with render_text_line [OF ok] show ?thesis by (simp add: l)
qed

section \<open>The rate limit\<close>

record rate_call =
  rc_now :: rat
  rc_wall :: rat
  rc_level :: log_level
  rc_event :: pystr
  rc_message :: pystr
  rc_key :: pystr
  rc_interval :: rat
  rc_fields :: log_fields

definition rate_step :: "rate_call \<Rightarrow> logger \<Rightarrow> logger" where
  "rate_step c lg = snd (log_rate_limited (rc_now c) (rc_wall c) (rc_level c) (rc_event c)
     (rc_message c) (rc_key c) (rc_interval c) (rc_fields c) lg)"

definition key_ok :: "pystr \<Rightarrow> bool" where
  "key_ok key = (case encode_utf8 key of Inl _ \<Rightarrow> False | Inr bs \<Rightarrow> 0 < length bs \<and> length bs \<le> 64)"

text \<open>When a call passes the limit, given the table of last emissions.\<close>

definition passes :: "(pystr \<times> rat) list \<Rightarrow> rate_call \<Rightarrow> bool" where
  "passes table c \<longleftrightarrow> key_ok (rc_key c) \<and>
     (case map_of table (rc_key c) of
        Some previous \<Rightarrow> rc_interval c \<le> float_sub (rc_now c) previous
      | None \<Rightarrow> length table < maximum_keys)"

definition call_text :: "logger \<Rightarrow> rate_call \<Rightarrow> pystr" where
  "call_text lg c =
     (case emitted_line lg (rc_wall c) (rc_level c) (rc_event c) (rc_message c) (rc_fields c) of
        Inl _ \<Rightarrow> []
      | Inr l \<Rightarrow> l @ [10])"

lemma emit_snd:
  "snd (emit (rc_wall c) (rc_level c) (rc_event c) (rc_message c) (rc_fields c) lg)
     = lg\<lparr>log_output := log_output lg @ call_text lg c\<rparr>"
  by (simp add: emit_eq call_text_def split: sum.splits)

lemma call_text_table [simp]: "call_text (lg\<lparr>log_last_emitted := t\<rparr>) c = call_text lg c"
  by (simp add: call_text_def emitted_line_def)

lemma rate_step_eq:
  "rate_step c lg =
     (if log_minimum lg \<le> rc_level c \<and> passes (log_last_emitted lg) c
      then lg\<lparr>log_last_emitted := AList.update (rc_key c) (rc_now c) (log_last_emitted lg),
              log_output := log_output lg @ call_text lg c\<rparr>
      else lg)"
proof (cases "rc_level c < log_minimum lg")
  case True
  moreover from True have "\<not> log_minimum lg \<le> rc_level c" by simp
  ultimately show ?thesis
    by (simp add: rate_step_def log_rate_limited_def act_defs)
next
  case level: False
  show ?thesis
  proof (cases "encode_utf8 (rc_key c)")
    case (Inl e)
    with level show ?thesis
      by (simp add: rate_step_def log_rate_limited_def act_defs passes_def key_ok_def)
  next
    case (Inr bs)
    have run: "snd (then_act (modify_act (\<lambda>lg. lg\<lparr>log_last_emitted := t\<rparr>))
          (emit (rc_wall c) (rc_level c) (rc_event c) (rc_message c) (rc_fields c)) lg)
        = lg\<lparr>log_last_emitted := t, log_output := log_output lg @ call_text lg c\<rparr>" for t
      by (simp add: then_act_def bind_act_def modify_act_def emit_snd)
    from level Inr run show ?thesis
      by (simp add: rate_step_def log_rate_limited_def bind_act_def get_act_def return_act_def
          passes_def key_ok_def not_less split: option.split)
  qed
qed

text \<open>The calls of a sequence that pass, in order, and what the table says of them.\<close>

definition lets_through :: "logger \<Rightarrow> rate_call \<Rightarrow> bool" where
  "lets_through lg c \<longleftrightarrow> log_minimum lg \<le> rc_level c \<and> passes (log_last_emitted lg) c"

fun passed_calls :: "rate_call list \<Rightarrow> logger \<Rightarrow> rate_call list" where
  "passed_calls [] lg = []"
| "passed_calls (c # cs) lg =
     (if lets_through lg c then c # passed_calls cs (rate_step c lg) else passed_calls cs lg)"

fun spaced :: "(pystr \<Rightarrow> rat option) \<Rightarrow> rate_call list \<Rightarrow> bool" where
  "spaced last_time [] = True"
| "spaced last_time (c # cs) =
     ((case last_time (rc_key c) of
         None \<Rightarrow> True
       | Some t \<Rightarrow> rc_interval c \<le> float_sub (rc_now c) t)
      \<and> spaced (last_time(rc_key c \<mapsto> rc_now c)) cs)"

lemma rate_step_cases:
  "lets_through lg c \<Longrightarrow> log_last_emitted (rate_step c lg) = AList.update (rc_key c) (rc_now c) (log_last_emitted lg)"
  "lets_through lg c \<Longrightarrow> log_output (rate_step c lg) = log_output lg @ call_text lg c"
  "\<not> lets_through lg c \<Longrightarrow> rate_step c lg = lg"
  "log_json (rate_step c lg) = log_json lg" "log_minimum (rate_step c lg) = log_minimum lg"
  by (auto simp: rate_step_eq lets_through_def)

lemma passed_spaced: "spaced (map_of (log_last_emitted lg)) (passed_calls cs lg)"
proof (induction cs arbitrary: lg)
  case (Cons c cs)
  show ?case
  proof (cases "lets_through lg c")
    case True
    with Cons.IH [of "rate_step c lg"]
    have "spaced ((map_of (log_last_emitted lg))(rc_key c \<mapsto> rc_now c)) (passed_calls cs (rate_step c lg))"
      by (simp add: rate_step_cases update_conv' del: fun_upd_apply)
    moreover from True have "passes (log_last_emitted lg) c" by (simp add: lets_through_def)
    ultimately show ?thesis
      using True by (simp add: passes_def split: option.splits)
  qed (simp add: Cons.IH)
qed simp

lemma call_text_format: "log_json lg = log_json lg' \<Longrightarrow> call_text lg c = call_text lg' c"
  by (simp add: call_text_def emitted_line_def)

lemma passed_output:
  "log_output (fold rate_step cs lg) = log_output lg @ concat (map (call_text lg) (passed_calls cs lg))"
proof (induction cs arbitrary: lg)
  case (Cons c cs)
  have "call_text (rate_step c lg) = call_text lg"
    by (rule ext, rule call_text_format) (rule rate_step_cases)
  with Cons [of "rate_step c lg"] show ?case
    by (cases "lets_through lg c") (simp_all add: rate_step_cases)
qed simp

text \<open>The table never grows beyond its bound, and holds the keys of all passed calls.\<close>

lemma length_update: "length (AList.update k v kvs) = (if k \<in> fst ` set kvs then length kvs else Suc (length kvs))"
  by (induction kvs) auto

lemma passed_keys:
  "length (log_last_emitted lg) \<le> maximum_keys \<Longrightarrow>
    length (log_last_emitted (fold rate_step cs lg)) \<le> maximum_keys
    \<and> rc_key ` set (passed_calls cs lg) \<subseteq> fst ` set (log_last_emitted (fold rate_step cs lg))
    \<and> fst ` set (log_last_emitted lg) \<subseteq> fst ` set (log_last_emitted (fold rate_step cs lg))"
proof (induction cs arbitrary: lg)
  case (Cons c cs)
  show ?case
  proof (cases "lets_through lg c")
    case True
    then have keys: "fst ` set (log_last_emitted (rate_step c lg)) = insert (rc_key c) (fst ` set (log_last_emitted lg))"
      by (simp add: rate_step_cases update_conv' flip: dom_map_of_conv_image_fst)
    have "length (log_last_emitted (rate_step c lg)) \<le> maximum_keys"
      using True Cons.prems
      by (auto simp: rate_step_cases length_update lets_through_def passes_def
          simp flip: map_of_eq_None_iff split: option.splits)
    from Cons.IH [OF this] keys True show ?thesis by auto
  next
    case False
    with Cons show ?thesis by (simp add: rate_step_cases)
  qed
qed simp

text \<open>
  C35: A sequence of rate-limited calls on a new logger writes exactly the texts of the calls that
  pass; a call passes only when its interval has elapsed since the last passing call with its
  key, and at most 64 keys ever pass.
\<close>

theorem rate_limit:
  "log_output (fold rate_step cs (new_logger log_format minimum))
     = concat (map (call_text (new_logger log_format minimum))
         (passed_calls cs (new_logger log_format minimum)))
   \<and> spaced Map.empty (passed_calls cs (new_logger log_format minimum))
   \<and> card (rc_key ` set (passed_calls cs (new_logger log_format minimum))) \<le> 64"
proof (intro conjI)
  let ?lg = "new_logger log_format minimum"
  show "log_output (fold rate_step cs ?lg) = concat (map (call_text ?lg) (passed_calls cs ?lg))"
    by (simp add: passed_output) (simp add: new_logger_def)
  show "spaced Map.empty (passed_calls cs ?lg)"
    using passed_spaced [of ?lg cs] by (simp add: new_logger_def)
  let ?table = "log_last_emitted (fold rate_step cs ?lg)"
  have "length ?table \<le> maximum_keys \<and> rc_key ` set (passed_calls cs ?lg) \<subseteq> fst ` set ?table"
    using passed_keys [of ?lg cs] by (simp add: new_logger_def)
  then have "card (rc_key ` set (passed_calls cs ?lg)) \<le> card (set (map fst ?table))"
    by (intro card_mono) auto
  also have "\<dots> \<le> length (map fst ?table)" by (rule card_length)
  also have "\<dots> \<le> 64" using passed_keys [of ?lg cs] by (simp add: new_logger_def maximum_keys_def)
  finally show "card (rc_key ` set (passed_calls cs ?lg)) \<le> 64" .
qed

section \<open>Lines of the output\<close>

text \<open>The texts of a list of calls are their lines, each closed by one line feed.\<close>

definition call_lines :: "logger \<Rightarrow> rate_call list \<Rightarrow> pystr list" where
  "call_lines lg cs = concat (map (\<lambda>c.
     case emitted_line lg (rc_wall c) (rc_level c) (rc_event c) (rc_message c) (rc_fields c) of
       Inl _ \<Rightarrow> []
     | Inr l \<Rightarrow> [l]) cs)"

lemma call_lines_ok: "list_all line_ok (call_lines lg cs)"
  by (auto simp: call_lines_def list_all_iff emitted_line_ok split: sum.splits)

lemma split_call_texts: "split_on 10 (concat (map (call_text lg) cs)) = call_lines lg cs @ [[]]"
proof (induction cs)
  case (Cons c cs)
  show ?case
  proof (cases "emitted_line lg (rc_wall c) (rc_level c) (rc_event c) (rc_message c) (rc_fields c)")
    case (Inr l)
    then have "10 \<notin> set l" using emitted_line_ok by (simp add: line_ok_def)
    with Cons Inr show ?thesis by (simp add: call_text_def call_lines_def split_on_append)
  qed (use Cons in \<open>simp add: call_text_def call_lines_def\<close>)
qed (simp add: call_lines_def)


end
