(* ===== verification/HttpFacts.thy ===== *)
theory HttpFacts
  imports Http RuntimeFacts LoggingFacts
begin

text \<open>
  Every request is answered and counted once, the readiness document is JSON, and the connection
  cap is an invariant of the protocol: the connections, their timers and the counter of active
  connections agree after any interleaving of callbacks.
\<close>

section \<open>Requests\<close>

definition ascii_text :: "pystr \<Rightarrow> bool" where
  "ascii_text s \<longleftrightarrow> list_all (\<lambda>c. c < 128) s"

definition error_status :: "nat \<Rightarrow> http_scope \<Rightarrow> int option" where
  "error_status maximum s =
     (if maximum < header_bytes s then Some 431
      else if has_body s then Some 400
      else if sc_method s \<noteq> ''GET'' then Some 405
      else None)"

definition endpoint_status :: "readiness_reason \<Rightarrow> http_route \<Rightarrow> int" where
  "endpoint_status reason route =
     (case route of
        OTHER \<Rightarrow> 404
      | READY_ROUTE \<Rightarrow> if reason = READY then 200 else 503
      | _ \<Rightarrow> 200)"

definition answer_status :: "nat \<Rightarrow> readiness_reason \<Rightarrow> http_scope \<Rightarrow> int" where
  "answer_status maximum reason s =
     (case error_status maximum s of
        Some status \<Rightarrow> status
      | None \<Rightarrow> endpoint_status reason (route_of (sc_path s)))"

lemma encode_ascii: "list_all (\<lambda>c. c < 128) s \<Longrightarrow> \<exists>bs. encode_utf8 s = Inr bs"
  using encode_ascii_length by blast

lemma fixed_bodies:
  "\<exists>bs. encode_utf8 (u ''headers too large'' @ [10]) = Inr bs"
  "\<exists>bs. encode_utf8 (u ''bad request'' @ [10]) = Inr bs"
  "\<exists>bs. encode_utf8 (u ''method not allowed'' @ [10]) = Inr bs"
  "\<exists>bs. encode_utf8 (u ''ok'' @ [10]) = Inr bs"
  "\<exists>bs. encode_utf8 (u ''not found'' @ [10]) = Inr bs"
  by (rule encode_ascii, simp add: u_Cons)+

lemma ready_body_json:
  "ready_body reason = dumps (JObject [(u ''ready'', JBool (reason = READY)),
     (u ''reason'', JString (u (reason_value reason)))]) @ [10]"
  by (cases reason)
    (simp_all add: ready_body_def json_string_def json_escape_def json_escape_char_def u_Cons)

lemma ready_body_encodes: "\<exists>bs. encode_utf8 (ready_body reason) = Inr bs"
  by (rule encode_ascii, cases reason) (simp_all add: ready_body_def u_Cons)

definition answers :: "asgi_result \<Rightarrow> int \<Rightarrow> bool" where
  "answers result status \<longleftrightarrow> (\<exists>body. result = ([ResponseStart status, ResponseBody body], None))"

lemma response_answers:
  "\<exists>bs. encode_utf8 body = Inr bs \<Longrightarrow> answers (response_messages (response status ct body hs)) status"
  by (auto simp: response_def response_messages_def answers_def)

lemma contract_answers:
  "contract_response maximum s = Some r \<Longrightarrow>
    \<exists>status. error_status maximum s = Some status \<and> answers (response_messages r) status"
  using fixed_bodies
  by (auto simp: contract_response_def error_status_def intro!: response_answers split: if_splits)

lemma contract_none: "contract_response maximum s = None \<longleftrightarrow> error_status maximum s = None"
  by (simp add: contract_response_def error_status_def)

lemma application_answers:
  assumes "router (sc_path s) = route_of (sc_path s)"
    and "\<exists>bs. encode_utf8 metrics_text = Inr bs" "\<exists>bs. encode_utf8 devices_text = Inr bs"
  shows "answers (application router on_error metrics_text devices_text reason s)
    (endpoint_status reason (route_of (sc_path s)))"
  using assms fixed_bodies ready_body_encodes [of reason]
  by (auto simp: application_def endpoint_def endpoint_status_def response_def response_messages_def
      answers_def split: http_route.splits)

lemma recorded_answer: "answers result status \<Longrightarrow> recorded_status 500 (fst result) = status"
  by (auto simp: answers_def)


text \<open>
  The readiness endpoint's body is the JSON object with the readiness and its reason.
\<close>

theorem ready_body_reads:
  "read_json (ready_body reason)
     = Some (JObject [(u ''ready'', JBool (reason = READY)), (u ''reason'', JString (u (reason_value reason)))])"
  unfolding ready_body_json by (rule read_json_dumps)


section \<open>Connections\<close>

text \<open>The callbacks of the event loop; a new connection has an identity of its own.\<close>

inductive serves ::
    "http_config \<Rightarrow> (nat \<Rightarrow> nat list \<Rightarrow> nat list) \<Rightarrow> (nat \<Rightarrow> nat list \<Rightarrow> nat list)
       \<Rightarrow> server_state \<Rightarrow> server_state \<Rightarrow> bool"
  for config base_made base_lost start where
  serves_start: "serves config base_made base_lost start start"
| serves_made: "serves config base_made base_lost start sv \<Longrightarrow>
    c \<notin> set (srv_connections sv) \<union> set (srv_requests sv) \<union> set (srv_closing sv) \<union> set (srv_timers sv) \<Longrightarrow>
    serves config base_made base_lost start (connection_made config base_made c now wall sv)"
| serves_data: "serves config base_made base_lost start sv \<Longrightarrow>
    serves config base_made base_lost start (data_received c begun sv)"
| serves_lost: "serves config base_made base_lost start sv \<Longrightarrow>
    serves config base_made base_lost start (connection_lost base_lost c sv)"
| serves_timeout: "serves config base_made base_lost start sv \<Longrightarrow> c \<in> set (srv_timers sv) \<Longrightarrow>
    serves config base_made base_lost start (request_timed_out c (cancel_request_timeout c sv))"

definition new_server :: "runtime_status \<Rightarrow> logger \<Rightarrow> server_state" where
  "new_server st lg = \<lparr>srv_connections = [], srv_timers = [], srv_requests = [], srv_closing = [],
     srv_written = [], srv_status = st, srv_logger = lg\<rparr>"

definition server_ok :: "http_config \<Rightarrow> server_state \<Rightarrow> bool" where
  "server_ok config sv \<longleftrightarrow>
     distinct (srv_connections sv)
   \<and> length (srv_connections sv) \<le> maximum_connections config
   \<and> rs_active_connections (srv_status sv) = length (srv_connections sv)
   \<and> set (srv_connections sv) \<subseteq> set (srv_timers sv) \<union> set (srv_requests sv) \<union> set (srv_closing sv)"

lemma length_removeAll_distinct:
  "distinct xs \<Longrightarrow> length (removeAll x xs) = (if x \<in> set xs then length xs - 1 else length xs)"
  by (metis distinct_remove1_removeAll length_remove1 removeAll_id)

lemma server_ok_made:
  assumes "server_ok config sv" "c \<notin> set (srv_connections sv)"
    and "base_made c (srv_connections sv) = List.insert c (srv_connections sv)"
  shows "server_ok config (connection_made config base_made c now wall sv)"
  using assms
  by (auto simp: server_ok_def connection_made_def connection_opened_def connection_rejected_def
      transport_close_def transport_write_def log_connection_limit_def)

lemma server_ok_data: "server_ok config sv \<Longrightarrow> server_ok config (data_received c begun sv)"
  by (auto simp: server_ok_def data_received_def cancel_request_timeout_def Let_def)

lemma server_ok_lost:
  assumes "server_ok config sv" "base_lost c (srv_connections sv) = removeAll c (srv_connections sv)"
  shows "server_ok config (connection_lost base_lost c sv)"
  using assms length_removeAll_distinct [of "srv_connections sv" c]
  by (auto simp: server_ok_def connection_lost_def cancel_request_timeout_def connection_closed_def
      Let_def distinct_removeAll)

lemma server_ok_timeout:
  "server_ok config sv \<Longrightarrow> server_ok config (request_timed_out c (cancel_request_timeout c sv))"
  by (auto simp: server_ok_def request_timed_out_def cancel_request_timeout_def transport_close_def
      transport_write_def)

text \<open>
  C29: After any interleaving of accepted, refused, fed, lost and timed-out connections there are
  never more open connections than workers and queue allow, the gauge of active connections is
  their number, and every open connection has begun a request, has its deadline armed, or is
  being closed.
\<close>

theorem connection_cap:
  assumes "serves config base_made base_lost (new_server st lg) sv"
    and "rs_active_connections st = 0"
    and "\<And>c cs. base_made c cs = List.insert c cs" "\<And>c cs. base_lost c cs = removeAll c cs"
  shows "server_ok config sv"
  using assms(1)
proof (induction rule: serves.induct)
  case serves_start
  then show ?case using assms(2) by (simp add: server_ok_def new_server_def)
next
  case (serves_made sv c now wall)
  then show ?case using assms(3) by (intro server_ok_made) auto
next
  case (serves_lost sv c)
  then show ?case using assms(4) by (intro server_ok_lost)
qed (simp_all add: server_ok_data server_ok_timeout)

definition small_config :: http_config where
  "small_config = new_http_config\<lparr>hc_workers := 1, hc_queue_depth := 1\<rparr>"

definition small_server :: server_state where
  "small_server = new_server (new_status [] [] 15 False 0) (new_logger (u ''text'') INFO)"

text \<open>The third of three connections is refused.\<close>

lemma connection_cap_witness:
  "server_ok small_config
     (connection_made small_config List.insert 3 0 0
       (connection_made small_config List.insert 2 0 0
         (connection_made small_config List.insert 1 0 0 small_server)))"
proof (rule connection_cap [where base_made = List.insert and base_lost = removeAll
      and st = "new_status [] [] 15 False 0" and lg = "new_logger (u ''text'') INFO"])
  show "serves small_config List.insert removeAll
      (new_server (new_status [] [] 15 False 0) (new_logger (u ''text'') INFO))
      (connection_made small_config List.insert 3 0 0
        (connection_made small_config List.insert 2 0 0
          (connection_made small_config List.insert 1 0 0 small_server)))"
    unfolding small_server_def
    by (intro serves_made serves_start)
      (simp_all add: connection_made_def new_server_def maximum_connections_def small_config_def
        new_http_config_def)
qed (simp_all add: new_status_def)

end
