(* ===== verification/CollectorFacts.thy ===== *)
theory CollectorFacts
  imports Collector WorkloadFacts
begin

text \<open>
  The contract of a collection, over every environment: what it calls and leaves open, what it
  can raise, how its devices are ordered and which values they can hold, and when the critical
  source counts as read.
\<close>

section \<open>Frame\<close>

definition collect_call :: "os_call \<Rightarrow> bool" where
  "collect_call c \<longleftrightarrow> sysfs_call c \<or> secure_call c"

lemma keeps_symlink: "keeps (grows {src} sysfs_call) (read_symlink_basename env p)"
  unfolding read_symlink_basename_def by (intro grows_rules frame_rules) simp

lemma keeps_uevent: "keeps (grows {src} sysfs_call) (read_uevent_field env root field src)"
  unfolding read_uevent_field_def by (intro grows_rules keeps_read_text)

lemma keeps_plain_int: "keeps (grows {src} sysfs_call) (read_plain_int env p src)"
  unfolding read_plain_int_def by (intro grows_rules keeps_read_text)

lemmas small_reader_frames = keeps_symlink keeps_uevent keeps_plain_int sysfs_reader_frames

lemma keeps_character_device: "keeps (grows {src} sysfs_call) (read_character_device env root src)"
  unfolding read_character_device_def by (intro grows_rules small_reader_frames)

lemma keeps_pci_info: "keeps (grows {src} sysfs_call) (read_pci_info env root src)"
  unfolding read_pci_info_def pci_identity_def Let_def by (intro grows_rules small_reader_frames)

lemma keeps_firmware: "keeps (grows {src} sysfs_call) (read_firmware env root src)"
  unfolding read_firmware_def Let_def by (intro grows_rules small_reader_frames)

lemma keeps_power: "keeps (grows {src} sysfs_call) (read_power_info env root src)"
  unfolding read_power_info_def Let_def by (intro grows_rules small_reader_frames)

lemma keeps_keep_directories: "keeps (grows S sysfs_call) (keep_directories env ps)"
  by (induction ps) (auto intro!: grows_rules frame_rules)

lemma keeps_list_directory: "keeps (grows S sysfs_call) (list_directory env base)"
  unfolding list_directory_def by (intro grows_rules frame_rules) simp

lemma keeps_subdirectories: "keeps (grows S sysfs_call) (subdirectories env base)"
  unfolding subdirectories_def by (intro grows_rules keeps_list_directory keeps_keep_directories)

lemma keeps_hwmon: "keeps (grows {src} sysfs_call) (read_hwmon_sensors env root src)"
  unfolding read_hwmon_sensors_def read_hwmon_base_def read_hwmon_directory_def read_hwmon_entry_def Let_def
  by (intro grows_rules frame_rules keeps_subdirectories keeps_list_directory small_reader_frames) simp_all

lemma keeps_counters: "keeps (grows {src} sysfs_call) (read_pcie_counters env root src)"
  unfolding read_pcie_counters_def read_pcie_counter_def
  by (intro grows_rules frame_rules keeps_list_directory small_reader_frames) simp_all

lemma keeps_health: "keeps (grows {src} sysfs_call) (read_health_detail env root src)"
  unfolding read_health_detail_def by (intro grows_rules small_reader_frames)

lemma keeps_links: "keeps (grows {src} sysfs_call) (read_interconnect_links env root src)"
  unfolding read_interconnect_links_def read_link_base_def read_link_def
  by (intro grows_rules keeps_subdirectories small_reader_frames)

lemma keeps_populate_identity: "keeps (grows {src} sysfs_call) (populate_identity env device src)"
  unfolding populate_identity_def Let_def
  by (intro grows_rules small_reader_frames keeps_character_device keeps_pci_info keeps_firmware)

lemma keeps_populate_device: "keeps (grows {src} sysfs_call) (populate_device env config device src)"
  unfolding populate_device_def Let_def
  by (intro grows_rules keeps_populate_identity keeps_hwmon keeps_power keeps_read_text keeps_counters
      keeps_populate_memory keeps_populate_tensix keeps_health keeps_links)

lemma sysfs_to_collect: "keeps (grows {SYSFS_ROOT} sysfs_call) m \<Longrightarrow> keeps (grows UNIV collect_call) m"
  by (erule keeps_mono) (simp_all add: collect_call_def)

lemma keeps_collect_entry: "keeps (grows UNIV collect_call) (collect_entry env config roots name devices)"
  unfolding collect_entry_def Let_def
  by (intro grows_rules frame_rules sysfs_to_collect [OF keeps_populate_device]
      keeps_mono [OF keeps_ingest]) (simp_all add: collect_call_def)

lemma keeps_collect_devices: "keeps (grows UNIV collect_call) (collect_devices env config roots)"
  unfolding collect_devices_def list_root_def
  by (intro grows_rules frame_rules keeps_collect_entry) (simp_all add: collect_call_def)

section \<open>Descriptors of the state roots\<close>

definition roots_open :: "(os_call \<Rightarrow> bool) \<Rightarrow> world \<Rightarrow> state_roots \<Rightarrow> world \<Rightarrow> bool" where
  "roots_open C w roots v \<longleftrightarrow>
     filter (\<lambda>d. fst d \<notin> snd ` set roots) (w_descriptors v) = w_descriptors w \<and> grows_log state_sources C w v"

lemma close_ingestor_descriptors:
  "w_descriptors (close_ingestor roots w) = filter (\<lambda>d. fst d \<notin> snd ` set roots) (w_descriptors w)"
proof (induction roots arbitrary: w)
  case (Cons r roots)
  have "close_ingestor (r # roots) w = close_ingestor roots (os_close (snd r) w)"
    by (simp add: close_ingestor_def secure_close_def split_beta)
  then show ?case using Cons [of "os_close (snd r) w"] by (auto simp: os_close_def intro: filter_cong)
qed (simp add: close_ingestor_def)

lemma close_ingestor_log: "(\<And>fd. C (CClose fd)) \<Longrightarrow> grows_log S C w (close_ingestor roots w)"
proof (induction roots arbitrary: w)
  case (Cons r roots)
  have "close_ingestor (r # roots) w = close_ingestor roots (os_close (snd r) w)"
    by (simp add: close_ingestor_def secure_close_def split_beta)
  then show ?case
    using Cons.IH [of "os_close (snd r) w"] Cons.prems grows_log_close [of C "snd r" S w]
    by (auto intro: grows_log_trans)
qed (simp add: close_ingestor_def)

lemma open_state_root_open:
  assumes "roots_open collect_call w roots v" and src: "src \<in> state_sources"
  shows "\<exists>roots' x. open_state_root env src root roots v = (Inr roots', x) \<and> roots_open collect_call w roots' x"
proof -
  obtain c where conf: "set_configured src (root \<noteq> None) v = (Inr (), c)"
    by (rule that) (simp add: set_configured_def update_source_def modify_act_def)
  have "keeps (grows state_sources collect_call) (set_configured src (root \<noteq> None))"
    by (rule keeps_set_configured) (rule src)
  then have g: "grows state_sources collect_call v c" using conf by (rule keepsD)
  then have co: "roots_open collect_call w roots c"
    using assms(1) by (auto simp: roots_open_def grows_def intro: grows_log_trans)
  show ?thesis
  proof (cases root)
    case None
    then show ?thesis using co conf by (simp add: open_state_root_def then_act_def bind_act_def return_act_def)
  next
    case (Some p)
    have "opens state_sources collect_call id (open_root env p src)"
      by (rule opens_open_root) (use src in \<open>auto simp: collect_call_def state_sources_def\<close>)
    then have o: "opened_or state_sources collect_call c (picked id (fst (open_root env p src c))) (snd (open_root env p src c))"
      by (simp add: opens_def)
    obtain r x where run: "open_root env p src c = (r, x)" by (cases "open_root env p src c")
    have "\<exists>d. r = Inr d"
      using run by (auto simp: open_root_def os_open_def run_simps call_os_def opened_def Let_def
          note_issue_def set_accessible_def update_source_def split: sum.splits)
    then obtain d where d: "r = Inr d" ..
    have step: "open_state_root env src root roots v =
        (Inr (case d of None \<Rightarrow> roots | Some fd \<Rightarrow> roots @ [(src, fd)]), x)"
      using run d conf Some
      by (simp add: open_state_root_def then_act_def bind_act_def return_act_def split: option.splits)
    show ?thesis
    proof (cases d)
      case None
      then show ?thesis using step o run d co by (auto simp: roots_open_def grows_def intro: grows_log_trans)
    next
      case (Some fd)
      then have f: "fd \<notin> set (map fst (w_descriptors c))" "\<exists>n. w_descriptors x = (fd, n) # w_descriptors c"
        "grows_log state_sources collect_call c x"
        using o run d by (auto simp: fresh_open_def)
      then have "filter (\<lambda>e. fst e \<notin> insert fd (snd ` set roots)) (w_descriptors x) =
          filter (\<lambda>e. fst e \<notin> insert fd (snd ` set roots)) (w_descriptors c)"
        by auto
      also have "\<dots> = filter (\<lambda>e. fst e \<notin> snd ` set roots) (w_descriptors c)"
        by (rule filter_cong) (use f(1) in auto)
      finally have "filter (\<lambda>e. fst e \<notin> insert fd (snd ` set roots)) (w_descriptors x) =
          filter (\<lambda>e. fst e \<notin> snd ` set roots) (w_descriptors c)" .
      then show ?thesis
        using step Some co f(3) by (auto simp: roots_open_def intro: grows_log_trans)
    qed
  qed
qed

lemma open_ingestor_open:
  "\<exists>roots v. open_ingestor env config w = (Inr roots, v) \<and> roots_open collect_call w roots v"
proof -
  note step = open_state_root_open [unfolded state_sources_def]
  have "roots_open collect_call w [] w" by (simp add: roots_open_def)
  from step [OF this, of ALLOCATION_STATE] obtain r1 v1 where
    1: "open_state_root env ALLOCATION_STATE (cfg_allocation_root config) [] w = (Inr r1, v1)"
    and "roots_open collect_call w r1 v1" by blast
  from step [OF this(2), of JANITOR_STATE] obtain r2 v2 where
    2: "open_state_root env JANITOR_STATE (cfg_janitor_root config) r1 v1 = (Inr r2, v2)"
    and "roots_open collect_call w r2 v2" by blast
  from step [OF this(2), of METALIUM_PROFILER_STATE] obtain r3 v3 where
    3: "open_state_root env METALIUM_PROFILER_STATE (cfg_profiler_root config) r2 v2 = (Inr r3, v3)"
    and "roots_open collect_call w r3 v3" by blast
  then show ?thesis using 1 2 by (auto simp: open_ingestor_def bind_act_def)
qed

lemma roots_open_all: "roots_open C w roots v \<Longrightarrow> grows_log UNIV C w v"
  unfolding roots_open_def by (blast intro: grows_log_mono)

lemma keeps_collect_world: "keeps (grows UNIV collect_call) (collect_world env config)"
proof (rule keepsI)
  fix w
  obtain c where conf: "set_configured SYSFS_ROOT True w = (Inr (), c)"
    by (rule that) (simp add: set_configured_def update_source_def modify_act_def)
  have "keeps (grows UNIV collect_call) (set_configured SYSFS_ROOT True)"
    by (rule keeps_set_configured) simp
  then have g: "grows UNIV collect_call w c" using conf by (rule keepsD)
  obtain roots v where op: "open_ingestor env config c = (Inr roots, v)"
    and ro: "roots_open collect_call c roots v"
    using open_ingestor_open by blast
  obtain r x where run: "collect_devices env config roots v = (r, x)"
    by (cases "collect_devices env config roots v")
  have gx: "grows UNIV collect_call v x" using keeps_collect_devices run by (rule keepsD)
  have all: "snd (collect_world env config w) = close_ingestor roots x"
    using conf op run by (simp add: collect_world_def then_act_def bind_act_def finally_act_def)
  have "w_descriptors (close_ingestor roots x) = w_descriptors w"
    using gx ro g by (simp add: close_ingestor_descriptors grows_def roots_open_def)
  moreover have "grows_log UNIV collect_call x (close_ingestor roots x)"
    by (rule close_ingestor_log) (simp add: collect_call_def)
  then have "grows_log UNIV collect_call w (close_ingestor roots x)"
    using g roots_open_all [OF ro] gx by (auto simp: grows_def intro: grows_log_trans)
  ultimately show "grows UNIV collect_call w (snd (collect_world env config w))"
    unfolding all by (simp add: grows_def)
qed

text \<open>
  C1: A collection leaks no descriptor, whether it returns or raises: the descriptors that are
  open after it are those that were open before it. And whatever the files and directories
  contain, every call it makes is either a bounded read of a sysfs attribute or a
  descriptor-relative call on untrusted state that follows no symbolic link.
\<close>

theorem collect_safe:
  "w_descriptors (snd (collect env config w)) = w_descriptors w \<and>
   (\<exists>calls. w_trace (snd (collect env config w)) = w_trace w @ calls \<and> list_all collect_call calls)"
proof -
  let ?w = "w\<lparr>w_sources := empty_sources\<rparr>"
  have "grows UNIV collect_call ?w (snd (collect_world env config ?w))"
    using keeps_collect_world by (simp add: keeps_def)
  moreover have "snd (collect env config w) = snd (collect_world env config ?w)"
    by (simp add: collect_def split: prod.splits sum.splits)
  ultimately show ?thesis by (simp add: grows_def grows_log_def)
qed

section \<open>The values of a device\<close>

definition device_ok :: "collector_config \<Rightarrow> device_telemetry \<Rightarrow> bool" where
  "device_ok config d \<longleftrightarrow> dev_sysfs_path d = path_join (cfg_sysfs_root config) (dev_id d) \<and>
     memory_ok (dev_memory d) \<and> list_all resource_ok (dev_pci_resources d) \<and>
     sorted (map sen_name (dev_hwmon_sensors d)) \<and>
     (\<not> cfg_collect_hwmon config \<longrightarrow> dev_hwmon_sensors d = []) \<and>
     sorted (map ctr_name (dev_pcie_counters d)) \<and>
     list_all (\<lambda>c. 0 \<le> ctr_value c \<and> ctr_value c \<le> uint64_max) (dev_pcie_counters d) \<and>
     (\<not> cfg_collect_pcie_counters config \<longrightarrow> dev_pcie_counters d = []) \<and>
     sorted (map lnk_name (dev_links d)) \<and> list_all (\<lambda>l. lnk_type l \<noteq> None) (dev_links d) \<and>
     workloads_ok (dev_workloads d)"

lemma returns_populate_identity:
  "returns (populate_identity env d src) (\<lambda>d'. \<exists>a b h c p f. d' = d\<lparr>dev_architecture := a,
     dev_board_type := b, dev_health := h, dev_character_device := c, dev_pci := p, dev_firmware := f\<rparr>)"
  unfolding populate_identity_def Let_def by (intro returns_rules) blast

lemma returns_populate_memory:
  "memory_ok (dev_memory d) \<Longrightarrow>
    returns (populate_memory env d src) (\<lambda>d'. \<exists>m. d' = d\<lparr>dev_memory := m\<rparr> \<and> memory_ok m)"
  unfolding populate_memory_def Let_def
  by (intro returns_bind_strong [where Q = memory_ok] returns_memory_from_usage
      returns_memory_amounts returns_memory_layout returns_return) auto

lemma returns_populate_tensix: "returns (populate_tensix env d src) (\<lambda>d'. \<exists>t. d' = d\<lparr>dev_tensix := t\<rparr>)"
  unfolding populate_tensix_def Let_def by (intro returns_rules) blast

lemma returns_hwmon: "returns (read_hwmon_sensors env root src) (\<lambda>s. sorted (map sen_name s))"
  unfolding read_hwmon_sensors_def by (intro returns_rules sorted_map_sort_key)

lemma returns_counters: "returns (read_pcie_counters env root src) (\<lambda>cs. sorted (map ctr_name cs) \<and>
    list_all (\<lambda>c. 0 \<le> ctr_value c \<and> ctr_value c \<le> uint64_max) cs)"
proof -
  let ?P = "list_all (\<lambda>c. 0 \<le> ctr_value c \<and> ctr_value c \<le> uint64_max)"
  have "returns (read_pcie_counter env src entry cs) ?P" if "?P cs" for entry cs
  proof -
    have "returns (bind_act (read_uint env entry src) (\<lambda>v. return_act (case v of
               None \<Rightarrow> cs | Some n \<Rightarrow> cs @ [\<lparr>ctr_name = path_name entry, ctr_value = n\<rparr>]))) ?P"
      unfolding read_uint_def
      by (rule returns_bind_strong [OF uint_parser.parsed_value])
        (auto intro!: returns_return simp: that split: option.splits)
    then show ?thesis
      unfolding read_pcie_counter_def using that by (auto intro!: returns_rules split: sum.splits)
  qed
  then have "returns (bind_act (fold_act (read_pcie_counter env src) entries []) (\<lambda>cs. return_act (sort_key ctr_name cs)))
      (\<lambda>cs. sorted (map ctr_name cs) \<and> ?P cs)" for entries
    by (intro returns_bind_strong [OF returns_fold] returns_return) auto
  then show ?thesis
    unfolding read_pcie_counters_def by (auto intro!: returns_rules split: sum.splits)
qed

lemma returns_links: "returns (read_interconnect_links env root src) (\<lambda>ls. sorted (map lnk_name ls) \<and>
    list_all (\<lambda>l. lnk_type l \<noteq> None) ls)"
proof -
  let ?P = "list_all (\<lambda>l. lnk_type l \<noteq> None)"
  have "returns (read_link env src kind entry ls) ?P" if "?P ls" for kind entry ls
    unfolding read_link_def using that by (intro returns_rules) simp
  then have "returns (read_link_base env root src base ls) ?P" if "?P ls" for base ls
    unfolding read_link_base_def using that
    by (auto intro!: returns_rules returns_fold split: sum.splits)
  then show ?thesis
    unfolding read_interconnect_links_def
    by (intro returns_bind_strong [OF returns_fold] returns_return) auto
qed

lemma returns_ingest: "returns (ingest env stale roots d) (\<lambda>d'. \<exists>a j ws t. d' = d\<lparr>dev_allocation := a,
    dev_janitor := j, dev_workloads := ws, dev_tensix := t\<rparr> \<and> (workloads_ok ws \<or> ws = dev_workloads d))"
proof -
  have alloc: "returns (populate_allocation env roots d) (\<lambda>d1. \<exists>a. d1 = d\<lparr>dev_allocation := a\<rparr>)"
  proof (cases "map_of roots ALLOCATION_STATE")
    case None
    have "d = d\<lparr>dev_allocation := dev_allocation d\<rparr>" by simp
    then have "\<exists>a. d = d\<lparr>dev_allocation := a\<rparr>" ..
    then show ?thesis using None by (simp add: populate_allocation_def returns_return)
  qed (auto simp: populate_allocation_def intro!: returns_rules)
  have jan: "returns (populate_janitor env roots d1) (\<lambda>d2. \<exists>j. d2 = d1\<lparr>dev_janitor := j\<rparr>)" for d1
  proof (cases "map_of roots JANITOR_STATE")
    case None
    have "d1 = d1\<lparr>dev_janitor := dev_janitor d1\<rparr>" by simp
    then have "\<exists>j. d1 = d1\<lparr>dev_janitor := j\<rparr>" ..
    then show ?thesis using None by (simp add: populate_janitor_def returns_return)
  qed (auto simp: populate_janitor_def intro!: returns_rules)
  have prof: "returns (populate_workloads env stale roots d2)
      (\<lambda>d3. \<exists>ws t. d3 = d2\<lparr>dev_workloads := ws, dev_tensix := t\<rparr> \<and> (workloads_ok ws \<or> ws = dev_workloads d2))" for d2
  proof (cases "map_of roots METALIUM_PROFILER_STATE")
    case None
    have "d2 = d2\<lparr>dev_workloads := dev_workloads d2, dev_tensix := dev_tensix d2\<rparr>" by simp
    then have "\<exists>ws t. d2 = d2\<lparr>dev_workloads := ws, dev_tensix := t\<rparr> \<and> (workloads_ok ws \<or> ws = dev_workloads d2)"
      by blast
    then show ?thesis using None by (simp add: populate_workloads_def returns_return)
  next
    case (Some root)
    have a: "apply_workloads (d2\<lparr>dev_workloads := ws\<rparr>) = d2\<lparr>dev_workloads := ws, dev_tensix := t\<rparr>"
      if "t = dev_tensix (apply_workloads (d2\<lparr>dev_workloads := ws\<rparr>))" for ws t
      using that by (simp add: apply_workloads_def Let_def)
    have "returns (bind_act (read_workloads env stale d2 root) (\<lambda>ws.
         return_act (apply_workloads (d2\<lparr>dev_workloads := ws\<rparr>))))
      (\<lambda>d3. \<exists>ws t. d3 = d2\<lparr>dev_workloads := ws, dev_tensix := t\<rparr> \<and> (workloads_ok ws \<or> ws = dev_workloads d2))"
      by (rule returns_bind_strong [OF returns_read_workloads], rule returns_return) (use a in blast)
    then show ?thesis using Some by (simp add: populate_workloads_def)
  qed
  show ?thesis
    unfolding ingest_def
  proof (rule returns_bind_strong [OF alloc], rule returns_bind_strong [OF jan], rule returns_weaken [OF prof])
    fix d1 d2 d3
    assume "\<exists>a. d1 = d\<lparr>dev_allocation := a\<rparr>" "\<exists>j. d2 = d1\<lparr>dev_janitor := j\<rparr>"
      and "\<exists>ws t. d3 = d2\<lparr>dev_workloads := ws, dev_tensix := t\<rparr> \<and> (workloads_ok ws \<or> ws = dev_workloads d2)"
    then obtain a j ws t where 1: "d1 = d\<lparr>dev_allocation := a\<rparr>" "d2 = d1\<lparr>dev_janitor := j\<rparr>"
        "d3 = d2\<lparr>dev_workloads := ws, dev_tensix := t\<rparr>" "workloads_ok ws \<or> ws = dev_workloads d2"
      by blast
    then have "d3 = d\<lparr>dev_allocation := a, dev_janitor := j, dev_workloads := ws, dev_tensix := t\<rparr>"
      and "workloads_ok ws \<or> ws = dev_workloads d" by simp_all
    then show "\<exists>a j ws t. d3 = d\<lparr>dev_allocation := a, dev_janitor := j, dev_workloads := ws, dev_tensix := t\<rparr> \<and>
        (workloads_ok ws \<or> ws = dev_workloads d)" by blast
  qed
qed

lemma returns_switch:
  "(b \<Longrightarrow> returns m P) \<Longrightarrow> returns (if b then m else return_act x) (\<lambda>y. if b then P y else y = x)"
  by (auto intro: returns_return)

lemma device_parts:
  "\<exists>a b h c p f. d1 = new_device name p0\<lparr>dev_architecture := a,
     dev_board_type := b, dev_health := h, dev_character_device := c, dev_pci := p, dev_firmware := f\<rparr> \<Longrightarrow>
    dev_id d1 = name \<and> dev_sysfs_path d1 = p0 \<and> dev_memory d1 = new_memory \<and> dev_workloads d1 = [] \<and>
    dev_hwmon_sensors d1 = [] \<and> dev_pcie_counters d1 = [] \<and> dev_pci_resources d1 = [] \<and> dev_links d1 = []"
  by (auto simp: new_device_def)

lemma resources_ok: "list_all resource_ok (case r of None \<Rightarrow> [] | Some t \<Rightarrow> parse_pci_resources t)"
  using pci_lines_indices
  by (auto simp: parse_pci_resources_def list_all_iff split: option.splits)

lemma memory_ok_new: "memory_ok new_memory"
  by (simp add: memory_ok_def byte_count_def new_memory_def)

lemma workloads_ok_Nil: "workloads_ok []"
  by (simp add: workloads_ok_def)

lemma returns_populate_device:
  "returns (populate_device env config (new_device name (path_join (cfg_sysfs_root config) name)) src)
    (\<lambda>d. device_ok config d \<and> dev_id d = name \<and> dev_workloads d = [])"
  unfolding populate_device_def Let_def
proof (rule returns_bind_strong [OF returns_populate_identity], drule device_parts,
    rule returns_bind_strong [OF returns_switch [OF returns_hwmon]], rule returns_bind, rule returns_bind,
    rule returns_bind_strong [OF returns_switch [OF returns_counters]], rule returns_bind_strong [OF returns_populate_memory],
    goal_cases)
  case (1 d1 sensors power resource counters)
  then show ?case by (simp add: memory_ok_new)
next
  case (2 d1 sensors power resource counters d2)
  from 2(1,4) have core: "dev_id d2 = name" "dev_sysfs_path d2 = path_join (cfg_sysfs_root config) name"
    "memory_ok (dev_memory d2)" "dev_workloads d2 = []" "dev_hwmon_sensors d2 = sensors"
    "dev_pcie_counters d2 = counters"
    "dev_pci_resources d2 = (case resource of None \<Rightarrow> [] | Some t \<Rightarrow> parse_pci_resources t)"
    by (cases resource; auto)+
  have sensors: "sorted (map sen_name sensors)" "\<not> cfg_collect_hwmon config \<Longrightarrow> sensors = []"
    using 2(1,2) by (auto split: if_splits)
  have counters: "sorted (map ctr_name counters)" "\<not> cfg_collect_pcie_counters config \<Longrightarrow> counters = []"
    "list_all (\<lambda>c. 0 \<le> ctr_value c \<and> ctr_value c \<le> uint64_max) counters"
    using 2(1,3) by (auto split: if_splits)
  show ?case
  proof (rule returns_bind_strong [OF returns_populate_tensix], rule returns_bind,
      rule returns_bind_strong [OF returns_links], rule returns_return)
    fix d3 detail and links :: "interconnect_link list"
    assume "\<exists>t. d3 = d2\<lparr>dev_tensix := t\<rparr>"
      and links: "sorted (map lnk_name links) \<and> list_all (\<lambda>l. lnk_type l \<noteq> None) links"
    then obtain t where "d3 = d2\<lparr>dev_tensix := t\<rparr>" by blast
    with links core sensors counters resources_ok [of resource] workloads_ok_Nil
    show "device_ok config (d3\<lparr>dev_health_detail := detail, dev_links := links\<rparr>) \<and>
        dev_id (d3\<lparr>dev_health_detail := detail, dev_links := links\<rparr>) = name \<and>
        dev_workloads (d3\<lparr>dev_health_detail := detail, dev_links := links\<rparr>) = []"
      by (simp add: device_ok_def)
  qed
qed

definition devices_ok :: "collector_config \<Rightarrow> device_telemetry list \<Rightarrow> bool" where
  "devices_ok config ds \<longleftrightarrow> list_all (device_ok config) ds"

lemma returns_collect_entry:
  assumes "devices_ok config ds"
  shows "returns (collect_entry env config roots name ds) (devices_ok config)"
proof -
  have "returns (bind_act (populate_device env config (new_device name (path_join (cfg_sysfs_root config) name)) SYSFS_ROOT)
      (\<lambda>d1. bind_act (ingest env (cfg_stale_after_seconds config) roots d1) (\<lambda>d2. return_act (ds @ [d2])))) (devices_ok config)"
  proof (rule returns_bind_strong [OF returns_populate_device], rule returns_bind_strong [OF returns_ingest], rule returns_return)
    fix d1 d2
    assume "device_ok config d1 \<and> dev_id d1 = name \<and> dev_workloads d1 = []"
      and "\<exists>a j ws t. d2 = d1\<lparr>dev_allocation := a, dev_janitor := j, dev_workloads := ws, dev_tensix := t\<rparr> \<and>
        (workloads_ok ws \<or> ws = dev_workloads d1)"
    then have "device_ok config d2" by (auto simp: device_ok_def workloads_ok_Nil)
    then show "devices_ok config (ds @ [d2])" using assms by (simp add: devices_ok_def)
  qed
  then show ?thesis
    unfolding collect_entry_def Let_def using assms by (auto intro!: returns_rules split: sum.splits)
qed

lemma returns_collect_devices:
  "returns (collect_devices env config roots) (\<lambda>(ds, ok). devices_ok config ds \<and> sorted (map dev_id ds) \<and> (ds = [] \<or> ok))"
proof -
  have "returns (fold_act (collect_entry env config roots) entries []) (devices_ok config)" for entries
    by (rule returns_fold) (auto intro: returns_collect_entry simp: devices_ok_def)
  then have step: "returns (bind_act (fold_act (collect_entry env config roots) entries []) (\<lambda>devices.
      return_act (sort_key dev_id devices, True))) (\<lambda>(ds, ok). devices_ok config ds \<and> sorted (map dev_id ds) \<and> (ds = [] \<or> ok))" for entries
    by (rule returns_bind_strong) (auto intro!: returns_return simp: devices_ok_def)
  show ?thesis
    unfolding collect_devices_def
    by (rule returns_bind, split sum.split, intro conjI allI impI returns_then step returns_return)
      (simp add: devices_ok_def)
qed

lemma returns_collect_world:
  "returns (collect_world env config) (\<lambda>(ds, ok). devices_ok config ds \<and> sorted (map dev_id ds) \<and> (ds = [] \<or> ok))"
  unfolding collect_world_def by (intro returns_rules returns_collect_devices)

text \<open>
  C7: Every device of a collection is well formed, whatever the system answers: its path is its
  name under the sysfs root, its amounts of memory are 64-bit byte counts, its PCI regions,
  counters and workloads are valid and in order, optional sources that are switched off are
  empty, and the devices are sorted by name; without the critical source there are none.
\<close>

theorem collect_devices_ok:
  assumes "collect env config w = (Inr result, v)"
  shows "list_all (device_ok config) (col_devices result) \<and> sorted (map dev_id (col_devices result)) \<and>
    (\<not> col_critical_ok result \<longrightarrow> col_devices result = [])"
proof -
  from assms obtain ds ok where
    run: "collect_world env config (w\<lparr>w_sources := empty_sources\<rparr>) = (Inr (ds, ok), v)"
    and r: "result = \<lparr>col_devices = ds, col_sources = w_sources v, col_critical_ok = ok\<rparr>"
    by (auto simp: collect_def split: prod.splits sum.splits)
  have "devices_ok config ds \<and> sorted (map dev_id ds) \<and> (ds = [] \<or> ok)"
    using returns_collect_world [THEN returnsD, OF run] by simp
  then show ?thesis using r by (auto simp: devices_ok_def)
qed

end
