(* ===== verification/CollectorErrors.thy ===== *)
theory CollectorErrors
  imports CollectorFacts
begin

text \<open>
  The error paths of a collection: which exceptions can leave it, and what it reports when the
  sysfs root cannot be listed.
\<close>

section \<open>Exceptions\<close>

definition number_errors :: "exn set" where
  "number_errors = {ValueError, DecimalOverflow}"

lemma parse_int64_errors: "parse_int64 v = Inl e \<Longrightarrow> e \<in> number_errors"
  by (auto simp: parse_int64_eq Let_def number_errors_def split: if_splits)

lemma parse_boolish_errors: "parse_boolish_int v = Inl e \<Longrightarrow> e \<in> number_errors"
  by (auto simp: parse_boolish_int_def Let_def dest: parse_int64_errors split: if_splits)

lemma bind_outcome_Inl: "bind_outcome r f = Inl e \<longleftrightarrow> r = Inl e \<or> (\<exists>x. r = Inr x \<and> f x = Inl e)"
  by (cases r) auto

lemma both_int64_errors: "both_int64 a b = Inl e \<Longrightarrow> e \<in> number_errors"
  by (auto simp: both_int64_def bind_outcome_Inl dest: parse_int64_errors)

lemma parse_mesh_errors: "parse_mesh_dimensions v = Inl e \<Longrightarrow> e \<in> number_errors"
  by (auto simp: parse_mesh_dimensions_def mesh_from_tokens_def Let_def bind_outcome_Inl
      dest: both_int64_errors split: option.splits list.splits)

lemma parse_byte_errors: "parse_byte_value t f = Inl e \<Longrightarrow> e \<in> number_errors"
  by (auto simp: number_errors_def dest: parse_byte_value_raises)

lemma usage_step_errors: "usage_step t f v acc = Inl e \<Longrightarrow> e \<in> number_errors"
  by (auto simp: usage_step_def Let_def bind_outcome_Inl dest: parse_byte_errors split: prod.splits if_splits)

lemma usage_tokens_errors: "usage_tokens ts acc = Inl e \<Longrightarrow> e \<in> number_errors"
  by (induction ts arbitrary: acc) (auto simp: bind_outcome_Inl dest: usage_step_errors)

lemma usage_lines_errors: "usage_lines ls acc = Inl e \<Longrightarrow> e \<in> number_errors"
  by (induction ls arbitrary: acc) (auto simp: bind_outcome_Inl dest: usage_tokens_errors)

lemma parse_memory_errors: "parse_memory_usage v = Inl e \<Longrightarrow> e \<in> number_errors"
  by (auto simp: parse_memory_usage_def bind_outcome_Inl dest: usage_lines_errors)

lemma state_int_errors: "state_non_negative_int kvs key = Inl e \<Longrightarrow> e \<in> number_errors"
  by (auto simp: state_non_negative_int_def bind_outcome_Inl dest: parse_int64_errors)

lemma workload_fields_errors: "workload_fields kvs = Inl e \<Longrightarrow> e \<in> number_errors"
  by (auto simp: workload_fields_def bind_outcome_Inl dest: state_int_errors)

lemmas raises_parsers = parse_int64_errors parse_boolish_errors parse_mesh_errors parse_byte_errors
  parse_memory_errors state_int_errors workload_fields_errors

lemma raises_call [raises_rules]: "raises_only E (call_os a c)"
  and raises_opened [raises_rules]: "raises_only E (opened r)"
  by (auto simp: raises_only_def call_os_def opened_def Let_def split: sum.splits)

lemma raises_update [raises_rules]: "raises_only E (update_source src f)"
  unfolding update_source_def by (rule raises_modify)

lemma raises_notes [raises_rules]: "raises_only E (note_issue src i)" "raises_only E (note_file_read src)"
  "raises_only E (note_accepted src)" "raises_only E (set_accessible src b)"
  "raises_only E (set_configured src b)" "raises_only E (reject src i)"
  unfolding note_issue_def note_file_read_def note_accepted_def set_accessible_def set_configured_def
    reject_def
  by (intro raises_rules)+

lemma raises_os [raises_rules]: "raises_only E (path_stat env p)" "raises_only E (path_read env p n)"
  "raises_only E (path_iterdir env p)" "raises_only E (os_scandir env p)" "raises_only E (entry_is_dir env p)"
  "raises_only E (os_readlink env p)" "raises_only E (os_time env)" "raises_only E (path_is_dir env p)"
  "raises_only E (path_is_file env p)" "raises_only E (os_open env p flags)"
  "raises_only E (os_openat env fd name flags)" "raises_only E (os_fstat env fd)"
  "raises_only E (os_read env fd n)" "raises_only E (os_listdir env fd)"
  unfolding path_stat_def path_read_def path_iterdir_def os_scandir_def entry_is_dir_def os_readlink_def
    os_time_def path_is_dir_def path_is_file_def path_is_kind_def os_open_def os_openat_def os_fstat_def
    os_read_def os_listdir_def on_descriptor_def descriptor_node_def
  by (intro raises_rules)+

lemma raises_texts [raises_rules]: "raises_only E (read_error src e)"
  "raises_only E (accept_content src n c)" "raises_only E (read_text env p src)"
  unfolding read_text_def read_error_def accept_content_def by (intro raises_rules)+

lemma raises_first: "(\<And>p. raises_only E (reader p src)) \<Longrightarrow> raises_only E (read_first reader root names src)"
  by (induction names) (auto intro!: raises_rules)

lemma raises_attributes [raises_rules]: "raises_only number_errors (read_int env p src)"
  "raises_only number_errors (read_uint env p src)" "raises_only number_errors (read_boolish env p src)"
  unfolding read_int_def read_uint_def read_boolish_def parse_attribute_def
  by (intro raises_rules raises_lift raises_parsers; simp)+

lemma raises_byte [raises_rules]: "raises_only number_errors (read_byte env p src)"
  unfolding read_byte_def
  by (auto intro!: raises_rules raises_lift dest: parse_byte_errors split: list.splits)

lemma raises_firsts [raises_rules]: "raises_only number_errors (read_first_text env root names src)"
  "raises_only number_errors (read_first_int env root names src)"
  "raises_only number_errors (read_first_boolish env root names src)"
  "raises_only number_errors (read_first_byte env root names src)"
  unfolding read_first_text_def read_first_int_def read_first_boolish_def read_first_byte_def
  by (intro raises_first raises_rules)+

lemma raises_secure [raises_rules]: "raises_only E (open_root env p src)"
  "raises_only E (open_directory env fd c src)" "raises_only E (dir_entries env fd n src)"
  unfolding open_root_def open_directory_def dir_entries_def by (intro raises_rules)+

lemma raises_with [raises_rules]: "raises_only E m \<Longrightarrow> raises_only E (with_directory fd m)"
  unfolding with_directory_def by (rule raises_finally)

lemma raises_read_loop [raises_rules]: "raises_only E (read_loop env fd n k)"
  by (induction k) (auto intro!: raises_rules)

lemma raises_secure_text [raises_rules]: "raises_only E (secure_read_text env fd name n src)"
  unfolding secure_read_text_def read_descriptor_def interruptions_def by (intro raises_rules)

lemma raises_first_directory [raises_rules]: "raises_only E (first_device_directory env fd d src)"
proof -
  have "raises_only E (first_directory env fd cs src)" for cs
    by (induction cs) (auto intro!: raises_rules)
  then show ?thesis by (simp add: first_device_directory_def)
qed

lemma raises_labels [raises_rules]: "raises_only E (validate_label v n src)"
  unfolding validate_label_def by (intro raises_rules)

lemma raises_state_int [raises_rules]: "raises_only number_errors (read_state_int env fd name src)"
  unfolding read_state_int_def by (intro raises_rules raises_lift raises_parsers)

lemma raises_parse_workload [raises_rules]:
  "raises_only number_errors (parse_workload env stale content schema src)"
  unfolding parse_workload_def Let_def by (intro raises_rules raises_lift raises_parsers)

lemma raises_unique [raises_rules]: "raises_only E (unique_workloads src ids ws)"
  by (induction ws arbitrary: ids) (auto intro!: raises_rules)

lemma raises_ingest [raises_rules]: "raises_only number_errors (ingest env stale roots d)"
  unfolding ingest_def populate_allocation_def populate_janitor_def populate_workloads_def
    read_allocation_def allocation_files_def validate_allocation_def read_janitor_def
    janitor_files_def validate_janitor_def read_workloads_def read_v2_root_def read_v2_workloads_def
    read_v2_pod_def read_v1_root_def read_v1_file_def finish_workloads_def
  by (intro raises_rules)

lemma raises_open_ingestor [raises_rules]: "raises_only E (open_ingestor env config)"
  unfolding open_ingestor_def open_state_root_def by (intro raises_rules)

lemma raises_plain_int [raises_rules]: "raises_only number_errors (read_plain_int env p src)"
  unfolding read_plain_int_def by (intro raises_rules raises_lift raises_parsers)

lemma raises_small [raises_rules]: "raises_only E (read_symlink_basename env p)"
  "raises_only E (read_uevent_field env root field src)"
  "raises_only E (read_character_device env root src)"
  unfolding read_symlink_basename_def read_uevent_field_def read_character_device_def
  by (intro raises_rules)+

lemma raises_listing [raises_rules]: "raises_only E (list_directory env base)"
  "raises_only E (subdirectories env base)"
proof -
  have "raises_only E (keep_directories env ps)" for ps
    by (induction ps) (auto intro!: raises_rules)
  moreover show "raises_only E (list_directory env base)"
    unfolding list_directory_def by (intro raises_rules)
  ultimately show "raises_only E (subdirectories env base)"
    unfolding subdirectories_def by (intro raises_rules)
qed

lemma raises_populate_identity [raises_rules]: "raises_only number_errors (populate_identity env d src)"
  unfolding populate_identity_def read_pci_info_def pci_identity_def read_firmware_def Let_def
  by (intro raises_rules raises_lift raises_parsers)

lemma raises_resources [raises_rules]: "raises_only number_errors (populate_memory env d src)"
  "raises_only number_errors (populate_tensix env d src)"
  unfolding populate_memory_def memory_from_usage_def memory_amounts_def memory_layout_def
    populate_tensix_def tensix_counts_def tensix_mesh_def Let_def
  by (intro raises_rules raises_lift raises_parsers; assumption)+

lemma raises_lists [raises_rules]: "raises_only number_errors (read_hwmon_sensors env root src)"
  "raises_only number_errors (read_pcie_counters env root src)"
  "raises_only number_errors (read_power_info env root src)"
  "raises_only number_errors (read_health_detail env root src)"
  "raises_only number_errors (read_interconnect_links env root src)"
  unfolding read_hwmon_sensors_def read_hwmon_base_def read_hwmon_directory_def read_hwmon_entry_def
    read_pcie_counters_def read_pcie_counter_def read_power_info_def read_health_detail_def
    read_interconnect_links_def read_link_base_def read_link_def Let_def
  by (intro raises_rules)+

lemma raises_collect_world: "raises_only number_errors (collect_world env config)"
  unfolding collect_world_def collect_devices_def list_root_def collect_entry_def populate_device_def Let_def
  by (intro raises_rules)

lemma collect_errors:
  assumes "fst (collect env config w) = Inl e"
  shows "e \<in> {ValueError, DecimalOverflow}"
proof -
  from assms have "fst (collect_world env config (w\<lparr>w_sources := empty_sources\<rparr>)) = Inl e"
    by (auto simp: collect_def split: prod.splits sum.splits)
  then show ?thesis
    using raises_collect_world [THEN raises_onlyD, of env config "w\<lparr>w_sources := empty_sources\<rparr>" e]
    by (auto simp: number_errors_def prod_eq_iff)
qed


definition long_clock_env :: os_env where
  "long_clock_env = denied_env\<lparr>
     env_stat := (\<lambda>h p. if p = u ''/x'' then Inr \<lparr>st_kind = Directory, st_size = 0, st_nlink = 2\<rparr>
       else if p = u ''/x/0/tt_aiclk'' then Inr \<lparr>st_kind = RegularFile, st_size = 4301, st_nlink = 1\<rparr>
       else Inl ENOENT),
     env_content := (\<lambda>h p. Inr (replicate 4301 (CHR ''9''))),
     env_scandir := (\<lambda>h p. Inr [u ''0'']),
     env_entry_is_dir := (\<lambda>h p. Inr True)\<rparr>"

lemma long_clock_other: "q \<noteq> u ''/x'' \<Longrightarrow> q \<noteq> u ''/x/0/tt_aiclk'' \<Longrightarrow>
    read_text long_clock_env q src w = (Inr None, w\<lparr>w_trace := w_trace w @ [CStat q]\<rparr>)"
  by (simp add: read_text_def run_simps path_stat_def long_clock_env_def read_error_def)

lemma long_clock_digits:
  "decode_utf8 (replicate 4301 (CHR ''9'')) = Some (replicate 4301 57)"
  "strip_ascii (replicate 4301 57) = replicate 4301 57"
  "parse_int64 (replicate 4301 57) = Inl ValueError"
proof -
  have u9: "u (replicate 4301 (CHR ''9'')) = replicate 4301 57" by (simp add: u_def)
  then show "decode_utf8 (replicate 4301 (CHR ''9'')) = Some (replicate 4301 57)"
    using decode_utf8_ascii [of "replicate 4301 (CHR ''9'')"] by (simp add: list_all_iff)
  have "is_int_literal (replicate 4301 57) \<and> literal_body (replicate 4301 57) = replicate 4301 57 \<and>
      strip_ws (replicate 4301 57) = replicate 4301 57 \<and> strip_ascii (replicate 4301 57) = replicate 4301 57 \<and>
      no_break (replicate 4301 57)"
    by (rule digits_int_literal) (simp_all add: list_all_iff)
  then show "strip_ascii (replicate 4301 57) = replicate 4301 57"
    "parse_int64 (replicate 4301 57) = Inl ValueError"
    by (simp_all add: parse_int64_eq int_max_str_digits_def)
qed

lemma long_clock_raises:
  "fst (read_int long_clock_env (u ''/x/0/tt_aiclk'') src w) = Inl ValueError"
  by (simp add: read_int_def parse_attribute_def read_text_def run_simps path_stat_def path_read_def
      accept_content_def long_clock_env_def long_clock_digits maximum_sysfs_file_bytes_def
      note_file_read_def update_source_def)

lemma bind_raises: "fst (m w) = Inl e \<Longrightarrow> fst (bind_act m f w) = Inl e"
  by (auto simp: bind_act_def split: prod.splits sum.splits)

lemma path_join_x0: "path_join (u ''/x/0'') (u n) = u (''/x/0/'' @ n)"
  by (simp add: path_join_def ends_with_def u_Cons u_append)

lemma path_join_device: "path_join (u ''/x/0/device'') (u n) = u (''/x/0/device/'' @ n)"
  by (simp add: path_join_def ends_with_def u_Cons u_append)

lemma long_clock_firmware: "fst (read_firmware long_clock_env (u ''/x/0'') src w) = Inl ValueError"
  unfolding read_firmware_def Let_def path_join_x0 by (intro bind_raises) (simp add: long_clock_raises)

lemma raises_after:
  assumes "raises_only {} m" "\<And>x v. fst (f x v) = Inl e"
  shows "fst (bind_act m f w) = Inl e"
  using assms by (auto simp: bind_act_def raises_only_def split: prod.splits sum.splits)

lemma parse_int64_Nil: "parse_int64 [] = Inr None"
  by (simp add: parse_int64_def is_int_literal_def strip_ws_def)

lemma long_clock_int: "q \<noteq> u ''/x'' \<Longrightarrow> q \<noteq> u ''/x/0/tt_aiclk'' \<Longrightarrow>
    read_int long_clock_env q src w = (Inr None, w\<lparr>w_trace := w_trace w @ [CStat q]\<rparr>)"
  by (simp add: read_int_def parse_attribute_def long_clock_other run_simps)

lemma long_clock_link: "read_symlink_basename long_clock_env q w = (Inr None, w\<lparr>w_trace := w_trace w @ [CReadlink q]\<rparr>)"
  by (simp add: read_symlink_basename_def run_simps os_readlink_def long_clock_env_def denied_env_def)

lemma long_clock_pci: "\<exists>p v. read_pci_info long_clock_env (u ''/x/0'') src w = (Inr p, v)"
  by (simp add: read_pci_info_def pci_identity_def Let_def path_join_x0 path_join_device read_uevent_field_def
      read_plain_int_def long_clock_other long_clock_int long_clock_link run_simps parse_int64_Nil
      del: u_append)

lemma long_clock_identity:
  "fst (populate_identity long_clock_env (new_device name (u ''/x/0'')) src w) = Inl ValueError"
proof -
  have t: "raises_only {} (read_first_text env root names src)" for env root names
    unfolding read_first_text_def by (intro raises_first raises_rules)
  have p: "raises_only {} (read_pci_info long_clock_env (u ''/x/0'') src)"
    using long_clock_pci by (auto simp: raises_only_def) (metis sum.distinct(1) prod.inject)
  have root: "dev_sysfs_path (new_device name q) = q" for q by (simp add: new_device_def)
  show ?thesis
    unfolding populate_identity_def Let_def root
    by (rule raises_after [OF t], rule raises_after [OF t], rule raises_after [OF t], rule raises_after,
        rule raises_small, rule raises_after [OF p], rule bind_raises, rule long_clock_firmware)
qed

lemma long_clock_collect:
  "fst (collect long_clock_env (new_config\<lparr>cfg_sysfs_root := u ''/x''\<rparr>) initial_world) = Inl ValueError"
proof -
  let ?config = "new_config\<lparr>cfg_sysfs_root := u ''/x''\<rparr>"
  have j: "path_join (u ''/x'') (u ''0'') = u ''/x/0''"
    by (simp add: path_join_def ends_with_def u_Cons)
  have e: "fst (collect_entry long_clock_env ?config roots (u ''0'') ds w) = Inl ValueError" for roots ds w
  proof -
    have d: "fst (populate_device long_clock_env ?config (new_device (u ''0'') (u ''/x/0'')) SYSFS_ROOT v) = Inl ValueError" for v
      unfolding populate_device_def Let_def by (intro bind_raises long_clock_identity)
    show ?thesis
      by (simp add: collect_entry_def Let_def j entry_is_dir_def long_clock_env_def run_simps)
        (rule bind_raises [OF d, unfolded long_clock_env_def bind_act_def])
  qed
  have l: "list_root long_clock_env (u ''/x'') w = (Inr (Inr [u ''0'']), w\<lparr>w_trace := w_trace w @
      [CStat (u ''/x''), CScandir (u ''/x'')]\<rparr>)" for w
    by (simp add: list_root_def run_simps path_stat_def os_scandir_def long_clock_env_def)
  have "fst (then_act (set_accessible SYSFS_ROOT True)
      (bind_act (fold_act (collect_entry long_clock_env ?config roots) [u ''0''] []) f) v) = Inl ValueError"
    for roots v and f :: "device_telemetry list \<Rightarrow> (world, device_telemetry list \<times> bool) act"
    unfolding then_act_def by (rule raises_after, rule raises_notes) (simp add: bind_raises e)
  then have d: "fst (collect_devices long_clock_env ?config roots w) = Inl ValueError" for roots w
    by (simp add: collect_devices_def bind_run [of "list_root long_clock_env (u ''/x'')", OF l])
  have "fst (collect_world long_clock_env ?config w) = Inl ValueError" for w
  proof -
    obtain c where c: "set_configured SYSFS_ROOT True w = (Inr (), c)"
      by (rule that) (simp add: set_configured_def update_source_def modify_act_def)
    obtain roots v where "open_ingestor long_clock_env ?config c = (Inr roots, v)"
      using open_ingestor_open by blast
    then show ?thesis
      using c d [of roots v]
      by (cases "collect_devices long_clock_env ?config roots v")
        (simp add: collect_world_def then_act_def bind_act_def finally_act_def)
  qed
  then obtain z where "collect_world long_clock_env ?config (initial_world\<lparr>w_sources := empty_sources\<rparr>) =
      (Inl ValueError, z)" by (metis prod.collapse)
  then show ?thesis by (simp add: collect_def)
qed


section \<open>The sysfs root\<close>

text \<open>What the listing of the root gives, from a given point of the history on.\<close>

definition root_listing :: "os_env \<Rightarrow> history \<Rightarrow> path \<Rightarrow> errno + pystr list" where
  "root_listing env h root = (case env_stat env h root of
       Inl e \<Rightarrow> Inl e
     | Inr st \<Rightarrow> if st_kind st = Directory then env_scandir env (h @ [CStat root]) root else Inl ENOTDIR)"

lemma list_root_run:
  "\<exists>t. list_root env root w = (Inr (root_listing env (w_trace w) root), w\<lparr>w_trace := w_trace w @ t\<rparr>)"
  by (auto simp: list_root_def root_listing_def run_simps path_stat_def os_scandir_def split: sum.splits)

lemma returns_collect_names:
  "returns (fold_act (collect_entry env config roots) names []) (\<lambda>ds. dev_id ` set ds \<subseteq> set names)"
proof (rule returns_fold)
  fix name and ds :: "device_telemetry list"
  assume n: "name \<in> set names" and ds: "dev_id ` set ds \<subseteq> set names"
  have "returns (bind_act (populate_device env config (new_device name (path_join (cfg_sysfs_root config) name)) SYSFS_ROOT)
      (\<lambda>d1. bind_act (ingest env (cfg_stale_after_seconds config) roots d1) (\<lambda>d2. return_act (ds @ [d2]))))
      (\<lambda>ds. dev_id ` set ds \<subseteq> set names)"
  proof (rule returns_bind_strong [OF returns_populate_device], rule returns_bind_strong [OF returns_ingest], rule returns_return)
    fix d1 d2
    assume "device_ok config d1 \<and> dev_id d1 = name \<and> dev_workloads d1 = []"
      and "\<exists>a j ws t. d2 = d1\<lparr>dev_allocation := a, dev_janitor := j, dev_workloads := ws, dev_tensix := t\<rparr> \<and>
        (workloads_ok ws \<or> ws = dev_workloads d1)"
    then have "dev_id d2 = name" by auto
    then show "dev_id ` set (ds @ [d2]) \<subseteq> set names" using n ds by simp
  qed
  then show "returns (collect_entry env config roots name ds) (\<lambda>ds. dev_id ` set ds \<subseteq> set names)"
    unfolding collect_entry_def Let_def using ds by (auto intro!: returns_rules split: sum.splits)
qed simp


lemma denied_collect:
  "fst (collect denied_env new_config initial_world) =
    Inr \<lparr>col_devices = [], col_sources = empty_sources(SYSFS_ROOT :=
        bump_issue PERMISSION_DENIED ((new_diagnostics SYSFS_ROOT)\<lparr>diag_configured := True\<rparr>),
      ALLOCATION_STATE := new_diagnostics ALLOCATION_STATE, JANITOR_STATE := new_diagnostics JANITOR_STATE,
      METALIUM_PROFILER_STATE := new_diagnostics METALIUM_PROFILER_STATE),
      col_critical_ok = False\<rparr>"
  by (simp add: collect_def collect_world_def open_ingestor_def open_state_root_def run_simps
      set_configured_def update_source_def new_config_def collect_devices_def list_root_def path_stat_def
      denied_env_def note_issue_def root_issue_def os_error_issue_def permission_errno_def
      close_ingestor_def empty_sources_def new_diagnostics_def fun_eq_iff)


theorem collect_devices_ok_witness:
  "\<exists>result v. collect denied_env new_config initial_world = (Inr result, v) \<and>
    list_all (device_ok new_config) (col_devices result) \<and> sorted (map dev_id (col_devices result))"
proof -
  obtain result v where run: "collect denied_env new_config initial_world = (Inr result, v)"
    using denied_collect by (metis prod.collapse)
  from collect_devices_ok [OF run] show ?thesis using run by blast
qed

end
