(* ===== verification/ServiceFacts.thy ===== *)
theory ServiceFacts
  imports Service HttpFacts CollectorErrors
begin

text \<open>
  The refresh, the invariant of the running service, and the poller. The service is a state
  machine whose steps are the refreshes of the poller, the signals, the shutdown and the calls of
  the HTTP server; a refresh is one step, because the store and the status are each changed under
  their lock and nothing else writes the store.
\<close>

section \<open>Logging neither fails nor changes anything else\<close>

definition only_logger :: "service \<Rightarrow> service \<Rightarrow> bool" where
  "only_logger s s' \<longleftrightarrow> s' = s\<lparr>svc_logger := svc_logger s'\<rparr>"

interpretation ol: frame_relation only_logger
proof unfold_locales
  show "only_logger s s" for s by (simp add: only_logger_def)
  show "only_logger s v" if "only_logger s t" "only_logger t v" for s t v
    using that by (cases s; cases t; cases v) (simp add: only_logger_def)
qed

lemma keeps_on_logger: "keeps only_logger (on_logger m)"
  by (simp add: keeps_def on_logger_def only_logger_def split: prod.splits)

lemma raises_on_logger: "raises_only E m \<Longrightarrow> raises_only E (on_logger m)"
  by (auto simp: raises_only_def on_logger_def split: prod.splits)

lemma scalar_u [simp]: "list_all is_scalar (u s)"
  by (auto simp: u_def list_all_iff is_scalar_def intro: less_trans [OF nat_of_char_less_256])

lemma scalar_number: "list_all number_point s \<Longrightarrow> list_all is_scalar s"
  by (auto simp: list_all_iff number_point_def is_scalar_def)

lemma scalar_values [simp]:
  "list_all is_scalar (nat_text n)" "list_all is_scalar (str_int i)"
  by (simp_all add: scalar_number nat_text_def str_int_number_point)

lemma scalar_source [simp]: "list_all is_scalar (source_value src)"
  by (cases src; simp)

lemma scalar_issue [simp]: "list_all is_scalar (issue_value issue)"
  by (cases issue; simp)

lemma bounded_fields_defined:
  "list_all (\<lambda>(k, v). list_all is_scalar v) extra \<Longrightarrow> \<exists>kvs. bounded_fields extra acc = Inr kvs"
  by (induction extra acc rule: bounded_fields.induct) (auto simp: bounded_eq)

lemma log_record_defined:
  assumes "list_all is_scalar event" "list_all is_scalar message"
    and "list_all (\<lambda>(k, v). list_all is_scalar v) extra"
  shows "\<exists>kvs. log_record wall level event message extra = Inr kvs"
  using assms bounded_fields_defined by (simp add: log_record_def bounded_eq)

lemma raises_emit:
  assumes "list_all is_scalar event" "list_all is_scalar message"
    and "list_all (\<lambda>(k, v). list_all is_scalar v) extra"
  shows "raises_only E (emit wall level event message extra)"
proof -
  from log_record_defined [OF assms] obtain kvs
    where "log_record wall level event message extra = Inr kvs" by blast
  then show ?thesis by (simp add: emit_def raises_modify)
qed

lemma raises_log:
  assumes "list_all is_scalar event" "list_all is_scalar message"
    and "list_all (\<lambda>(k, v). list_all is_scalar v) extra"
  shows "raises_only E (log wall level event message extra)"
  unfolding log_def by (intro raises_rules raises_emit assms)

lemma raises_log_limited:
  assumes "list_all is_scalar event" "list_all is_scalar message" "list_all is_scalar key"
    and "list_all (\<lambda>(k, v). list_all is_scalar v) extra"
  shows "raises_only E (log_rate_limited now wall level event message key interval extra)"
  unfolding log_rate_limited_def
  using assms(3) by (intro raises_rules raises_emit raises_lift assms) (simp add: encode_utf8_def)

lemma raises_service_log [raises_rules]:
  "list_all (\<lambda>(k, v). list_all is_scalar v) extra \<Longrightarrow> raises_only E (service_log t level event message extra)"
  unfolding service_log_def by (intro raises_on_logger raises_log) simp_all

lemma raises_service_log_limited [raises_rules]:
  "list_all is_scalar key \<Longrightarrow> list_all (\<lambda>(k, v). list_all is_scalar v) extra \<Longrightarrow>
    raises_only E (service_log_limited t event message key extra)"
  unfolding service_log_limited_def
  by (cases "rt_log t key") (simp add: raises_on_logger raises_log_limited)

lemma raises_log_diagnostics: "raises_only E (log_diagnostics t ds)"
  unfolding log_diagnostics_def log_source_def log_issue_def
  by (intro raises_rules) simp_all

lemma raises_log_readiness: "raises_only E (log_readiness t)"
  unfolding log_readiness_def by (intro raises_rules) simp_all

lemma keeps_service_log:
  "keeps only_logger (service_log t level event message extra)"
  "keeps only_logger (service_log_limited t event message key extra)"
  unfolding service_log_def service_log_limited_def
  by (simp_all add: keeps_on_logger split: prod.splits)

lemma keeps_log_diagnostics: "keeps only_logger (log_diagnostics t ds)"
  unfolding log_diagnostics_def log_source_def log_issue_def
  by (intro ol.keeps_combinators keeps_service_log)

text \<open>An action that changes the logger only and does not raise.\<close>

lemma logger_run:
  assumes "keeps only_logger m" "raises_only {} m"
  obtains x lg where "m s = (Inr x, s\<lparr>svc_logger := lg\<rparr>)"
proof -
  obtain r s' where run: "m s = (r, s')" by fastforce
  with assms(1) have "s' = s\<lparr>svc_logger := svc_logger s'\<rparr>"
    by (auto simp: only_logger_def dest: keepsD)
  moreover from run assms(2) obtain x where "r = Inr x"
    by (cases r) (auto dest: raises_onlyD)
  ultimately show ?thesis using run that by metis
qed

lemma log_readiness_run:
  obtains lg previous where
    "log_readiness t s = (Inr (), s\<lparr>svc_logger := lg, svc_previous_readiness := previous\<rparr>)"
    "previous = readiness (rt_readiness t) (svc_status s)"
proof (cases "readiness (rt_readiness t) (svc_status s) = svc_previous_readiness s")
  case True
  then have "log_readiness t s = (Inr (), s\<lparr>svc_logger := svc_logger s,
      svc_previous_readiness := readiness (rt_readiness t) (svc_status s)\<rparr>)"
    by (simp add: log_readiness_def act_defs)
  then show ?thesis using that by blast
next
  case False
  let ?r = "readiness (rt_readiness t) (svc_status s)"
  let ?m = "if ?r = READY then service_log t INFO ''exporter.ready'' ''exporter is ready'' []
     else service_log t WARN ''exporter.not_ready'' ''exporter is not ready''
            [(u ''status'', u (reason_value ?r))]"
  have "raises_only {} ?m" by (intro raises_rules) simp_all
  moreover have "keeps only_logger ?m" by (simp add: keeps_service_log)
  ultimately obtain x lg where "?m s = (Inr x, s\<lparr>svc_logger := lg\<rparr>)"
    using logger_run [of ?m s] by blast
  with False have "log_readiness t s
      = (Inr (), s\<lparr>svc_logger := lg, svc_previous_readiness := ?r\<rparr>)"
    by (simp add: log_readiness_def bind_act_def then_act_def get_act_def modify_act_def)
  then show ?thesis using that by blast
qed

section \<open>One refresh\<close>

definition status_after ::
    "refresh_times \<Rightarrow> collection_result \<Rightarrow> exporter_snapshot option \<Rightarrow> runtime_status \<Rightarrow> runtime_status" where
  "status_after t c published st =
     (let duration = float_sub (rt_finished t) (rt_started t) in
      case published of
        Some p \<Rightarrow> record_collection (snap_collection p) duration True (snap_generation p)
                    (rt_steady t) (rt_wall t) st
      | None \<Rightarrow> record_collection c duration False 0 (rt_steady t) (rt_wall t) st)"

lemma record_outcome_run:
  obtains lg where "record_outcome t c published s
    = (Inr (), s\<lparr>svc_status := status_after t c published (svc_status s), svc_logger := lg\<rparr>)"
proof -
  let ?m = "case published of
      Some p \<Rightarrow> service_log t DEBUG ''collector.completed'' ''collection completed''
        [(u ''generation'', nat_text (snap_generation p)),
         (u ''duration_ms'', str_int (int_of_float (round_double (float_sub (rt_finished t) (rt_started t) * 1000)))),
         (u ''count'', nat_text (length (col_devices (snap_collection p))))]
    | None \<Rightarrow> service_log_limited t ''collector.failed'' ''collection did not publish a complete snapshot''
        (u ''collector:'' @ u (failure_reason c)) [(u ''status'', u (failure_reason c))]"
  let ?s = "s\<lparr>svc_status := status_after t c published (svc_status s)\<rparr>"
  have "raises_only {} ?m" by (intro raises_rules) simp_all
  moreover have "keeps only_logger ?m" by (simp add: keeps_service_log split: option.split)
  ultimately obtain x lg where "?m ?s = (Inr x, ?s\<lparr>svc_logger := lg\<rparr>)"
    using logger_run [of ?m ?s] by blast
  moreover have "record_outcome t c published s = ?m ?s"
    by (cases published) (simp_all add: record_outcome_def status_after_def then_act_def bind_act_def
        on_status_def modify_act_def Let_def)
  ultimately have "record_outcome t c published s
      = (Inr (), s\<lparr>svc_status := status_after t c published (svc_status s), svc_logger := lg\<rparr>)"
    by simp
  then show ?thesis by (rule that)
qed

lemma refresh_run:
  assumes "collect env (options_config (svc_options s)) (svc_world s) = (Inr c, w)"
    and "publish_collection (opt_maximum_rendered_payload_bytes (svc_options s)) c (svc_store s)
      = (published, store)"
  obtains lg where "refresh env t s
    = (Inr (), s\<lparr>svc_world := w, svc_store := store,
         svc_status := status_after t c published (svc_status s), svc_logger := lg,
         svc_previous_readiness :=
           readiness (rt_readiness t) (status_after t c published (svc_status s))\<rparr>)"
proof -
  let ?s1 = "s\<lparr>svc_world := w, svc_store := store\<rparr>"
  let ?ds = "case published of Some p \<Rightarrow> col_sources (snap_collection p) | None \<Rightarrow> col_sources c"
  let ?st = "status_after t c published (svc_status s)"
  obtain lg1 where 1: "record_outcome t c published ?s1
      = (Inr (), ?s1\<lparr>svc_status := status_after t c published (svc_status ?s1), svc_logger := lg1\<rparr>)"
    by (rule record_outcome_run)
  let ?s2 = "?s1\<lparr>svc_status := ?st, svc_logger := lg1\<rparr>"
  obtain x lg2 where 2: "log_diagnostics t ?ds ?s2 = (Inr x, ?s2\<lparr>svc_logger := lg2\<rparr>)"
    using logger_run [OF keeps_log_diagnostics raises_log_diagnostics, of t ?ds ?s2] by blast
  let ?s3 = "?s2\<lparr>svc_logger := lg2\<rparr>"
  obtain lg3 previous where 3: "log_readiness t ?s3
      = (Inr (), ?s3\<lparr>svc_logger := lg3, svc_previous_readiness := previous\<rparr>)"
    and previous: "previous = readiness (rt_readiness t) (svc_status ?s3)"
    by (rule log_readiness_run)
  have "refresh env t s = (Inr (), ?s3\<lparr>svc_logger := lg3, svc_previous_readiness := previous\<rparr>)"
    using assms 1 2 3
    by (simp add: refresh_def bind_act_def then_act_def get_act_def on_world_def on_store_def)
  then show ?thesis using previous by (intro that [of lg3]) simp
qed

lemma refresh_raise:
  assumes "collect env (options_config (svc_options s)) (svc_world s) = (Inl e, w)"
  shows "refresh env t s = (Inl e, s\<lparr>svc_world := w\<rparr>)"
  using assms by (simp add: refresh_def bind_act_def get_act_def on_world_def)

text \<open>What a refresh publishes, and when.\<close>

definition publishable :: "nat \<Rightarrow> collection_result \<Rightarrow> bool" where
  "publishable limit c \<longleftrightarrow> col_critical_ok c
     \<and> fits_limit limit (render_prometheus (col_devices c))
     \<and> fits_limit limit (render_devices_json (col_devices c))"

definition next_generation :: "snapshot_store \<Rightarrow> nat" where
  "next_generation store = (case store of None \<Rightarrow> 1 | Some p \<Rightarrow> snap_generation p + 1)"

definition snapshot_of :: "nat \<Rightarrow> collection_result \<Rightarrow> exporter_snapshot" where
  "snapshot_of generation c =
     \<lparr>snap_generation = generation, snap_collection = c,
      snap_prometheus = render_prometheus (col_devices c),
      snap_devices_json = render_devices_json (col_devices c)\<rparr>"

lemma publish_yes:
  "publishable limit c \<Longrightarrow> publish_collection limit c store
     = (Some (snapshot_of (next_generation store) c), Some (snapshot_of (next_generation store) c))"
  and publish_no: "\<not> publishable limit c \<Longrightarrow> publish_collection limit c store = (None, store)"
  by (auto simp: publish_collection_def publishable_def store_publish_def snapshot_of_def
      next_generation_def Let_def)


definition zero_times :: refresh_times where
  "zero_times = \<lparr>rt_started = 0, rt_finished = 0, rt_steady = 0, rt_wall = 0, rt_readiness = 0,
     rt_log = (\<lambda>_. (0, 0))\<rparr>"


section \<open>The running service\<close>

fun http_event :: "runtime_event \<Rightarrow> bool" where
  "http_event (Requested _ _ _) = True"
| "http_event Opened = True"
| "http_event Closed = True"
| "http_event Refused = True"
| "http_event _ = False"

text \<open>The second component tells whether the poller is alive.\<close>

inductive runs :: "os_env \<Rightarrow> service \<Rightarrow> service \<Rightarrow> bool \<Rightarrow> bool" for env start where
  runs_start: "runs env start start True"
| runs_refresh: "runs env start s True \<Longrightarrow> \<not> svc_shutdown_requested s \<Longrightarrow>
    refresh env t s = (Inr (), s') \<Longrightarrow> runs env start s' True"
| runs_crash: "runs env start s True \<Longrightarrow> \<not> svc_shutdown_requested s \<Longrightarrow>
    refresh env t s = (Inl e, s') \<Longrightarrow> runs env start s' False"
| runs_stop: "runs env start s True \<Longrightarrow> svc_shutdown_requested s \<Longrightarrow> runs env start s False"
| runs_signal: "runs env start s alive \<Longrightarrow> runs env start (request_shutdown s) alive"
| runs_shutdown: "runs env start s alive \<Longrightarrow> runs env start (snd (shutdown wall s)) alive"
| runs_http: "runs env start s alive \<Longrightarrow> http_event e \<Longrightarrow>
    runs env start (s\<lparr>svc_status := apply_event e (svc_status s)\<rparr>) alive"

definition snapshot_ok :: "nat \<Rightarrow> exporter_snapshot \<Rightarrow> bool" where
  "snapshot_ok limit p \<longleftrightarrow> p = snapshot_of (snap_generation p) (snap_collection p)
     \<and> 1 \<le> snap_generation p \<and> publishable limit (snap_collection p)"

definition service_ok :: "service \<Rightarrow> bool" where
  "service_ok s \<longleftrightarrow>
     (case svc_store s of
        None \<Rightarrow> rs_generation (svc_status s) = 0 \<and> rs_last_success (svc_status s) = None
      | Some p \<Rightarrow>
          snapshot_ok (opt_maximum_rendered_payload_bytes (svc_options s)) p
            \<and> rs_generation (svc_status s) = snap_generation p
            \<and> rs_device_count (svc_status s) = length (col_devices (snap_collection p))
            \<and> rs_last_success (svc_status s) \<noteq> None)
   \<and> rs_successes (svc_status s) = rs_generation (svc_status s)
   \<and> rs_shutting_down (svc_status s) = (\<not> svc_running s)
   \<and> svc_server_stopped s = (\<not> svc_running s)
   \<and> (if svc_running s then True else svc_shutdown_requested s)"

lemma service_ok_new: "service_ok (new_service v r opts lg now w)"
  by (simp add: service_ok_def new_service_def new_status_def)

lemma collect_cases:
  obtains c w where "collect env config v = (Inr c, w)" | e w where "collect env config v = (Inl e, w)"
proof -
  obtain r w where "collect env config v = (r, w)" by fastforce
  then show ?thesis using that by (cases r) auto
qed

lemma refresh_cases:
  obtains (published) c w lg g where
      "publishable (opt_maximum_rendered_payload_bytes (svc_options s)) c"
      "g = next_generation (svc_store s)"
      "refresh env t s = (Inr (), s\<lparr>svc_world := w, svc_store := Some (snapshot_of g c),
         svc_status := status_after t c (Some (snapshot_of g c)) (svc_status s), svc_logger := lg,
         svc_previous_readiness := readiness (rt_readiness t)
           (status_after t c (Some (snapshot_of g c)) (svc_status s))\<rparr>)"
  | (kept) c w lg where
      "refresh env t s = (Inr (), s\<lparr>svc_world := w,
         svc_status := status_after t c None (svc_status s), svc_logger := lg,
         svc_previous_readiness := readiness (rt_readiness t) (status_after t c None (svc_status s))\<rparr>)"
  | (raised) e w where
      "collect env (options_config (svc_options s)) (svc_world s) = (Inl e, w)"
      "refresh env t s = (Inl e, s\<lparr>svc_world := w\<rparr>)"
proof (rule collect_cases [of env "options_config (svc_options s)" "svc_world s"])
  fix c w
  assume c: "collect env (options_config (svc_options s)) (svc_world s) = (Inr c, w)"
  show thesis
  proof (cases "publishable (opt_maximum_rendered_payload_bytes (svc_options s)) c")
    case True
    show thesis
      by (rule refresh_run [OF c publish_yes [OF True], of t]) (rule published [OF True refl])
  next
    case False
    show thesis
      by (rule refresh_run [OF c publish_no [OF False], of t]) (rule kept, simp)
  qed
next
  fix e w
  assume "collect env (options_config (svc_options s)) (svc_world s) = (Inl e, w)"
  with raised refresh_raise [OF this] show thesis by blast
qed

lemma service_ok_refresh:
  assumes "service_ok s" and "refresh env t s = (r, s')"
  shows "service_ok s'"
proof (cases rule: refresh_cases [where s = s and env = env and t = t])
  case (published c w lg g)
  with assms show ?thesis
    by (auto simp: service_ok_def status_after_def record_collection_def snapshot_ok_def
        snapshot_of_def next_generation_def publishable_def Let_def split: option.splits)
next
  case (kept c w lg)
  with assms show ?thesis
    by (auto simp: service_ok_def status_after_def record_collection_def Let_def split: option.splits)
next
  case (raised e w)
  with assms show ?thesis by (auto simp: service_ok_def split: option.splits)
qed

lemma shutdown_run:
  obtains lg where "snd (shutdown wall s) =
    (if svc_running s
     then s\<lparr>svc_logger := lg, svc_status := begin_shutdown (svc_status s), svc_running := False,
            svc_shutdown_requested := True, svc_server_stopped := True\<rparr>
     else s)"
proof -
  let ?m = "on_logger (log wall INFO (u ''exporter.shutdown_started'') (u ''exporter shutdown started'') [])"
  have "raises_only {} ?m" by (intro raises_on_logger raises_log) simp_all
  then obtain x lg where "?m s = (Inr x, s\<lparr>svc_logger := lg\<rparr>)"
    using logger_run [OF keeps_on_logger, of _ s] by metis
  then show ?thesis
    by (intro that [of lg])
      (simp add: shutdown_def bind_act_def then_act_def get_act_def modify_act_def return_act_def)
qed

lemma service_ok_shutdown: "service_ok s \<Longrightarrow> service_ok (snd (shutdown wall s))"
  by (rule shutdown_run [of wall s]) (auto simp: service_ok_def begin_shutdown_def split: option.splits)

lemma http_event_keeps:
  assumes "http_event e"
  shows "rs_generation (apply_event e st) = rs_generation st"
    "rs_last_success (apply_event e st) = rs_last_success st"
    "rs_device_count (apply_event e st) = rs_device_count st"
    "rs_successes (apply_event e st) = rs_successes st"
    "rs_shutting_down (apply_event e st) = rs_shutting_down st"
  using assms
  by (cases e; simp add: record_http_request_def connection_opened_def connection_closed_def
      connection_rejected_def Let_def)+

lemma runs_service_ok:
  assumes "runs env start s alive" "service_ok start"
  shows "service_ok s"
  using assms
proof (induction rule: runs.induct)
  case (runs_signal s alive)
  then show ?case by (auto simp: request_shutdown_def service_ok_def split: option.splits)
next
  case (runs_http s alive e)
  then show ?case by (auto simp: service_ok_def http_event_keeps split: option.splits)
qed (auto intro: service_ok_refresh service_ok_shutdown)



section \<open>A service that has published\<close>

text \<open>An empty sysfs root, read and published under a limit that the text of no device just meets.\<close>

definition empty_root_env :: os_env where
  "empty_root_env = denied_env\<lparr>
     env_stat := (\<lambda>h p. Inr \<lparr>st_kind = Directory, st_size = 0, st_nlink = 2\<rparr>),
     env_scandir := (\<lambda>h p. Inr [])\<rparr>"

definition empty_root_options :: options where
  "empty_root_options = new_options\<lparr>opt_maximum_rendered_payload_bytes :=
     length (utf8_points (render_prometheus [])) + length (utf8_points (render_devices_json []))\<rparr>"

definition empty_root_service :: service where
  "empty_root_service =
     new_service [] [] empty_root_options (new_logger (u ''text'') INFO) 0 initial_world"

lemma empty_root_collect:
  obtains result w where
    "collect empty_root_env (options_config empty_root_options) initial_world = (Inr result, w)"
    "col_devices result = []" "col_critical_ok result"
  by (simp add: collect_def collect_world_def open_ingestor_def open_state_root_def run_simps
      set_configured_def set_accessible_def update_source_def collect_devices_def list_root_def
      path_stat_def os_scandir_def empty_root_env_def empty_root_options_def new_options_def
      options_config_def sort_key_def close_ingestor_def denied_env_def)

lemma scalar_join: "list_all is_scalar sep \<Longrightarrow> list_all (list_all is_scalar) ls \<Longrightarrow> list_all is_scalar (join sep ls)"
  using join_points [of sep ls] by (auto simp: list_all_iff)

lemma scalar_point: "c < 55296 \<Longrightarrow> is_scalar c"
  by (simp add: is_scalar_def)

lemma scalar_json_string:
  assumes "list_all is_scalar s"
  shows "list_all is_scalar (json_string s)"
proof -
  have "list_all is_scalar (json_escape_char c)" if "is_scalar c" for c
    using that by (simp add: json_escape_char_def digit_point_def scalar_point)
  with assms have "list_all is_scalar (json_escape s)"
    unfolding json_escape_def by (induction s) auto
  then show ?thesis by (simp add: json_string_def scalar_point)
qed

lemma scalar_render_empty: "list_all is_scalar (render_prometheus [])"
  "list_all is_scalar (render_devices_json [])"
proof -
  have "list_all (list_all is_scalar) (concat (map (family_lines []) fs))" for fs
    by (induction fs) (simp_all add: family_lines_def help_line_def type_line_def)
  moreover have "list_all (list_all is_scalar) (discovered_lines [])"
    by (simp add: discovered_lines_def help_line_def type_line_def)
  ultimately have "list_all (list_all is_scalar) (render_lines [])"
    by (simp add: render_lines_def)
  then show "list_all is_scalar (render_prometheus [])"
    by (simp add: render_prometheus_def scalar_join is_scalar_def)
  show "list_all is_scalar (render_devices_json [])"
    by (simp add: render_devices_json_def device_document_def field_def scalar_json_string scalar_point)
qed

lemma empty_root_refresh:
  obtains s' where "refresh empty_root_env zero_times empty_root_service = (Inr (), s')"
    "svc_store s' \<noteq> None"
proof -
  obtain result w where run: "collect empty_root_env (options_config empty_root_options) initial_world = (Inr result, w)"
    and result: "col_devices result = []" "col_critical_ok result"
    by (rule empty_root_collect)
  have options: "svc_options empty_root_service = empty_root_options"
    "svc_world empty_root_service = initial_world"
    by (simp_all add: empty_root_service_def new_service_def)
  have "publishable (opt_maximum_rendered_payload_bytes empty_root_options) result"
    using result scalar_render_empty
    by (simp add: publishable_def fits_limit_def encode_utf8_def empty_root_options_def)
  from refresh_run [OF run [folded options] publish_yes [OF this [folded options]], of zero_times]
  obtain s' where s': "refresh empty_root_env zero_times empty_root_service = (Inr (), s')"
    "svc_store s' = Some (snapshot_of (next_generation (svc_store empty_root_service)) result)"
    by force
  show thesis by (rule that [OF s'(1)]) (simp add: s'(2))
qed

lemma empty_root_runs:
  obtains s' where "runs empty_root_env empty_root_service s' True" "svc_store s' \<noteq> None"
proof -
  obtain s' where "refresh empty_root_env zero_times empty_root_service = (Inr (), s')"
    "svc_store s' \<noteq> None"
    by (rule empty_root_refresh)
  then show thesis
    by (intro that [OF runs_refresh [OF runs_start]])
      (simp_all add: empty_root_service_def new_service_def)
qed

section \<open>What the endpoints serve\<close>

lemma snapshot_ok_texts:
  "snapshot_ok limit p \<Longrightarrow> snap_prometheus p = render_prometheus (col_devices (snap_collection p))
     \<and> snap_devices_json p = render_devices_json (col_devices (snap_collection p))"
  by (cases p) (simp add: snapshot_ok_def snapshot_of_def)

lemma service_snapshot: "service_ok s \<Longrightarrow> svc_store s = Some p \<Longrightarrow>
    snapshot_ok (opt_maximum_rendered_payload_bytes (svc_options s)) p"
  by (simp add: service_ok_def)

text \<open>A metrics document, made of a snapshot and a status that need not be of the same moment.\<close>

lemma document_lines:
  assumes "\<And>p. snapshot = Some p \<Longrightarrow> snapshot_ok limit p"
  shows "split_on 10 ((case snapshot of None \<Rightarrow> [] | Some p \<Rightarrow> snap_prometheus p) @ render_status now st) =
     (case snapshot of None \<Rightarrow> [] | Some p \<Rightarrow> render_lines (col_devices (snap_collection p)))
       @ split_on 10 (render_status now st)"
proof (cases snapshot)
  case (Some p)
  let ?ds = "col_devices (snap_collection p)"
  have p: "snap_prometheus p = render_prometheus ?ds"
    using assms [OF Some] snapshot_ok_texts by blast
  have "list_all line_ok (render_lines ?ds)" "render_lines ?ds \<noteq> []"
    using render_lines_one_line by (auto simp: list_all_iff line_ok_def render_lines_def discovered_lines_def)
  from split_on_lines [OF this] Some p show ?thesis by (simp add: render_prometheus_def)
qed simp

lemma document_metadata:
  assumes "\<And>p. snapshot = Some p \<Longrightarrow> snapshot_ok limit p"
  shows "filter (\<lambda>l. starts_with l (u ''# ''))
      (split_on 10 ((case snapshot of None \<Rightarrow> [] | Some p \<Rightarrow> snap_prometheus p) @ render_status now st))
    = (if snapshot = None then [] else contract_metadata) @ status_metadata"
proof -
  have blank: "\<not> starts_with [] (u ''# '')" by (simp add: starts_with_def u_Cons)
  have "filter (\<lambda>l. starts_with l (u ''# '')) (render_lines ds) = contract_metadata" for ds
    by (simp add: render_lines_def filter_discovered filter_concat_families contract_metadata_def)
  moreover note document_lines [of snapshot limit now st, OF assms]
  ultimately show ?thesis
    by (cases snapshot) (simp_all add: split_status status_lines_ok(2) blank)
qed

lemma metrics_lines:
  "split_on 10 (service_metrics now s) =
     (case svc_store s of None \<Rightarrow> [] | Some p \<Rightarrow> butlast (split_on 10 (snap_prometheus p)))
       @ split_on 10 (render_status now (svc_status s))"
  if "service_ok s"
proof -
  have ok: "svc_store s = Some p \<Longrightarrow> snapshot_ok (opt_maximum_rendered_payload_bytes (svc_options s)) p" for p
    using that by (rule service_snapshot)
  show ?thesis
    using document_lines [of "svc_store s", OF ok] snapshot_ok_texts [OF ok]
    by (cases "svc_store s") (simp_all add: service_metrics_def store_load_def split_render)
qed

lemma distinct_metric_names:
  "distinct (''tt_devices_discovered'' # map fam_name contract_families @ status_names)"
  by code_simp

text \<open>
  C10: The metrics document of a reachable service, cut at line feeds, has as comment lines those
  of the device contract, once a snapshot is published, and those of the exporter's own metrics,
  each once and in order; no metric name is used twice. No value, whether it comes from a device,
  from an untrusted state file or from the build, changes that.
\<close>

theorem metrics_document:
  assumes "runs env (new_service version revision opts lg start_time w) s alive"
  shows "filter (\<lambda>l. starts_with l (u ''# '')) (split_on 10 (service_metrics now s))
      = (if svc_store s = None then [] else contract_metadata) @ status_metadata
    \<and> distinct (''tt_devices_discovered'' # map fam_name contract_families @ status_names)"
proof -
  have ok: "service_ok s" using runs_service_ok [OF assms service_ok_new] .
  show ?thesis
    using document_metadata [of "svc_store s", OF service_snapshot [OF ok]] distinct_metric_names
    by (simp add: service_metrics_def store_load_def)
qed

text \<open>
  C11: Both endpoints serve the same snapshot: if one is published, reading the JSON document gives
  exactly the devices that the metrics text was rendered from.
\<close>

theorem endpoints_consistent:
  assumes "runs env (new_service version revision opts lg start_time w) s alive" "svc_store s \<noteq> None"
  shows "\<exists>devices. read_json (service_devices s) = Some (device_document devices)
    \<and> service_metrics now s = render_prometheus devices @ render_status now (svc_status s)
    \<and> rs_device_count (svc_status s) = length devices"
proof -
  have ok: "service_ok s" using runs_service_ok [OF assms(1) service_ok_new] .
  from assms(2) obtain p where p: "svc_store s = Some p" by blast
  with ok have count: "rs_device_count (svc_status s) = length (col_devices (snap_collection p))"
    by (simp add: service_ok_def)
  have "snap_prometheus p = render_prometheus (col_devices (snap_collection p))"
    and "snap_devices_json p = render_devices_json (col_devices (snap_collection p))"
    using snapshot_ok_texts [OF service_snapshot [OF ok p]] by simp_all
  with p count show ?thesis
    by (intro exI [of _ "col_devices (snap_collection p)"])
      (simp add: service_devices_def service_metrics_def store_load_def render_devices_json_def
        read_json_dumps)
qed

lemma endpoints_consistent_witness:
  "\<exists>s devices. runs empty_root_env empty_root_service s True \<and>
    read_json (service_devices s) = Some (device_document devices) \<and>
    service_metrics 0 s = render_prometheus devices @ render_status 0 (svc_status s)"
proof -
  obtain s where s: "runs empty_root_env empty_root_service s True" "svc_store s \<noteq> None"
    by (rule empty_root_runs)
  from endpoints_consistent [OF s(1) [unfolded empty_root_service_def] s(2), of 0] s(1)
  show ?thesis by blast
qed

lemma metrics_document_witness:
  "\<exists>s. runs empty_root_env empty_root_service s True \<and>
    filter (\<lambda>l. starts_with l (u ''# '')) (split_on 10 (service_metrics 0 s)) = contract_metadata @ status_metadata"
proof -
  obtain s where s: "runs empty_root_env empty_root_service s True" "svc_store s \<noteq> None"
    by (rule empty_root_runs)
  from metrics_document [OF s(1) [unfolded empty_root_service_def], of 0] s
  show ?thesis by auto
qed

end
