(* ===== verification/Threads.thy ===== *)
theory Threads
  imports Running ServiceFacts
begin

text \<open>
  The threads of \<open>app/cli.py\<close> at the grain at which they interleave. A thread is the list of the
  atomic actions it has still to do: a call of the collector, which shares nothing, and every other
  call that takes a lock, sets or reads an event, or reads the snapshot. The main thread serves,
  the poller refreshes, the coordinator waits for a requested shutdown; signal handlers and the
  requests of the server come in between. uvicorn runs its handlers in the main thread, one at a
  time, so that only one scrape is between its two reads.
\<close>

section \<open>Atomic actions\<close>

datatype atomic =
    Collect refresh_times
  | Publish refresh_times collection_result
  | Record refresh_times collection_result "exporter_snapshot option"
  | LogOutcome refresh_times collection_result "exporter_snapshot option"
  | LogSource refresh_times source_diagnostics telemetry_source
  | LogIssue refresh_times source_diagnostics telemetry_source collection_issue
  | Observe refresh_times
  | LogReady refresh_times readiness_reason
  | Remember readiness_reason
  | IfRunning "atomic list"
  | LogShutdown rat
  | Mark
  | Clear
  | Request
  | Stop
  | CreateServer
  | LogListen refresh_times
  | RunServer refresh_times
  | LogFailed refresh_times

datatype thread = Waiting | Busy "atomic list" | Ended

text \<open>
  \<open>sy_server\<close> is \<open>HttpServer._server\<close>, with its \<open>should_exit\<close>; \<open>sy_scrape\<close> is the snapshot a
  scrape has loaded and not yet rendered, \<open>sy_documents\<close> the metrics documents served so far.
\<close>

record system =
  sy_service :: service
  sy_server :: "bool option"
  sy_poller :: thread
  sy_coordinator :: thread
  sy_main :: thread
  sy_scrape :: "exporter_snapshot option option"
  sy_documents :: "pystr list"

definition on_service :: "(service, 'a) act \<Rightarrow> (system, 'a) act" where
  "on_service m y = (case m (sy_service y) of (r, s) \<Rightarrow> (r, y\<lparr>sy_service := s\<rparr>))"

definition log_outcome ::
    "refresh_times \<Rightarrow> collection_result \<Rightarrow> exporter_snapshot option \<Rightarrow> (service, unit) act" where
  "log_outcome t collection published =
     (case published of
        Some snapshot \<Rightarrow>
          service_log t DEBUG ''collector.completed'' ''collection completed''
            [(u ''generation'', nat_text (snap_generation snapshot)),
             (u ''duration_ms'', str_int (int_of_float
                (round_double (float_sub (rt_finished t) (rt_started t) * 1000)))),
             (u ''count'', nat_text (length (col_devices (snap_collection snapshot))))]
      | None \<Rightarrow>
          service_log_limited t ''collector.failed''
            ''collection did not publish a complete snapshot''
            (u ''collector:'' @ u (failure_reason collection))
            [(u ''status'', u (failure_reason collection))])"

definition log_degraded :: "refresh_times \<Rightarrow> source_diagnostics \<Rightarrow> telemetry_source \<Rightarrow> (service, unit) act" where
  "log_degraded t d src =
     (if diag_configured d \<and> \<not> diag_accessible d
      then service_log_limited t ''collector.source_degraded''
             ''configured telemetry source is inaccessible''
             (u ''source:'' @ source_value src) [(u ''source'', source_value src)]
      else return_act ())"

definition log_ready :: "refresh_times \<Rightarrow> readiness_reason \<Rightarrow> (service, unit) act" where
  "log_ready t reason =
     (if reason = READY
      then service_log t INFO ''exporter.ready'' ''exporter is ready'' []
      else service_log t WARN ''exporter.not_ready'' ''exporter is not ready''
             [(u ''status'', u (reason_value reason))])"

text \<open>\<open>HttpServer.stop\<close>.\<close>

definition stop_server :: "bool option \<Rightarrow> bool option" where
  "stop_server server = (case server of None \<Rightarrow> None | Some _ \<Rightarrow> Some True)"

text \<open>The reports that follow the record of a collection.\<close>

definition reports :: "refresh_times \<Rightarrow> collection_result \<Rightarrow> exporter_snapshot option \<Rightarrow> atomic list" where
  "reports t c published =
     map (\<lambda>src. LogSource t ((case published of
              Some snapshot \<Rightarrow> col_sources (snap_collection snapshot)
            | None \<Rightarrow> col_sources c) src) src) all_sources @ [Observe t]"

text \<open>An action does one thing and says what its thread has to do next.\<close>

fun atomic_step :: "os_env \<Rightarrow> atomic \<Rightarrow> (system, atomic list) act" where
  "atomic_step env (Collect t) =
     bind_act (on_service (get_act svc_options)) (\<lambda>opts.
     bind_act (on_service (on_world (collect env (options_config opts)))) (\<lambda>c.
       return_act [Publish t c]))"
| "atomic_step env (Publish t c) =
     bind_act (on_service (get_act svc_options)) (\<lambda>opts.
     bind_act (on_service (on_store
       (publish_collection (opt_maximum_rendered_payload_bytes opts) c))) (\<lambda>published.
       return_act [Record t c published]))"
| "atomic_step env (Record t c published) =
     then_act (on_service (on_status (status_after t c published)))
       (return_act (LogOutcome t c published # reports t c published))"
| "atomic_step env (LogOutcome t c published) =
     then_act (on_service (log_outcome t c published)) (return_act [])"
| "atomic_step env (LogSource t d src) =
     then_act (on_service (log_degraded t d src)) (return_act (map (LogIssue t d src) all_issues))"
| "atomic_step env (LogIssue t d src issue) =
     then_act (on_service (log_issue t d src issue)) (return_act [])"
| "atomic_step env (Observe t) =
     bind_act (on_service (get_act (\<lambda>s. readiness (rt_readiness t) (svc_status s)))) (\<lambda>reason.
     bind_act (on_service (get_act svc_previous_readiness)) (\<lambda>previous.
       return_act (if reason = previous then [] else [LogReady t reason, Remember reason])))"
| "atomic_step env (LogReady t reason) =
     then_act (on_service (log_ready t reason)) (return_act [])"
| "atomic_step env (Remember reason) =
     then_act (on_service (modify_act (\<lambda>s. s\<lparr>svc_previous_readiness := reason\<rparr>))) (return_act [])"
| "atomic_step env (IfRunning actions) =
     bind_act (on_service (get_act svc_running)) (\<lambda>running. return_act (if running then actions else []))"
| "atomic_step env (LogShutdown wall) =
     then_act (on_service (on_logger
       (log wall INFO (u ''exporter.shutdown_started'') (u ''exporter shutdown started'') [])))
       (return_act [])"
| "atomic_step env Mark = then_act (on_service (on_status begin_shutdown)) (return_act [])"
| "atomic_step env Clear =
     then_act (on_service (modify_act (\<lambda>s. s\<lparr>svc_running := False\<rparr>))) (return_act [])"
| "atomic_step env Request = then_act (on_service (modify_act request_shutdown)) (return_act [])"
| "atomic_step env Stop =
     then_act (modify_act (\<lambda>y. y\<lparr>sy_server := stop_server (sy_server y)\<rparr>))
       (then_act (on_service (modify_act (\<lambda>s. s\<lparr>svc_server_stopped := True\<rparr>))) (return_act []))"
| "atomic_step env CreateServer =
     then_act (modify_act (\<lambda>y. y\<lparr>sy_server := Some False\<rparr>)) (return_act [])"
| "atomic_step env (LogListen t) =
     bind_act (on_service (get_act svc_options)) (\<lambda>opts.
       then_act (on_service (service_log t INFO ''http.listen_started'' ''HTTP listener started''
           [(u ''address'', opt_listen_address opts), (u ''port'', str_int (opt_port opts))]))
         (return_act []))"
| "atomic_step env (RunServer t) = return_act []"
| "atomic_step env (LogFailed t) =
     then_act (on_service (service_log t ERROR ''http.request_rejected'' ''listener activation failed'' []))
       (return_act [])"

section \<open>The programs of the threads\<close>

definition refresh_program :: "refresh_times \<Rightarrow> atomic list" where
  "refresh_program t = [Collect t]"

definition shutdown_program :: "rat \<Rightarrow> atomic list" where
  "shutdown_program wall = [IfRunning [LogShutdown wall, Mark, Clear, Request, Stop]]"

definition coordinator_program :: "rat \<Rightarrow> atomic list" where
  "coordinator_program wall = [IfRunning (shutdown_program wall)]"

definition main_program :: "refresh_times \<Rightarrow> rat \<Rightarrow> atomic list" where
  "main_program t wall = IfRunning [CreateServer, LogListen t, RunServer t] # shutdown_program wall"

definition new_system :: "service \<Rightarrow> refresh_times \<Rightarrow> rat \<Rightarrow> system" where
  "new_system s t wall = \<lparr>sy_service = s, sy_server = None, sy_poller = Waiting,
     sy_coordinator = Waiting, sy_main = Busy (main_program t wall), sy_scrape = None,
     sy_documents = []\<rparr>"

text \<open>A thread after one of its actions: an exception ends it, and at its end it waits or ends.\<close>

definition advance :: "thread \<Rightarrow> atomic list \<Rightarrow> atomic list outcome \<Rightarrow> thread" where
  "advance finished actions r =
     (case r of
        Inl e \<Rightarrow> Ended
      | Inr following \<Rightarrow> if following @ actions = [] then finished else Busy (following @ actions))"

text \<open>\<open>ExporterService.metrics\<close> between its two reads.\<close>

definition metrics_text :: "rat \<Rightarrow> exporter_snapshot option \<Rightarrow> runtime_status \<Rightarrow> pystr" where
  "metrics_text now snapshot st =
     (case snapshot of None \<Rightarrow> [] | Some p \<Rightarrow> snap_prometheus p) @ render_status now st"

lemma service_metrics_text: "service_metrics now s = metrics_text now (svc_store s) (svc_status s)"
  by (simp add: service_metrics_def metrics_text_def store_load_def)

definition serving :: "system \<Rightarrow> bool" where
  "serving y \<longleftrightarrow> sy_scrape y = None \<and> (case sy_main y of Busy (RunServer t # _) \<Rightarrow> True | _ \<Rightarrow> False)"

section \<open>Interleavings\<close>

text \<open>
  \<open>il_main\<close> with \<open>RunServer\<close> is a server that has ended, \<open>il_main_failed\<close> one that could not listen.
\<close>

inductive interleaved :: "os_env \<Rightarrow> system \<Rightarrow> system \<Rightarrow> bool" for env start where
  il_start: "interleaved env start start"
| il_poll: "interleaved env start y \<Longrightarrow> sy_poller y = Waiting \<Longrightarrow> \<not> svc_shutdown_requested (sy_service y) \<Longrightarrow>
    interleaved env start (y\<lparr>sy_poller := Busy (refresh_program t)\<rparr>)"
| il_poll_end: "interleaved env start y \<Longrightarrow> sy_poller y = Waiting \<Longrightarrow> svc_shutdown_requested (sy_service y) \<Longrightarrow>
    interleaved env start (y\<lparr>sy_poller := Ended\<rparr>)"
| il_poller: "interleaved env start y \<Longrightarrow> sy_poller y = Busy (a # actions) \<Longrightarrow> atomic_step env a y = (r, y') \<Longrightarrow>
    interleaved env start (y'\<lparr>sy_poller := advance Waiting actions r\<rparr>)"
| il_wake: "interleaved env start y \<Longrightarrow> sy_coordinator y = Waiting \<Longrightarrow> svc_shutdown_requested (sy_service y) \<Longrightarrow>
    interleaved env start (y\<lparr>sy_coordinator := Busy (coordinator_program wall)\<rparr>)"
| il_coordinator: "interleaved env start y \<Longrightarrow> sy_coordinator y = Busy (a # actions) \<Longrightarrow>
    atomic_step env a y = (r, y') \<Longrightarrow>
    interleaved env start (y'\<lparr>sy_coordinator := advance Ended actions r\<rparr>)"
| il_main: "interleaved env start y \<Longrightarrow> sy_main y = Busy (a # actions) \<Longrightarrow> sy_scrape y = None \<Longrightarrow>
    atomic_step env a y = (r, y') \<Longrightarrow>
    interleaved env start (y'\<lparr>sy_main := advance Ended actions r\<rparr>)"
| il_main_failed: "interleaved env start y \<Longrightarrow> sy_main y = Busy (RunServer t # actions) \<Longrightarrow> sy_scrape y = None \<Longrightarrow>
    interleaved env start (y\<lparr>sy_main := Busy (LogFailed t # actions)\<rparr>)"
| il_main_raised: "interleaved env start y \<Longrightarrow> sy_main y = Busy (RunServer t # actions) \<Longrightarrow> sy_scrape y = None \<Longrightarrow>
    interleaved env start (y\<lparr>sy_main := Ended\<rparr>)"
| il_signal: "interleaved env start y \<Longrightarrow>
    interleaved env start (y\<lparr>sy_service := request_shutdown (sy_service y)\<rparr>)"
| il_http: "interleaved env start y \<Longrightarrow> serving y \<Longrightarrow> http_event e \<Longrightarrow> interleaved env start
    (y\<lparr>sy_service := (sy_service y)\<lparr>svc_status := apply_event e (svc_status (sy_service y))\<rparr>\<rparr>)"
| il_load: "interleaved env start y \<Longrightarrow> serving y \<Longrightarrow>
    interleaved env start (y\<lparr>sy_scrape := Some (store_load (svc_store (sy_service y)))\<rparr>)"
| il_render: "interleaved env start y \<Longrightarrow> sy_scrape y = Some snapshot \<Longrightarrow>
    interleaved env start (y\<lparr>sy_scrape := None,
      sy_documents := sy_documents y @ [metrics_text now snapshot (svc_status (sy_service y))]\<rparr>)"

text \<open>One thread to its end, while no other runs.\<close>

inductive thread_runs :: "os_env \<Rightarrow> atomic list \<Rightarrow> system \<Rightarrow> unit outcome \<Rightarrow> system \<Rightarrow> bool" for env where
  tr_done: "thread_runs env [] y (Inr ()) y"
| tr_step: "atomic_step env a y = (Inr following, y') \<Longrightarrow> thread_runs env (following @ actions) y' r z \<Longrightarrow>
    thread_runs env (a # actions) y r z"
| tr_raise: "atomic_step env a y = (Inl e, y') \<Longrightarrow> thread_runs env (a # actions) y (Inl e) y'"

inductive_cases thread_runs_NilE: "thread_runs env [] y r z"
inductive_cases thread_runs_ConsE: "thread_runs env (a # actions) y r z"

end
