(* ===== verification/ThreadFacts.thy ===== *)
theory ThreadFacts
  imports Threads
begin

text \<open>
  A refresh and a shutdown that no other thread interrupts are those of the service; and what
  every interleaving keeps.
\<close>

section \<open>Uninterrupted threads\<close>

lemma thread_runs_append:
  assumes "thread_runs env as y r z"
  shows "(case r of
      Inr _ \<Rightarrow> \<forall>r' z'. thread_runs env bs z r' z' \<longrightarrow> thread_runs env (as @ bs) y r' z'
    | Inl e \<Rightarrow> thread_runs env (as @ bs) y (Inl e) z)"
  using assms
proof (induction rule: thread_runs.induct)
  case (tr_step a y following y' actions r z)
  then show ?case by (cases r) (auto intro: thread_runs.tr_step)
qed (auto intro: thread_runs.tr_raise)

lemma thread_runs_unique:
  "thread_runs env as y r z \<Longrightarrow> thread_runs env as y r' z' \<Longrightarrow> r' = r \<and> z' = z"
proof (induction arbitrary: r' z' rule: thread_runs.induct)
  case (tr_done y)
  then show ?case by (auto elim: thread_runs_NilE)
next
  case (tr_step a y following y' actions r z)
  from tr_step.prems tr_step.hyps(1) have "thread_runs env (following @ actions) y' r' z'"
    by (auto elim: thread_runs_ConsE)
  then show ?case by (rule tr_step.IH)
next
  case (tr_raise a y e y' actions)
  then show ?case by (auto elim: thread_runs_ConsE)
qed

text \<open>The actions \<open>as\<close>, run without interruption, are \<open>m\<close> on the service.\<close>

definition executes :: "os_env \<Rightarrow> atomic list \<Rightarrow> (service, unit) act \<Rightarrow> bool" where
  "executes env as m \<longleftrightarrow>
     (\<forall>y. thread_runs env as y (fst (m (sy_service y))) (y\<lparr>sy_service := snd (m (sy_service y))\<rparr>))"

lemma executes_Nil: "executes env [] (return_act ())"
  by (simp add: executes_def return_act_def thread_runs.tr_done)

lemma executes_step:
  assumes "atomic_step env a = bind_act (on_service m) (\<lambda>x. return_act (f x))"
    and "\<And>x. executes env (f x) (k x)"
  shows "executes env [a] (bind_act m k)"
  unfolding executes_def
proof
  fix y :: system
  obtain r s where run: "m (sy_service y) = (r, s)" by fastforce
  show "thread_runs env [a] y (fst (bind_act m k (sy_service y)))
      (y\<lparr>sy_service := snd (bind_act m k (sy_service y))\<rparr>)"
  proof (cases r)
    case (Inl e)
    with run assms(1) have "atomic_step env a y = (Inl e, y\<lparr>sy_service := s\<rparr>)"
      by (simp add: bind_act_def on_service_def)
    from thread_runs.tr_raise [OF this] show ?thesis using run Inl by (simp add: bind_act_def)
  next
    case (Inr x)
    with run assms(1) have "atomic_step env a y = (Inr (f x), y\<lparr>sy_service := s\<rparr>)"
      by (simp add: bind_act_def on_service_def return_act_def)
    moreover have "thread_runs env (f x @ []) (y\<lparr>sy_service := s\<rparr>) (fst (k x s)) (y\<lparr>sy_service := snd (k x s)\<rparr>)"
      using assms(2) [of x, unfolded executes_def, THEN spec, of "y\<lparr>sy_service := s\<rparr>"] by simp
    ultimately show ?thesis using thread_runs.tr_step run Inr by (simp add: bind_act_def)
  qed
qed

lemma executes_append:
  assumes "executes env as m" "executes env bs k"
  shows "executes env (as @ bs) (then_act m k)"
  unfolding executes_def
proof
  fix y :: system
  obtain r s where run: "m (sy_service y) = (r, s)" by fastforce
  have first: "thread_runs env as y r (y\<lparr>sy_service := s\<rparr>)"
    using assms(1) [unfolded executes_def, THEN spec, of y] run by simp
  have second: "thread_runs env bs (y\<lparr>sy_service := s\<rparr>) (fst (k s)) (y\<lparr>sy_service := snd (k s)\<rparr>)"
    using assms(2) [unfolded executes_def, THEN spec, of "y\<lparr>sy_service := s\<rparr>"] by simp
  show "thread_runs env (as @ bs) y (fst (then_act m k (sy_service y)))
      (y\<lparr>sy_service := snd (then_act m k (sy_service y))\<rparr>)"
    using thread_runs_append [OF first, of bs] second run
    by (cases r) (simp_all add: then_act_def bind_act_def)
qed

lemma executes_act:
  assumes "atomic_step env a = then_act (on_service m) (return_act [])"
  shows "executes env [a] m"
proof -
  have "executes env [a] (bind_act m (\<lambda>x. return_act ()))"
    using assms by (intro executes_step [where f = "\<lambda>_. []"] executes_Nil) (simp_all add: then_act_def)
  moreover have "(\<lambda>x :: unit. return_act ()) = return_act" by (rule ext) simp
  ultimately show ?thesis by simp
qed

lemma executes_map:
  assumes "\<And>x. executes env [f x] (g x)"
  shows "executes env (map f xs) (fold_act (\<lambda>x _. g x) xs ())"
proof (induction xs)
  case Nil
  then show ?case by (simp add: executes_Nil)
next
  case (Cons x xs)
  have "fold_act (\<lambda>x _. g x) (x # xs) () = then_act (g x) (fold_act (\<lambda>x _. g x) xs ())"
    by (simp add: then_act_def)
  with executes_append [OF assms [of x] Cons] show ?case by simp
qed

lemma executes_log_source: "executes env [LogSource t d src] (log_source t d src)"
proof -
  have "executes env (map (LogIssue t d src) all_issues) (fold_act (\<lambda>issue _. log_issue t d src issue) all_issues ())"
    by (intro executes_map executes_act) simp
  from executes_step [of env "LogSource t d src" "log_degraded t d src", OF _ this]
  show ?thesis by (simp add: log_source_def log_degraded_def then_act_def)
qed

lemma executes_readiness: "executes env [Observe t] (log_readiness t)"
proof -
  let ?after = "\<lambda>reason previous. if reason = previous then return_act ()
      else then_act (log_ready t reason) (modify_act (\<lambda>s. s\<lparr>svc_previous_readiness := reason\<rparr>))"
  let ?both = "bind_act (get_act (\<lambda>s. readiness (rt_readiness t) (svc_status s))) (\<lambda>reason.
      bind_act (get_act svc_previous_readiness) (\<lambda>previous. return_act (reason, previous)))"
  have remember: "executes env [Remember reason] (modify_act (\<lambda>s. s\<lparr>svc_previous_readiness := reason\<rparr>))" for reason
    by (rule executes_act) simp
  have ready: "executes env [LogReady t reason] (log_ready t reason)" for reason
    by (rule executes_act) simp
  have "executes env (if reason = previous then [] else [LogReady t reason, Remember reason])
      (?after reason previous)" for reason previous
    using executes_append [OF ready remember] by (simp add: executes_Nil)
  then have "executes env (case x of (reason, previous) \<Rightarrow>
      if reason = previous then [] else [LogReady t reason, Remember reason])
      (case x of (reason, previous) \<Rightarrow> ?after reason previous)" for x
    by (cases x) simp
  moreover have "atomic_step env (Observe t) = bind_act (on_service ?both) (\<lambda>x. return_act (case x of
      (reason, previous) \<Rightarrow> if reason = previous then [] else [LogReady t reason, Remember reason]))"
    by (rule ext) (simp add: act_defs on_service_def)
  ultimately have "executes env [Observe t] (bind_act ?both (\<lambda>x. case x of (reason, previous) \<Rightarrow> ?after reason previous))"
    by (rule executes_step [rotated])
  moreover have "bind_act ?both (\<lambda>x. case x of (reason, previous) \<Rightarrow> ?after reason previous) = log_readiness t"
    by (simp add: log_readiness_def log_ready_def bind_assoc cong: if_cong)
  ultimately show ?thesis by simp
qed

lemma record_outcome_split:
  "record_outcome t c published
    = then_act (on_status (status_after t c published)) (log_outcome t c published)"
  by (cases published) (simp_all add: record_outcome_def status_after_def [abs_def] log_outcome_def Let_def)

lemma then_assoc: "then_act (then_act a b) c = then_act a (then_act b c)"
  by (simp add: then_act_def bind_assoc)

lemma executes_record:
  "executes env [Record t c published]
    (then_act (record_outcome t c published)
      (then_act (log_diagnostics t (case published of
           Some snapshot \<Rightarrow> col_sources (snap_collection snapshot) | None \<Rightarrow> col_sources c))
        (log_readiness t)))"
proof -
  let ?ds = "case published of Some snapshot \<Rightarrow> col_sources (snap_collection snapshot) | None \<Rightarrow> col_sources c"
  have "executes env (map (\<lambda>src. LogSource t (?ds src) src) all_sources) (log_diagnostics t ?ds)"
    unfolding log_diagnostics_def by (intro executes_map executes_log_source)
  from executes_append [OF this executes_readiness]
  have "executes env (reports t c published) (then_act (log_diagnostics t ?ds) (log_readiness t))"
    by (simp add: reports_def)
  moreover have "executes env [LogOutcome t c published] (log_outcome t c published)"
    by (rule executes_act) simp
  ultimately have "executes env (LogOutcome t c published # reports t c published)
      (then_act (log_outcome t c published) (then_act (log_diagnostics t ?ds) (log_readiness t)))"
    using executes_append by fastforce
  from executes_step [of env "Record t c published" "on_status (status_after t c published)", OF _ this]
  show ?thesis by (simp add: record_outcome_split then_act_def bind_assoc)
qed

lemma executes_refresh: "executes env (refresh_program t) (refresh env t)"
proof -
  let ?rest = "\<lambda>c published. then_act (record_outcome t c published)
      (then_act (log_diagnostics t (case published of
           Some snapshot \<Rightarrow> col_sources (snap_collection snapshot) | None \<Rightarrow> col_sources c))
        (log_readiness t))"
  let ?publish = "\<lambda>c. bind_act (get_act svc_options) (\<lambda>opts.
      on_store (publish_collection (opt_maximum_rendered_payload_bytes opts) c))"
  let ?collect = "bind_act (get_act svc_options) (\<lambda>opts. on_world (collect env (options_config opts)))"
  have "executes env [Publish t c] (bind_act (?publish c) (?rest c))" for c
    by (rule executes_step [OF _ executes_record], rule ext)
      (simp add: bind_act_def on_service_def get_act_def split: prod.splits)
  then have "executes env [Collect t] (bind_act ?collect (\<lambda>c. bind_act (?publish c) (?rest c)))"
    by (rule executes_step [rotated], intro ext)
      (simp add: bind_act_def on_service_def get_act_def split: prod.splits)
  moreover have "bind_act ?collect (\<lambda>c. bind_act (?publish c) (?rest c)) = refresh env t"
  proof (rule ext)
    fix s :: service
    obtain r w where run: "collect env (options_config (svc_options s)) (svc_world s) = (r, w)" by fastforce
    show "bind_act ?collect (\<lambda>c. bind_act (?publish c) (?rest c)) s = refresh env t s"
      using run by (cases r) (simp_all add: refresh_def bind_act_def get_act_def on_world_def)
  qed
  ultimately show ?thesis by (simp add: refresh_program_def)
qed


section \<open>What every interleaving keeps\<close>

definition generation_of :: "exporter_snapshot option \<Rightarrow> nat" where
  "generation_of snapshot = (case snapshot of None \<Rightarrow> 0 | Some p \<Rightarrow> snap_generation p)"

text \<open>A served document with the two things it was made of.\<close>

record view =
  vw_snapshot :: "exporter_snapshot option"
  vw_status :: runtime_status
  vw_time :: rat

definition view_text :: "view \<Rightarrow> pystr" where
  "view_text v = metrics_text (vw_time v) (vw_snapshot v) (vw_status v)"

definition view_ok :: "nat \<Rightarrow> view \<Rightarrow> bool" where
  "view_ok limit v \<longleftrightarrow> (\<forall>p. vw_snapshot v = Some p \<longrightarrow> snapshot_ok limit p)
     \<and> generation_of (vw_snapshot v) \<le> rs_generation (vw_status v) + 1"

text \<open>The data that is shared: the store, the generation in the status, the scrape and its past.\<close>

definition data_ok ::
    "nat \<Rightarrow> snapshot_store \<Rightarrow> nat \<Rightarrow> exporter_snapshot option option \<Rightarrow> pystr list \<Rightarrow> bool" where
  "data_ok limit store gen scrape documents \<longleftrightarrow>
     (\<forall>p. store = Some p \<longrightarrow> snapshot_ok limit p)
   \<and> (\<forall>q. scrape = Some q \<longrightarrow> generation_of q \<le> generation_of store \<and> (\<forall>p. q = Some p \<longrightarrow> snapshot_ok limit p))
   \<and> (\<exists>views. documents = map view_text views \<and> list_all (view_ok limit) views
        \<and> sorted (map (generation_of \<circ> vw_snapshot) views) \<and> sorted (map (rs_generation \<circ> vw_status) views)
        \<and> list_all (\<lambda>v. rs_generation (vw_status v) \<le> gen
            \<and> generation_of (vw_snapshot v) \<le> generation_of (case scrape of None \<Rightarrow> store | Some q \<Rightarrow> q)) views)"

lemma data_ok_mono:
  assumes "data_ok limit store gen scrape documents"
    and "generation_of store \<le> generation_of store'" "gen \<le> gen'"
    and "\<And>p. store' = Some p \<Longrightarrow> snapshot_ok limit p"
  shows "data_ok limit store' gen' scrape documents"
proof -
  from assms(1) obtain views where views: "documents = map view_text views" "list_all (view_ok limit) views"
    "sorted (map (generation_of \<circ> vw_snapshot) views)" "sorted (map (rs_generation \<circ> vw_status) views)"
    and bound: "list_all (\<lambda>v. rs_generation (vw_status v) \<le> gen
      \<and> generation_of (vw_snapshot v) \<le> generation_of (case scrape of None \<Rightarrow> store | Some q \<Rightarrow> q)) views"
    unfolding data_ok_def by blast
  have "list_all (\<lambda>v. rs_generation (vw_status v) \<le> gen'
      \<and> generation_of (vw_snapshot v) \<le> generation_of (case scrape of None \<Rightarrow> store' | Some q \<Rightarrow> q)) views"
    using bound assms(2,3) by (cases scrape) (auto simp: list_all_iff intro: order_trans)
  with views assms show ?thesis unfolding data_ok_def by (auto intro: order_trans)
qed

lemma data_ok_load:
  assumes "data_ok limit store gen None documents"
  shows "data_ok limit store gen (Some store) documents"
  using assms by (simp add: data_ok_def)

lemma data_ok_render:
  assumes "data_ok limit store (rs_generation st) (Some q) documents"
    and "generation_of store \<le> rs_generation st + 1"
  shows "data_ok limit store (rs_generation st) None (documents @ [metrics_text now q st])"
proof -
  from assms(1) obtain views where views: "documents = map view_text views" "list_all (view_ok limit) views"
    "sorted (map (generation_of \<circ> vw_snapshot) views)" "sorted (map (rs_generation \<circ> vw_status) views)"
    and bound: "list_all (\<lambda>v. rs_generation (vw_status v) \<le> rs_generation st
      \<and> generation_of (vw_snapshot v) \<le> generation_of q) views"
    unfolding data_ok_def by auto
  have q: "generation_of q \<le> generation_of store" "\<And>p. q = Some p \<Longrightarrow> snapshot_ok limit p"
    "\<And>p. store = Some p \<Longrightarrow> snapshot_ok limit p"
    using assms(1) by (simp_all add: data_ok_def)
  define v where "v = \<lparr>vw_snapshot = q, vw_status = st, vw_time = now\<rparr>"
  have "view_ok limit v" using q assms(2) by (simp add: view_ok_def v_def)
  moreover have "documents @ [metrics_text now q st] = map view_text (views @ [v])"
    using views(1) by (simp add: view_text_def v_def)
  moreover have "sorted (map (generation_of \<circ> vw_snapshot) (views @ [v]))"
    "sorted (map (rs_generation \<circ> vw_status) (views @ [v]))"
    using views(3,4) bound by (auto simp: sorted_append list_all_iff v_def)
  moreover have "list_all (\<lambda>v. rs_generation (vw_status v) \<le> rs_generation st
      \<and> generation_of (vw_snapshot v) \<le> generation_of store) (views @ [v])"
    using bound q(1) by (auto simp: list_all_iff v_def)
  ultimately show ?thesis
    using views(2) q(3) unfolding data_ok_def by (intro conjI exI [of _ "views @ [v]"]) auto
qed

text \<open>Actions that change neither the store nor the generation, and lead only to such actions.\<close>

fun quiet :: "atomic \<Rightarrow> bool" where
  "quiet (Collect t) = False"
| "quiet (Publish t c) = False"
| "quiet (Record t c published) = False"
| "quiet (IfRunning actions) = list_all quiet actions"
| "quiet _ = True"

fun quiet_thread :: "thread \<Rightarrow> bool" where
  "quiet_thread (Busy actions) = list_all quiet actions"
| "quiet_thread _ = True"

definition serves_same :: "service \<Rightarrow> service \<Rightarrow> bool" where
  "serves_same s s' \<longleftrightarrow> svc_store s' = svc_store s \<and> svc_options s' = svc_options s
     \<and> rs_generation (svc_status s') = rs_generation (svc_status s)"

text \<open>What one action may change of the system: the service and the server.\<close>

definition same_threads :: "system \<Rightarrow> system \<Rightarrow> bool" where
  "same_threads y y' \<longleftrightarrow> sy_poller y' = sy_poller y \<and> sy_coordinator y' = sy_coordinator y
     \<and> sy_main y' = sy_main y \<and> sy_scrape y' = sy_scrape y \<and> sy_documents y' = sy_documents y"

definition quiet_change :: "system \<Rightarrow> system \<Rightarrow> bool" where
  "quiet_change y y' \<longleftrightarrow> serves_same (sy_service y) (sy_service y')"

interpretation ss: frame_relation serves_same
  by unfold_locales (auto simp: serves_same_def)

interpretation sth: frame_relation same_threads
  by unfold_locales (auto simp: same_threads_def)

interpretation qc: frame_relation quiet_change
  by unfold_locales (auto simp: quiet_change_def serves_same_def)

lemma same_threads_atomic: "keeps same_threads (atomic_step env a)"
proof -
  have service: "keeps same_threads (on_service m)" for m :: "(service, 'a) act"
    by (simp add: keeps_def on_service_def same_threads_def split: prod.splits)
  show ?thesis
    by (cases a) (auto intro!: sth.keeps_combinators sth.keeps_modify service simp: same_threads_def)
qed

lemma serves_same_logger: "keeps only_logger m \<Longrightarrow> keeps serves_same m"
proof (rule keepsI)
  fix s
  assume "keeps only_logger m"
  then have "only_logger s (snd (m s))" by (simp add: keeps_def)
  then obtain lg where "snd (m s) = s\<lparr>svc_logger := lg\<rparr>" unfolding only_logger_def by blast
  then show "serves_same s (snd (m s))" by (simp add: serves_same_def)
qed

lemma quiet_on_service: "keeps serves_same m \<Longrightarrow> keeps quiet_change (on_service m)"
  by (auto simp: keeps_def on_service_def quiet_change_def split: prod.splits) (metis snd_conv)

lemmas quiet_log = quiet_on_service [OF serves_same_logger]

lemma quiet_service_logs:
  "keeps only_logger (log_outcome t c published)" "keeps only_logger (log_degraded t d src)"
  "keeps only_logger (log_issue t d src issue)" "keeps only_logger (log_ready t reason)"
  unfolding log_outcome_def log_degraded_def log_issue_def log_ready_def
  by (simp_all add: keeps_service_log ol.keeps_return split: option.split)

lemma quiet_modify:
  "(\<And>s. serves_same s (f s)) \<Longrightarrow> keeps quiet_change (on_service (modify_act f))"
  by (intro quiet_on_service ss.keeps_modify)

lemma quiet_get: "keeps quiet_change (on_service (get_act f))"
  by (intro quiet_on_service ss.keeps_get)

lemma quiet_keeps: "quiet a \<Longrightarrow> keeps quiet_change (atomic_step env a)"
  by (cases a) (auto intro!: qc.keeps_combinators qc.keeps_modify quiet_log quiet_service_logs quiet_modify
      quiet_get keeps_service_log keeps_on_logger
      simp: on_status_def serves_same_def quiet_change_def begin_shutdown_def request_shutdown_def)

lemma quiet_returns: "quiet a \<Longrightarrow> returns (atomic_step env a) (list_all quiet)"
  by (cases a) (auto intro!: returns_rules simp: list_all_iff)

lemma quiet_step:
  assumes "quiet a" "atomic_step env a y = (r, y')"
  shows "serves_same (sy_service y) (sy_service y')" "r = Inr bs \<Longrightarrow> list_all quiet bs"
  using keepsD [OF quiet_keeps [OF assms(1)] assms(2)] quiet_returns [OF assms(1)] assms(2)
  by (auto simp: quiet_change_def dest: returnsD)

section \<open>The poller between its actions\<close>

text \<open>Between publication and record the status is one publication behind.\<close>

definition poller_ok :: "thread \<Rightarrow> snapshot_store \<Rightarrow> nat \<Rightarrow> bool" where
  "poller_ok th store gen \<longleftrightarrow>
     (\<exists>t c p. th = Busy [Record t c (Some p)] \<and> store = Some p \<and> gen + 1 = snap_generation p)
   \<or> gen = generation_of store \<and> (quiet_thread th \<or> (\<exists>t. th = Busy [Collect t])
        \<or> (\<exists>t c. th = Busy [Publish t c]) \<or> (\<exists>t c. th = Busy [Record t c None]))"

lemma poller_ok_lag: "poller_ok th store gen \<Longrightarrow> gen \<le> generation_of store \<and> generation_of store \<le> gen + 1"
  by (auto simp: poller_ok_def generation_of_def)

lemma quiet_advance:
  assumes "list_all quiet actions" "\<And>bs. r = Inr bs \<Longrightarrow> list_all quiet bs" "quiet_thread finished"
  shows "quiet_thread (advance finished actions r)"
  using assms by (auto simp: advance_def split: sum.split)

lemma all_quiet: "list_all quiet (LogOutcome t c published # reports t c published)"
  by (simp add: reports_def list_all_iff)

text \<open>One action of the poller.\<close>

lemma collect_step:
  assumes "atomic_step env (Collect t) y = (r, y')"
  shows "serves_same (sy_service y) (sy_service y')" "r = Inr bs \<Longrightarrow> \<exists>c. bs = [Publish t c]"
proof -
  obtain q w where "collect env (options_config (svc_options (sy_service y))) (svc_world (sy_service y)) = (q, w)"
    by fastforce
  then have "y' = y\<lparr>sy_service := (sy_service y)\<lparr>svc_world := w\<rparr>\<rparr>
      \<and> (r = Inr bs \<longrightarrow> (\<exists>c. bs = [Publish t c]))"
    using assms by (cases q) (auto simp: bind_act_def on_service_def get_act_def on_world_def return_act_def)
  then show "serves_same (sy_service y) (sy_service y')" "r = Inr bs \<Longrightarrow> \<exists>c. bs = [Publish t c]"
    by (simp_all add: serves_same_def)
qed

lemma publish_step:
  assumes "atomic_step env (Publish t c) y = (r, y')"
    and "publish_collection (opt_maximum_rendered_payload_bytes (svc_options (sy_service y))) c
      (svc_store (sy_service y)) = (published, store)"
  shows "r = Inr [Record t c published]" "y' = y\<lparr>sy_service := (sy_service y)\<lparr>svc_store := store\<rparr>\<rparr>"
  using assms by (simp_all add: bind_act_def on_service_def get_act_def on_store_def return_act_def)

lemma record_step:
  assumes "atomic_step env (Record t c published) y = (r, y')"
  shows "r = Inr (LogOutcome t c published # reports t c published)"
    "y' = y\<lparr>sy_service := (sy_service y)\<lparr>svc_status :=
       status_after t c published (svc_status (sy_service y))\<rparr>\<rparr>"
  using assms
  by (simp_all add: then_act_def bind_act_def on_service_def on_status_def modify_act_def return_act_def)

definition system_ok :: "system \<Rightarrow> bool" where
  "system_ok y \<longleftrightarrow> (let s = sy_service y; gen = rs_generation (svc_status s) in
     data_ok (opt_maximum_rendered_payload_bytes (svc_options s)) (svc_store s) gen (sy_scrape y) (sy_documents y)
   \<and> poller_ok (sy_poller y) (svc_store s) gen
   \<and> quiet_thread (sy_coordinator y) \<and> quiet_thread (sy_main y))"

lemma system_ok_same:
  assumes "system_ok y" "serves_same (sy_service y) (sy_service y')" "same_threads y y'"
  shows "system_ok y'"
  using assms by (simp add: system_ok_def serves_same_def same_threads_def Let_def)

lemma system_ok_poller:
  assumes ok: "system_ok y" and poller: "sy_poller y = Busy (a # actions)"
    and step: "atomic_step env a y = (r, y')"
  shows "system_ok (y'\<lparr>sy_poller := advance Waiting actions r\<rparr>)"
proof -
  let ?s = "sy_service y" and ?g = "rs_generation (svc_status (sy_service y))"
  let ?limit = "opt_maximum_rendered_payload_bytes (svc_options ?s)"
  have data: "data_ok ?limit (svc_store ?s) ?g (sy_scrape y) (sy_documents y)"
    and pok: "poller_ok (Busy (a # actions)) (svc_store ?s) ?g"
    and rest: "quiet_thread (sy_coordinator y)" "quiet_thread (sy_main y)"
    using ok poller by (simp_all add: system_ok_def Let_def)
  have same: "same_threads y y'" using keepsD [OF same_threads_atomic step] .
  from pok consider
      (quiet) "list_all quiet (a # actions)" "?g = generation_of (svc_store ?s)"
    | (collect) t where "a = Collect t" "actions = []" "?g = generation_of (svc_store ?s)"
    | (publish) t c where "a = Publish t c" "actions = []" "?g = generation_of (svc_store ?s)"
    | (kept) t c where "a = Record t c None" "actions = []" "?g = generation_of (svc_store ?s)"
    | (published) t c p where "a = Record t c (Some p)" "actions = []" "svc_store ?s = Some p"
        "?g + 1 = snap_generation p"
    by (auto simp: poller_ok_def)
  then show ?thesis
  proof cases
    case quiet
    then have "quiet_thread (advance Waiting actions r)"
      using quiet_step(2) [OF _ step] by (intro quiet_advance) auto
    moreover have "serves_same ?s (sy_service y')" using quiet quiet_step(1) [OF _ step] by simp
    ultimately show ?thesis
      using data rest same quiet(2) by (simp add: system_ok_def Let_def serves_same_def same_threads_def poller_ok_def)
  next
    case collect
    then have "serves_same ?s (sy_service y')" "\<And>bs. r = Inr bs \<Longrightarrow> \<exists>c. bs = [Publish t c]"
      using collect_step step by auto
    moreover from this(2) have "(\<exists>t c. advance Waiting actions r = Busy [Publish t c]) \<or> quiet_thread (advance Waiting actions r)"
      using collect(2) by (cases r) (auto simp: advance_def)
    ultimately show ?thesis
      using data rest same collect(3)
      by (auto simp: system_ok_def Let_def serves_same_def same_threads_def poller_ok_def)
  next
    case publish
    obtain published store where run: "publish_collection ?limit c (svc_store ?s) = (published, store)" by fastforce
    note after = publish_step [OF step [unfolded publish(1)] run]
    show ?thesis
    proof (cases "publishable ?limit c")
      case True
      let ?p = "snapshot_of (next_generation (svc_store ?s)) c"
      have p: "published = Some ?p" "store = Some ?p" using run publish_yes [OF True, of "svc_store ?s"] by auto
      have succ: "snap_generation ?p = generation_of (svc_store ?s) + 1"
        by (simp add: snapshot_of_def next_generation_def generation_of_def split: option.split)
      then have "snapshot_ok ?limit ?p" using True by (simp add: snapshot_ok_def snapshot_of_def)
      then have "data_ok ?limit (Some ?p) ?g (sy_scrape y) (sy_documents y)"
        using succ by (intro data_ok_mono [OF data]) (simp_all add: generation_of_def)
      then show ?thesis
        using after p succ rest publish by (simp add: system_ok_def Let_def advance_def poller_ok_def)
    next
      case False
      then have "published = None" "store = svc_store ?s" using run publish_no [OF False, of "svc_store ?s"] by auto
      then show ?thesis
        using after rest publish data by (simp add: system_ok_def Let_def advance_def poller_ok_def)
    qed
  next
    case kept
    note after = record_step [OF step [unfolded kept(1)]]
    have "rs_generation (status_after t c None (svc_status ?s)) = ?g"
      by (simp add: status_after_def record_collection_def Let_def)
    then show ?thesis
      using after rest kept data all_quiet [of t c None]
      by (simp add: system_ok_def Let_def advance_def poller_ok_def)
  next
    case published
    note after = record_step [OF step [unfolded published(1)]]
    have "snapshot_ok ?limit p" using data published(3) by (simp add: data_ok_def)
    then have gen: "rs_generation (status_after t c (Some p) (svc_status ?s)) = snap_generation p"
      by (simp add: status_after_def record_collection_def Let_def snapshot_ok_def publishable_def)
    have "data_ok ?limit (svc_store ?s) (snap_generation p) (sy_scrape y) (sy_documents y)"
      using data published by (intro data_ok_mono [OF data]) (simp_all add: data_ok_def)
    then show ?thesis
      using after rest published gen all_quiet [of t c "Some p"]
      by (simp add: system_ok_def Let_def advance_def poller_ok_def generation_of_def)
  qed
qed

section \<open>Every interleaving\<close>

lemma quiet_programs: "list_all quiet (coordinator_program wall)" "list_all quiet (main_program t wall)"
  by (simp_all add: coordinator_program_def main_program_def shutdown_program_def)

lemma quiet_thread_step:
  assumes "quiet_thread (Busy (a # actions))" "atomic_step env a y = (r, y')"
  shows "serves_same (sy_service y) (sy_service y')" "same_threads y y'"
    "quiet_thread (advance Ended actions r)"
proof -
  have quiet: "quiet a" "list_all quiet actions" using assms(1) by simp_all
  show "serves_same (sy_service y) (sy_service y')" by (rule quiet_step(1) [OF quiet(1) assms(2)])
  show "same_threads y y'" by (rule keepsD [OF same_threads_atomic assms(2)])
  show "quiet_thread (advance Ended actions r)"
    using quiet(2) quiet_step(2) [OF quiet(1) assms(2)] by (intro quiet_advance) auto
qed

text \<open>One action of the coordinator or of the main thread.\<close>

lemma system_ok_quiet:
  assumes ok: "system_ok y" and quiet: "quiet_thread (Busy (a # actions))"
    and step: "atomic_step env a y = (r, y')"
  shows "system_ok (y'\<lparr>sy_coordinator := advance Ended actions r\<rparr>)"
    "system_ok (y'\<lparr>sy_main := advance Ended actions r\<rparr>)"
proof -
  note after = quiet_thread_step [OF quiet step]
  from system_ok_same [OF ok after(1,2)] after(3)
  show "system_ok (y'\<lparr>sy_coordinator := advance Ended actions r\<rparr>)"
    "system_ok (y'\<lparr>sy_main := advance Ended actions r\<rparr>)"
    by (simp_all add: system_ok_def Let_def)
qed

lemma system_ok_threads: "system_ok y \<Longrightarrow> quiet_thread (sy_coordinator y) \<and> quiet_thread (sy_main y)"
  by (simp add: system_ok_def Let_def)

lemma interleaved_ok:
  assumes "interleaved env start y" "system_ok start"
  shows "system_ok y"
  using assms
proof (induction rule: interleaved.induct)
  case (il_poll y t)
  then show ?case by (auto simp: system_ok_def Let_def poller_ok_def refresh_program_def)
next
  case (il_poll_end y)
  then show ?case by (auto simp: system_ok_def Let_def poller_ok_def)
next
  case (il_poller y a actions r y')
  then show ?case by (intro system_ok_poller) auto
next
  case (il_wake y wall)
  then show ?case by (simp add: system_ok_def Let_def quiet_programs)
next
  case (il_coordinator y a actions r y')
  then show ?case using system_ok_threads [of y] by (intro system_ok_quiet(1)) auto
next
  case (il_main y a actions r y')
  then show ?case using system_ok_threads [of y] by (intro system_ok_quiet(2)) auto
next
  case (il_load y)
  then show ?case using data_ok_load by (simp add: system_ok_def Let_def serving_def store_load_def)
next
  case (il_render y snapshot now)
  then show ?case
    using data_ok_render poller_ok_lag by (auto simp: system_ok_def Let_def)
qed (simp_all add: system_ok_def Let_def request_shutdown_def http_event_keeps)

lemma system_ok_new:
  assumes "service_ok s"
  shows "system_ok (new_system s t wall)"
  using assms
  by (auto simp: system_ok_def new_system_def service_ok_def data_ok_def poller_ok_def generation_of_def
      quiet_programs Let_def split: option.splits)


section \<open>A scrape and a shutdown\<close>

lemmas step_defs = bind_act_def then_act_def on_service_def get_act_def modify_act_def return_act_def
  on_status_def

lemma log_shutdown_step:
  obtains lg where
    "atomic_step env (LogShutdown wall) y = (Inr [], y\<lparr>sy_service := (sy_service y)\<lparr>svc_logger := lg\<rparr>\<rparr>)"
proof -
  let ?m = "on_logger (log wall INFO (u ''exporter.shutdown_started'') (u ''exporter shutdown started'') [])"
  have "raises_only {} ?m" by (intro raises_on_logger raises_log) simp_all
  from logger_run [OF keeps_on_logger this, of "sy_service y"]
  obtain lg where "?m (sy_service y) = (Inr (), (sy_service y)\<lparr>svc_logger := lg\<rparr>)" by auto
  then show thesis by (intro that [of lg]) (simp add: step_defs)
qed

lemma log_listen_step:
  assumes "list_all is_scalar (opt_listen_address (svc_options (sy_service y)))"
  obtains lg where
    "atomic_step env (LogListen t) y = (Inr [], y\<lparr>sy_service := (sy_service y)\<lparr>svc_logger := lg\<rparr>\<rparr>)"
proof -
  let ?m = "service_log t INFO ''http.listen_started'' ''HTTP listener started''
      [(u ''address'', opt_listen_address (svc_options (sy_service y))),
       (u ''port'', str_int (opt_port (svc_options (sy_service y))))]"
  have "raises_only {} ?m" using assms by (intro raises_service_log) simp
  from logger_run [OF keeps_service_log(1) this, of "sy_service y"]
  obtain lg where "?m (sy_service y) = (Inr (), (sy_service y)\<lparr>svc_logger := lg\<rparr>)" by auto
  then show thesis by (intro that [of lg]) (simp add: step_defs)
qed

text \<open>Every program but its first action has its turn.\<close>

lemma main_step:
  assumes "interleaved env start y" "sy_main y = Busy (a # actions)" "sy_scrape y = None"
    and "atomic_step env a y = (Inr following, y')" "following @ actions \<noteq> []"
  shows "interleaved env start (y'\<lparr>sy_main := Busy (following @ actions)\<rparr>)"
  using il_main [OF assms(1-4)] assms(5) by (auto simp: advance_def)

lemma coordinator_step:
  assumes "interleaved env start y" "sy_coordinator y = Busy (a # actions)"
    and "atomic_step env a y = (Inr following, y')"
  shows "interleaved env start (y'\<lparr>sy_coordinator :=
    if following @ actions = [] then Ended else Busy (following @ actions)\<rparr>)"
  using il_coordinator [OF assms] by (simp add: advance_def)

text \<open>The main thread, once it has found the exporter running, comes to serve.\<close>

definition past_check :: "system \<Rightarrow> refresh_times \<Rightarrow> rat \<Rightarrow> bool" where
  "past_check y t wall \<longleftrightarrow> sy_scrape y = None
     \<and> sy_main y = Busy ([CreateServer, LogListen t, RunServer t] @ shutdown_program wall)"

lemma main_checks:
  assumes "svc_running s"
  shows "interleaved env (new_system s t wall) ((new_system s t wall)\<lparr>sy_main :=
    Busy ([CreateServer, LogListen t, RunServer t] @ shutdown_program wall)\<rparr>)"
proof -
  let ?y = "new_system s t wall"
  have "atomic_step env (IfRunning [CreateServer, LogListen t, RunServer t]) ?y
      = (Inr [CreateServer, LogListen t, RunServer t], ?y)"
    using assms by (simp add: step_defs new_system_def)
  from main_step [OF il_start _ _ this] show ?thesis
    by (simp add: new_system_def main_program_def)
qed

lemma main_serves:
  assumes "interleaved env start y" "past_check y t wall"
    and "list_all is_scalar (opt_listen_address (svc_options (sy_service y)))"
  obtains lg where "interleaved env start (y\<lparr>sy_server := Some False,
    sy_service := (sy_service y)\<lparr>svc_logger := lg\<rparr>, sy_main := Busy (RunServer t # shutdown_program wall)\<rparr>)"
proof -
  have create: "atomic_step env CreateServer y = (Inr [], y\<lparr>sy_server := Some False\<rparr>)"
    by (simp add: step_defs)
  let ?y1 = "y\<lparr>sy_server := Some False, sy_main := Busy ([LogListen t, RunServer t] @ shutdown_program wall)\<rparr>"
  have one: "interleaved env start ?y1"
    using main_step [OF assms(1) _ _ create, of "[LogListen t, RunServer t] @ shutdown_program wall"] assms(2)
    by (simp add: past_check_def)
  obtain lg where "atomic_step env (LogListen t) ?y1
      = (Inr [], ?y1\<lparr>sy_service := (sy_service ?y1)\<lparr>svc_logger := lg\<rparr>\<rparr>)"
    using assms(3) by (elim log_listen_step [of ?y1, rotated]) simp_all
  from main_step [OF one _ _ this] assms(2) show thesis
    by (intro that [of lg]) (simp add: past_check_def)
qed

text \<open>The coordinator, woken while the exporter runs, shuts it down.\<close>

lemma coordinator_shuts_down:
  assumes "interleaved env start y" "sy_coordinator y = Waiting"
    and "svc_shutdown_requested (sy_service y)" "svc_running (sy_service y)"
  obtains lg where "interleaved env start (y\<lparr>sy_server := stop_server (sy_server y),
    sy_service := (sy_service y)\<lparr>svc_logger := lg, svc_status := begin_shutdown (svc_status (sy_service y)),
      svc_running := False, svc_shutdown_requested := True, svc_server_stopped := True\<rparr>,
    sy_coordinator := Ended\<rparr>)"
proof -
  let ?actions = "[LogShutdown wall, Mark, Clear, Request, Stop]"
  note wake = il_wake [OF assms(1,2,3), of wall]
  have check: "atomic_step env (IfRunning next_actions) v = (Inr next_actions, v)"
    if "svc_running (sy_service v)" for next_actions v
    using that by (simp add: step_defs)
  have 1: "interleaved env start (y\<lparr>sy_coordinator := Busy (shutdown_program wall)\<rparr>)"
    using coordinator_step [OF wake _ check, of _ "[]"] assms(4)
    by (simp add: coordinator_program_def shutdown_program_def)
  have 2: "interleaved env start (y\<lparr>sy_coordinator := Busy ?actions\<rparr>)"
    using coordinator_step [OF 1 _ check, of _ "[]"] assms(4) by (simp add: shutdown_program_def)
  obtain lg where "atomic_step env (LogShutdown wall) (y\<lparr>sy_coordinator := Busy ?actions\<rparr>)
      = (Inr [], y\<lparr>sy_coordinator := Busy ?actions, sy_service := (sy_service y)\<lparr>svc_logger := lg\<rparr>\<rparr>)"
    by (rule log_shutdown_step [of env wall "y\<lparr>sy_coordinator := Busy ?actions\<rparr>"]) simp
  from coordinator_step [OF 2 _ this]
  have 3: "interleaved env start (y\<lparr>sy_service := (sy_service y)\<lparr>svc_logger := lg\<rparr>,
      sy_coordinator := Busy [Mark, Clear, Request, Stop]\<rparr>)" by simp
  have 4: "interleaved env start (y\<lparr>sy_service := (sy_service y)\<lparr>svc_logger := lg,
      svc_status := begin_shutdown (svc_status (sy_service y))\<rparr>, sy_coordinator := Busy [Clear, Request, Stop]\<rparr>)"
    using coordinator_step [OF 3, where a = Mark and actions = "[Clear, Request, Stop]" and following = "[]"] by (simp add: step_defs)
  have 5: "interleaved env start (y\<lparr>sy_service := (sy_service y)\<lparr>svc_logger := lg,
      svc_status := begin_shutdown (svc_status (sy_service y)), svc_running := False\<rparr>,
      sy_coordinator := Busy [Request, Stop]\<rparr>)"
    using coordinator_step [OF 4, where a = Clear and actions = "[Request, Stop]" and following = "[]"] by (simp add: step_defs)
  have 6: "interleaved env start (y\<lparr>sy_service := (sy_service y)\<lparr>svc_logger := lg,
      svc_status := begin_shutdown (svc_status (sy_service y)), svc_running := False,
      svc_shutdown_requested := True\<rparr>, sy_coordinator := Busy [Stop]\<rparr>)"
    using coordinator_step [OF 5, where a = Request and actions = "[Stop]" and following = "[]"] by (simp add: step_defs request_shutdown_def)
  show thesis
    using coordinator_step [OF 6, where a = Stop and actions = "[]" and following = "[]"] by (intro that [of lg]) (simp add: step_defs)
qed

text \<open>
  C40: A shutdown that arrives while the main thread is between its check of \<open>running\<close> and the creation
  of the server is lost: the coordinator completes it, with no server to stop, and the poller
  ends, but the main thread goes on to create the server and runs it, with \<open>should_exit\<close> never set.
\<close>

theorem stop_lost:
  assumes "svc_running s" and "list_all is_scalar (opt_listen_address (svc_options s))"
  shows "\<exists>y. interleaved env (new_system s t wall) y
    \<and> \<not> svc_running (sy_service y) \<and> svc_server_stopped (sy_service y)
    \<and> rs_shutting_down (svc_status (sy_service y))
    \<and> sy_coordinator y = Ended \<and> sy_poller y = Ended
    \<and> sy_main y = Busy (RunServer t # shutdown_program wall) \<and> sy_server y = Some False"
proof -
  let ?start = "new_system s t wall"
  let ?y = "?start\<lparr>sy_main := Busy ([CreateServer, LogListen t, RunServer t] @ shutdown_program wall)\<rparr>"
  let ?z = "?y\<lparr>sy_service := request_shutdown (sy_service ?y)\<rparr>"
  have signal: "interleaved env ?start ?z" using il_signal [OF main_checks [OF assms(1)]] .
  obtain lg where "interleaved env ?start (?z\<lparr>sy_server := stop_server (sy_server ?z),
      sy_service := (sy_service ?z)\<lparr>svc_logger := lg, svc_status := begin_shutdown (svc_status (sy_service ?z)),
        svc_running := False, svc_shutdown_requested := True, svc_server_stopped := True\<rparr>,
      sy_coordinator := Ended\<rparr>)" (is "interleaved _ _ ?v")
    by (rule coordinator_shuts_down [OF signal])
      (use assms(1) in \<open>simp_all add: new_system_def request_shutdown_def\<close>)
  then have ended: "interleaved env ?start (?v\<lparr>sy_poller := Ended\<rparr>)"
    by (rule il_poll_end) (simp_all add: new_system_def)
  obtain lg' where "interleaved env ?start (?v\<lparr>sy_poller := Ended, sy_server := Some False,
      sy_service := (sy_service ?v)\<lparr>svc_logger := lg'\<rparr>, sy_main := Busy (RunServer t # shutdown_program wall)\<rparr>)"
    by (rule main_serves [OF ended])
      (use assms(2) in \<open>simp_all add: past_check_def new_system_def request_shutdown_def\<close>)
  then show ?thesis
    by (intro exI conjI) (assumption, simp_all add: new_system_def begin_shutdown_def)
qed

lemma refresh_keeps_running:
  assumes "refresh env t s = (r, s')"
  shows "svc_running s' = svc_running s \<and> svc_options s' = svc_options s"
  using assms by (cases rule: refresh_cases [where s = s and env = env and t = t]) auto

lemma stop_lost_witness:
  "\<exists>y. interleaved denied_env (new_system
      (new_service [] [] new_options (new_logger (u ''text'') INFO) 0 initial_world) zero_times 0) y
    \<and> \<not> svc_running (sy_service y) \<and> sy_coordinator y = Ended \<and> sy_server y = Some False"
proof -
  let ?s = "new_service [] [] new_options (new_logger (u ''text'') INFO) 0 initial_world"
  have "svc_running ?s" "list_all is_scalar (opt_listen_address (svc_options ?s))"
    by (simp_all add: new_service_def new_options_def)
  from stop_lost [OF this, of denied_env zero_times 0] show ?thesis by blast
qed

text \<open>A scrape of a service that has published.\<close>

lemma served_once:
  assumes "svc_running s" "list_all is_scalar (opt_listen_address (svc_options s))"
  obtains y where "interleaved env (new_system s t wall) y"
    "sy_documents y = [metrics_text now (svc_store s) (svc_status s)]"
proof -
  let ?y = "(new_system s t wall)\<lparr>sy_main := Busy ([CreateServer, LogListen t, RunServer t] @ shutdown_program wall)\<rparr>"
  obtain lg where run: "interleaved env (new_system s t wall) (?y\<lparr>sy_server := Some False,
      sy_service := (sy_service ?y)\<lparr>svc_logger := lg\<rparr>, sy_main := Busy (RunServer t # shutdown_program wall)\<rparr>)"
    by (rule main_serves [OF main_checks [OF assms(1)]])
      (use assms(2) in \<open>simp_all add: past_check_def new_system_def\<close>)
  let ?v = "?y\<lparr>sy_server := Some False,
      sy_service := (sy_service ?y)\<lparr>svc_logger := lg\<rparr>, sy_main := Busy (RunServer t # shutdown_program wall)\<rparr>"
  have "serving ?v" by (simp add: serving_def new_system_def)
  from il_render [OF il_load [OF run this]] show thesis
    by (rule that) (simp_all add: new_system_def store_load_def)
qed


end
