(* ===== verification/PollerFacts.thy ===== *)
theory PollerFacts
  imports ServiceFacts
begin

text \<open>
  What happens to the service when a refresh raises, how the recursive poller and the steps of
  the service agree, and which options can start the service at all.
\<close>

section \<open>After the poller\<close>

text \<open>Steps that do not belong to the poller keep the store and the time of the last success.\<close>

inductive others :: "service \<Rightarrow> service \<Rightarrow> bool" for start where
  others_start: "others start start"
| others_signal: "others start s \<Longrightarrow> others start (request_shutdown s)"
| others_shutdown: "others start s \<Longrightarrow> others start (snd (shutdown wall s))"
| others_http: "others start s \<Longrightarrow> http_event e \<Longrightarrow>
    others start (s\<lparr>svc_status := apply_event e (svc_status s)\<rparr>)"

lemma others_keep:
  "others start s \<Longrightarrow> svc_store s = svc_store start
     \<and> rs_last_success (svc_status s) = rs_last_success (svc_status start)
     \<and> rs_max_snapshot_age (svc_status s) = rs_max_snapshot_age (svc_status start)"
proof (induction rule: others.induct)
  case (others_shutdown s wall)
  then show ?case by (auto intro: shutdown_run [of wall s] simp: begin_shutdown_def)
next
  case (others_http s e)
  then show ?case by (simp add: http_event_keeps apply_event_options)
qed (simp_all add: request_shutdown_def)

lemma refresh_raises:
  assumes "fst (refresh env t s) = Inl e"
  obtains w where "collect env (options_config (svc_options s)) (svc_world s) = (Inl e, w)"
    "refresh env t s = (Inl e, s\<lparr>svc_world := w\<rparr>)"
  by (rule refresh_cases [where s = s and env = env and t = t]) (use assms that in auto)

lemma readiness_age:
  "readiness now st = READY \<Longrightarrow>
    \<exists>success. rs_last_success st = Some success \<and> float_sub now success \<le> rs_max_snapshot_age st"
  by (auto simp: readiness_def not_less split: if_splits option.splits)


definition long_clock_service :: service where
  "long_clock_service = new_service [] [] (new_options\<lparr>opt_sysfs_root := u ''/x''\<rparr>)
     (new_logger (u ''text'') INFO) 0 initial_world"


section \<open>The recursive poller\<close>

text \<open>
  Every state the loop of the poller ends in, after any number of refreshes, is reachable by
  the steps of the service: with the poller dead when the loop raised. The raised exception is
  that of a collection.
\<close>

theorem poll_runs:
  assumes "runs env start s True" "poll env ts s = (r, s')"
  shows "runs env start s' (case r of Inl _ \<Rightarrow> False | Inr _ \<Rightarrow> True)
    \<and> (case r of Inl e \<Rightarrow> e \<in> {ValueError, DecimalOverflow} | Inr _ \<Rightarrow> True)"
  using assms
proof (induction ts arbitrary: s)
  case Nil
  then show ?case by (auto simp: return_act_def)
next
  case (Cons t ts)
  show ?case
  proof (cases "svc_shutdown_requested s")
    case True
    with Cons.prems show ?thesis by (auto simp: act_defs)
  next
    case False
    obtain q v where refresh: "refresh env t s = (q, v)" by fastforce
    show ?thesis
    proof (cases q)
      case (Inl e)
      with refresh have "fst (refresh env t s) = Inl e" by simp
      then have "e \<in> {ValueError, DecimalOverflow}"
        using collect_errors by (metis refresh_raises fst_conv)
      moreover from Cons.prems(1) False have "runs env start v False"
        by (rule runs_crash) (use refresh Inl in simp)
      ultimately show ?thesis
        using Cons.prems(2) refresh Inl False by (auto simp: act_defs)
    next
      case (Inr x)
      with Cons.prems False refresh have "runs env start v True"
        by (intro runs_refresh [OF Cons.prems(1) False, of t]) simp
      moreover have "poll env ts v = (r, s')"
        using Cons.prems(2) refresh Inr False by (simp add: act_defs)
      ultimately show ?thesis by (rule Cons.IH)
    qed
  qed
qed

lemma poll_runs_witness:
  "runs empty_root_env empty_root_service (snd (poll empty_root_env [] empty_root_service)) True"
  using poll_runs [OF runs_start, of empty_root_env "[]" empty_root_service "Inr ()" empty_root_service]
  by (simp add: return_act_def)

section \<open>Starting the service\<close>

text \<open>
  Whatever the command line, the service is never started with a snapshot age limit that is
  not above the poll interval: two ways of running the service that agree on all other options
  cannot be told apart through the command.
\<close>

theorem main_checks_ages:
  assumes "\<And>opts. opt_poll_interval opts < opt_max_snapshot_age opts \<Longrightarrow> run opts = run' opts"
  shows "main click_parse env run version_text w arguments
    = main click_parse env run' version_text w arguments"
  using assms by (auto simp: main_def parse_args_def not_le split: sum.splits prod.splits option.splits)

lemma main_checks_ages_witness:
  "main (\<lambda>_. Inr (new_options\<lparr>opt_poll_interval := 15\<rparr>)) denied_env (\<lambda>_. Inl RuntimeError) [] initial_world []
     = main (\<lambda>_. Inr (new_options\<lparr>opt_poll_interval := 15\<rparr>)) denied_env
         (\<lambda>opts. if opt_poll_interval opts < opt_max_snapshot_age opts then Inl RuntimeError else Inr 0)
         [] initial_world []"
  by (rule main_checks_ages) simp

end
