(* ===== verification/RunFacts.thy ===== *)
theory RunFacts
  imports PollerFacts Running
begin

text \<open>
  The main thread of the exporter: it ends in a stopped service, whatever the other threads did
  while the server ran.
\<close>

section \<open>The main thread\<close>

definition good_step :: "service \<Rightarrow> service \<Rightarrow> bool" where
  "good_step s s' \<longleftrightarrow> (service_ok s \<longrightarrow> service_ok s')"

interpretation gs: frame_relation good_step
  by unfold_locales (auto simp: good_step_def)

lemma service_ok_logger: "service_ok (s\<lparr>svc_logger := lg\<rparr>) = service_ok s"
  by (simp add: service_ok_def cong: option.case_cong)

lemma good_only_logger: "keeps only_logger m \<Longrightarrow> keeps good_step m"
  unfolding keeps_def only_logger_def good_step_def by (metis service_ok_logger)

lemma good_log: "keeps good_step (service_log t level event message extra)"
  by (rule good_only_logger [OF keeps_service_log(1)])

lemma good_refresh: "keeps good_step (refresh env t)"
  by (rule keepsI) (metis good_step_def prod.collapse service_ok_refresh)

lemma good_shutdown: "keeps good_step (shutdown wall)"
  by (rule keepsI) (simp add: good_step_def service_ok_shutdown)

lemma good_serve:
  assumes "keeps good_step uvicorn_run"
  shows "keeps good_step (serve t uvicorn_run)"
proof -
  have "keeps good_step (\<lambda>s. case uvicorn_run s of
              (Inl e, s') \<Rightarrow>
                (if e = OSErrorExn
                 then then_act (service_log t ERROR ''http.request_rejected'' ''listener activation failed'' [])
                        (return_act 1) s'
                 else (Inl e, s'))
            | (Inr started, s') \<Rightarrow> (Inr (if started then 0 else 1 :: int), s'))" (is "keeps _ ?m")
  proof (rule keepsI)
    fix s
    obtain r s' where u: "uvicorn_run s = (r, s')" by fastforce
    have "keeps good_step (then_act (service_log t ERROR ''http.request_rejected'' ''listener activation failed'' [])
        (return_act (1 :: int)))"
      by (intro gs.keeps_then gs.keeps_return good_log)
    then have after: "good_step s' (snd (then_act (service_log t ERROR ''http.request_rejected''
        ''listener activation failed'' []) (return_act (1 :: int)) s'))"
      by (simp add: keeps_def)
    have before: "good_step s s'" using keepsD [OF assms u] .
    show "good_step s (snd (?m s))"
      using before gs.trans_R [OF before after] by (cases r) (simp_all add: u)
  qed
  note serving = this
  show ?thesis
    unfolding serve_def
    by (intro serving gs.keeps_bind gs.keeps_get gs.keeps_if gs.keeps_return gs.keeps_then good_log)
qed

text \<open>What \<open>run\<close> does after the server has returned.\<close>

lemma log_run: "service_log t level event message extra s = (r, v) \<Longrightarrow>
    svc_running v = svc_running s"
proof -
  assume "service_log t level event message extra s = (r, v)"
  from keepsD [OF keeps_service_log(1) this] have "v = s\<lparr>svc_logger := svc_logger v\<rparr>"
    by (simp only: only_logger_def)
  then have "svc_running v = svc_running (s\<lparr>svc_logger := svc_logger v\<rparr>)" by (rule arg_cong)
  then show ?thesis by simp
qed

lemma shutdown_stops: "\<not> svc_running (snd (shutdown wall s))"
  by (rule shutdown_run [of wall s]) (simp split: if_splits)



end
