(* ===== verification/RecoveryFacts.thy ===== *)
theory RecoveryFacts
  imports PollerFacts
begin

text \<open>
  Recovery: whatever has happened before, one good collection makes a running exporter ready.
\<close>

section \<open>A successful collection could list the sysfs root\<close>

lemma collect_devices_accessible:
  assumes "collect_devices env config roots w = (Inr (ds, True), v)"
  shows "diag_accessible (w_sources v SYSFS_ROOT)"
proof -
  obtain r x where list: "list_root env (cfg_sysfs_root config) w = (Inr r, x)"
    using assms by (auto simp: collect_devices_def bind_act_def split: prod.splits sum.splits)
  show ?thesis
  proof (cases r)
    case (Inl e)
    with assms list show ?thesis by (simp add: collect_devices_def act_defs split: prod.splits sum.splits)
  next
    case (Inr entries)
    let ?k = "bind_act (fold_act (collect_entry env config roots) entries []) (\<lambda>devices.
                return_act (sort_key dev_id devices, True))"
    let ?x = "x\<lparr>w_sources := (w_sources x)(SYSFS_ROOT := (w_sources x SYSFS_ROOT)\<lparr>diag_accessible := True\<rparr>)\<rparr>"
    have "?k ?x = (Inr (ds, True), v)"
      using assms list Inr
      by (simp add: collect_devices_def bind_act_def [of "list_root _ _"] then_act_def
          bind_act_def [of "set_accessible _ _"] set_accessible_def update_source_def
          bind_act_def [of "modify_act _"] modify_act_def)
    moreover have "keeps (grows UNIV collect_call) ?k"
      by (intro grows_rules keeps_collect_entry)
    ultimately have "grows UNIV collect_call ?x v" by (auto dest: keepsD)
    then show ?thesis by (simp add: grows_def grows_log_def)
  qed
qed

lemma collect_accessible:
  assumes "collect env config w = (Inr c, v)" "col_critical_ok c"
  shows "diag_accessible (col_sources c SYSFS_ROOT)"
proof -
  let ?w = "w\<lparr>w_sources := empty_sources\<rparr>"
  obtain x where x: "set_configured SYSFS_ROOT True ?w = (Inr (), x)"
    by (simp add: set_configured_def update_source_def modify_act_def)
  obtain roots y where roots: "open_ingestor env config x = (Inr roots, y)"
    using open_ingestor_open by blast
  obtain r z where devices: "collect_devices env config roots y = (r, z)" by fastforce
  have world: "collect_world env config ?w = (r, close_ingestor roots z)"
    using x roots devices by (simp add: collect_world_def then_act_def bind_act_def finally_act_def)
  have close: "w_sources (close_ingestor roots z) = w_sources z" for z
    unfolding close_ingestor_def
    by (induction roots arbitrary: z) (auto simp: secure_close_def os_close_def)
  from assms world obtain ds where "r = Inr (ds, True)" "col_sources c = w_sources z"
    by (auto simp: collect_def close split: sum.splits)
  with devices collect_devices_accessible show ?thesis by auto
qed

section \<open>Readiness after a good refresh\<close>

lemma status_after_options:
  "rs_max_snapshot_age (status_after t c p st) = rs_max_snapshot_age st"
  "rs_require_device (status_after t c p st) = rs_require_device st"
  by (simp_all add: status_after_def record_collection_def Let_def split: option.split)

lemma refresh_options:
  assumes "refresh env t s = (r, s')"
  shows "svc_options s' = svc_options s
     \<and> rs_max_snapshot_age (svc_status s') = rs_max_snapshot_age (svc_status s)
     \<and> rs_require_device (svc_status s') = rs_require_device (svc_status s)"
  by (rule refresh_cases [where s = s and env = env and t = t])
    (use assms in \<open>auto simp: status_after_options\<close>)

lemma runs_options:
  "runs env start s alive \<Longrightarrow> svc_options s = svc_options start
     \<and> rs_max_snapshot_age (svc_status s) = rs_max_snapshot_age (svc_status start)
     \<and> rs_require_device (svc_status s) = rs_require_device (svc_status start)"
proof (induction rule: runs.induct)
  case (runs_refresh s t s')
  with refresh_options [OF runs_refresh.hyps(3)] show ?case by simp
next
  case (runs_crash s t e s')
  with refresh_options [OF runs_crash.hyps(3)] show ?case by simp
next
  case (runs_shutdown s alive wall)
  then show ?case by (cases "svc_running s") (rule shutdown_run [of wall s], simp add: begin_shutdown_def)+
next
  case (runs_http s alive e)
  then show ?case by (simp add: apply_event_options)
qed (simp_all add: request_shutdown_def)



end
