(* ===== verification/Publisher.thy ===== *)
theory Publisher
  imports Floats Utf8 "HOL-Library.AList"
begin

text \<open>
  \<open>integrations/ttnn/metalium_profiler_publisher.py\<close>: the publisher a workload runs. It turns
  profiler records into the state files that the exporter reads. The publisher's attributes, the
  files under its state root and the file system calls made so far are one state. The system is a
  \<open>publisher_env\<close>: which call fails and how, what a failed write leaves behind and the wall clock
  are answered from the calls made so far. TT-Metalium is a parameter of \<open>sample\<close>: the profiler
  data it returns, or the exception it raises. The set of published device keys is kept as a list
  without repetition, since Python leaves the order of a set open. The lock is not modelled: each
  method runs to its end. The warning callback records its message and does not raise.
\<close>

section \<open>Values\<close>

definition component_point :: "nat \<Rightarrow> bool" where
  "component_point c \<longleftrightarrow>
     (65 \<le> c \<and> c \<le> 90) \<or> (97 \<le> c \<and> c \<le> 122) \<or> (48 \<le> c \<and> c \<le> 57) \<or> c = 95 \<or> c = 46 \<or> c = 45"

text \<open>\<open>re.sub(r"[^A-Za-z0-9_.-]+", "-", s)\<close>; the flag tells whether a run has been replaced.\<close>

fun dash_runs :: "bool \<Rightarrow> pystr \<Rightarrow> pystr" where
  "dash_runs inside [] = []"
| "dash_runs inside (c # s) =
     (if component_point c then c # dash_runs False s
      else if inside then dash_runs True s
      else 45 # dash_runs True s)"

definition safe_component :: "(bytes \<Rightarrow> pystr) \<Rightarrow> pystr \<Rightarrow> pystr outcome" where
  "safe_component sha256_hexdigest v =
     (let stripped = strip_by (\<lambda>c. c = 45 \<or> c = 46) (dash_runs False v);
          cleaned = (if stripped = [] then u ''workload'' else stripped)
      in if cleaned = v then Inr (take 160 cleaned)
         else bind_outcome (encode_utf8 v) (\<lambda>bs.
           Inr (take 160 (cleaned @ u ''-'' @ take 8 (sha256_hexdigest bs)))))"

definition state_value :: "pystr \<Rightarrow> pystr" where
  "state_value s = replace_char 10 [32] (replace_char 13 [32] s)"

text \<open>\<open>int(value)\<close> of the attribute of a record, which may be any object, is its argument.\<close>

definition non_negative_int :: "int outcome \<Rightarrow> int outcome" where
  "non_negative_int v = bind_outcome v (\<lambda>i. if i < 0 then Inl ValueError else Inr i)"

fun map_outcome :: "('a \<Rightarrow> 'b outcome) \<Rightarrow> 'a list \<Rightarrow> 'b list outcome" where
  "map_outcome f [] = Inr []"
| "map_outcome f (x # xs) =
     bind_outcome (f x) (\<lambda>y. bind_outcome (map_outcome f xs) (\<lambda>ys. Inr (y # ys)))"

datatype chip_key =
    IntKey int
  | StrKey pystr

fun key_text :: "chip_key \<Rightarrow> pystr" where
  "key_text (IntKey i) = str_int i"
| "key_text (StrKey s) = s"

record program_record =
  prog_core_count :: "int outcome"
  prog_available_cores :: "int outcome"

type_synonym profiler_data = "(chip_key \<times> program_record list) list"

record summary =
  sum_active :: int
  sum_programs :: int
  sum_used :: int
  sum_total :: "int option"

section \<open>State\<close>

datatype fs_call =
    FsMkdir path
  | FsOpen path
  | FsWrite path
  | FsSync path
  | FsClose path
  | FsChmod path
  | FsReplace path path
  | FsOpenDirectory path
  | FsSyncDirectory path
  | FsCloseDirectory path
  | FsUnlink path

record publisher_env =
  pe_environ :: "string \<Rightarrow> pystr option"
  pe_hostname :: pystr
  pe_pid :: nat
  pe_thread :: nat
  pe_sha256 :: "bytes \<Rightarrow> pystr"
  pe_fails :: "fs_call list \<Rightarrow> fs_call \<Rightarrow> exn option"
  pe_left :: "fs_call list \<Rightarrow> bytes"
  pe_time :: "fs_call list \<Rightarrow> rat"

record publisher =
  pub_state_root :: path
  pub_workload_id :: pystr
  pub_pod_namespace :: "pystr option"
  pub_pod_name :: "pystr option"
  pub_container_name :: "pystr option"
  pub_layout_version :: int
  pub_strict :: bool
  pub_minimum_interval :: rat
  pub_device_keys :: "pystr list"
  pub_device_key_map :: "(pystr \<times> pystr) list"
  pub_known_totals :: "(pystr \<times> int) list"
  pub_published_keys :: "pystr list"
  pub_closed :: bool
  pub_disabled :: bool
  pub_warned :: bool
  pub_last_sample :: "rat option"
  pub_failure_count :: nat
  pub_last_failure :: "exn option"
  pub_last_success :: "rat option"
  pub_warnings :: "pystr list"
  pub_files :: "path \<Rightarrow> bytes option"
  pub_calls :: "fs_call list"

text \<open>\<open>a or b\<close> on optional strings: the empty string is false.\<close>

definition or_text :: "pystr option \<Rightarrow> pystr option \<Rightarrow> pystr option" where
  "or_text a b = (if a = None \<or> a = Some [] then b else a)"

record publisher_arguments =
  arg_state_root :: "pystr option"
  arg_workload_id :: "pystr option"
  arg_device_keys :: "chip_key list"
  arg_device_key_map :: "(chip_key \<times> chip_key) list"
  arg_pod_namespace :: "pystr option"
  arg_pod_name :: "pystr option"
  arg_container_name :: "pystr option"
  arg_layout_version :: int
  arg_strict :: bool
  arg_minimum_interval :: rat

definition default_arguments :: publisher_arguments where
  "default_arguments = \<lparr>arg_state_root = None, arg_workload_id = None,
     arg_device_keys = [StrKey (u ''0'')], arg_device_key_map = [], arg_pod_namespace = None,
     arg_pod_name = None, arg_container_name = None, arg_layout_version = 2, arg_strict = False,
     arg_minimum_interval = 1\<rparr>"

definition default_state_root :: pystr where
  "default_state_root = u ''/var/lib/tt-device-plugin/metalium-profiler''"

definition new_publisher ::
    "publisher_env \<Rightarrow> publisher_arguments \<Rightarrow> (path \<Rightarrow> bytes option) \<Rightarrow> publisher outcome" where
  "new_publisher env a files =
     (if arg_layout_version a \<noteq> 1 \<and> arg_layout_version a \<noteq> 2 then Inl ValueError
      else if arg_minimum_interval a < 0 then Inl ValueError
      else Inr
       \<lparr>pub_state_root = the (or_text (or_text (arg_state_root a)
            (pe_environ env ''TT_METALIUM_PROFILER_STATE_ROOT'')) (Some default_state_root)),
        pub_workload_id = the (or_text (or_text (or_text (or_text (arg_workload_id a)
            (pe_environ env ''TT_WORKLOAD_ID'')) (pe_environ env ''POD_UID'')) (pe_environ env ''POD_NAME''))
            (Some (pe_hostname env @ u ''-'' @ str_int (int (pe_pid env))))),
        pub_pod_namespace = or_text (arg_pod_namespace a) (pe_environ env ''POD_NAMESPACE''),
        pub_pod_name = or_text (arg_pod_name a) (pe_environ env ''POD_NAME''),
        pub_container_name = or_text (arg_container_name a) (pe_environ env ''CONTAINER_NAME''),
        pub_layout_version = arg_layout_version a, pub_strict = arg_strict a,
        pub_minimum_interval = arg_minimum_interval a,
        pub_device_keys = map key_text (arg_device_keys a),
        pub_device_key_map =
          fold (\<lambda>(chip, key). AList.update (key_text chip) (key_text key)) (arg_device_key_map a) [],
        pub_known_totals = [], pub_published_keys = [], pub_closed = False, pub_disabled = False,
        pub_warned = False, pub_last_sample = None, pub_failure_count = 0, pub_last_failure = None,
        pub_last_success = None, pub_warnings = [], pub_files = files, pub_calls = []\<rparr>)"

section \<open>The file system\<close>

definition fs_step :: "publisher_env \<Rightarrow> fs_call \<Rightarrow> ((path \<Rightarrow> bytes option) \<Rightarrow> path \<Rightarrow> bytes option)
    \<Rightarrow> (publisher, unit) act" where
  "fs_step env c effect p =
     (let p' = p\<lparr>pub_calls := pub_calls p @ [c]\<rparr>
      in case pe_fails env (pub_calls p) c of
           Some e \<Rightarrow> (Inl e, p')
         | None \<Rightarrow> (Inr (), p'\<lparr>pub_files := effect (pub_files p)\<rparr>))"

text \<open>Writing and flushing; when it fails, the file is left with some content.\<close>

definition fs_write :: "publisher_env \<Rightarrow> path \<Rightarrow> bytes \<Rightarrow> (publisher, unit) act" where
  "fs_write env file bs p =
     (let p' = p\<lparr>pub_calls := pub_calls p @ [FsWrite file]\<rparr>
      in case pe_fails env (pub_calls p) (FsWrite file) of
           Some e \<Rightarrow> (Inl e, p'\<lparr>pub_files := (pub_files p)(file \<mapsto> pe_left env (pub_calls p))\<rparr>)
         | None \<Rightarrow> (Inr (), p'\<lparr>pub_files := (pub_files p)(file \<mapsto> bs)\<rparr>))"

text \<open>\<open>try: m finally: k\<close> where \<open>k\<close> may raise, and \<open>try: m except Exception as e: h\<close>.\<close>

definition ensure_act :: "('s, 'a) act \<Rightarrow> ('s, unit) act \<Rightarrow> ('s, 'a) act" where
  "ensure_act m k s = (case m s of (r, t) \<Rightarrow>
     (case k t of (Inl e, v) \<Rightarrow> (Inl e, v) | (Inr _, v) \<Rightarrow> (r, v)))"

definition except_act :: "('s, 'a) act \<Rightarrow> (exn \<Rightarrow> ('s, 'a) act) \<Rightarrow> ('s, 'a) act" where
  "except_act m h s = (case m s of (Inl e, t) \<Rightarrow> h e t | (Inr x, t) \<Rightarrow> (Inr x, t))"

definition write_temporary :: "publisher_env \<Rightarrow> path \<Rightarrow> pystr \<Rightarrow> (publisher, unit) act" where
  "write_temporary env temporary payload =
     then_act (fs_step env (FsOpen temporary) (\<lambda>m. m(temporary \<mapsto> [])))
       (ensure_act
         (bind_act (lift_act (encode_utf8 payload)) (\<lambda>bs.
            then_act (fs_write env temporary bs) (fs_step env (FsSync temporary) id)))
         (fs_step env (FsClose temporary) id))"

definition sync_directory :: "publisher_env \<Rightarrow> path \<Rightarrow> (publisher, unit) act" where
  "sync_directory env directory =
     then_act (fs_step env (FsOpenDirectory directory) id)
       (ensure_act (fs_step env (FsSyncDirectory directory) id) (fs_step env (FsCloseDirectory directory) id))"

definition replace_file :: "publisher_env \<Rightarrow> path \<Rightarrow> path \<Rightarrow> path \<Rightarrow> pystr \<Rightarrow> (publisher, unit) act" where
  "replace_file env directory temporary target payload =
     ensure_act
       (then_act (write_temporary env temporary payload)
         (then_act (fs_step env (FsChmod temporary) id)
           (then_act (fs_step env (FsReplace temporary target) (\<lambda>m. m(target := m temporary, temporary := None)))
             (sync_directory env directory))))
       (fs_step env (FsUnlink temporary) (\<lambda>m. m(temporary := None)))"

section \<open>One record\<close>

definition record_fields :: "publisher \<Rightarrow> int \<Rightarrow> summary \<Rightarrow> (pystr \<times> pystr) list" where
  "record_fields p timestamp s =
     [(u ''schema_version'', str_int (pub_layout_version p)),
      (u ''workload_id'', pub_workload_id p),
      (u ''sample_timestamp_seconds'', str_int timestamp),
      (u ''active'', str_int (sum_active s)),
      (u ''programs_observed'', str_int (sum_programs s)),
      (u ''tensix_cores_used'', str_int (sum_used s))]
     @ (case sum_total s of None \<Rightarrow> [] | Some t \<Rightarrow> [(u ''tensix_cores_total'', str_int t)])
     @ List.map_filter (\<lambda>(key, v). case v of None \<Rightarrow> None | Some t \<Rightarrow> if t = [] then None else Some (u key, t))
         [(''pod_namespace'', pub_pod_namespace p), (''pod_name'', pub_pod_name p),
          (''container_name'', pub_container_name p)]"

definition record_payload :: "publisher \<Rightarrow> int \<Rightarrow> summary \<Rightarrow> pystr" where
  "record_payload p timestamp s =
     concat (map (\<lambda>(key, v). key @ u ''='' @ state_value v @ [10]) (record_fields p timestamp s))"

definition target_name :: "publisher_env \<Rightarrow> publisher \<Rightarrow> pystr outcome" where
  "target_name env p =
     (if pub_layout_version p = 2 then Inr (u ''snapshot.state'')
      else bind_outcome (safe_component (pe_sha256 env) (pub_workload_id p)) (\<lambda>name.
        Inr (name @ u ''.state'')))"

definition temporary_name :: "publisher_env \<Rightarrow> pystr \<Rightarrow> pystr" where
  "temporary_name env name =
     u ''.'' @ name @ u ''.'' @ str_int (int (pe_pid env)) @ u ''.'' @ str_int (int (pe_thread env)) @ u ''.tmp''"

definition invalid_key :: "pystr \<Rightarrow> bool" where
  "invalid_key key \<longleftrightarrow> key = [] \<or> key = u ''.'' \<or> key = u ''..'' \<or> 47 \<in> set key"

definition publish :: "publisher_env \<Rightarrow> pystr \<Rightarrow> summary \<Rightarrow> bool \<Rightarrow> (publisher, unit) act" where
  "publish env key s allow_closed =
     (if invalid_key key then raise_act ValueError
      else bind_act (get_act pub_closed) (\<lambda>closed.
        if closed \<and> \<not> allow_closed then raise_act RuntimeError
        else then_act (modify_act (\<lambda>p. p\<lparr>pub_published_keys := List.insert key (pub_published_keys p)\<rparr>))
          (bind_act (get_act (\<lambda>p. path_join (pub_state_root p) key)) (\<lambda>directory.
           then_act (fs_step env (FsMkdir directory) id)
             (bind_act (get_act id) (\<lambda>p.
              bind_act (lift_act (target_name env p)) (\<lambda>name.
                replace_file env directory (path_join directory (temporary_name env name))
                  (path_join directory name)
                  (record_payload p (int_of_float (pe_time env (pub_calls p))) s))))))))"

section \<open>Sampling\<close>

definition make_summary :: "publisher \<Rightarrow> pystr \<Rightarrow> int \<Rightarrow> int \<Rightarrow> int \<Rightarrow> summary" where
  "make_summary p key active programs cores =
     \<lparr>sum_active = active, sum_programs = programs, sum_used = cores,
      sum_total = map_of (pub_known_totals p) key\<rparr>"

definition handle_failure :: "exn \<Rightarrow> bool \<Rightarrow> publisher \<Rightarrow> publisher" where
  "handle_failure e disable p =
     (let p1 = p\<lparr>pub_failure_count := pub_failure_count p + 1, pub_last_failure := Some e,
                 pub_disabled := pub_disabled p \<or> disable\<rparr>
      in if pub_warned p1 then p1
         else p1\<lparr>pub_warnings := pub_warnings p1
                   @ [u ''TT-Metalium telemetry publication disabled or degraded''],
                 pub_warned := True\<rparr>)"

type_synonym summaries = "(pystr \<times> summary) list"

definition publish_chip ::
    "publisher_env \<Rightarrow> chip_key \<times> program_record list \<Rightarrow> summaries \<times> pystr list
       \<Rightarrow> (publisher, summaries \<times> pystr list) act" where
  "publish_chip env item acc =
     (case item of (chip, records) \<Rightarrow>
      bind_act (get_act (\<lambda>p. case map_of (pub_device_key_map p) (key_text chip) of
           None \<Rightarrow> key_text chip | Some key \<Rightarrow> key)) (\<lambda>key.
      bind_act (lift_act (map_outcome (\<lambda>r. non_negative_int (prog_core_count r)) records)) (\<lambda>counts.
      bind_act (lift_act (map_outcome (\<lambda>r. non_negative_int (prog_available_cores r)) records)) (\<lambda>totals.
        let used = (if counts = [] then 0 else Max (set counts)) in
        then_act (modify_act (\<lambda>p. if totals = [] then p
             else p\<lparr>pub_known_totals := AList.update key (Max (set totals)) (pub_known_totals p)\<rparr>))
          (bind_act (get_act (\<lambda>p. map_of (pub_known_totals p) key)) (\<lambda>known.
             if (case known of None \<Rightarrow> False | Some t \<Rightarrow> t < used) then raise_act ValueError
             else bind_act (get_act (\<lambda>p. make_summary p key (if records = [] then 0 else 1)
                      (int (length records)) used)) (\<lambda>s.
               then_act (publish env key s False)
                 (return_act (AList.update key s (fst acc), List.insert key (snd acc))))))))))"

definition publish_idle ::
    "publisher_env \<Rightarrow> pystr list \<Rightarrow> pystr \<Rightarrow> summaries \<Rightarrow> (publisher, summaries) act" where
  "publish_idle env seen key found =
     (if key \<in> set seen then return_act found
      else bind_act (get_act (\<lambda>p. make_summary p key 0 0 0)) (\<lambda>s.
        then_act (publish env key s False) (return_act (AList.update key s found))))"

definition publish_data :: "publisher_env \<Rightarrow> profiler_data \<Rightarrow> (publisher, summaries) act" where
  "publish_data env data =
     bind_act (fold_act (publish_chip env) data ([], [])) (\<lambda>acc.
     bind_act (get_act pub_device_keys) (\<lambda>keys.
     bind_act (fold_act (publish_idle env (snd acc)) keys (fst acc)) (\<lambda>found.
       then_act (modify_act (\<lambda>p. p\<lparr>pub_last_failure := None,
                    pub_last_success := Some (pe_time env (pub_calls p))\<rparr>))
         (return_act found))))"

definition on_failure :: "(exn \<Rightarrow> bool) \<Rightarrow> 'a \<Rightarrow> exn \<Rightarrow> (publisher, 'a) act" where
  "on_failure disable result e =
     then_act (modify_act (handle_failure e (disable e)))
       (bind_act (get_act pub_strict) (\<lambda>strict. if strict then raise_act e else return_act result))"

definition publish_profiler_data :: "publisher_env \<Rightarrow> profiler_data \<Rightarrow> (publisher, summaries) act" where
  "publish_profiler_data env data =
     bind_act (get_act pub_disabled) (\<lambda>disabled.
       if disabled then return_act []
       else except_act (publish_data env data) (on_failure (\<lambda>_. False) []))"

definition required_environment :: "string list" where
  "required_environment =
     [''TT_METAL_DEVICE_PROFILER'', ''TT_METAL_PROFILER_MID_RUN_DUMP'', ''TT_METAL_PROFILER_CPP_POST_PROCESS'']"

definition validate_environment :: "publisher_env \<Rightarrow> unit outcome" where
  "validate_environment env =
     (if filter (\<lambda>name. pe_environ env name \<noteq> Some (u ''1'')) required_environment \<noteq> []
      then Inl RuntimeError else Inr ())"

definition sample :: "publisher_env \<Rightarrow> profiler_data outcome \<Rightarrow> rat \<Rightarrow> (publisher, summaries) act" where
  "sample env ttnn now =
     bind_act (get_act pub_disabled) (\<lambda>disabled.
       if disabled then return_act []
       else bind_act (get_act id) (\<lambda>p.
         if (case pub_last_sample p of None \<Rightarrow> False
             | Some before \<Rightarrow> float_sub now before < pub_minimum_interval p)
         then return_act []
         else then_act (modify_act (\<lambda>p. p\<lparr>pub_last_sample := Some now\<rparr>))
           (except_act
             (then_act (lift_act (validate_environment env))
               (bind_act (lift_act ttnn) (publish_data env)))
             (on_failure (\<lambda>e. e = RuntimeError) []))))"

section \<open>Closing\<close>

definition close_key :: "publisher_env \<Rightarrow> pystr \<Rightarrow> unit \<Rightarrow> (publisher, unit) act" where
  "close_key env key x =
     except_act
       (bind_act (get_act (\<lambda>p. make_summary p key 0 0 0)) (\<lambda>s. publish env key s True))
       (on_failure (\<lambda>_. False) ())"

definition close :: "publisher_env \<Rightarrow> (publisher, unit) act" where
  "close env =
     bind_act (get_act pub_closed) (\<lambda>closed.
       if closed then return_act ()
       else then_act (modify_act (\<lambda>p. p\<lparr>pub_closed := True\<rparr>))
         (bind_act (get_act pub_disabled) (\<lambda>disabled.
           if disabled then return_act ()
           else bind_act (get_act (\<lambda>p. if pub_published_keys p = [] then remdups (pub_device_keys p)
                                   else pub_published_keys p)) (\<lambda>keys.
             fold_act (close_key env) keys ()))))"

end
