(* ===== verification/PublisherFiles.thy ===== *)
theory PublisherFiles
  imports Publisher
begin

text \<open>
  What publishing one record does to the file system: whichever calls fail, one file is replaced as
  a whole or not at all.
\<close>

section \<open>Frames of the two kinds of \<open>try\<close>\<close>

context frame_relation
begin

lemma keeps_ensure:
  assumes "keeps R m" "keeps R k"
  shows "keeps R (ensure_act m k)"
proof (rule keepsI)
  fix s
  obtain q t where m: "m s = (q, t)" by fastforce
  obtain x v where k: "k t = (x, v)" by fastforce
  have "R s v" using trans_R [OF keepsD [OF assms(1) m] keepsD [OF assms(2) k]] .
  then show "R s (snd (ensure_act m k s))" by (cases x) (simp_all add: ensure_act_def m k)
qed

lemma keeps_except:
  assumes "keeps R m" "\<And>e. keeps R (h e)"
  shows "keeps R (except_act m h)"
proof (rule keepsI)
  fix s
  obtain q t where m: "m s = (q, t)" by fastforce
  show "R s (snd (except_act m h s))"
  proof (cases q)
    case (Inl e)
    obtain x v where h: "h e t = (x, v)" by fastforce
    have "R s v" using trans_R [OF keepsD [OF assms(1) m] keepsD [OF assms(2) h]] .
    with Inl show ?thesis by (simp add: except_act_def m h)
  next
    case (Inr x)
    with keepsD [OF assms(1) m] show ?thesis by (simp add: except_act_def m)
  qed
qed

lemmas keeps_all = keeps_combinators keeps_ensure keeps_except

end

section \<open>One file, replaced as a whole\<close>

lemma ensure_cases:
  assumes "ensure_act m k s = (r, v)"
  obtains q t where "m s = (q, t)" "snd (k t) = v" "\<forall>x. r = Inr x \<longrightarrow> q = Inr x \<and> fst (k t) = Inr ()"
  using assms by (auto simp: ensure_act_def split: prod.splits sum.splits)

lemma then_cases:
  assumes "then_act m k s = (r, v)"
  obtains e where "m s = (Inl e, v)" "r = Inl e"
  | x t where "m s = (Inr x, t)" "k t = (r, v)"
  using assms by (auto simp: act_defs split: prod.splits sum.splits)

text \<open>Equality of all attributes but the files and the calls.\<close>

definition only_files :: "publisher \<Rightarrow> publisher \<Rightarrow> bool" where
  "only_files p q \<longleftrightarrow> q = p\<lparr>pub_files := pub_files q, pub_calls := pub_calls q\<rparr>"

interpretation of: frame_relation only_files
proof unfold_locales
  show "only_files p p" for p by (simp add: only_files_def)
  show "only_files p v" if "only_files p q" "only_files q v" for p q v
    using that by (cases p; cases q; cases v) (simp add: only_files_def)
qed

lemma fs_step_effect:
  "fs_step env c f p = (r, q) \<Longrightarrow> pub_files q = (case r of Inl _ \<Rightarrow> pub_files p | Inr _ \<Rightarrow> f (pub_files p))"
  by (auto simp: fs_step_def Let_def split: option.splits)

lemma keeps_fs_step: "keeps only_files (fs_step env c f)"
  by (rule keepsI) (simp add: fs_step_def only_files_def Let_def split: option.splits)

lemma keeps_fs_write: "keeps only_files (fs_write env f bs)"
  by (rule keepsI) (simp add: fs_write_def only_files_def Let_def split: option.splits)

lemma keeps_write_temporary: "keeps only_files (write_temporary env t payload)"
  unfolding write_temporary_def
  by (intro of.keeps_all keeps_fs_step keeps_fs_write)

lemma keeps_replace_file: "keeps only_files (replace_file env d t g payload)"
  unfolding replace_file_def sync_directory_def
  by (intro of.keeps_all keeps_fs_step keeps_write_temporary)

definition elsewhere :: "path set \<Rightarrow> publisher \<Rightarrow> publisher \<Rightarrow> bool" where
  "elsewhere A p q \<longleftrightarrow> (\<forall>f. f \<notin> A \<longrightarrow> pub_files q f = pub_files p f)"

interpretation el: frame_relation "elsewhere A" for A
  by unfold_locales (auto simp: elsewhere_def)

lemma elsewhereD: "elsewhere A p q \<Longrightarrow> f \<notin> A \<Longrightarrow> pub_files q f = pub_files p f"
  by (simp add: elsewhere_def)

lemma elsewhere_step: "(\<And>m f. f \<notin> A \<Longrightarrow> g m f = m f) \<Longrightarrow> keeps (elsewhere A) (fs_step env c g)"
  by (rule keepsI) (auto simp: elsewhere_def fs_step_def Let_def split: option.splits)

lemma elsewhere_write: "f \<in> A \<Longrightarrow> keeps (elsewhere A) (fs_write env f bs)"
  by (rule keepsI) (auto simp: elsewhere_def fs_write_def Let_def split: option.splits)

lemma elsewhere_temporary: "keeps (elsewhere {t}) (write_temporary env t payload)"
  unfolding write_temporary_def
  by (intro el.keeps_all elsewhere_step elsewhere_write) simp_all

lemma elsewhere_sync: "keeps (elsewhere {}) (sync_directory env d)"
  unfolding sync_directory_def by (intro el.keeps_all elsewhere_step) simp_all

lemma elsewhere_replace: "keeps (elsewhere {t, g}) (replace_file env d t g payload)"
  unfolding replace_file_def write_temporary_def sync_directory_def
  by (intro el.keeps_all elsewhere_step elsewhere_write) simp_all

lemma write_temporary_done:
  assumes "write_temporary env t payload p = (Inr x, q)"
  obtains bs where "encode_utf8 payload = Inr bs" "pub_files q t = Some bs"
proof -
  let ?w = "bind_act (lift_act (encode_utf8 payload)) (\<lambda>bs.
            then_act (fs_write env t bs) (fs_step env (FsSync t) id))"
  from assms obtain p1 where "ensure_act ?w (fs_step env (FsClose t) id) p1 = (Inr x, q)"
    unfolding write_temporary_def by (rule then_cases) simp_all
  then obtain p2 where p2: "?w p1 = (Inr x, p2)"
      "fs_step env (FsClose t) id p2 = (Inr (), q)"
    by (rule ensure_cases) (simp add: prod_eq_iff)
  from fs_step_effect [OF p2(2)] have same: "pub_files q = pub_files p2" by simp
  from p2(1) obtain bs where bs: "encode_utf8 payload = Inr bs"
      "then_act (fs_write env t bs) (fs_step env (FsSync t) id) p1 = (Inr x, p2)"
    by (cases "encode_utf8 payload") (auto simp: act_defs)
  from bs(2) have "pub_files p2 t = Some bs"
    by (elim then_cases) (auto simp: fs_write_def Let_def dest!: fs_step_effect split: option.splits)
  with bs(1) same that show ?thesis by simp
qed

text \<open>What becomes of the files, whichever calls fail.\<close>

definition replaced_whole ::
    "path \<Rightarrow> path \<Rightarrow> pystr \<Rightarrow> bool \<Rightarrow> (path \<Rightarrow> bytes option) \<Rightarrow> (path \<Rightarrow> bytes option) \<Rightarrow> bool" where
  "replaced_whole t g payload done before after \<longleftrightarrow>
     (\<forall>f. f \<noteq> t \<longrightarrow> f \<noteq> g \<longrightarrow> after f = before f)
   \<and> (after g = before g \<or> (\<exists>bs. encode_utf8 payload = Inr bs \<and> after g = Some bs))
   \<and> (done \<longrightarrow> after t = None \<and> (\<exists>bs. encode_utf8 payload = Inr bs \<and> after g = Some bs))"

lemma replace_file_whole:
  assumes "replace_file env d t g payload p = (r, q)" "t \<noteq> g"
  shows "replaced_whole t g payload (r = Inr ()) (pub_files p) (pub_files q)"
proof -
  let ?new = "\<lambda>v. \<exists>bs. encode_utf8 payload = Inr bs \<and> pub_files v g = Some bs"
  let ?m = "then_act (write_temporary env t payload)
         (then_act (fs_step env (FsChmod t) id)
           (then_act (fs_step env (FsReplace t g) (\<lambda>m. m(g := m t, t := None)))
             (sync_directory env d)))"
  from assms(1) obtain r1 p1 where m: "?m p = (r1, p1)"
    and unlink: "snd (fs_step env (FsUnlink t) (\<lambda>m. m(t := None)) p1) = q"
    and finished: "\<forall>x. r = Inr x \<longrightarrow> r1 = Inr x
      \<and> fst (fs_step env (FsUnlink t) (\<lambda>m. m(t := None)) p1) = Inr ()"
    unfolding replace_file_def by (rule ensure_cases)
  have "(pub_files p1 g = pub_files p g \<or> ?new p1) \<and> (r1 = Inr () \<longrightarrow> ?new p1)"
    using m
  proof (cases rule: then_cases)
    case (1 e)
    then show ?thesis
      using elsewhereD [OF keepsD [OF elsewhere_temporary 1(1)], of g] assms(2) by simp
  next
    case (2 x p2)
    from write_temporary_done [OF 2(1)] obtain bs
      where bs: "encode_utf8 payload = Inr bs" "pub_files p2 t = Some bs" by blast
    have p2: "pub_files p2 g = pub_files p g"
      using elsewhereD [OF keepsD [OF elsewhere_temporary 2(1)], of g] assms(2) by simp
    show ?thesis
      using 2(2)
    proof (cases rule: then_cases)
      case (1 e)
      with fs_step_effect [OF 1(1)] p2 show ?thesis by simp
    next
      case (2 y p3)
      with fs_step_effect [OF 2(1)] have p3: "pub_files p3 = pub_files p2" by simp
      show ?thesis
        using 2(2)
      proof (cases rule: then_cases)
        case (1 e)
        with fs_step_effect [OF 1(1)] p2 p3 show ?thesis by simp
      next
        case (2 z p4)
        with fs_step_effect [OF 2(1)] p3 bs assms(2) have "pub_files p4 g = Some bs" by simp
        moreover have "pub_files p1 g = pub_files p4 g"
          using elsewhereD [OF keepsD [OF elsewhere_sync 2(2)], of g] by simp
        ultimately show ?thesis using bs(1) by simp
      qed
    qed
  qed
  moreover have "pub_files q g = pub_files p1 g \<and> (r = Inr () \<longrightarrow> pub_files q t = None)"
    using unlink finished assms(2)
    by (cases "fs_step env (FsUnlink t) (\<lambda>m. m(t := None)) p1")
      (auto dest!: fs_step_effect split: sum.splits)
  ultimately show ?thesis
    using elsewhereD [OF keepsD [OF elsewhere_replace assms(1)]] finished
    by (auto simp: replaced_whole_def)
qed

lemma path_join_inj: "path_join d a = path_join d b \<longleftrightarrow> a = b"
  by (simp add: path_join_def)

lemma temporary_name_other: "temporary_name env name \<noteq> name"
proof
  assume "temporary_name env name = name"
  then have "length (temporary_name env name) = length name" by (rule arg_cong)
  then show False by (simp add: temporary_name_def u_Cons)
qed

definition publish_whole ::
    "publisher_env \<Rightarrow> pystr \<Rightarrow> summary \<Rightarrow> publisher \<Rightarrow> unit outcome \<Rightarrow> publisher \<Rightarrow> bool" where
  "publish_whole env key s p r q \<longleftrightarrow>
     (case target_name env p of
        Inl _ \<Rightarrow> r \<noteq> Inr () \<and> pub_files q = pub_files p
      | Inr name \<Rightarrow>
          (let directory = path_join (pub_state_root p) key
           in \<exists>timestamp. replaced_whole (path_join directory (temporary_name env name))
                (path_join directory name) (record_payload p timestamp s) (r = Inr ())
                (pub_files p) (pub_files q)))"

lemma replaced_whole_same: "replaced_whole t g payload False m m"
  by (simp add: replaced_whole_def)

lemma publish_same:
  "r \<noteq> Inr () \<Longrightarrow> pub_files q = pub_files p \<Longrightarrow> publish_whole env key s p r q"
  by (auto simp: publish_whole_def replaced_whole_same Let_def split: sum.split)

text \<open>
  C15: Publishing one record changes at most two files of the whole file system, whichever system
  calls fail: the record's file either keeps what it held or holds the complete new record, never a
  part of one, and a successful call leaves the complete record and no temporary file.
\<close>

theorem publish_atomic:
  "publish_whole env key s p (fst (publish env key s allow_closed p)) (snd (publish env key s allow_closed p))"
proof (cases "invalid_key key \<or> pub_closed p \<and> \<not> allow_closed")
  case True
  then show ?thesis by (auto simp: publish_def act_defs publish_same)
next
  case False
  let ?d = "path_join (pub_state_root p) key"
  let ?p = "p\<lparr>pub_published_keys := List.insert key (pub_published_keys p),
              pub_calls := pub_calls p @ [FsMkdir ?d]\<rparr>"
  have same: "target_name env ?p = target_name env p" "record_payload ?p t s = record_payload p t s" for t
    by (simp_all add: target_name_def record_payload_def record_fields_def)
  show ?thesis
  proof (cases "pe_fails env (pub_calls p) (FsMkdir ?d)")
    case (Some e)
    with False show ?thesis by (auto simp: publish_def act_defs fs_step_def Let_def publish_same)
  next
    case None
    show ?thesis
    proof (cases "target_name env p")
      case (Inl e)
      with None False same show ?thesis
        by (auto simp: publish_def act_defs fs_step_def Let_def publish_same)
    next
      case (Inr name)
      let ?t = "path_join ?d (temporary_name env name)"
      let ?m = "record_payload p (int_of_float (pe_time env (pub_calls ?p))) s"
      have "publish env key s allow_closed p = replace_file env ?d ?t (path_join ?d name) ?m ?p"
        using False None Inr same by (auto simp: publish_def act_defs fs_step_def Let_def)
      moreover obtain r q where run: "replace_file env ?d ?t (path_join ?d name) ?m ?p = (r, q)"
        by fastforce
      moreover have "replaced_whole ?t (path_join ?d name) ?m (r = Inr ()) (pub_files p) (pub_files q)"
        using replace_file_whole [OF run] by (simp add: path_join_inj temporary_name_other)
      ultimately show ?thesis using Inr by (auto simp: publish_whole_def Let_def)
    qed
  qed
qed

end
