(* ===== verification/PublisherFacts.thy ===== *)
theory PublisherFacts
  imports PublisherFiles SecureIO
begin

text \<open>
  What the publisher does to the workload that hosts it: a publisher that is not strict never
  raises into the workload and warns once, core counts never exceed the known total, a closed or
  disabled publisher is silent for good, and file names are ones the exporter opens.
\<close>

section \<open>Operations\<close>

datatype publisher_op =
    Sample "profiler_data outcome" rat
  | PublishData profiler_data
  | Close

fun run_op :: "publisher_env \<Rightarrow> publisher_op \<Rightarrow> summaries \<Rightarrow> (publisher, summaries) act" where
  "run_op env (Sample ttnn now) x = sample env ttnn now"
| "run_op env (PublishData data) x = publish_profiler_data env data"
| "run_op env Close x = then_act (close env) (return_act [])"

text \<open>What every operation keeps: its own settings, the warning, the known totals.\<close>

definition warned_once :: "publisher \<Rightarrow> bool" where
  "warned_once p \<longleftrightarrow>
     (if pub_warned p then length (pub_warnings p) = 1 \<and> 1 \<le> pub_failure_count p
      else pub_warnings p = [] \<and> pub_failure_count p = 0)"

definition totals_ok :: "publisher \<Rightarrow> bool" where
  "totals_ok p \<longleftrightarrow> list_all (\<lambda>(key, t). 0 \<le> t) (pub_known_totals p)"

definition evolves :: "publisher \<Rightarrow> publisher \<Rightarrow> bool" where
  "evolves p q \<longleftrightarrow> pub_strict q = pub_strict p \<and> pub_device_keys q = pub_device_keys p
     \<and> (warned_once p \<longrightarrow> warned_once q) \<and> (totals_ok p \<longrightarrow> totals_ok q)"

interpretation ev: frame_relation evolves
  by unfold_locales (auto simp: evolves_def)

lemma evolves_fs: "keeps evolves (fs_step env c f)" "keeps evolves (fs_write env g bs)"
  by (rule keepsI; simp add: evolves_def warned_once_def totals_ok_def fs_step_def fs_write_def Let_def
      split: option.splits)+

lemma evolves_publish: "keeps evolves (publish env key s b)"
  unfolding publish_def replace_file_def write_temporary_def sync_directory_def
  by (intro ev.keeps_all evolves_fs ev.keeps_modify)
    (simp_all add: evolves_def warned_once_def totals_ok_def)

lemma evolves_failure: "keeps evolves (on_failure disable x e)"
  unfolding on_failure_def
  by (intro ev.keeps_all ev.keeps_modify)
    (auto simp: evolves_def warned_once_def totals_ok_def handle_failure_def Let_def)

lemma update_totals: "0 \<le> (t::int) \<Longrightarrow> list_all (\<lambda>(key, t). 0 \<le> t) kvs \<Longrightarrow>
    list_all (\<lambda>(key, t). 0 \<le> t) (AList.update key t kvs)"
  by (induction kvs) auto

lemma map_outcome_nonneg:
  "map_outcome (\<lambda>r. non_negative_int (f r)) rs = Inr ns \<Longrightarrow> list_all (\<lambda>n. 0 \<le> n) ns"
  by (induction rs arbitrary: ns) (auto simp: bind_outcome_Inr non_negative_int_def split: if_splits)

lemma Max_nonneg: "list_all (\<lambda>n. 0 \<le> n) ns \<Longrightarrow> ns \<noteq> [] \<Longrightarrow> 0 \<le> Max (set (ns :: int list))"
  by (auto simp: list_all_iff)

lemma keeps_lift_bind:
  "(\<And>x. r = Inr x \<Longrightarrow> keeps R (f x)) \<Longrightarrow> (\<And>s. R s s) \<Longrightarrow> keeps R (bind_act (lift_act r) f)"
  by (cases r) (auto simp: keeps_def act_defs)

text \<open>The end of \<open>publish_chip\<close>, once the records' numbers are known.\<close>

definition publish_counts ::
    "publisher_env \<Rightarrow> pystr \<Rightarrow> nat \<Rightarrow> int list \<Rightarrow> int list \<Rightarrow> summaries \<times> pystr list
       \<Rightarrow> (publisher, summaries \<times> pystr list) act" where
  "publish_counts env key n counts totals acc =
     (let used = (if counts = [] then 0 else Max (set counts)) in
        then_act (modify_act (\<lambda>p. if totals = [] then p
             else p\<lparr>pub_known_totals := AList.update key (Max (set totals)) (pub_known_totals p)\<rparr>))
          (bind_act (get_act (\<lambda>p. map_of (pub_known_totals p) key)) (\<lambda>known.
             if (case known of None \<Rightarrow> False | Some t \<Rightarrow> t < used) then raise_act ValueError
             else bind_act (get_act (\<lambda>p. make_summary p key (if n = 0 then 0 else 1) (int n) used)) (\<lambda>s.
               then_act (publish env key s False)
                 (return_act (AList.update key s (fst acc), List.insert key (snd acc)))))))"

lemma publish_chip_eq:
  "publish_chip env (chip, records) acc =
     bind_act (get_act (\<lambda>p. case map_of (pub_device_key_map p) (key_text chip) of
           None \<Rightarrow> key_text chip | Some key \<Rightarrow> key)) (\<lambda>key.
     bind_act (lift_act (map_outcome (\<lambda>r. non_negative_int (prog_core_count r)) records)) (\<lambda>counts.
     bind_act (lift_act (map_outcome (\<lambda>r. non_negative_int (prog_available_cores r)) records)) (\<lambda>totals.
       publish_counts env key (length records) counts totals acc)))"
  by (simp add: publish_chip_def publish_counts_def)

lemma evolves_counts:
  assumes "list_all (\<lambda>n. 0 \<le> n) totals"
  shows "keeps evolves (publish_counts env key n counts totals acc)"
proof -
  have "keeps evolves (modify_act (\<lambda>p. if totals = [] then p
       else p\<lparr>pub_known_totals := AList.update key (Max (set totals)) (pub_known_totals p)\<rparr>))"
    by (intro ev.keeps_modify)
      (auto simp: evolves_def warned_once_def totals_ok_def intro!: update_totals Max_nonneg assms)
  then show ?thesis
    unfolding publish_counts_def Let_def
    by (rule ev.keeps_then) (intro ev.keeps_all evolves_publish)
qed

lemma evolves_chip: "keeps evolves (publish_chip env item acc)"
proof (cases item)
  case (Pair chip records)
  show ?thesis
    unfolding Pair publish_chip_eq
    by (rule ev.keeps_bind [OF ev.keeps_get], rule ev.keeps_bind [OF ev.keeps_lift],
        rule keeps_lift_bind [OF evolves_counts ev.refl_R], erule map_outcome_nonneg)
qed

lemma evolves_data: "keeps evolves (publish_data env data)"
  unfolding publish_data_def publish_idle_def
  by (intro ev.keeps_all evolves_chip evolves_publish ev.keeps_modify)
    (simp add: evolves_def warned_once_def totals_ok_def)

lemma evolves_op: "keeps evolves (run_op env op x)"
proof (cases op)
  case (Sample ttnn now)
  show ?thesis
    unfolding Sample run_op.simps sample_def
    by (intro ev.keeps_all evolves_data evolves_failure ev.keeps_modify)
      (simp add: evolves_def warned_once_def totals_ok_def)
next
  case (PublishData data)
  show ?thesis
    unfolding PublishData run_op.simps publish_profiler_data_def
    by (intro ev.keeps_all evolves_data evolves_failure)
next
  case Close
  show ?thesis
    unfolding Close run_op.simps close_def close_key_def
    by (intro ev.keeps_all evolves_publish evolves_failure ev.keeps_modify)
      (simp add: evolves_def warned_once_def totals_ok_def)
qed

section \<open>Best effort\<close>

definition calm :: "(publisher, 'a) act \<Rightarrow> bool" where
  "calm m \<longleftrightarrow> (\<forall>p :: publisher. \<not> pub_strict p \<longrightarrow> (\<exists>x. fst (m p) = Inr x))"

lemma calm_simple: "calm (return_act x)" "calm (get_act f)" "calm (modify_act g)"
  by (simp_all add: calm_def act_defs)

lemma calm_if: "calm m \<Longrightarrow> calm k \<Longrightarrow> calm (if b then m else k)"
  by simp

lemma calm_bind:
  assumes "calm m" "keeps evolves m" "\<And>x. calm (f x)"
  shows "calm (bind_act m f)"
  unfolding calm_def
proof (intro allI impI)
  fix p :: publisher
  assume strict: "\<not> pub_strict p"
  with assms(1) obtain x q where m: "m p = (Inr x, q)" by (auto simp: calm_def prod_eq_iff)
  from keepsD [OF assms(2) m] strict have "\<not> pub_strict q" by (simp add: evolves_def)
  with assms(3) show "\<exists>y. fst (bind_act m f p) = Inr y" by (simp add: calm_def bind_act_def m)
qed

lemma calm_then: "calm m \<Longrightarrow> keeps evolves m \<Longrightarrow> calm k \<Longrightarrow> calm (then_act m k)"
  by (simp add: then_act_def calm_bind)

lemma calm_except:
  assumes "keeps evolves m"
  shows "calm (except_act m (on_failure disable x))"
  unfolding calm_def
proof (intro allI impI)
  fix p :: publisher
  assume strict: "\<not> pub_strict p"
  obtain r q where m: "m p = (r, q)" by fastforce
  from keepsD [OF assms m] strict have q: "\<not> pub_strict q" by (simp add: evolves_def)
  have "pub_strict (handle_failure e d q) = pub_strict q" for e d
    by (simp add: handle_failure_def Let_def)
  with q show "\<exists>y. fst (except_act m (on_failure disable x) p) = Inr y"
    by (cases r) (simp_all add: except_act_def m on_failure_def act_defs)
qed

lemma calm_fold:
  "(\<And>x a. calm (f x a)) \<Longrightarrow> (\<And>x a. keeps evolves (f x a)) \<Longrightarrow> calm (fold_act f xs a)"
  by (induction xs arbitrary: a) (auto intro: calm_simple calm_bind)

lemma evolves_modify:
  "keeps evolves (modify_act (\<lambda>p. p\<lparr>pub_closed := True\<rparr>))"
  "keeps evolves (modify_act (\<lambda>p. p\<lparr>pub_last_sample := Some now\<rparr>))"
  by (intro ev.keeps_modify; simp add: evolves_def warned_once_def totals_ok_def)+

lemma evolves_close_key: "keeps evolves (close_key env key x)"
  unfolding close_key_def by (intro ev.keeps_all evolves_publish evolves_failure)

lemma calm_op: "calm (run_op env op x)"
proof (cases op)
  case (Sample ttnn now)
  show ?thesis
    unfolding Sample run_op.simps sample_def
    by (intro calm_bind calm_then calm_if calm_simple calm_except ev.keeps_all evolves_modify evolves_data)
next
  case (PublishData data)
  show ?thesis
    unfolding PublishData run_op.simps publish_profiler_data_def
    by (intro calm_bind calm_if calm_simple calm_except ev.keeps_get evolves_data)
next
  case Close
  have key: "calm (close_key env key x)" for key x
    unfolding close_key_def
    by (intro calm_except ev.keeps_all evolves_publish)
  show ?thesis
    unfolding Close run_op.simps close_def
    by (intro calm_bind calm_then calm_if calm_simple calm_fold key evolves_close_key evolves_modify
        ev.keeps_all)
qed

text \<open>
  C32: A publisher that is not strict never raises into the workload: whatever profiler data, system
  errors and time stamps any sequence of its operations meets, all of them return. It warns at most
  once, and exactly when a failure has been counted.
\<close>

theorem publisher_best_effort:
  assumes "new_publisher env a files = Inr p" and "\<not> arg_strict a"
  shows "\<exists>found q. fold_act (run_op env) ops [] p = (Inr found, q)
    \<and> length (pub_warnings q) \<le> 1 \<and> (pub_warnings q \<noteq> [] \<longleftrightarrow> 1 \<le> pub_failure_count q)"
proof -
  have new: "\<not> pub_strict p" "warned_once p"
    using assms by (auto simp: new_publisher_def warned_once_def split: if_splits)
  have calm: "calm (fold_act (run_op env) ops [])"
    by (intro calm_fold calm_op evolves_op)
  with new(1) obtain found q where run: "fold_act (run_op env) ops [] p = (Inr found, q)"
    by (auto simp: calm_def prod_eq_iff)
  have "keeps evolves (fold_act (run_op env) ops [])"
    by (intro ev.keeps_fold evolves_op)
  from keepsD [OF this run] new(2) have "warned_once q" by (simp add: evolves_def)
  then show ?thesis using run by (auto simp: warned_once_def split: if_splits)
qed

definition bare_env :: publisher_env where
  "bare_env = \<lparr>pe_environ = (\<lambda>_. None), pe_hostname = u ''host'', pe_pid = 7, pe_thread = 1,
     pe_sha256 = (\<lambda>_. u ''00000000''), pe_fails = (\<lambda>_ _. None), pe_left = (\<lambda>_. []), pe_time = (\<lambda>_. 100)\<rparr>"

definition bare_publisher :: publisher where
  "bare_publisher = (case new_publisher bare_env default_arguments (\<lambda>_. None) of Inr p \<Rightarrow> p)"

lemma bare_publisher: "new_publisher bare_env default_arguments (\<lambda>_. None) = Inr bare_publisher"
  by (simp add: bare_publisher_def new_publisher_def default_arguments_def)

lemma publisher_best_effort_witness:
  "\<exists>found q. fold_act (run_op bare_env) [Sample (Inl OtherException) 0, Close] [] bare_publisher = (Inr found, q)
    \<and> length (pub_warnings q) \<le> 1"
  using publisher_best_effort [OF bare_publisher, of "[Sample (Inl OtherException) 0, Close]"]
  by (auto simp: default_arguments_def)

section \<open>Core counts\<close>

definition summary_ok :: "summary \<Rightarrow> bool" where
  "summary_ok s \<longleftrightarrow> 0 \<le> sum_used s \<and> 0 \<le> sum_programs s
     \<and> sum_active s = (if 0 < sum_programs s then 1 else 0)
     \<and> (case sum_total s of None \<Rightarrow> True | Some t \<Rightarrow> sum_used s \<le> t)"

definition all_ok :: "summaries \<Rightarrow> bool" where
  "all_ok found \<longleftrightarrow> list_all (\<lambda>(key, s). summary_ok s) found"

lemma all_ok_update: "summary_ok s \<Longrightarrow> all_ok found \<Longrightarrow> all_ok (AList.update key s found)"
  by (induction found) (auto simp: all_ok_def)

definition gives :: "(publisher, 'a) act \<Rightarrow> ('a \<Rightarrow> bool) \<Rightarrow> bool" where
  "gives m P \<longleftrightarrow> (\<forall>(p :: publisher) x q. totals_ok p \<longrightarrow> m p = (Inr x, q) \<longrightarrow> P x)"

lemma gives_return: "P x \<Longrightarrow> gives (return_act x) P"
  by (simp add: gives_def act_defs)

lemma gives_bind:
  assumes "gives m Q" "keeps evolves m" "\<And>x. Q x \<Longrightarrow> gives (f x) P"
  shows "gives (bind_act m f) P"
  unfolding gives_def
proof (intro allI impI)
  fix p y v
  assume ok: "totals_ok p" and run: "bind_act m f p = (Inr y, v)"
  then obtain x q where m: "m p = (Inr x, q)" and f: "f x q = (Inr y, v)"
    by (auto simp: bind_act_def split: prod.splits sum.splits)
  from keepsD [OF assms(2) m] ok have "totals_ok q" by (simp add: evolves_def)
  moreover from assms(1) ok m have "Q x" by (auto simp: gives_def)
  ultimately show "P y" using assms(3) f by (auto simp: gives_def)
qed

lemma gives_any: "gives m (\<lambda>_. True)"
  by (simp add: gives_def)

lemma gives_then: "keeps evolves m \<Longrightarrow> gives k P \<Longrightarrow> gives (then_act m k) P"
  unfolding then_act_def by (rule gives_bind [OF gives_any])

lemma gives_if: "gives m P \<Longrightarrow> gives k P \<Longrightarrow> gives (if b then m else k) P"
  by simp

lemma gives_fold:
  assumes "\<And>x a. P a \<Longrightarrow> gives (f x a) P" "\<And>x a. keeps evolves (f x a)" "P a"
  shows "gives (fold_act f xs a) P"
  using assms(3)
proof (induction xs arbitrary: a)
  case Nil
  then show ?case by (simp add: gives_return)
next
  case (Cons x xs)
  show ?case
    unfolding fold_act.simps
    by (rule gives_bind [OF assms(1) assms(2) Cons.IH]) (rule Cons.prems)
qed

lemma gives_except:
  "gives m P \<Longrightarrow> P x \<Longrightarrow> gives (except_act m (on_failure d x)) P"
  by (auto simp: gives_def except_act_def on_failure_def act_defs split: prod.splits sum.splits if_splits)

lemma summary_ok_make:
  assumes "0 \<le> used" "\<not> (case map_of (pub_known_totals p) key of None \<Rightarrow> False | Some t \<Rightarrow> t < used)"
  shows "summary_ok (make_summary p key (if n = 0 then 0 else 1) (int n) used)"
  using assms by (simp add: summary_ok_def make_summary_def split: option.splits)

lemma gives_counts:
  assumes "list_all (\<lambda>n. 0 \<le> n) counts" "all_ok (fst acc)"
  shows "gives (publish_counts env key n counts totals acc) (\<lambda>acc. all_ok (fst acc))"
  unfolding gives_def
proof (intro allI impI)
  fix p x q
  assume run: "publish_counts env key n counts totals acc p = (Inr x, q)"
  let ?used = "if counts = [] then 0 else Max (set counts)"
  let ?p = "if totals = [] then p
     else p\<lparr>pub_known_totals := AList.update key (Max (set totals)) (pub_known_totals p)\<rparr>"
  let ?s = "make_summary ?p key (if n = 0 then 0 else 1) (int n) ?used"
  show "all_ok (fst x)"
  proof (cases "case map_of (pub_known_totals ?p) key of None \<Rightarrow> False | Some t \<Rightarrow> t < ?used")
    case True
    with run show ?thesis by (simp add: publish_counts_def act_defs Let_def)
  next
    case False
    with run have "bind_act (publish env key ?s False)
        (\<lambda>_. return_act (AList.update key ?s (fst acc), List.insert key (snd acc))) ?p = (Inr x, q)"
      by (simp add: publish_counts_def then_act_def bind_act_def [of "modify_act _"]
          bind_act_def [of "get_act _"] modify_act_def get_act_def Let_def)
    then have "x = (AList.update key ?s (fst acc), List.insert key (snd acc))"
      by (simp only: bind_act_def return_act_def split: prod.splits sum.splits) auto
    moreover have "summary_ok ?s"
      using summary_ok_make [OF _ False] Max_nonneg [OF assms(1)] by simp
    ultimately show ?thesis using assms(2) by (simp only: fst_conv all_ok_update)
  qed
qed

lemma gives_chip: "all_ok (fst acc) \<Longrightarrow> gives (publish_chip env item acc) (\<lambda>acc. all_ok (fst acc))"
proof (cases item)
  case (Pair chip records)
  assume acc: "all_ok (fst acc)"
  have "gives (bind_act (lift_act (map_outcome (\<lambda>r. non_negative_int (prog_core_count r)) records)) (\<lambda>counts.
     bind_act (lift_act (map_outcome (\<lambda>r. non_negative_int (prog_available_cores r)) records)) (\<lambda>totals.
       publish_counts env key (length records) counts totals acc))) (\<lambda>acc. all_ok (fst acc))" for key
  proof (rule gives_bind [where Q = "list_all (\<lambda>n. 0 \<le> n)"])
    show "gives (lift_act (map_outcome (\<lambda>r. non_negative_int (prog_core_count r)) records)) (list_all (\<lambda>n. 0 \<le> n))"
      by (auto simp: gives_def act_defs dest: map_outcome_nonneg)
  qed (intro ev.keeps_lift gives_bind [OF gives_any] gives_counts acc; assumption)+
  then show ?thesis
    unfolding Pair publish_chip_eq by (intro gives_bind [OF gives_any ev.keeps_get])
qed

lemma gives_idle: "all_ok found \<Longrightarrow> gives (publish_idle env seen key found) all_ok"
proof -
  assume found: "all_ok found"
  have "summary_ok (make_summary p key 0 0 0)" if "totals_ok p" for p
    using that by (fastforce simp: summary_ok_def make_summary_def totals_ok_def list_all_iff
        dest: map_of_SomeD split: option.splits)
  with found show ?thesis
    unfolding gives_def publish_idle_def
    by (auto simp: act_defs all_ok_update split: prod.splits sum.splits if_splits)
qed

lemma gives_data: "gives (publish_data env data) all_ok"
  unfolding publish_data_def
proof (rule gives_bind [where Q = "\<lambda>acc. all_ok (fst acc)"])
  show "gives (fold_act (publish_chip env) data ([], [])) (\<lambda>acc. all_ok (fst acc))"
    by (intro gives_fold gives_chip evolves_chip) (simp_all add: all_ok_def)
  show "keeps evolves (fold_act (publish_chip env) data ([], []))"
    by (intro ev.keeps_fold evolves_chip)
next
  fix acc :: "summaries \<times> pystr list"
  assume acc: "all_ok (fst acc)"
  have idle: "keeps evolves (publish_idle env seen key found)" for seen key found
    unfolding publish_idle_def by (intro ev.keeps_all evolves_publish)
  have last: "keeps evolves (modify_act (\<lambda>p. p\<lparr>pub_last_failure := None,
                    pub_last_success := Some (pe_time env (pub_calls p))\<rparr>))"
    by (intro ev.keeps_modify) (simp add: evolves_def warned_once_def totals_ok_def)
  show "gives (bind_act (get_act pub_device_keys) (\<lambda>keys.
     bind_act (fold_act (publish_idle env (snd acc)) keys (fst acc)) (\<lambda>found.
       then_act (modify_act (\<lambda>p. p\<lparr>pub_last_failure := None,
                    pub_last_success := Some (pe_time env (pub_calls p))\<rparr>))
         (return_act found)))) all_ok"
    by (rule gives_bind [OF gives_any ev.keeps_get], rule gives_bind [where Q = all_ok])
      (intro gives_fold gives_idle idle acc ev.keeps_fold gives_then last gives_return; assumption)+
qed

lemma gives_op: "gives (run_op env op x) all_ok"
proof -
  have nil: "all_ok []" by (simp add: all_ok_def)
  show ?thesis
  proof (cases op)
    case (Sample ttnn now)
    show ?thesis
      unfolding Sample run_op.simps sample_def
      by (intro gives_bind [OF gives_any] gives_then gives_if gives_return gives_except gives_data nil
          ev.keeps_all evolves_modify)
  next
    case (PublishData data)
    show ?thesis
      unfolding PublishData run_op.simps publish_profiler_data_def
      by (intro gives_bind [OF gives_any] gives_if gives_return gives_except gives_data nil ev.keeps_get)
  next
    case Close
    show ?thesis
      unfolding Close run_op.simps
      using evolves_op [of env Close x]
      by (auto simp: gives_def act_defs nil split: prod.splits sum.splits)
  qed
qed

text \<open>
  After any sequence of operations, the summaries an operation returns are consistent: counts
  are not negative, a device is active exactly when a program was observed, and the cores used
  never exceed the total known for the device, even when that total was learnt from an earlier
  sample.
\<close>

theorem publisher_counts:
  assumes "new_publisher env a files = Inr p"
    and "fold_act (run_op env) ops [] p = (Inr found, q)"
  shows "all_ok found"
proof -
  have "gives (fold_act (run_op env) ops []) all_ok"
    by (intro gives_fold gives_op evolves_op) (simp add: all_ok_def)
  moreover have "totals_ok p"
    using assms(1) by (auto simp: new_publisher_def totals_ok_def split: if_splits)
  ultimately show ?thesis using assms(2) by (auto simp: gives_def)
qed

lemma publisher_counts_witness:
  "\<exists>found q. fold_act (run_op bare_env) [Sample (Inl OtherException) 0, Close] [] bare_publisher = (Inr found, q)
    \<and> all_ok found"
proof -
  have "calm (fold_act (run_op bare_env) [Sample (Inl OtherException) 0, Close] [])"
    by (intro calm_fold calm_op evolves_op)
  moreover have "\<not> pub_strict bare_publisher"
    by (simp add: bare_publisher_def new_publisher_def default_arguments_def)
  ultimately obtain found q
    where run: "fold_act (run_op bare_env) [Sample (Inl OtherException) 0, Close] [] bare_publisher = (Inr found, q)"
    by (auto simp: calm_def prod_eq_iff)
  from publisher_counts [OF bare_publisher run] run show ?thesis by blast
qed

section \<open>Silence\<close>

text \<open>A closed publisher touches no file, except in \<open>close\<close> itself.\<close>

definition untouched :: "publisher \<Rightarrow> publisher \<Rightarrow> bool" where
  "untouched p q \<longleftrightarrow> pub_files q = pub_files p \<and> pub_calls q = pub_calls p"

definition still :: "publisher \<Rightarrow> publisher \<Rightarrow> bool" where
  "still p q \<longleftrightarrow> (pub_closed p \<longrightarrow> pub_closed q \<and> untouched p q)"

interpretation st: frame_relation still
  by unfold_locales (auto simp: still_def untouched_def)

lemma still_publish: "keeps still (publish env key s False)"
proof (rule keepsI)
  fix p
  show "still p (snd (publish env key s False p))"
    by (cases "pub_closed p") (simp_all add: still_def untouched_def publish_def act_defs)
qed

lemma still_failure: "keeps still (on_failure disable x e)"
  unfolding on_failure_def
  by (intro st.keeps_all st.keeps_modify) (simp add: still_def untouched_def handle_failure_def Let_def)

lemma still_data: "keeps still (publish_data env data)"
  unfolding publish_data_def publish_chip_def publish_idle_def
  by (intro st.keeps_all still_publish st.keeps_modify) (simp_all add: still_def untouched_def)

lemma still_op: "keeps still (run_op env op x)"
proof (cases op)
  case (Sample ttnn now)
  show ?thesis
    unfolding Sample run_op.simps sample_def
    by (intro st.keeps_all still_data still_failure st.keeps_modify) (simp add: still_def untouched_def)
next
  case (PublishData data)
  show ?thesis
    unfolding PublishData run_op.simps publish_profiler_data_def
    by (intro st.keeps_all still_data still_failure)
next
  case Close
  show ?thesis
    unfolding Close by (rule keepsI) (simp add: close_def act_defs still_def untouched_def)
qed

definition silent :: "publisher \<Rightarrow> bool" where
  "silent p \<longleftrightarrow> pub_closed p \<or> pub_disabled p"

definition stays_silent :: "publisher \<Rightarrow> publisher \<Rightarrow> bool" where
  "stays_silent p q \<longleftrightarrow> (silent p \<longrightarrow> silent q \<and> untouched p q)"

interpretation si: frame_relation stays_silent
  by unfold_locales (auto simp: stays_silent_def untouched_def)

lemma silent_op: "keeps stays_silent (run_op env op x)"
proof (rule keepsI)
  fix p
  show "stays_silent p (snd (run_op env op x p))"
  proof (cases "pub_closed p")
    case True
    obtain r q where run: "run_op env op x p = (r, q)" by fastforce
    from keepsD [OF still_op run] True show ?thesis
      by (simp add: run still_def stays_silent_def silent_def)
  next
    case False
    then show ?thesis
      by (cases op) (auto simp: stays_silent_def silent_def untouched_def sample_def
          publish_profiler_data_def close_def act_defs)
  qed
qed

lemma closing_closes: "pub_closed (snd (close env p))"
proof -
  have frame: "frame_relation (\<lambda>p q. pub_closed p \<longrightarrow> pub_closed q)"
    by unfold_locales auto
  note rules = frame_relation.keeps_all [OF frame] frame_relation.keeps_modify [OF frame]
  have "keeps (\<lambda>p q. pub_closed p \<longrightarrow> pub_closed q) (fs_step env c f)"
    "keeps (\<lambda>p q. pub_closed p \<longrightarrow> pub_closed q) (fs_write env g bs)" for c f g bs
    by (rule keepsI; simp add: fs_step_def fs_write_def Let_def split: option.splits)+
  then have "keeps (\<lambda>p q. pub_closed p \<longrightarrow> pub_closed q) (close_key env key x)" for key x
    unfolding close_key_def on_failure_def publish_def replace_file_def write_temporary_def sync_directory_def
    by (intro rules) (simp_all add: handle_failure_def Let_def)
  then have "keeps (\<lambda>p q. pub_closed p \<longrightarrow> pub_closed q)
      (bind_act (get_act pub_disabled) (\<lambda>disabled.
           if disabled then return_act ()
           else bind_act (get_act (\<lambda>p. if pub_published_keys p = [] then remdups (pub_device_keys p)
                                   else pub_published_keys p)) (\<lambda>keys.
             fold_act (close_key env) keys ())))"
    by (intro rules)
  then show ?thesis
    by (simp add: close_def then_act_def bind_act_def [of "modify_act _"] bind_act_def [of "get_act pub_closed"]
        get_act_def [of pub_closed] modify_act_def return_act_def [of "()" p] keeps_def)
qed

text \<open>
  C34: After \<open>close\<close>, whether it succeeded or raised, and after a first \<open>sample\<close> without the
  profiler's environment variables, the publisher makes no file system call any more, whatever
  operations follow.
\<close>

theorem publisher_silence:
  assumes "op = Close \<or> op = Sample ttnn now \<and> pub_last_sample p = None \<and> validate_environment env \<noteq> Inr ()"
    and "run_op env op x p = (r, q)" and "fold_act (run_op env) ops y q = (r', v)"
  shows "pub_calls v = pub_calls q \<and> pub_files v = pub_files q"
proof -
  have "silent q"
    using assms(1)
  proof
    assume "op = Close"
    with assms(2) have "q = snd (close env p)"
      by (auto simp: act_defs split: prod.splits sum.splits)
    then show ?thesis using closing_closes by (simp add: silent_def)
  next
    assume first: "op = Sample ttnn now \<and> pub_last_sample p = None \<and> validate_environment env \<noteq> Inr ()"
    then have "validate_environment env = Inl RuntimeError"
      by (simp add: validate_environment_def split: if_splits)
    with assms(2) first show ?thesis
      by (auto simp: sample_def act_defs except_act_def on_failure_def handle_failure_def Let_def
          silent_def split: if_splits)
  qed
  moreover have "keeps stays_silent (fold_act (run_op env) ops y)"
    by (intro si.keeps_fold silent_op)
  ultimately show ?thesis
    using keepsD [of stays_silent _ q r' v] assms(3)
    by (auto simp: stays_silent_def untouched_def)
qed

lemma publisher_silence_witness:
  "pub_calls (snd (fold_act (run_op bare_env) [PublishData [], Close] [] (snd (run_op bare_env Close [] bare_publisher))))
     = pub_calls (snd (run_op bare_env Close [] bare_publisher))"
proof -
  obtain r q where 1: "run_op bare_env Close [] bare_publisher = (r, q)" by fastforce
  obtain r' v where 2: "fold_act (run_op bare_env) [PublishData [], Close] [] q = (r', v)" by fastforce
  from publisher_silence [OF disjI1 [OF refl] 1 2] show ?thesis by (simp only: 1 2 snd_conv)
qed

section \<open>File names\<close>

lemma dash_runs_points: "list_all component_point (dash_runs b s)"
  by (induction b s rule: dash_runs.induct) (auto simp: component_point_def)

lemma component_points: "component_point c \<Longrightarrow> c < 128 \<and> 33 \<le> c \<and> c \<le> 126 \<and> c \<noteq> 47"
  by (auto simp: component_point_def)

text \<open>
  The file name made of a workload identity is never empty, at most 160 characters, holds
  only letters, digits, underscores, dots and dashes and begins with neither a dot nor a dash,
  so that with its suffix it is a component the exporter opens, whatever the identity is.
\<close>

theorem safe_component_valid:
  assumes "safe_component sha256_hexdigest v = Inr n"
    and "\<And>bs. list_all component_point (sha256_hexdigest bs)"
  shows "n \<noteq> [] \<and> length n \<le> 160 \<and> list_all component_point n \<and> hd n \<noteq> 46 \<and> hd n \<noteq> 45
    \<and> valid_component (n @ u ''.state'') 255"
proof -
  let ?P = "\<lambda>c. c = 45 \<or> c = 46"
  let ?s = "strip_by ?P (dash_runs False v)"
  let ?c = "if ?s = [] then u ''workload'' else ?s"
  have c: "list_all component_point ?c \<and> ?c \<noteq> [] \<and> \<not> ?P (hd ?c)"
    using dash_runs_points [of False v] set_strip_by [of ?P "dash_runs False v"]
      strip_by_hd [of ?P "dash_runs False v"]
    by (auto simp: list_all_iff u_Cons component_point_def)
  obtain t where n: "n = take 160 (?c @ t)" and t: "list_all component_point t"
  proof (cases "?c = v")
    case True
    with assms(1) have "n = take 160 (?c @ [])" by (simp add: safe_component_def Let_def)
    then show ?thesis by (rule that) simp
  next
    case False
    with assms(1) obtain bs where "n = take 160 (?c @ u ''-'' @ take 8 (sha256_hexdigest bs))"
      by (auto simp: safe_component_def Let_def bind_outcome_Inr)
    then show ?thesis
      by (rule that) (use assms(2) in \<open>auto simp: list_all_iff u_Cons component_point_def dest: in_set_takeD\<close>)
  qed
  from c t have all: "list_all component_point (?c @ t)" by simp
  then have points: "list_all component_point n" unfolding n by (auto simp: list_all_iff dest: in_set_takeD)
  moreover have "n \<noteq> []" "hd n = hd ?c"
    using c unfolding n by (simp_all only: take_eq_Nil append_is_Nil_conv) (cases ?c; simp)+
  moreover have "length n \<le> 160" unfolding n by simp
  moreover have "valid_component (n @ u ''.state'') 255"
  proof -
    have "\<And>c. c \<in> set n \<Longrightarrow> c < 128 \<and> 33 \<le> c \<and> c \<le> 126 \<and> c \<noteq> 47"
      using points by (simp add: list_all_iff component_points)
    then show ?thesis
      using \<open>length n \<le> 160\<close> by (fastforce simp: valid_component_def list_all_iff u_Cons)
  qed
  ultimately show ?thesis using c by auto
qed

lemma safe_component_valid_witness:
  "valid_component (u ''ns-pod-00000000'' @ u ''.state'') 255"
proof -
  have "safe_component (\<lambda>_. u ''00000000'') (u ''ns/pod'') = Inr (u ''ns-pod-00000000'')"
    by (simp add: safe_component_def u_Cons component_point_def strip_by_def encode_utf8_def
        is_scalar_def Let_def)
  from safe_component_valid [OF this] show ?thesis
    by (simp add: u_Cons component_point_def)
qed

text \<open>
  The digest that tells replaced names apart is cut off together with a long name: two different
  identities can share a file name.
\<close>

lemma long_identities_collide:
  assumes "list_all component_point s" "length s = 160" "strip_by (\<lambda>c. c = 45 \<or> c = 46) s = s"
    and "component_point c" "c \<noteq> 45" "c \<noteq> 46"
  shows "safe_component h (s @ [c]) = safe_component h s"
proof -
  have id: "dash_runs b t = t" if "list_all component_point t" for b t
    using that by (induction t arbitrary: b) auto
  have "s \<noteq> []" using assms(2) by auto
  then have first: "\<not> (hd s = 45 \<or> hd s = 46)"
    using strip_by_hd [of "\<lambda>c. c = 45 \<or> c = 46" s] assms(3) by simp
  then have "strip_by (\<lambda>c. c = 45 \<or> c = 46) (s @ [c]) = s @ [c]"
    using \<open>s \<noteq> []\<close> assms(5,6) by (cases s) (simp_all add: strip_by_def)
  with assms \<open>s \<noteq> []\<close> show ?thesis by (simp add: safe_component_def id)
qed

end
