(* ===== verification/PublisherExporter.thy ===== *)
theory PublisherExporter
  imports Publisher WorkloadFacts
begin

text \<open>
  The two ends of the profiler state files: what the publisher of a workload writes is what the
  ingestor of the exporter reads.
\<close>

section \<open>A record as entries\<close>

definition printable :: "pystr \<Rightarrow> bool" where
  "printable s \<longleftrightarrow> list_all (\<lambda>b. 32 \<le> b \<and> b \<le> 126) s \<and> strip_ascii s = s"

lemma printable_field: "printable s \<Longrightarrow> field_text s \<and> state_value s = s"
proof -
  assume s: "printable s"
  then have points: "c \<noteq> 10 \<and> c \<noteq> 13 \<and> c \<noteq> 0 \<and> \<not> is_line_break c" if "c \<in> set s" for c
    using that by (auto simp: printable_def list_all_iff is_line_break_def line_break_points_def)
  then have "10 \<notin> set s" "13 \<notin> set s" by auto
  moreover have "replace_char b r s = s" if "b \<notin> set s" for b r
    using that unfolding replace_char_def by (induction s) auto
  ultimately have "state_value s = s" by (metis state_value_def)
  then show ?thesis
    using s points by (auto simp: field_text_def printable_def no_break_def list_all_iff)
qed

lemma printable_str_int [simp]: "printable (str_int i)"
  using str_int_points [of i] strip_str_int [of is_c_space i] digit_not_c_space
  by (auto simp: printable_def strip_ascii_def list_all_iff)

lemma payload_fields:
  assumes "list_all (\<lambda>(key, v). printable v) (record_fields p t s)"
  shows "record_payload p t s = render_fields (record_fields p t s)"
proof -
  have "concat (map (\<lambda>(key, v). key @ u ''='' @ state_value v @ [10]) kvs) = render_fields kvs"
    if "list_all (\<lambda>(key, v). printable v) kvs" for kvs
    using that
    by (induction kvs) (auto simp: render_fields_def field_line_def printable_field)
  with assms show ?thesis by (simp add: record_payload_def)
qed

definition label_entry :: "string \<Rightarrow> pystr option \<Rightarrow> (pystr \<times> pystr) list" where
  "label_entry key v = (case v of None \<Rightarrow> [] | Some t \<Rightarrow> if t = [] then [] else [(u key, t)])"

lemma record_fields_eq:
  "record_fields p t s =
     [(u ''schema_version'', str_int (pub_layout_version p)), (u ''workload_id'', pub_workload_id p),
      (u ''sample_timestamp_seconds'', str_int t), (u ''active'', str_int (sum_active s)),
      (u ''programs_observed'', str_int (sum_programs s)), (u ''tensix_cores_used'', str_int (sum_used s))]
     @ label_entry ''tensix_cores_total'' (map_option str_int (sum_total s))
     @ label_entry ''pod_namespace'' (pub_pod_namespace p) @ label_entry ''pod_name'' (pub_pod_name p)
     @ label_entry ''container_name'' (pub_container_name p)"
  by (auto simp: record_fields_def label_entry_def List.map_filter_def split: option.splits)

lemma label_lookup:
  "map_of (label_entry k v @ rest) (u key) =
     (if key = k \<and> v \<noteq> None \<and> v \<noteq> Some [] then v else map_of rest (u key))"
  by (auto simp: label_entry_def split: option.split)

lemma label_member: "key \<noteq> k \<Longrightarrow> u key \<notin> fst ` set (label_entry k v)"
  by (cases v) (simp_all add: label_entry_def)

lemma label_distinct:
  "distinct (map fst (label_entry k v @ rest)) \<longleftrightarrow>
     distinct (map fst rest) \<and> (label_entry k v = [] \<or> u k \<notin> fst ` set rest)"
  by (cases v) (auto simp: label_entry_def)

lemma label_distinct_last: "distinct (map fst (label_entry k v))"
  by (simp add: label_entry_def split: option.split)

lemma label_length: "length (label_entry k v) \<le> 1"
  by (simp add: label_entry_def split: option.split)

lemma fields_distinct: "distinct (map fst (record_fields p t s))"
  unfolding record_fields_eq append_Cons append_Nil
  by (simp add: label_member label_distinct label_distinct_last image_Un del: map_append distinct_append)

lemma fields_length: "length (record_fields p t s) \<le> 32"
  using label_length [of "''tensix_cores_total''" "map_option str_int (sum_total s)"]
    label_length [of "''pod_namespace''" "pub_pod_namespace p"]
    label_length [of "''pod_name''" "pub_pod_name p"]
    label_length [of "''container_name''" "pub_container_name p"]
  by (simp add: record_fields_eq)

section \<open>What the exporter accepts\<close>

definition label_fits :: "pystr option \<Rightarrow> nat \<Rightarrow> bool" where
  "label_fits v n = (case v of None \<Rightarrow> True | Some t \<Rightarrow> printable t \<and> length t \<le> n)"

definition int64_ok :: "int \<Rightarrow> bool" where
  "int64_ok i \<longleftrightarrow> 0 \<le> i \<and> i \<le> int64_max"

definition acceptable :: "publisher \<Rightarrow> int \<Rightarrow> summary \<Rightarrow> bool" where
  "acceptable p t s \<longleftrightarrow>
     pub_workload_id p \<noteq> [] \<and> label_fits (Some (pub_workload_id p)) 128
   \<and> label_fits (pub_pod_namespace p) 63 \<and> label_fits (pub_pod_name p) 253
   \<and> label_fits (pub_container_name p) 63
   \<and> int64_ok (pub_layout_version p) \<and> int64_ok t \<and> int64_ok (sum_programs s) \<and> int64_ok (sum_used s)
   \<and> (sum_active s = 0 \<or> sum_active s = 1)
   \<and> (case sum_total s of None \<Rightarrow> True | Some n \<Rightarrow> int64_ok n \<and> n \<noteq> 0 \<and> sum_used s \<le> n)"

definition nonempty :: "pystr option \<Rightarrow> pystr option" where
  "nonempty v = (if v = Some [] then None else v)"

definition published_workload :: "publisher \<Rightarrow> int \<Rightarrow> summary \<Rightarrow> bool \<Rightarrow> workload_telemetry" where
  "published_workload p t s stale =
     \<lparr>wl_id = pub_workload_id p, wl_pod_namespace = nonempty (pub_pod_namespace p),
      wl_pod_name = nonempty (pub_pod_name p), wl_container_name = nonempty (pub_container_name p),
      wl_active = Some (sum_active s), wl_programs_observed = Some (sum_programs s),
      wl_cores_used = Some (sum_used s), wl_cores_total = sum_total s, wl_timestamp = Some t,
      wl_stale = stale\<rparr>"

lemma acceptable_printable: "acceptable p t s \<Longrightarrow> list_all (\<lambda>(key, v). printable v) (record_fields p t s)"
  by (auto simp: acceptable_def label_fits_def record_fields_eq label_entry_def split: option.splits)

lemma key_ok:
  assumes "list_all (\<lambda>c. 33 \<le> cp c \<and> cp c \<le> 126 \<and> cp c \<noteq> 61) k" "k \<noteq> []" "printable v"
  shows "field_ok (u k, v)"
proof -
  have points: "\<And>c. c \<in> set (u k) \<Longrightarrow> 33 \<le> c \<and> c \<le> 126 \<and> c \<noteq> 61"
    using assms(1) by (auto simp: list_all_iff u_def)
  then have "strip_ascii (u k) = u k"
    unfolding strip_ascii_def
    by (intro strip_by_none) (fastforce simp: list_all_iff is_c_space_def)
  with points have "printable (u k)" by (force simp: printable_def list_all_iff)
  with assms(2,3) points show ?thesis
    by (auto simp: field_ok_def printable_field)
qed

lemma label_ok:
  "list_all (\<lambda>c. 33 \<le> cp c \<and> cp c \<le> 126 \<and> cp c \<noteq> 61) k \<Longrightarrow> k \<noteq> [] \<Longrightarrow>
    (case v of None \<Rightarrow> True | Some t \<Rightarrow> printable t) \<Longrightarrow> list_all field_ok (label_entry k v)"
  by (simp add: label_entry_def key_ok split: option.splits)

lemma acceptable_fields:
  assumes "acceptable p t s"
  shows "list_all field_ok (record_fields p t s)"
proof -
  have "case v of None \<Rightarrow> True | Some t \<Rightarrow> printable t" if "label_fits v n" for v n
    using that by (simp add: label_fits_def split: option.splits)
  moreover have "printable (pub_workload_id p)"
    using assms by (simp add: acceptable_def label_fits_def)
  moreover have "case map_option str_int (sum_total s) of None \<Rightarrow> True | Some t \<Rightarrow> printable t"
    by (cases "sum_total s") simp_all
  ultimately show ?thesis
    using assms unfolding acceptable_def
    by (auto simp: record_fields_eq intro!: key_ok label_ok)
qed

lemma acceptable_parses:
  assumes "acceptable p t s"
  shows "parse_key_values (record_payload p t s) = Some (record_fields p t s)"
  unfolding payload_fields [OF acceptable_printable [OF assms]]
  by (rule parse_render_fields [OF acceptable_fields [OF assms] fields_distinct fields_length])

section \<open>From the publisher to the exporter\<close>

lemma label_lookup_last:
  "map_of (label_entry k v) (u key) = (if key = k \<and> v \<noteq> None \<and> v \<noteq> Some [] then v else None)"
  using label_lookup [of k v "[]"] by simp

lemma state_strings:
  assumes "acceptable p t s"
  shows "state_string (record_fields p t s) ''schema_version'' = Some (str_int (pub_layout_version p))"
    "state_string (record_fields p t s) ''workload_id'' = Some (pub_workload_id p)"
    "state_string (record_fields p t s) ''sample_timestamp_seconds'' = Some (str_int t)"
    "state_string (record_fields p t s) ''active'' = Some (str_int (sum_active s))"
    "state_string (record_fields p t s) ''programs_observed'' = Some (str_int (sum_programs s))"
    "state_string (record_fields p t s) ''tensix_cores_used'' = Some (str_int (sum_used s))"
    "state_string (record_fields p t s) ''tensix_cores_total'' = map_option str_int (sum_total s)"
    "state_string (record_fields p t s) ''pod_namespace'' = nonempty (pub_pod_namespace p)"
    "state_string (record_fields p t s) ''pod_name'' = nonempty (pub_pod_name p)"
    "state_string (record_fields p t s) ''container_name'' = nonempty (pub_container_name p)"
  using assms
  by (simp_all add: state_string_def record_fields_eq label_lookup label_lookup_last acceptable_def
      nonempty_def del: map_of_append split: option.split)

lemma state_int_text:
  "state_string kvs key = Some (str_int i) \<Longrightarrow> int64_ok i \<Longrightarrow> state_non_negative_int kvs key = Inr (Some i)"
  by (simp add: state_non_negative_int_def parse_int64_str_int_in_range int64_ok_def int64_min_def)

lemma acceptable_workload:
  assumes "acceptable p t s"
  shows "workload_fields (record_fields p t s) = Inr (published_workload p t s False)"
proof -
  have "state_non_negative_int (record_fields p t s) ''tensix_cores_total'' = Inr (sum_total s)"
  proof (cases "sum_total s")
    case None
    then show ?thesis
      using state_strings(7) [OF assms]
      by (simp add: state_non_negative_int_def parse_int64_def is_int_literal_def strip_ws_def)
  next
    case (Some n)
    with assms show ?thesis
      by (simp add: state_int_text state_strings(7) [OF assms] acceptable_def)
  qed
  moreover have "int64_ok (sum_active s)" "int64_ok (sum_programs s)" "int64_ok (sum_used s)" "int64_ok t"
    using assms by (auto simp: acceptable_def int64_ok_def int64_max_def)
  ultimately show ?thesis
    using state_strings [OF assms] by (simp add: workload_fields_def state_int_text published_workload_def)
qed

lemma label_bounded: "label_fits v n \<Longrightarrow> bounded_label (nonempty v) n False"
  by (cases v) (auto simp: label_fits_def nonempty_def printable_def list_all_iff)

lemma acceptable_valid:
  assumes "acceptable p t s"
  shows "\<not> invalid_workload (published_workload p t s False)"
proof -
  have "bounded_label (Some (pub_workload_id p)) 128 True"
    using assms by (auto simp: acceptable_def label_fits_def printable_def list_all_iff)
  then show ?thesis
    using assms
    by (auto simp: invalid_workload_def published_workload_def acceptable_def label_bounded state_limits
        split: option.splits)
qed

lemma acceptable_record:
  assumes "acceptable p t s"
  shows "fst (parse_workload env stale_after (record_payload p t s) (pub_layout_version p) src w)
    = Inr (Some (published_workload p t s (is_stale stale_after (env_time env (w_trace w)) t)))"
proof -
  have schema: "state_non_negative_int (record_fields p t s) ''schema_version''
      = Inr (Some (pub_layout_version p))"
    using assms by (intro state_int_text state_strings [OF assms]) (simp add: acceptable_def)
  let ?w = "published_workload p t s False"
  have stale: "?w\<lparr>wl_stale := b\<rparr> = published_workload p t s b" "the (wl_timestamp ?w) = t" for b
    by (simp_all add: published_workload_def)
  show ?thesis
    by (simp add: parse_workload_def acceptable_parses [OF assms] schema acceptable_workload [OF assms]
        acceptable_valid [OF assms] stale os_time_def run_simps note_issue_def note_accepted_def
        update_source_def Let_def)
qed


definition pod_publisher :: "pystr option \<Rightarrow> publisher" where
  "pod_publisher name = (case new_publisher
     \<lparr>pe_environ = (\<lambda>_. None), pe_hostname = u ''host'', pe_pid = 7, pe_thread = 1,
      pe_sha256 = (\<lambda>_. []), pe_fails = (\<lambda>_ _. None), pe_left = (\<lambda>_. []), pe_time = (\<lambda>_. 100)\<rparr>
     (default_arguments\<lparr>arg_workload_id := Some (u ''ns/job''), arg_pod_name := name\<rparr>) (\<lambda>_. None)
     of Inr p \<Rightarrow> p)"

lemma pod_publisher:
  "pub_layout_version (pod_publisher name) = 2" "pub_workload_id (pod_publisher name) = u ''ns/job''"
  "pub_pod_namespace (pod_publisher name) = None" "pub_container_name (pod_publisher name) = None"
  "pub_pod_name (pod_publisher name) = or_text name None"
  by (simp_all add: pod_publisher_def new_publisher_def default_arguments_def or_text_def)

definition busy_summary :: summary where
  "busy_summary = \<lparr>sum_active = 1, sum_programs = 2, sum_used = 24, sum_total = Some 80\<rparr>"


section \<open>Line breaks the publisher leaves in\<close>

text \<open>
  The publisher keeps each value on one line by replacing carriage returns and line feeds only,
  while the exporter cuts the text at every line break Python knows. A pod name with a
  U+2028 therefore adds a field of its own to the record: here a container name that the publisher
  never had.
\<close>

theorem value_adds_field:
  "let p = pod_publisher (Some (u ''a'' @ [0x2028] @ u ''container_name=b''))
   in pub_container_name p = None
    \<and> (\<exists>kvs. parse_key_values (record_payload p 100 busy_summary) = Some kvs
          \<and> map_of kvs (u ''pod_name'') = Some (u ''a'')
          \<and> map_of kvs (u ''container_name'') = Some (u ''b''))"
proof -
  let ?p = "pod_publisher (Some (u ''a'' @ [0x2028] @ u ''container_name=b''))"
  have numbers: "str_int 2 = u ''2''" "str_int 100 = u ''100''" "str_int 1 = u ''1''"
    "str_int 24 = u ''24''" "str_int 80 = u ''80''"
    by (simp_all add: str_int_def str_nat_def nat_digits_base nat_digits_step digit_point_def u_Cons)
  have payload: "record_payload ?p 100 busy_summary
      = u ''schema_version=2'' @ 10 # u ''workload_id=ns/job'' @ 10 # u ''sample_timestamp_seconds=100'' @ 10 #
        u ''active=1'' @ 10 # u ''programs_observed=2'' @ 10 # u ''tensix_cores_used=24'' @ 10 #
        u ''tensix_cores_total=80'' @ 10 # u ''pod_name=a'' @ [0x2028] @ u ''container_name=b'' @ [10]"
    by (simp add: record_payload_def record_fields_def pod_publisher or_text_def busy_summary_def numbers
        state_value_def replace_char_def List.map_filter_def u_Cons)
  have "parse_key_values (record_payload ?p 100 busy_summary) = Some
     [(u ''schema_version'', u ''2''), (u ''workload_id'', u ''ns/job''),
      (u ''sample_timestamp_seconds'', u ''100''), (u ''active'', u ''1''),
      (u ''programs_observed'', u ''2''), (u ''tensix_cores_used'', u ''24''),
      (u ''tensix_cores_total'', u ''80''), (u ''pod_name'', u ''a''), (u ''container_name'', u ''b'')]"
    unfolding payload
    by (simp add: parse_key_values_def u_Cons is_line_break_def line_break_points_def
        maximum_state_fields_def strip_ascii_def strip_by_def is_c_space_def Let_def)
  then show ?thesis by (simp add: pod_publisher Let_def)
qed

end
