(* ===== verification/EndToEnd.thy ===== *)
theory EndToEnd
  imports PublisherExporter PublisherFiles
begin

text \<open>
  From the publisher to the metrics: the bytes that a successful publication leaves in the file
  are, read through the descriptors of the exporter, the workload it reports.
\<close>

section \<open>The bytes of a record\<close>

lemma splitlines_lines:
  "list_all no_break ls \<Longrightarrow> splitlines (concat (map (\<lambda>l. l @ [10]) ls) @ r) = ls @ splitlines r"
  by (induction ls) (simp_all add: splitlines_line)

lemma strip_final_line_feed:
  assumes "b \<noteq> []" "\<not> is_c_space (hd b)" "\<not> is_c_space (last b)"
  shows "strip_ascii (b @ [10]) = b"
proof -
  have "dropWhile is_c_space (b @ [10]) = b @ [10]" using assms(1,2) by (cases b) simp_all
  moreover have "dropWhile is_c_space (10 # rev b) = rev b"
    using assms(1,3) by (cases "rev b" rule: list.exhaust) (auto simp: is_c_space_def hd_rev [symmetric])
  ultimately show ?thesis by (simp add: strip_ascii_def strip_by_def)
qed

lemma field_text_ends: "field_text t \<Longrightarrow> t \<noteq> [] \<Longrightarrow> \<not> is_c_space (hd t) \<and> \<not> is_c_space (last t)"
  using strip_by_hd [of is_c_space t] strip_by_last [of is_c_space t]
  by (simp add: field_text_def strip_ascii_def)

lemma field_line_no_break: "field_ok e \<Longrightarrow> no_break (field_line e)"
  by (auto simp: field_line_def field_ok_def field_text_def list_all_iff u_Cons
      is_line_break_def line_break_points_def)

lemma rendered_fields_stripped:
  assumes "list_all field_ok kvs" "kvs \<noteq> []" "snd (last kvs) \<noteq> []"
  shows "parse_key_values (strip_ascii (render_fields kvs)) = parse_key_values (render_fields kvs)"
    and "strip_ascii (render_fields kvs) \<noteq> []"
proof -
  let ?init = "concat (map (\<lambda>l. l @ [10]) (map field_line (butlast kvs)))"
  let ?b = "?init @ field_line (last kvs)"
  have kvs: "kvs = butlast kvs @ [last kvs]" using assms(2) by simp
  have render: "render_fields kvs = ?b @ [10]"
    unfolding render_fields_def by (subst kvs) (simp add: comp_def)
  have ok: "field_ok e" if "e \<in> set kvs" for e using that assms(1) by (simp add: list_all_iff)
  have last: "field_ok (last kvs)" using ok assms(2) by simp
  have breaks: "list_all no_break (map field_line (butlast kvs))"
    using ok field_line_no_break by (auto simp: list_all_iff dest!: in_set_butlastD)
  have line: "field_line e \<noteq> [] \<and> \<not> is_c_space (hd (field_line e))" if "field_ok e" for e
    using that field_text_ends [of "fst e"] by (cases "fst e") (auto simp: field_ok_def field_line_def)
  have hd: "\<not> is_c_space (hd ?b)"
  proof (cases "butlast kvs")
    case Nil
    then show ?thesis using line [OF last] by simp
  next
    case (Cons e es)
    then have "e \<in> set kvs" using in_set_butlastD [of e kvs] by simp
    then show ?thesis using Cons line [OF ok, of e] by (cases "field_line e") simp_all
  qed
  have "\<not> is_c_space (last ?b)"
    using last assms(3) field_text_ends [of "snd (last kvs)"] by (simp add: field_line_def field_ok_def)
  then have strip: "strip_ascii (render_fields kvs) = ?b"
    unfolding render using hd line [OF last] by (intro strip_final_line_feed) simp_all
  have "splitlines ?b = map field_line (butlast kvs) @ [field_line (last kvs)]"
    using splitlines_lines [OF breaks] splitlines_last [OF field_line_no_break [OF last]] line [OF last] by simp
  moreover have "splitlines (?b @ [10]) = map field_line (butlast kvs) @ [field_line (last kvs)]"
    using splitlines_lines [OF breaks, of "field_line (last kvs) @ [10]"]
      splitlines_line [OF field_line_no_break [OF last], of "[]"] by simp
  ultimately show "parse_key_values (strip_ascii (render_fields kvs)) = parse_key_values (render_fields kvs)"
    by (simp only: strip) (simp add: render parse_key_values_def)
  show "strip_ascii (render_fields kvs) \<noteq> []" using strip line [OF last] by simp
qed

lemma acceptable_last:
  assumes "acceptable p t s"
  shows "record_fields p t s \<noteq> []" "snd (last (record_fields p t s)) \<noteq> []"
  by (auto simp: record_fields_eq label_entry_def split: option.splits)

lemma acceptable_stripped:
  assumes "acceptable p t s"
  shows "parse_key_values (strip_ascii (record_payload p t s)) = parse_key_values (record_payload p t s)"
    and "strip_ascii (record_payload p t s) \<noteq> []"
  using rendered_fields_stripped [OF acceptable_fields [OF assms] acceptable_last [OF assms]]
  by (simp_all add: payload_fields [OF acceptable_printable [OF assms]])

lemma str_int_short: "int64_ok i \<Longrightarrow> length (str_int i) \<le> 19"
  using length_nat_digits [of 10 "nat i" 18]
  by (auto simp: int64_ok_def int64_max_def str_int_def str_nat_def)

lemma acceptable_short_fields:
  assumes "acceptable p t s" "(k, v) \<in> set (record_fields p t s)"
  shows "length k \<le> 24 \<and> length v \<le> 253"
proof -
  have label: "length v \<le> 253" if "(k, v) \<in> set (label_entry key x)" "label_fits x n" "n \<le> 253" for key x n
    using that by (auto simp: label_entry_def label_fits_def split: option.splits if_splits)
  have key: "length k \<le> 24" if "(k, v) \<in> set (label_entry key x)" "length key \<le> 24" for key x
    using that by (auto simp: label_entry_def split: option.splits if_splits)
  have number: "length (str_int i) \<le> 253" if "int64_ok i" for i using str_int_short [OF that] by simp
  have cores: "length v \<le> 253"
    if "(k, v) \<in> set (label_entry ''tensix_cores_total'' (map_option str_int (sum_total s)))"
    using that assms(1) number by (auto simp: label_entry_def acceptable_def split: option.splits if_splits)
  have "int64_ok (sum_active s)" using assms(1) by (auto simp: acceptable_def int64_ok_def int64_max_def)
  with assms show ?thesis
    unfolding acceptable_def record_fields_eq
    using label [of "''pod_namespace''" "pub_pod_namespace p" 63] label [of "''pod_name''" "pub_pod_name p" 253]
      label [of "''container_name''" "pub_container_name p" 63] key cores
    by (auto simp: number label_fits_def u_Cons)
qed

lemma acceptable_short:
  assumes "acceptable p t s"
  shows "length (record_payload p t s) \<le> 16384"
proof -
  have "length (concat (map (\<lambda>e. field_line e @ [10]) kvs)) \<le> length kvs * 279"
    if "\<And>k v. (k, v) \<in> set kvs \<Longrightarrow> length k \<le> 24 \<and> length v \<le> 253" for kvs
    using that
  proof (induction kvs)
    case (Cons e kvs)
    have "length (field_line e) \<le> 278"
      using Cons.prems [of "fst e" "snd e"] by (simp add: field_line_def u_Cons)
    moreover have "length (concat (map (\<lambda>e. field_line e @ [10]) kvs)) \<le> length kvs * 279"
    proof (rule Cons.IH)
      show "length k \<le> 24 \<and> length v \<le> 253" if "(k, v) \<in> set kvs" for k v
        using that Cons.prems [of k v] by simp
    qed
    ultimately show ?case by simp
  qed simp
  from this [of "record_fields p t s", OF acceptable_short_fields [OF assms]]
  have "length (record_payload p t s) \<le> length (record_fields p t s) * 279"
    by (simp add: payload_fields [OF acceptable_printable [OF assms]] render_fields_def)
  with fields_length [of p t s] show ?thesis by simp
qed

lemma acceptable_ascii:
  assumes "acceptable p t s"
  shows "list_all (\<lambda>c. c < 128) (record_payload p t s)"
proof -
  have "list_all (\<lambda>c. c < 128) (fst e @ snd e)" if "e \<in> set (record_fields p t s)" for e
  proof -
    have "printable (snd e)"
      using acceptable_printable [OF assms] that by (auto simp: list_all_iff)
    moreover have "list_all (\<lambda>c. c < 128) (fst e)"
      using that by (auto simp: record_fields_eq label_entry_def u_Cons split: option.splits if_splits)
    ultimately show ?thesis by (auto simp: printable_def list_all_iff)
  qed
  then show ?thesis
    unfolding payload_fields [OF acceptable_printable [OF assms]] render_fields_def
    by (auto simp: list_all_iff field_line_def u_Cons)
qed

section \<open>Runs with a known result\<close>

text \<open>
  With these descriptors open, the action returns \<open>x\<close> and leaves the same descriptors open, whatever
  the diagnostics and the calls before it.
\<close>

definition yields :: "(nat \<times> node) list \<Rightarrow> (world, 'a) act \<Rightarrow> 'a \<Rightarrow> bool" where
  "yields ds m x \<longleftrightarrow> (\<forall>w. w_descriptors w = ds \<longrightarrow> (\<exists>v. m w = (Inr x, v) \<and> w_descriptors v = ds))"

lemma yieldsE:
  assumes "yields ds m x" "w_descriptors w = ds"
  obtains v where "m w = (Inr x, v)" "w_descriptors v = ds"
  using assms by (auto simp: yields_def)

lemma yields_return: "yields ds (return_act x) x"
  by (simp add: yields_def return_act_def)

lemma yields_bind: "yields ds m x \<Longrightarrow> yields ds (f x) y \<Longrightarrow> yields ds (bind_act m f) y"
  unfolding yields_def bind_act_def by fastforce

lemma yields_keeps:
  assumes "keeps (grows S C) m" "\<And>w. w_descriptors w = ds \<Longrightarrow> fst (m w) = Inr x"
  shows "yields ds m x"
  unfolding yields_def
proof (intro allI impI)
  fix w :: world
  assume w: "w_descriptors w = ds"
  obtain r v where m: "m w = (r, v)" by fastforce
  from keepsD [OF assms(1) m] assms(2) [OF w] m w
  show "\<exists>v. m w = (Inr x, v) \<and> w_descriptors v = ds" by (auto simp: grows_def)
qed

text \<open>A directory entry that is always found, and one that never is.\<close>

definition entry :: "os_env \<Rightarrow> node \<Rightarrow> pystr \<Rightarrow> node option \<Rightarrow> bool" where
  "entry env dir name found \<longleftrightarrow>
     (\<forall>h flags. env_openat env h dir name flags = (case found of None \<Rightarrow> Inl ENOENT | Some n \<Rightarrow> Inr n))"

lemma close_new_descriptor: "filter (\<lambda>d. fst d \<noteq> new_descriptor ds) ds = ds"
  using new_descriptor_fresh [of ds] by (force simp: filter_id_conv)

lemma yields_missing:
  assumes "map_of ds fd = Some dir" "entry env dir name None" "valid_component name 128"
  shows "yields ds (open_directory env fd name src) None"
  using assms
  by (auto simp: yields_def open_directory_def run_openat bind_act_def entry_def read_error_def return_act_def)

lemma opens_present:
  assumes "map_of (w_descriptors w) fd = Some dir" "entry env dir name (Some n)" "valid_component name 128"
  shows "\<exists>v. open_directory env fd name src w = (Inr (Some (new_descriptor (w_descriptors w))), v)
    \<and> w_descriptors v = (new_descriptor (w_descriptors w), n) # w_descriptors w"
  using assms by (simp add: open_directory_def run_openat bind_act_def entry_def return_act_def)

lemma with_new_closed:
  assumes "yields ((new_descriptor ds, n) # ds) m x" "w_descriptors w = (new_descriptor ds, n) # ds"
  obtains v where "with_directory (new_descriptor ds) m w = (Inr x, v)" "w_descriptors v = ds"
proof -
  from yieldsE [OF assms] obtain t where "m w = (Inr x, t)" "w_descriptors t = (new_descriptor ds, n) # ds" .
  then show ?thesis
    using that [of "os_close (new_descriptor ds) t"]
    by (simp add: with_directory_def finally_act_def secure_close_def) (simp add: os_close_def close_new_descriptor)
qed

lemma yields_with_new:
  assumes "yields ((new_descriptor ds, n) # ds) (f (new_descriptor ds)) x"
    and "\<And>w. w_descriptors w = ds \<Longrightarrow>
      \<exists>v. m w = (Inr (Some (new_descriptor ds)), v) \<and> w_descriptors v = (new_descriptor ds, n) # ds"
  shows "yields ds (bind_act m (\<lambda>d. case d of None \<Rightarrow> k | Some d \<Rightarrow> with_directory d (f d))) x"
  unfolding yields_def
proof (intro allI impI)
  fix w :: world
  assume w: "w_descriptors w = ds"
  from assms(2) [OF w] obtain v where v: "m w = (Inr (Some (new_descriptor ds)), v)"
    "w_descriptors v = (new_descriptor ds, n) # ds" by blast
  from with_new_closed [OF assms(1) v(2)] obtain x' where
    "with_directory (new_descriptor ds) (f (new_descriptor ds)) v = (Inr x, x')" "w_descriptors x' = ds" .
  with v(1) show "\<exists>v. bind_act m (\<lambda>d. case d of None \<Rightarrow> k | Some d \<Rightarrow> with_directory d (f d)) w = (Inr x, v)
      \<and> w_descriptors v = ds"
    by (simp add: bind_act_def)
qed

lemma yields_directory:
  assumes "map_of ds fd = Some dir" "entry env dir name (Some n)" "valid_component name 128"
    and "yields ((new_descriptor ds, n) # ds) (f (new_descriptor ds)) x"
  shows "yields ds (bind_act (open_directory env fd name src)
    (\<lambda>d. case d of None \<Rightarrow> k | Some d \<Rightarrow> with_directory d (f d))) x"
proof (rule yields_with_new [where f = f and n = n, OF assms(4)])
  fix w :: world
  assume "w_descriptors w = ds"
  with opens_present [of w fd dir env name n src] assms(1-3)
  show "\<exists>v. open_directory env fd name src w = (Inr (Some (new_descriptor ds)), v)
      \<and> w_descriptors v = (new_descriptor ds, n) # ds" by simp
qed

text \<open>The first of the device's names that is there.\<close>

lemma first_directory_missing:
  assumes "map_of ds fd = Some dir" "\<And>c. c \<in> set cs \<Longrightarrow> entry env dir c None \<and> valid_component c 128"
  shows "yields ds (first_directory env fd cs src) None"
  using assms(2)
proof (induction cs)
  case (Cons c cs)
  have "yields ds (open_directory env fd c src) None"
    using Cons.prems by (intro yields_missing [OF assms(1)]) simp_all
  moreover have "yields ds (first_directory env fd cs src) None" using Cons by simp
  ultimately show ?case by (auto intro: yields_bind)
qed (simp add: yields_return)

lemma first_directory_present:
  assumes "map_of ds fd = Some dir" "key \<in> set cs" "w_descriptors w = ds"
    and "\<And>c. c \<in> set cs \<Longrightarrow> entry env dir c (if c = key then Some n else None) \<and> valid_component c 128"
  shows "\<exists>v. first_directory env fd cs src w = (Inr (Some (new_descriptor ds)), v)
    \<and> w_descriptors v = (new_descriptor ds, n) # ds"
  using assms(2-4)
proof (induction cs arbitrary: w)
  case (Cons c cs)
  show ?case
  proof (cases "c = key")
    case True
    with opens_present [of w fd dir env c n src] assms(1) Cons.prems(2) Cons.prems(3) [of c]
    show ?thesis by (auto simp: bind_act_def return_act_def)
  next
    case False
    then have "yields ds (open_directory env fd c src) None"
      using Cons.prems(3) [of c] by (intro yields_missing [OF assms(1)]) simp_all
    then obtain v where v: "open_directory env fd c src w = (Inr None, v)" "w_descriptors v = ds"
      using Cons.prems(2) by (rule yieldsE)
    have "key \<in> set cs" using Cons.prems(1) False by simp
    from Cons.IH [OF this v(2)] Cons.prems(3) v(1) show ?thesis by (simp add: bind_act_def)
  qed
qed simp

section \<open>One published file\<close>

definition plain_file :: "os_env \<Rightarrow> node \<Rightarrow> bytes \<Rightarrow> bool" where
  "plain_file env n bs \<longleftrightarrow>
     (\<forall>h. env_fstat env h n = Inr \<lparr>st_kind = RegularFile, st_size = int (length bs), st_nlink = 1\<rparr>)
   \<and> (\<forall>h. env_read env h n = Inr bs)"

lemma read_descriptor_plain:
  assumes "map_of (w_descriptors w) fd = Some n" "plain_file env n bs" "length bs \<le> k"
  shows "fst (read_descriptor env fd k src w) = Inr (Some bs)"
proof -
  let ?w = "w\<lparr>w_trace := w_trace w @ [CFstat n]\<rparr>"
  have m: "map_of (w_descriptors ?w) fd = Some n" using assms(1) by simp
  have i: "interruptions env fd ?w = (Inr (env_interrupts env (w_trace w @ [CFstat n]) n), ?w)"
    using assms(1) by (simp add: interruptions_def get_act_def)
  from read_loop_run [OF m] obtain h where
    "read_loop env fd (Suc k) (env_interrupts env (w_trace w @ [CFstat n]) n) ?w =
      (Inr (map_sum id (take (Suc k)) (env_read env h n)), ?w\<lparr>w_trace := h @ [CRead n (Suc k)]\<rparr>)"
    by blast
  then show ?thesis
    using assms(2,3)
    by (simp add: read_descriptor_def bind_run [of "os_fstat env fd", OF run_fstat [OF assms(1)]] plain_file_def
        bind_run [of "interruptions env fd", OF i] bind_run return_act_def)
qed

lemma yields_file:
  assumes "map_of ds fd = Some dir" "entry env dir name (Some n)" "valid_component name 255"
    and "plain_file env n bs" "length bs \<le> k" "k \<le> 16384" "decode_utf8 bs = Some s" "strip_ascii s \<noteq> []"
  shows "yields ds (secure_read_text env fd name k src) (Some (strip_ascii s))"
proof (rule yields_keeps [OF keeps_secure_read_text [of src "{src}" secure_call]])
  fix w :: world
  assume w: "w_descriptors w = ds"
  let ?d = "new_descriptor ds"
  let ?w = "w\<lparr>w_trace := w_trace w @ [COpenAt dir name file_flags], w_descriptors := (?d, n) # ds\<rparr>"
  have at: "os_openat env fd name file_flags w = (Inr (Inr ?d), ?w)"
    using run_openat [of w fd dir env name file_flags] assms(1,2) w by (simp add: entry_def)
  obtain r v where r: "read_descriptor env ?d k src ?w = (r, v)" by fastforce
  moreover have "fst (read_descriptor env ?d k src ?w) = Inr (Some bs)"
    by (rule read_descriptor_plain [OF _ assms(4,5)]) simp
  ultimately have "r = Inr (Some bs)" by simp
  then show "fst (secure_read_text env fd name k src w) = Inr (Some (strip_ascii s))"
    using assms(3,5,7,8) r at
    by (simp add: secure_read_text_def bind_act_def finally_act_def accept_content_def then_act_def
        run_note_file_read return_act_def)
qed (use assms(6) in simp_all)

lemma yields_listdir:
  assumes "map_of ds fd = Some dir" "\<And>h. env_listdir env h dir = Inr names" "length names \<le> k"
  shows "yields ds (dir_entries env fd k src) names"
  using assms
  by (auto simp: yields_def dir_entries_def os_listdir_def on_descriptor_def descriptor_node_def run_simps)

lemma yields_parse:
  assumes "acceptable p t s" "pub_layout_version p = 2" "\<And>h. env_time env h = now"
  shows "yields ds (parse_workload env stale_after (strip_ascii (record_payload p t s)) 2 src)
    (Some (published_workload p t s (is_stale stale_after now t)))"
proof (rule yields_keeps [OF keeps_parse_workload [of src "{src}"]])
  fix w :: world
  have "parse_workload env stale_after (strip_ascii (record_payload p t s)) 2 src
      = parse_workload env stale_after (record_payload p t s) 2 src"
    by (simp add: parse_workload_def acceptable_stripped(1) [OF assms(1)])
  then show "fst (parse_workload env stale_after (strip_ascii (record_payload p t s)) 2 src w)
      = Inr (Some (published_workload p t s (is_stale stale_after now t)))"
    using acceptable_record [OF assms(1), of env stale_after src w] assms(2,3) by simp
qed simp

section \<open>The whole path\<close>

text \<open>
  What the exporter's kernel shows below the profiler root: the directories of one pod with one
  device, the published file in it, and no version 1 directory of the device.
\<close>

definition shows_pod :: "os_env \<Rightarrow> node \<Rightarrow> device_telemetry \<Rightarrow> pystr \<Rightarrow> pystr \<Rightarrow> bytes \<Rightarrow> bool" where
  "shows_pod env base device pod key bs \<longleftrightarrow>
     (\<exists>v2 workloads pod_dir key_dir file.
        entry env base (u ''v2'') (Some v2) \<and> entry env v2 (u ''workloads'') (Some workloads)
      \<and> (\<forall>h. env_listdir env h workloads = Inr [pod]) \<and> entry env workloads pod (Some pod_dir)
      \<and> (\<forall>c \<in> set (device_keys device). entry env pod_dir c (if c = key then Some key_dir else None))
      \<and> entry env key_dir (u ''snapshot.state'') (Some file) \<and> plain_file env file bs
      \<and> (\<forall>c \<in> set (device_keys device). entry env base c None))"

lemma device_keys_valid: "c \<in> set (device_keys device) \<Longrightarrow> valid_component c 128"
  unfolding device_keys_def by (simp only: set_filter mem_Collect_eq)

lemma layout_names:
  "valid_component (u ''v2'') 128" "valid_component (u ''workloads'') 128" "valid_component (u ''snapshot.state'') 255"
  by (simp_all add: valid_component_def u_Cons)

lemma map_of_new: "map_of ((d, n) # ds) d = Some n"
  by simp

lemma record_bytes:
  assumes "acceptable p t s" "encode_utf8 (record_payload p t s) = Inr bs"
  shows "decode_utf8 bs = Some (record_payload p t s)" "length bs \<le> 16384"
proof -
  have bs: "bs = map char_of (record_payload p t s)"
    using encode_ascii_length [OF acceptable_ascii [OF assms(1)]] assms(2) by simp
  have "u bs = record_payload p t s"
    using acceptable_ascii [OF assms(1)] by (auto simp: bs u_def list_all_iff intro!: map_idI)
  then show "decode_utf8 bs = Some (record_payload p t s)"
    using decode_utf8_ascii [of bs] acceptable_ascii [OF assms(1)] by simp
  show "length bs \<le> 16384" using acceptable_short [OF assms(1)] by (simp add: bs)
qed

lemma v2_pod_read:
  assumes pub: "acceptable p t s" "pub_layout_version p = 2" "encode_utf8 (record_payload p t s) = Inr bs"
    and time: "\<And>h. env_time env h = now" and pod: "valid_component pod 128"
    and fd: "map_of ds fd = Some workloads" and dirs: "entry env workloads pod (Some pod_dir)"
      "key \<in> set (device_keys device)"
      "\<And>c. c \<in> set (device_keys device) \<Longrightarrow> entry env pod_dir c (if c = key then Some key_dir else None)"
      "entry env key_dir (u ''snapshot.state'') (Some leaf)" "plain_file env leaf bs"
  shows "yields ds (read_v2_pod env stale_after device fd src pod ([], []))
    ([(published_workload p t s (is_stale stale_after now t))\<lparr>wl_id := pod\<rparr>], [pub_workload_id p])"
proof -
  let ?d = "new_descriptor ds" and ?ds = "(new_descriptor ds, pod_dir) # ds"
  let ?e = "new_descriptor ?ds"
  let ?w = "published_workload p t s (is_stale stale_after now t)"
  let ?read = "\<lambda>pod. with_directory pod
              (bind_act (first_device_directory env pod device src) (\<lambda>d. case d of
                  None \<Rightarrow> return_act None
                | Some directory \<Rightarrow> with_directory directory
                    (secure_read_text env directory (u ''snapshot.state'') maximum_state_file_bytes src)))"
  let ?K = "\<lambda>c. case c of None \<Rightarrow> return_act ([], [])
      | Some content \<Rightarrow> bind_act (parse_workload env stale_after content 2 src)
          (\<lambda>w. case w of None \<Rightarrow> return_act ([], [])
            | Some workload \<Rightarrow> return_act ([] @ [workload\<lparr>wl_id := pod\<rparr>], [wl_id workload]))"
  have contents: "yields ((?e, key_dir) # ?ds) (secure_read_text env ?e (u ''snapshot.state'') maximum_state_file_bytes src)
      (Some (strip_ascii (record_payload p t s)))"
    using record_bytes [OF pub(1,3)] acceptable_stripped(2) [OF pub(1)] dirs(4,5) layout_names
    by (intro yields_file [where dir = key_dir and n = leaf and bs = bs]) (simp_all add: state_limits)
  have inner: "yields ?ds (bind_act (first_device_directory env ?d device src) (\<lambda>d. case d of
                  None \<Rightarrow> return_act None
                | Some directory \<Rightarrow> with_directory directory
                    (secure_read_text env directory (u ''snapshot.state'') maximum_state_file_bytes src)))
      (Some (strip_ascii (record_payload p t s)))"
  proof (rule yields_with_new [where n = key_dir
      and f = "\<lambda>d. secure_read_text env d (u ''snapshot.state'') maximum_state_file_bytes src", OF contents])
    fix w :: world
    assume "w_descriptors w = ?ds"
    then show "\<exists>v. first_device_directory env ?d device src w = (Inr (Some ?e), v)
        \<and> w_descriptors v = (?e, key_dir) # ?ds"
      unfolding first_device_directory_def
      using dirs(2,3) device_keys_valid [of _ device]
      by (intro first_directory_present [where dir = pod_dir and key = key]) simp_all
  qed
  have accept: "yields ds (bind_act (parse_workload env stale_after (strip_ascii (record_payload p t s)) 2 src)
      (\<lambda>w. case w of None \<Rightarrow> return_act ([], [])
        | Some workload \<Rightarrow> return_act ([] @ [workload\<lparr>wl_id := pod\<rparr>], [wl_id workload])))
      ([?w\<lparr>wl_id := pod\<rparr>], [pub_workload_id p])"
    by (rule yields_bind [OF yields_parse [OF pub(1,2) time]])
      (simp add: yields_return, simp add: published_workload_def yields_return)
  show ?thesis
    unfolding yields_def
  proof (intro allI impI)
    fix w :: world
    assume w: "w_descriptors w = ds"
    from opens_present [of w fd workloads env pod pod_dir src] fd dirs(1) pod w
    obtain v where v: "open_directory env fd pod src w = (Inr (Some ?d), v)" "w_descriptors v = ?ds" by auto
    from with_new_closed [OF inner v(2)] obtain x where
      x: "?read ?d v = (Inr (Some (strip_ascii (record_payload p t s))), x)" "w_descriptors x = ds" .
    from yieldsE [OF accept x(2)] obtain y where
      y: "?K (Some (strip_ascii (record_payload p t s))) x
        = (Inr ([?w\<lparr>wl_id := pod\<rparr>], [pub_workload_id p]), y)" "w_descriptors y = ds"
      unfolding option.case by blast
    have "read_v2_pod env stale_after device fd src pod ([], []) w = bind_act (?read ?d) ?K v"
      using pod v(1) by (simp only: read_v2_pod_def state_limits if_False simp_thms option.case fst_conv snd_conv
          bind_run [of "open_directory env fd pod src", OF v(1)])
    also have "\<dots> = ?K (Some (strip_ascii (record_payload p t s))) x"
      by (rule bind_run [of "?read ?d" v, OF x(1)])
    also note y(1)
    finally show "\<exists>v. read_v2_pod env stale_after device fd src pod ([], []) w
        = (Inr ([?w\<lparr>wl_id := pod\<rparr>], [pub_workload_id p]), v) \<and> w_descriptors v = ds"
      using y(2) by blast
  qed
qed

lemma pod_reported:
  assumes pub: "acceptable p t s" "pub_layout_version p = 2" "encode_utf8 (record_payload p t s) = Inr bs"
    and time: "\<And>h. env_time env h = now" and pod: "valid_component pod 128"
    and key: "key \<in> set (device_keys device)" and shown: "shows_pod env base device pod key bs"
    and fd: "map_of (w_descriptors w) fd = Some base"
  shows "fst (read_workloads env stale_after device fd w)
    = Inr [(published_workload p t s (is_stale stale_after now t))\<lparr>wl_id := pod\<rparr>]"
proof -
  let ?w = "(published_workload p t s (is_stale stale_after now t))\<lparr>wl_id := pod\<rparr>"
  let ?src = METALIUM_PROFILER_STATE
  define ds where "ds = w_descriptors w"
  from shown obtain v2 workloads pod_dir key_dir leaf where dirs:
      "entry env base (u ''v2'') (Some v2)" "entry env v2 (u ''workloads'') (Some workloads)"
      "\<And>h. env_listdir env h workloads = Inr [pod]" "entry env workloads pod (Some pod_dir)"
      "\<And>c. c \<in> set (device_keys device) \<Longrightarrow> entry env pod_dir c (if c = key then Some key_dir else None)"
      "entry env key_dir (u ''snapshot.state'') (Some leaf)" "plain_file env leaf bs"
      "\<And>c. c \<in> set (device_keys device) \<Longrightarrow> entry env base c None"
    unfolding shows_pod_def by blast
  have pods: "yields ds' (read_v2_workloads env stale_after device d ?src ([], [])) ([?w], [pub_workload_id p])"
    if "map_of ds' d = Some workloads" for ds' d
    unfolding read_v2_workloads_def
  proof (rule yields_bind [OF yields_listdir [OF that dirs(3)]])
    show "yields ds' (fold_act (read_v2_pod env stale_after device d ?src) [pod] ([], [])) ([?w], [pub_workload_id p])"
      unfolding fold_act.simps
      by (rule yields_bind [OF v2_pod_read [OF pub time pod that dirs(4) key dirs(5-7)]])
        (simp_all add: yields_return)
  qed (simp add: state_limits)
  have v2: "yields ds (read_v2_root env stale_after device fd ?src) ([?w], [pub_workload_id p])"
    unfolding read_v2_root_def
    using fd dirs(1,2) layout_names
    by (intro yields_directory [where dir = base and n = v2] yields_directory [where dir = v2 and n = workloads]
        pods) (simp_all add: ds_def)
  have "yields ds (first_device_directory env fd device ?src) None"
    unfolding first_device_directory_def
    using fd dirs(8) device_keys_valid by (intro first_directory_missing [where dir = base]) (simp_all add: ds_def)
  then have v1: "yields ds (read_v1_root env stale_after device fd ?src ([?w], [pub_workload_id p])) [?w]"
    unfolding read_v1_root_def by (rule yields_bind) (simp add: yields_return)
  from yieldsE [OF v2 ds_def [symmetric]] obtain x where
    x: "read_v2_root env stale_after device fd ?src w = (Inr ([?w], [pub_workload_id p]), x)" "w_descriptors x = ds"
    by blast
  from yieldsE [OF v1 x(2)] obtain y where
    y: "read_v1_root env stale_after device fd ?src ([?w], [pub_workload_id p]) x = (Inr [?w], y)" by blast
  have "select_workloads [?w] = [?w]" by (simp add: select_workloads_def)
  then show ?thesis
    using fst_finish_workloads [of "[?w]" y]
    by (simp add: read_workloads_def bind_act_def x(1) y)
qed

definition snapshot_path :: "publisher \<Rightarrow> pystr \<Rightarrow> path" where
  "snapshot_path p key = path_join (path_join (pub_state_root p) key) (u ''snapshot.state'')"

definition publish_time :: "publisher_env \<Rightarrow> publisher \<Rightarrow> pystr \<Rightarrow> int" where
  "publish_time env p key = int_of_float (pe_time env (pub_calls p @ [FsMkdir (path_join (pub_state_root p) key)]))"

text \<open>A publication that succeeds leaves exactly the record of that moment in the file.\<close>

lemma publish_success:
  assumes "publish env key s allow_closed p = (Inr (), q)" "pub_layout_version p = 2"
  shows "\<exists>bs. encode_utf8 (record_payload p (publish_time env p key) s) = Inr bs
    \<and> pub_files q (snapshot_path p key) = Some bs"
proof -
  let ?d = "path_join (pub_state_root p) key" and ?name = "u ''snapshot.state''"
  let ?p = "p\<lparr>pub_published_keys := List.insert key (pub_published_keys p),
              pub_calls := pub_calls p @ [FsMkdir ?d]\<rparr>"
  have same: "target_name env ?p = Inr ?name" "record_payload ?p t s = record_payload p t s" for t
    using assms(2) by (simp_all add: target_name_def record_payload_def record_fields_def)
  let ?t = "path_join ?d (temporary_name env ?name)"
  let ?m = "record_payload p (publish_time env p key) s"
  have run: "replace_file env ?d ?t (path_join ?d ?name) ?m ?p = (Inr (), q)"
    using assms(1) same
    by (auto simp: publish_def act_defs fs_step_def Let_def publish_time_def split: if_splits option.splits)
  have "replaced_whole ?t (path_join ?d ?name) ?m True (pub_files p) (pub_files q)"
    using replace_file_whole [OF run] by (simp add: path_join_inj temporary_name_other)
  then show ?thesis by (auto simp: replaced_whole_def snapshot_path_def)
qed


definition pod_tree :: "((node \<times> pystr) \<times> node) list" where
  "pod_tree = [((1, u ''v2''), 2), ((2, u ''workloads''), 3), ((3, u ''pod-1''), 4),
         ((4, u ''0''), 5), ((5, u ''snapshot.state''), 6)]"

definition pod_env :: "bytes \<Rightarrow> os_env" where
  "pod_env bs = denied_env\<lparr>
     env_openat := (\<lambda>h n c f. case map_of pod_tree (n, c) of None \<Rightarrow> Inl ENOENT | Some m \<Rightarrow> Inr m),
     env_listdir := (\<lambda>h n. Inr [u ''pod-1'']),
     env_fstat := (\<lambda>h n. Inr \<lparr>st_kind = RegularFile, st_size = int (length bs), st_nlink = 1\<rparr>),
     env_read := (\<lambda>h n. Inr bs), env_time := (\<lambda>h. 105)\<rparr>"

lemma pod_env_shows:
  "shows_pod (pod_env bs) 1 (new_device (u ''0'') (u ''/sys/class/tenstorrent/0'')) (u ''pod-1'') (u ''0'') bs"
proof -
  have keys: "device_keys (new_device (u ''0'') d) = [u ''0'']" for d
    by (simp add: device_keys_def new_device_def new_pci_info_def valid_component_def u_Cons)
  show ?thesis
    unfolding shows_pod_def
    by (rule exI [of _ 2], rule exI [of _ 3], rule exI [of _ 4], rule exI [of _ 5], rule exI [of _ 6])
      (simp only: keys, simp add: entry_def plain_file_def pod_env_def pod_tree_def denied_env_def u_Cons)
qed

lemma pod_env_time: "env_time (pod_env bs) h = 105"
  by (simp add: pod_env_def)

definition calm_publisher_env :: publisher_env where
  "calm_publisher_env = \<lparr>pe_environ = (\<lambda>_. None), pe_hostname = u ''host'', pe_pid = 7, pe_thread = 1,
      pe_sha256 = (\<lambda>_. []), pe_fails = (\<lambda>_ _. None), pe_left = (\<lambda>_. []), pe_time = (\<lambda>_. 100)\<rparr>"

text \<open>Without failing calls a publication of encodable text succeeds.\<close>

definition runs_through :: "(publisher, 'a) act \<Rightarrow> bool" where
  "runs_through m \<longleftrightarrow> (\<forall>p. \<exists>x q. m p = (Inr x, q))"

lemma runs_through_then: "runs_through m \<Longrightarrow> runs_through k \<Longrightarrow> runs_through (then_act m k)"
  unfolding runs_through_def
proof (intro allI)
  fix p
  assume m: "\<forall>p. \<exists>x q. m p = (Inr x, q)" and k: "\<forall>p. \<exists>x q. k p = (Inr x, q)"
  from m obtain x q where q: "m p = (Inr x, q)" by blast
  from k obtain y r where "k q = (Inr y, r)" by blast
  with q show "\<exists>x q. then_act m k p = (Inr x, q)" by (simp add: then_act_def bind_act_def)
qed

lemma runs_through_ensure: "runs_through m \<Longrightarrow> runs_through k \<Longrightarrow> runs_through (ensure_act m k)"
  unfolding runs_through_def
proof (intro allI)
  fix p
  assume m: "\<forall>p. \<exists>x q. m p = (Inr x, q)" and k: "\<forall>p. \<exists>x q. k p = (Inr x, q)"
  from m obtain x q where q: "m p = (Inr x, q)" by blast
  from k obtain y r where "k q = (Inr y, r)" by blast
  with q show "\<exists>x q. ensure_act m k p = (Inr x, q)" by (simp add: ensure_act_def)
qed

lemma calm_steps:
  "runs_through (fs_step calm_publisher_env c f)" "runs_through (fs_write calm_publisher_env g bs)"
  by (simp_all add: runs_through_def fs_step_def fs_write_def calm_publisher_env_def)

lemma calm_replace:
  assumes "encode_utf8 payload = Inr bs"
  shows "runs_through (replace_file calm_publisher_env d t g payload)"
proof -
  have lift: "bind_act (lift_act (encode_utf8 payload)) f = f bs" for f :: "bytes \<Rightarrow> (publisher, 'a) act"
    by (rule ext) (simp add: assms lift_act_def bind_act_def)
  show ?thesis
    unfolding replace_file_def write_temporary_def sync_directory_def lift
    by (intro runs_through_ensure runs_through_then calm_steps)
qed

lemma publish_calm:
  assumes "\<not> invalid_key key" "\<not> pub_closed p" "pub_layout_version p = 2"
    and "encode_utf8 (record_payload p 100 s) = Inr bs"
  shows "\<exists>q. publish calm_publisher_env key s allow_closed p = (Inr (), q)"
proof -
  let ?d = "path_join (pub_state_root p) key" and ?name = "u ''snapshot.state''"
  let ?p = "p\<lparr>pub_published_keys := List.insert key (pub_published_keys p),
              pub_calls := pub_calls p @ [FsMkdir ?d]\<rparr>"
  let ?r = "replace_file calm_publisher_env ?d (path_join ?d (temporary_name calm_publisher_env ?name))
      (path_join ?d ?name) (record_payload p 100 s)"
  have same: "target_name calm_publisher_env ?p = Inr ?name" "record_payload ?p t s = record_payload p t s" for t
    using assms(3) by (simp_all add: target_name_def record_payload_def record_fields_def)
  have env: "pe_fails calm_publisher_env h c = None" "pe_time calm_publisher_env h = 100" for h c
    by (simp_all add: calm_publisher_env_def)
  have "int_of_float 100 = 100" by (simp add: int_of_float_def)
  then have "publish calm_publisher_env key s allow_closed p = ?r ?p"
    using assms(1,2) same env by (simp add: publish_def act_defs fs_step_def Let_def)
  moreover from calm_replace [OF assms(4)] obtain x q where "?r ?p = (Inr x, q)"
    unfolding runs_through_def by blast
  ultimately show ?thesis by simp
qed


end
