(* ===== verification/ExampleWorkload.thy ===== *)
theory ExampleWorkload
  imports Publisher
begin

text \<open>
  \<open>integrations/ttnn/example_dynamic_workload.py\<close>: a workload that hosts the publisher. The calls
  of TTNN, printing and sleeping are steps that may fail; which of them fail, what the profiler
  returns and the monotonic clock are answered from the calls made so far. Argument parsing is
  argparse: its result is a record. The tensors are not modelled, and a printed line is the
  summaries it shows.
\<close>

section \<open>Arguments\<close>

record workload_args =
  wa_device_id :: int
  wa_iterations :: int
  wa_interval :: rat
  wa_state_root :: path
  wa_workload_id :: pystr
  wa_pod_uid :: pystr
  wa_device_key :: "pystr option"

definition default_workload_args :: "publisher_env \<Rightarrow> workload_args" where
  "default_workload_args env = \<lparr>wa_device_id = 0, wa_iterations = 30, wa_interval = 1,
     wa_state_root = u ''/var/lib/tt-device-plugin/metalium-profiler'',
     wa_workload_id = u ''metalium-dynamic-example'',
     wa_pod_uid = (case pe_environ env ''POD_UID'' of None \<Rightarrow> u ''metalium-dynamic-example'' | Some v \<Rightarrow> v),
     wa_device_key = None\<rparr>"

section \<open>The workload's state\<close>

datatype workload_call =
    CallImport
  | CallOpenDevice int
  | CallOnes
  | CallAdd int
  | CallSynchronize
  | CallPrint summaries
  | CallSleep rat
  | CallCloseDevice

record ttnn_env =
  tt_fails :: "workload_call list \<Rightarrow> workload_call \<Rightarrow> exn option"
  tt_profile :: "workload_call list \<Rightarrow> profiler_data outcome"
  tt_clock :: "workload_call list \<Rightarrow> rat"

text \<open>\<open>run_open\<close> tells whether the device is open, \<open>run_publisher\<close> is the publisher once created.\<close>

record workload_run =
  run_calls :: "workload_call list"
  run_open :: bool
  run_publisher :: "publisher option"

definition new_run :: workload_run where
  "new_run = \<lparr>run_calls = [], run_open = False, run_publisher = None\<rparr>"

definition workload_step :: "ttnn_env \<Rightarrow> workload_call \<Rightarrow> (workload_run, unit) act" where
  "workload_step tt c s =
     (let s' = s\<lparr>run_calls := run_calls s @ [c]\<rparr>
      in case tt_fails tt (run_calls s) c of Some e \<Rightarrow> (Inl e, s') | None \<Rightarrow> (Inr (), s'))"

definition open_device :: "ttnn_env \<Rightarrow> int \<Rightarrow> (workload_run, unit) act" where
  "open_device tt i = then_act (workload_step tt (CallOpenDevice i)) (modify_act (\<lambda>s. s\<lparr>run_open := True\<rparr>))"

definition close_device :: "ttnn_env \<Rightarrow> (workload_run, unit) act" where
  "close_device tt = then_act (modify_act (\<lambda>s. s\<lparr>run_open := False\<rparr>)) (workload_step tt CallCloseDevice)"

definition on_publisher :: "(publisher, 'a) act \<Rightarrow> (workload_run, 'a) act" where
  "on_publisher m s =
     (case run_publisher s of
        None \<Rightarrow> (Inl OtherException, s)
      | Some p \<Rightarrow> (case m p of (r, q) \<Rightarrow> (r, s\<lparr>run_publisher := Some q\<rparr>)))"

section \<open>The program\<close>

definition dump_variable :: string where
  "dump_variable = ''TT_METAL_PROFILER_DISABLE_DUMP_TO_FILES''"

text \<open>\<open>os.environ.setdefault\<close>.\<close>

definition with_dump_disabled :: "publisher_env \<Rightarrow> publisher_env" where
  "with_dump_disabled env = env\<lparr>pe_environ := (\<lambda>name.
     if name = dump_variable \<and> pe_environ env name = None then Some (u ''1'') else pe_environ env name)\<rparr>"

definition workload_root :: "workload_args \<Rightarrow> path" where
  "workload_root a =
     path_join (path_join (path_join (wa_state_root a) (u ''v2'')) (u ''workloads'')) (wa_pod_uid a)"

definition workload_publisher :: "workload_args \<Rightarrow> publisher_arguments" where
  "workload_publisher a = default_arguments
     \<lparr>arg_state_root := Some (workload_root a), arg_workload_id := Some (wa_workload_id a),
      arg_device_keys := [IntKey (wa_device_id a)],
      arg_device_key_map := (case wa_device_key a of
          None \<Rightarrow> []
        | Some key \<Rightarrow> if key = [] then [] else [(IntKey (wa_device_id a), StrKey key)])\<rparr>"

definition iteration ::
    "ttnn_env \<Rightarrow> publisher_env \<Rightarrow> workload_args \<Rightarrow> nat \<Rightarrow> unit \<Rightarrow> (workload_run, unit) act" where
  "iteration tt env a i x =
     then_act (workload_step tt (CallAdd (int i + 1)))
       (then_act (workload_step tt CallSynchronize)
         (bind_act (get_act run_calls) (\<lambda>calls.
          bind_act (on_publisher (sample env (tt_profile tt calls) (tt_clock tt calls))) (\<lambda>found.
            then_act (workload_step tt (CallPrint found))
              (if 0 < wa_interval a then workload_step tt (CallSleep (wa_interval a)) else return_act ())))))"

definition run_iterations :: "ttnn_env \<Rightarrow> publisher_env \<Rightarrow> workload_args \<Rightarrow> (workload_run, unit) act" where
  "run_iterations tt env a =
     then_act (workload_step tt CallOnes)
       (fold_act (iteration tt env a) [0..<nat (wa_iterations a)] ())"

text \<open>\<open>with\<close>: \<open>__enter__\<close> is the publisher itself, \<open>__exit__\<close> closes it.\<close>

definition with_publisher ::
    "publisher_env \<Rightarrow> publisher_arguments \<Rightarrow> (path \<Rightarrow> bytes option) \<Rightarrow> (workload_run, unit) act
       \<Rightarrow> (workload_run, unit) act" where
  "with_publisher env a files m =
     bind_act (lift_act (new_publisher env a files)) (\<lambda>p.
       then_act (modify_act (\<lambda>s. s\<lparr>run_publisher := Some p\<rparr>))
         (ensure_act m (on_publisher (close env))))"

definition run_workload ::
    "ttnn_env \<Rightarrow> publisher_env \<Rightarrow> (path \<Rightarrow> bytes option) \<Rightarrow> workload_args \<Rightarrow> (workload_run, int) act" where
  "run_workload tt env files a =
     (let env' = with_dump_disabled env in
      then_act (lift_act (validate_environment env'))
        (then_act (workload_step tt CallImport)
          (then_act (open_device tt (wa_device_id a))
            (then_act
              (ensure_act
                (if invalid_key (wa_pod_uid a) then raise_act ValueError
                 else with_publisher env' (workload_publisher a) files (run_iterations tt env' a))
                (close_device tt))
              (return_act 0)))))"

end
