(* ===== verification/ExampleFacts.thy ===== *)
theory ExampleFacts
  imports ExampleWorkload PublisherFacts
begin

text \<open>
  The example workload closes what it opens on every path, and no failure of the telemetry stops it.
\<close>

section \<open>The device and the publisher are closed\<close>

text \<open>What every step inside the \<open>with\<close> block keeps: the device stays open and is not closed.\<close>

definition inside :: "workload_run \<Rightarrow> workload_run \<Rightarrow> bool" where
  "inside s t \<longleftrightarrow> run_open t = run_open s
     \<and> (CallCloseDevice \<in> set (run_calls t) \<longleftrightarrow> CallCloseDevice \<in> set (run_calls s))"

interpretation ins: frame_relation inside
  by unfold_locales (auto simp: inside_def)

lemma inside_step: "c \<noteq> CallCloseDevice \<Longrightarrow> keeps inside (workload_step tt c)"
  by (rule keepsI) (auto simp: inside_def workload_step_def Let_def split: option.splits)

lemma inside_publisher: "keeps inside (on_publisher m)"
  by (rule keepsI) (auto simp: inside_def on_publisher_def split: option.splits prod.splits)

lemma inside_iterations: "keeps inside (run_iterations tt env a)"
  unfolding run_iterations_def iteration_def
  by (intro ins.keeps_all inside_step inside_publisher) simp_all

lemma inside_with: "keeps inside (with_publisher env a files (run_iterations tt env b))"
  unfolding with_publisher_def
  by (intro ins.keeps_all inside_iterations inside_publisher ins.keeps_modify) (simp add: inside_def)

lemma on_publisher_close:
  assumes "on_publisher (close env) s = (r, t)" "run_publisher s \<noteq> None"
  shows "\<exists>q. run_publisher t = Some q \<and> pub_closed q"
proof -
  from assms(2) obtain p where p: "run_publisher s = Some p" by blast
  obtain x q where close: "close env p = (x, q)" by fastforce
  have "pub_closed q" using closing_closes [of env p] close by simp
  with assms(1) p close show ?thesis by (auto simp: on_publisher_def)
qed

text \<open>The publisher of a run never disappears.\<close>

definition hosts :: "workload_run \<Rightarrow> workload_run \<Rightarrow> bool" where
  "hosts s t \<longleftrightarrow> (run_publisher s \<noteq> None \<longrightarrow> run_publisher t \<noteq> None)"

interpretation ho: frame_relation hosts
  by unfold_locales (auto simp: hosts_def)

lemma hosts_iterations: "keeps hosts (run_iterations tt env a)"
proof -
  have "keeps hosts (workload_step tt c)" "keeps hosts (on_publisher m)" for c m
    by (rule keepsI; auto simp: hosts_def workload_step_def on_publisher_def Let_def
        split: option.splits prod.splits)+
  then show ?thesis
    unfolding run_iterations_def iteration_def by (intro ho.keeps_all)
qed

lemma with_publisher_closes:
  assumes "with_publisher env a files (run_iterations tt env b) s = (r, t)" "run_publisher s = None"
  shows "case run_publisher t of None \<Rightarrow> True | Some q \<Rightarrow> pub_closed q"
proof (cases "new_publisher env a files")
  case (Inl e)
  with assms show ?thesis by (simp add: with_publisher_def act_defs)
next
  case (Inr p)
  let ?s = "s\<lparr>run_publisher := Some p\<rparr>"
  from assms(1) Inr have "ensure_act (run_iterations tt env b) (on_publisher (close env)) ?s = (r, t)"
    by (simp add: with_publisher_def then_act_def bind_act_def modify_act_def lift_act_def)
  then obtain q v where m: "run_iterations tt env b ?s = (q, v)"
    and closed: "snd (on_publisher (close env) v) = t"
    by (rule ensure_cases)
  have "run_publisher v \<noteq> None" using keepsD [OF hosts_iterations m] by (simp add: hosts_def)
  then have "\<exists>q. run_publisher t = Some q \<and> pub_closed q"
    using closed by (intro on_publisher_close [where s = v]) (simp_all add: prod_eq_iff)
  then show ?thesis by auto
qed

lemma step_calls: "workload_step tt c s = (r, t) \<Longrightarrow>
    run_calls t = run_calls s @ [c] \<and> run_open t = run_open s \<and> run_publisher t = run_publisher s
      \<and> (r = Inr () \<longleftrightarrow> tt_fails tt (run_calls s) c = None)"
  by (auto simp: workload_step_def Let_def split: option.splits)

definition cleaned_up :: "ttnn_env \<Rightarrow> int \<Rightarrow> workload_run \<Rightarrow> bool" where
  "cleaned_up tt i t \<longleftrightarrow> \<not> run_open t
     \<and> (case run_publisher t of None \<Rightarrow> True | Some q \<Rightarrow> pub_closed q)
     \<and> ((\<exists>h rest. run_calls t = h @ CallOpenDevice i # rest \<and> tt_fails tt h (CallOpenDevice i) = None)
          \<longrightarrow> (\<exists>h. run_calls t = h @ [CallCloseDevice] \<and> CallCloseDevice \<notin> set h))"


section \<open>Telemetry never stops the workload\<close>

definition prints :: "workload_run \<Rightarrow> nat" where
  "prints s = length (filter (\<lambda>c. case c of CallPrint _ \<Rightarrow> True | _ \<Rightarrow> False) (run_calls s))"

definition lenient :: "workload_run \<Rightarrow> bool" where
  "lenient s \<longleftrightarrow> (\<exists>p. run_publisher s = Some p \<and> \<not> pub_strict p)"

definition advances :: "nat \<Rightarrow> (workload_run, 'a) act \<Rightarrow> bool" where
  "advances n m \<longleftrightarrow> (\<forall>s. lenient s \<longrightarrow>
     (\<exists>x t. m s = (Inr x, t) \<and> lenient t \<and> prints t = prints s + n))"

lemma advancesE:
  assumes "advances n m" "lenient s"
  obtains x t where "m s = (Inr x, t)" "lenient t" "prints t = prints s + n"
  using assms by (auto simp: advances_def)

lemma advances_simple: "advances 0 (return_act x)" "advances 0 (get_act f)"
  by (simp_all add: advances_def act_defs)

lemma advances_bind: "advances k m \<Longrightarrow> (\<And>x. advances n (f x)) \<Longrightarrow> advances (k + n) (bind_act m f)"
  unfolding advances_def bind_act_def by (metis (no_types, lifting) add.assoc case_prod_conv sum.simps(6))

lemma advances_then: "advances k m \<Longrightarrow> advances n l \<Longrightarrow> advances (k + n) (then_act m l)"
  by (simp add: then_act_def advances_bind)

lemma advances_fold: "(\<And>x a. advances 1 (f x a)) \<Longrightarrow> advances (length xs) (fold_act f xs a)"
proof (induction xs arbitrary: a)
  case (Cons x xs)
  from advances_bind [OF Cons.prems Cons.IH [OF Cons.prems]] show ?case by simp
qed (simp add: advances_simple)

lemma advances_publisher:
  assumes "calm m" "keeps evolves m"
  shows "advances 0 (on_publisher m)"
  unfolding advances_def
proof (intro allI impI)
  fix s
  assume "lenient s"
  then obtain p where p: "run_publisher s = Some p" "\<not> pub_strict p" by (auto simp: lenient_def)
  with assms(1) obtain x q where m: "m p = (Inr x, q)" by (auto simp: calm_def prod_eq_iff)
  from keepsD [OF assms(2) m] p(2) have "\<not> pub_strict q" by (simp add: evolves_def)
  with p m show "\<exists>x t. on_publisher m s = (Inr x, t) \<and> lenient t \<and> prints t = prints s + 0"
    by (simp add: on_publisher_def lenient_def prints_def)
qed

lemma calm_before:
  assumes "calm (then_act m (return_act x))"
  shows "calm m"
  unfolding calm_def
proof (intro allI impI)
  fix p :: publisher
  assume "\<not> pub_strict p"
  with assms obtain y where "fst (then_act m (return_act x) p) = Inr y" by (auto simp: calm_def)
  then show "\<exists>y. fst (m p) = Inr y"
    by (cases "m p"; cases "fst (m p)") (simp_all add: then_act_def bind_act_def)
qed

lemma keeps_before:
  assumes "keeps R (then_act m (return_act x))"
  shows "keeps R m"
proof (rule keepsI)
  fix p
  obtain y q where run: "then_act m (return_act x) p = (y, q)" by fastforce
  then have "snd (m p) = q"
    by (cases "m p"; cases "fst (m p)") (simp_all add: then_act_def bind_act_def return_act_def)
  with keepsD [OF assms run] show "R p (snd (m p))" by simp
qed

lemma advances_step:
  assumes "\<And>h c. tt_fails tt h c = None"
  shows "advances (case c of CallPrint _ \<Rightarrow> 1 | _ \<Rightarrow> 0) (workload_step tt c)"
  by (auto simp: advances_def workload_step_def assms lenient_def prints_def Let_def split: workload_call.splits)

lemma advances_iteration:
  assumes "\<And>h c. tt_fails tt h c = None"
  shows "advances 1 (iteration tt env a i x)"
proof -
  note step = advances_step [of tt, OF assms]
  have sample: "advances 0 (on_publisher (sample env d now))" for d now
    using calm_op [of env "Sample d now" "[]"] evolves_op [of env "Sample d now" "[]"]
    by (intro advances_publisher) simp_all
  have sleep: "advances 0 (if 0 < wa_interval a then workload_step tt (CallSleep (wa_interval a)) else return_act ())"
    using step [of "CallSleep (wa_interval a)"] by (simp add: advances_simple)
  have print: "advances 1 (then_act (workload_step tt (CallPrint found))
      (if 0 < wa_interval a then workload_step tt (CallSleep (wa_interval a)) else return_act ()))" for found
    using advances_then [OF step [of "CallPrint found"] sleep] by simp
  have "advances (0 + (0 + (0 + (0 + 1)))) (iteration tt env a i x)"
    unfolding iteration_def
    by (intro advances_then advances_bind advances_simple sample print
        step [of "CallAdd _", simplified] step [of CallSynchronize, simplified])
  then show ?thesis by simp
qed


definition profiled_env :: publisher_env where
  "profiled_env = bare_env\<lparr>pe_environ := (\<lambda>_. Some (u ''1'')), pe_fails := (\<lambda>_ _. Some OSErrorExn)\<rparr>"

definition calm_ttnn :: ttnn_env where
  "calm_ttnn = \<lparr>tt_fails = (\<lambda>_ _. None), tt_profile = (\<lambda>_. Inl RuntimeError), tt_clock = (\<lambda>_. 0)\<rparr>"


end
