(* ===== verification/SoakTest.thy ===== *)
theory SoakTest
  imports Environment Floats Parsers
begin

text \<open>
  \<open>scripts/operations/soak_test.py\<close>: repeated concurrent scrapes of a running exporter, one row of
  evidence per round, and a verdict on the rows. Argument parsing is argparse: its result is a
  record. The clocks, the responses, the files of \<open>/proc\<close> and the writing of the two reports are
  answered by an environment from the calls made so far. The text of the reports is not modelled.
\<close>

section \<open>Process statistics\<close>

text \<open>
  \<open>re.search\<close> for a pattern that starts with \<open>^\<close>, \<open>re.MULTILINE\<close>: tried at every start of a line.
\<close>

fun line_starts :: "pystr \<Rightarrow> pystr list" where
  "line_starts [] = []"
| "line_starts (c # s) = (if c = 10 then s # line_starts s else line_starts s)"

text \<open>
  \<open>^<name>\s+(\d+)<suffix>$\<close> at one start of a line. A digit is no space, and the suffix does not
  begin with a digit, so taking each part as long as possible loses no match.
\<close>

definition status_match :: "string \<Rightarrow> string \<Rightarrow> pystr \<Rightarrow> pystr option" where
  "status_match name suffix s =
     (let after = drop (length name) s;
          spaces = takeWhile is_space after;
          digits = takeWhile is_decimal (dropWhile is_space after);
          rest = dropWhile is_decimal (dropWhile is_space after);
          tail = drop (length suffix) rest
      in if starts_with s (u name) \<and> spaces \<noteq> [] \<and> digits \<noteq> [] \<and> starts_with rest (u suffix)
            \<and> (tail = [] \<or> hd tail = 10)
         then Some digits else None)"

definition status_field :: "string \<Rightarrow> string \<Rightarrow> pystr \<Rightarrow> pystr option" where
  "status_field name suffix status =
     (case List.map_filter (status_match name suffix) (status # line_starts status) of
        [] \<Rightarrow> None
      | digits # _ \<Rightarrow> Some digits)"

definition status_number :: "pystr option \<Rightarrow> int \<Rightarrow> int outcome" where
  "status_number field unit =
     (case field of None \<Rightarrow> Inr 0 | Some digits \<Rightarrow>
        (case py_int 10 digits of Inl e \<Rightarrow> Inl e | Inr n \<Rightarrow> Inr (n * unit)))"

section \<open>Metrics of a payload\<close>

text \<open>A float that is not finite appears when a text is too large for one.\<close>

datatype py_float = Finite rat | Infinite bool

definition decimal_rat :: "decimal \<Rightarrow> rat" where
  "decimal_rat d = (if dec_negative d then - 1 else 1) * of_nat (dec_coefficient d)
     * 10 ^ nat (dec_exponent d) / 10 ^ nat (- dec_exponent d)"

definition nearest_float :: "rat \<Rightarrow> py_float" where
  "nearest_float x =
     (let y = round_double x in if 2 ^ 1024 \<le> \<bar>y\<bar> then Infinite (x < 0) else Finite y)"

text \<open>\<open>float(text)\<close> on a text of digits, points, signs and \<open>e\<close>.\<close>

definition float_literal :: "pystr \<Rightarrow> py_float outcome" where
  "float_literal s =
     (case number_prefix s of
        Some (d, []) \<Rightarrow> Inr (nearest_float (decimal_rat d))
      | _ \<Rightarrow> Inl ValueError)"

definition is_number_char :: "nat \<Rightarrow> bool" where
  "is_number_char c \<longleftrightarrow> (48 \<le> c \<and> c \<le> 57) \<or> c \<in> set (u ''.eE+-'')"

definition metric_match :: "string \<Rightarrow> pystr \<Rightarrow> pystr option" where
  "metric_match name line =
     (let number = drop (length name + 1) line
      in if starts_with line (u name @ u '' '') \<and> number \<noteq> [] \<and> list_all is_number_char number
         then Some number else None)"

text \<open>Neither the name nor the number holds a line feed, so a match is one whole line.\<close>

definition metric :: "pystr \<Rightarrow> string \<Rightarrow> py_float outcome" where
  "metric payload name =
     (case List.map_filter (metric_match name) (split_on 10 payload) of
        [] \<Rightarrow> Inr (Finite 0)
      | number # _ \<Rightarrow> float_literal number)"

definition series :: "pystr \<Rightarrow> nat" where
  "series payload = length (filter (\<lambda>line. line \<noteq> [] \<and> \<not> starts_with line (u ''#'')) (splitlines payload))"

section \<open>Scrapes\<close>

text \<open>One worker: the clock before and after, and the response or the exception of reading it.\<close>

record fetch =
  fe_started :: rat
  fe_response :: "bytes outcome"
  fe_finished :: rat

type_synonym scrape_result = "rat \<times> nat \<times> pystr"

text \<open>Only \<open>OSError\<close> and the failure to decode are caught; any other exception ends the thread.\<close>

definition scrape :: "fetch \<Rightarrow> scrape_result option" where
  "scrape f =
     (let seconds = float_sub (fe_finished f) (fe_started f)
      in case fe_response f of
           Inr bs \<Rightarrow>
             (case decode_utf8 bs of
                None \<Rightarrow> Some (seconds, 0, [])
              | Some payload \<Rightarrow> Some (seconds, length payload, payload))
         | Inl OSErrorExn \<Rightarrow> Some (seconds, 0, [])
         | Inl _ \<Rightarrow> None)"

section \<open>Rows and summary\<close>

record soak_row =
  row_timestamp :: int
  row_successful :: int
  row_failed :: int
  row_maximum_scrape :: rat
  row_payload :: int
  row_series :: int
  row_collection :: py_float
  row_age :: py_float
  row_rss :: int
  row_threads :: int
  row_descriptors :: int

record soak_summary =
  su_samples :: int
  su_successful :: int
  su_failed :: int
  su_rss_growth :: int
  su_thread_growth :: int
  su_descriptor_growth :: int
  su_maximum_series :: int
  su_maximum_scrape :: rat

definition warm_rows :: "soak_row list \<Rightarrow> soak_row list" where
  "warm_rows rows = (let warm = drop (length rows div 4) rows in if warm = [] then rows else warm)"

definition growth :: "(soak_row \<Rightarrow> int) \<Rightarrow> soak_row list \<Rightarrow> int" where
  "growth f warm = f (last warm) - f (hd warm)"

text \<open>\<open>warm[-1]\<close> raises \<open>IndexError\<close> when there are no rows.\<close>

definition summarize :: "soak_row list \<Rightarrow> soak_summary outcome" where
  "summarize rows =
     (if rows = [] then Inl OtherException
      else Inr \<lparr>su_samples = int (length rows),
        su_successful = sum_list (map row_successful rows),
        su_failed = sum_list (map row_failed rows),
        su_rss_growth = growth row_rss (warm_rows rows),
        su_thread_growth = growth row_threads (warm_rows rows),
        su_descriptor_growth = growth row_descriptors (warm_rows rows),
        su_maximum_series = Max (set (map row_series rows)),
        su_maximum_scrape = Max (set (map row_maximum_scrape rows))\<rparr>)"

section \<open>The command\<close>

record soak_args =
  sa_pid :: "int option"
  sa_duration :: int
  sa_interval :: rat
  sa_concurrency :: int
  sa_maximum_rss_growth :: int
  sa_maximum_failed :: int
  sa_maximum_scrape :: rat
  sa_minimum_series :: int

definition default_soak_args :: soak_args where
  "default_soak_args = \<lparr>sa_pid = None, sa_duration = 72 * 60 * 60, sa_interval = 5, sa_concurrency = 8,
     sa_maximum_rss_growth = 16 * 1024 * 1024, sa_maximum_failed = 0, sa_maximum_scrape = 3,
     sa_minimum_series = 1\<rparr>"

text \<open>\<open>None\<close> is a soak within its budget, \<open>Some\<close> the message it is ended with.\<close>

definition validate_soak :: "soak_summary \<Rightarrow> soak_args \<Rightarrow> string option" where
  "validate_soak s a =
     (if sa_maximum_failed a < su_failed s then Some ''failed scrapes exceeded the soak budget''
      else if su_maximum_series s < sa_minimum_series a
        then Some ''metrics payload did not contain the required series''
      else if sa_maximum_scrape a < su_maximum_scrape s
        then Some ''scrape latency exceeded the soak budget''
      else if sa_maximum_rss_growth a < su_rss_growth s \<or> 2 < su_thread_growth s
             \<or> 2 < su_descriptor_growth s
        then Some ''sustained resource growth exceeded the soak budget''
      else None)"

datatype soak_call =
    SoakMkdir
  | SoakMonotonic
  | SoakScrape int
  | SoakStatus int
  | SoakDescriptors int
  | SoakTime
  | SoakSleep rat
  | SoakRows
  | SoakSummary

text \<open>\<open>so_fetch h i\<close> is the worker that is the \<open>i\<close>-th to finish.\<close>

record soak_env =
  so_clock :: "soak_call list \<Rightarrow> rat"
  so_fetch :: "soak_call list \<Rightarrow> nat \<Rightarrow> fetch"
  so_status :: "soak_call list \<Rightarrow> pystr outcome"
  so_descriptors :: "soak_call list \<Rightarrow> nat outcome"
  so_time :: "soak_call list \<Rightarrow> rat"
  so_fails :: "soak_call list \<Rightarrow> soak_call \<Rightarrow> exn option"

type_synonym 'a soak = "(soak_call list, 'a) act"

definition soak_answer :: "soak_call \<Rightarrow> (soak_call list \<Rightarrow> 'a) \<Rightarrow> 'a soak" where
  "soak_answer c f h = (Inr (f h), h @ [c])"

definition soak_outcome :: "soak_call \<Rightarrow> (soak_call list \<Rightarrow> 'a outcome) \<Rightarrow> 'a soak" where
  "soak_outcome c f h = (f h, h @ [c])"

definition soak_effect :: "soak_env \<Rightarrow> soak_call \<Rightarrow> unit soak" where
  "soak_effect env c =
     soak_outcome c (\<lambda>h. case so_fails env h c of Some e \<Rightarrow> Inl e | None \<Rightarrow> Inr ())"

definition process_stats :: "soak_env \<Rightarrow> int option \<Rightarrow> (int \<times> int \<times> int) soak" where
  "process_stats env pid =
     (case pid of
        None \<Rightarrow> return_act (0, 0, 0)
      | Some i \<Rightarrow>
          bind_act (soak_outcome (SoakStatus i) (so_status env)) (\<lambda>status.
          bind_act (lift_act (status_number (status_field ''VmRSS:'' '' kB'' status) 1024)) (\<lambda>rss.
          bind_act (lift_act (status_number (status_field ''Threads:'' [] status) 1)) (\<lambda>threads.
          bind_act (soak_outcome (SoakDescriptors i) (so_descriptors env)) (\<lambda>descriptors.
            return_act (rss, threads, int descriptors))))))"

definition max_default :: "'a::linorder \<Rightarrow> 'a list \<Rightarrow> 'a" where
  "max_default d xs = (if xs = [] then d else Max (set xs))"

definition soak_scrapes :: "soak_env \<Rightarrow> soak_args \<Rightarrow> scrape_result list soak" where
  "soak_scrapes env a =
     soak_answer (SoakScrape (sa_concurrency a))
       (\<lambda>h. List.map_filter (\<lambda>i. scrape (so_fetch env h i)) [0..<nat (sa_concurrency a)])"

definition soak_row_of ::
    "soak_args \<Rightarrow> scrape_result list \<Rightarrow> int \<times> int \<times> int \<Rightarrow> rat \<Rightarrow> soak_row outcome" where
  "soak_row_of a results stats time =
     (let successful = filter (\<lambda>(_, n, _). 0 < n) results;
          payload = (case successful of [] \<Rightarrow> [] | (_, _, text) # _ \<Rightarrow> text)
      in case metric payload ''tt_exporter_collection_duration_seconds'' of
           Inl e \<Rightarrow> Inl e
         | Inr collection \<Rightarrow>
      (case metric payload ''tt_exporter_snapshot_age_seconds'' of
           Inl e \<Rightarrow> Inl e
         | Inr age \<Rightarrow>
      (case stats of (rss, threads, descriptors) \<Rightarrow>
        Inr \<lparr>row_timestamp = int_of_float time,
          row_successful = int (length successful),
          row_failed = sa_concurrency a - int (length successful),
          row_maximum_scrape = max_default 0 (map fst results),
          row_payload = int (max_default 0 (map (fst \<circ> snd) results)),
          row_series = int (series payload),
          row_collection = collection, row_age = age,
          row_rss = rss, row_threads = threads, row_descriptors = descriptors\<rparr>)))"

definition soak_pause :: "soak_env \<Rightarrow> soak_args \<Rightarrow> rat \<Rightarrow> unit soak" where
  "soak_pause env a deadline =
     bind_act (soak_answer SoakMonotonic (so_clock env)) (\<lambda>now.
       soak_answer (SoakSleep (min (sa_interval a) (max 0 (float_sub deadline now)))) (\<lambda>_. ()))"

definition soak_round :: "soak_env \<Rightarrow> soak_args \<Rightarrow> rat \<Rightarrow> soak_row soak" where
  "soak_round env a deadline =
     bind_act (soak_scrapes env a) (\<lambda>results.
     bind_act (process_stats env (sa_pid a)) (\<lambda>stats.
     bind_act (soak_answer SoakTime (so_time env)) (\<lambda>time.
     bind_act (lift_act (soak_row_of a results stats time)) (\<lambda>row.
       then_act (soak_pause env a deadline) (return_act row)))))"

text \<open>\<open>while time.monotonic() < deadline\<close>: \<open>None\<close> stands for a loop that never ends.\<close>

partial_function (option) soak_loop ::
    "soak_env \<Rightarrow> soak_args \<Rightarrow> rat \<Rightarrow> soak_row list \<Rightarrow> soak_call list
       \<Rightarrow> (soak_row list outcome \<times> soak_call list) option" where
  "soak_loop env a deadline rows h =
     (if so_clock env h < deadline then
        (case soak_round env a deadline (h @ [SoakMonotonic]) of
           (Inl e, t) \<Rightarrow> Some (Inl e, t)
         | (Inr row, t) \<Rightarrow> soak_loop env a deadline (rows @ [row]) t)
      else Some (Inr rows, h @ [SoakMonotonic]))"

datatype soak_end =
    SoakUsage
  | SoakRaised exn
  | SoakRejected string soak_summary "soak_row list"
  | SoakPassed soak_summary "soak_row list"

text \<open>\<open>rows[0]\<close> raises \<open>IndexError\<close> after the output was opened when there are no rows.\<close>

definition soak_report :: "soak_env \<Rightarrow> soak_args \<Rightarrow> soak_row list \<Rightarrow> soak_end soak" where
  "soak_report env a rows =
     then_act (soak_effect env SoakRows)
       (bind_act (lift_act (summarize rows)) (\<lambda>summary.
         then_act (soak_effect env SoakSummary)
           (return_act (case validate_soak summary a of
              None \<Rightarrow> SoakPassed summary rows
            | Some message \<Rightarrow> SoakRejected message summary rows))))"

definition soak_ended :: "soak_end outcome \<times> soak_call list \<Rightarrow> soak_end \<times> soak_call list" where
  "soak_ended r = (case r of (Inl e, h) \<Rightarrow> (SoakRaised e, h) | (Inr x, h) \<Rightarrow> (x, h))"

definition soak_deadline :: "soak_env \<Rightarrow> soak_args \<Rightarrow> rat" where
  "soak_deadline env a = round_double (so_clock env [SoakMkdir] + of_int (sa_duration a))"

definition soak_main :: "soak_env \<Rightarrow> soak_args \<Rightarrow> (soak_end \<times> soak_call list) option" where
  "soak_main env a =
     (if sa_duration a \<le> 0 \<or> sa_interval a \<le> 0 \<or> sa_concurrency a \<le> 0 then Some (SoakUsage, [])
      else case soak_effect env SoakMkdir [] of
        (Inl e, h) \<Rightarrow> Some (SoakRaised e, h)
      | (Inr _, h) \<Rightarrow>
          (case soak_loop env a (soak_deadline env a) [] (h @ [SoakMonotonic]) of
             None \<Rightarrow> None
           | Some (Inl e, t) \<Rightarrow> Some (SoakRaised e, t)
           | Some (Inr rows, t) \<Rightarrow> Some (soak_ended (soak_report env a rows t))))"

end
