(* ===== verification/FloatFacts.thy ===== *)
theory FloatFacts
  imports Floats
begin

text \<open>
  Where float arithmetic is exact.
\<close>

section \<open>Exact float operations\<close>

lemma dvd_power_of_two: "d dvd 2 ^ k \<Longrightarrow> \<exists>j. d = (2::nat) ^ j"
proof (induction k arbitrary: d)
  case (Suc k)
  show ?case
  proof (cases "even d")
    case True
    then obtain c where c: "d = 2 * c" by blast
    with Suc.prems have "c dvd 2 ^ k" by simp
    then obtain j where "c = 2 ^ j" using Suc.IH by blast
    with c have "d = 2 ^ Suc j" by simp
    then show ?thesis by blast
  next
    case False
    then have "coprime d 2" by simp
    with Suc.prems have "d dvd 2 ^ k" by (simp add: coprime_dvd_mult_right_iff)
    then show ?thesis by (rule Suc.IH)
  qed
qed (metis One_nat_def nat_dvd_1_iff_1 power_0)

lemma nat_digits_bounds:
  "2 \<le> b \<Longrightarrow> 0 < n \<Longrightarrow> b ^ (length (nat_digits b n) - 1) \<le> n \<and> n < b ^ length (nat_digits b n)"
proof (induction b n rule: nat_digits.induct)
  case (1 b n)
  show ?case
  proof (cases "n < b")
    case True
    with 1 show ?thesis by (simp add: nat_digits_base)
  next
    case False
    then have d: "nat_digits b n = nat_digits b (n div b) @ [n mod b]" "0 < n div b"
      using 1 by (simp_all add: nat_digits_step div_greater_zero_iff)
    let ?l = "length (nat_digits b (n div b))"
    have IH: "b ^ (?l - 1) \<le> n div b" "n div b < b ^ ?l"
      using 1 False d(2) by auto
    have "?l \<noteq> 0" by simp
    then have "b ^ ?l = b * b ^ (?l - 1)" by (metis power_minus_mult mult.commute neq0_conv)
    also have "\<dots> \<le> b * (n div b)" using IH(1) by simp
    also have "\<dots> \<le> n" by simp
    finally have "b ^ ?l \<le> n" .
    moreover have "n < b ^ Suc ?l"
      using IH(2) 1(2) by (simp add: div_less_iff_less_mult mult.commute)
    ultimately show ?thesis using d(1) by simp
  qed
qed

lemma length_digits_power: "length (nat_digits 2 (2 ^ j)) = Suc j"
proof -
  let ?l = "length (nat_digits 2 (2 ^ j))"
  have "(2::nat) ^ (?l - 1) \<le> 2 ^ j" "(2::nat) ^ j < 2 ^ ?l"
    using nat_digits_bounds [of 2 "2 ^ j"] by simp_all
  then have "?l - 1 \<le> j" "j < ?l"
    using power_le_imp_le_exp [of 2 "?l - 1" j] power_less_imp_less_exp [of 2 j ?l] by auto
  then show ?thesis by simp
qed

lemma exponent_of_power:
  assumes "0 < n"
  shows "exponent_of 2 n (2 ^ j) = int (length (nat_digits 2 n)) - 1 - int j"
proof -
  let ?l = "length (nat_digits 2 n)"
  let ?k = "int ?l - int (Suc j)"
  have low: "2 ^ (?l - 1) \<le> n" using nat_digits_bounds [of 2 n] assms by simp
  have pos: "0 < ?l" by simp
  have "(2::nat) ^ j * 2 ^ nat ?k \<le> n * 2 ^ nat (- ?k)"
  proof (cases "Suc j \<le> ?l")
    case True
    then have "nat ?k = ?l - 1 - j" "nat (- ?k) = 0" "j + (?l - 1 - j) = ?l - 1" by auto
    then show ?thesis using low by (simp flip: power_add)
  next
    case False
    then have k: "nat ?k = 0" "nat (- ?k) = Suc j - ?l" "?l - 1 + (Suc j - ?l) = j" using pos by arith+
    have "(2::nat) ^ j = 2 ^ (?l - 1) * 2 ^ (Suc j - ?l)" using k(3) by (simp flip: power_add)
    also have "\<dots> \<le> n * 2 ^ (Suc j - ?l)" using low by simp
    finally show ?thesis using k by simp
  qed
  then show ?thesis
    by (simp add: exponent_of_def length_digits_power Let_def)
qed

lemma round_div_exact: "0 < d \<Longrightarrow> round_div (q * d) d = q"
  by (simp add: round_div_def Let_def)

text \<open>A fraction of at most 53 bits over a power of two is a float.\<close>

lemma round_double_exact:
  assumes "\<bar>m\<bar> < 2 ^ 53"
  shows "round_double (of_int m / 2 ^ k) = of_int m / 2 ^ k"
proof -
  let ?x = "of_int m / 2 ^ k :: rat"
  obtain n d where nd: "quotient_of ?x = (n, d)" by fastforce
  note x = quotient_of_div [OF nd] and d = quotient_of_denom_pos [OF nd] and co = quotient_of_coprime [OF nd]
  have "(of_int (m * d) :: rat) = of_int (n * 2 ^ k)"
    using x d by (simp add: frac_eq_eq)
  then have eq: "m * d = n * 2 ^ k" by (simp only: of_int_eq_iff)
  then have "d dvd n * 2 ^ k" by (metis dvd_triv_right)
  then have dvd: "d dvd 2 ^ k" using co by (simp add: coprime_commute coprime_dvd_mult_right_iff)
  then obtain c where c: "2 ^ k = d * c" by blast
  have "nat d dvd 2 ^ k" using dvd d by (simp add: nat_dvd_iff flip: nat_power_eq)
  then obtain j where j: "nat d = 2 ^ j" using dvd_power_of_two by blast
  show ?thesis
  proof (cases "n = 0")
    case True
    with x nd show ?thesis by (simp add: round_double_def)
  next
    case False
    have "m = n * c" using eq c d by simp
    moreover have "0 < c" using c d by (metis zero_less_mult_pos zero_less_power zero_less_numeral)
    ultimately have "\<bar>n\<bar> \<le> \<bar>m\<bar>" by (simp add: abs_mult mult_le_cancel_left1)
    then have small: "nat \<bar>n\<bar> < 2 ^ 53" "0 < nat \<bar>n\<bar>" using assms False by auto
    let ?l = "length (nat_digits 2 (nat \<bar>n\<bar>))"
    have l: "?l \<le> 53" using length_nat_digits [of 2 "nat \<bar>n\<bar>" 52] small by simp
    have e: "nat (int ?l - 1 - int j - 52) = 0" "nat (- (int ?l - 1 - int j - 52)) = 53 + j - ?l"
      using l by linarith+
    then have "round_significand 2 (nat \<bar>n\<bar>) (2 ^ j) (int ?l - 1 - int j - 52)
        = round_div (nat \<bar>n\<bar> * 2 ^ (53 + j - ?l)) (2 ^ j)"
      by (simp only: round_significand_def shift_fraction_def prod.case power_0 mult_1_right)
    also have "nat \<bar>n\<bar> * 2 ^ (53 + j - ?l) = (nat \<bar>n\<bar> * 2 ^ (53 - ?l)) * 2 ^ j"
      using l by (simp flip: power_add)
    also have "round_div \<dots> (2 ^ j) = nat \<bar>n\<bar> * 2 ^ (53 - ?l)"
      by (rule round_div_exact) simp
    finally have m: "round_significand 2 (nat \<bar>n\<bar>) (2 ^ j) (int ?l - 1 - int j - 52) = nat \<bar>n\<bar> * 2 ^ (53 - ?l)" .
    have split: "53 + j - ?l = (53 - ?l) + j" using l by simp
    have "round_double ?x = of_int (sgn n) * of_nat (nat \<bar>n\<bar> * 2 ^ (53 - ?l)) * of_nat (2 ^ 0) / of_nat (2 ^ ((53 - ?l) + j))"
      using False
      by (simp only: round_double_def nd prod.case if_False Let_def j exponent_of_power [OF small(2)] m e split)
    also have "\<dots> = of_int (sgn n * \<bar>n\<bar>) / 2 ^ j"
      by (simp add: power_add)
    also have "\<dots> = of_int n / of_int d"
      using j d by (simp add: sgn_mult_abs)
    finally show ?thesis using x by simp
  qed
qed

end
