(* ===== verification/SoakFacts.thy ===== *)
theory SoakFacts
  imports SoakTest FloatFacts
begin

text \<open>
  The soak test ends, after no more rounds than fit into its duration, and passes a soak only when
  every row of it is within the budget.
\<close>

section \<open>Rounds and time\<close>

text \<open>
  The monotonic clock does not go back, a sleep lasts at least as long as asked for, and the readings
  are multiples of a fixed power of two, as the readings of one period of a binary clock are.
\<close>

definition soak_clock_ok :: "soak_env \<Rightarrow> nat \<Rightarrow> bool" where
  "soak_clock_ok env k \<longleftrightarrow>
     (\<forall>h c. so_clock env h \<le> so_clock env (h @ [c]))
   \<and> (\<forall>h d. so_clock env h + d \<le> so_clock env (h @ [SoakSleep d]))
   \<and> (\<forall>h. \<exists>m. so_clock env h = of_int m / 2 ^ k \<and> 0 \<le> m)"

definition soak_rounds :: "soak_call list \<Rightarrow> nat" where
  "soak_rounds h = length (filter (\<lambda>c. case c of SoakScrape _ \<Rightarrow> True | _ \<Rightarrow> False) h)"

definition same_round :: "soak_env \<Rightarrow> soak_call list \<Rightarrow> soak_call list \<Rightarrow> bool" where
  "same_round env h t \<longleftrightarrow> soak_rounds t = soak_rounds h \<and> so_clock env h \<le> so_clock env t"

interpretation sr: frame_relation "same_round env" for env
  by unfold_locales (auto simp: same_round_def)

lemma same_round_call:
  assumes "soak_clock_ok env k" "soak_rounds [c] = 0"
  shows "keeps (same_round env) (soak_answer c f)" "keeps (same_round env) (soak_outcome c g)"
  using assms
  by (auto intro!: keepsI simp: soak_answer_def soak_outcome_def same_round_def soak_rounds_def soak_clock_ok_def)

lemma same_round_stats:
  assumes "soak_clock_ok env k"
  shows "keeps (same_round env) (process_stats env pid)"
  unfolding process_stats_def
  by (intro sr.keeps_combinators same_round_call [OF assms]) (simp_all add: soak_rounds_def)

lemma same_round_pause:
  assumes "soak_clock_ok env k"
  shows "keeps (same_round env) (soak_pause env a deadline)"
  unfolding soak_pause_def
  by (intro sr.keeps_combinators same_round_call [OF assms]) (simp_all add: soak_rounds_def)

text \<open>After the pause either a whole interval has passed or the deadline.\<close>

lemma pause_progress:
  assumes clock: "soak_clock_ok env k" and deadline: "deadline = of_int n / 2 ^ k" "n < 2 ^ 53"
    and "0 < sa_interval a"
  shows "so_clock env h + sa_interval a \<le> so_clock env (snd (soak_pause env a deadline h))
    \<or> deadline \<le> so_clock env (snd (soak_pause env a deadline h))"
proof (cases "deadline \<le> so_clock env h")
  case True
  obtain r t where t: "soak_pause env a deadline h = (r, t)" by fastforce
  from keepsD [OF same_round_pause [OF clock] t] True t show ?thesis by (simp add: same_round_def)
next
  case False
  let ?now = "so_clock env h" and ?h = "h @ [SoakMonotonic]"
  obtain m where m: "?now = of_int m / 2 ^ k" "0 \<le> m"
    using clock unfolding soak_clock_ok_def by blast
  have "m < n" using False m(1) deadline(1) by (simp add: divide_less_cancel not_le)
  then have "round_double (of_int (n - m) / 2 ^ k) = of_int (n - m) / 2 ^ k"
    using m(2) deadline(2) by (intro round_double_exact) simp
  then have exact: "float_sub deadline ?now = deadline - ?now"
    using m(1) deadline(1) by (simp add: float_sub_def diff_divide_distrib)
  let ?d = "min (sa_interval a) (max 0 (deadline - ?now))"
  have "?now \<le> so_clock env ?h" "so_clock env ?h + ?d \<le> so_clock env (?h @ [SoakSleep ?d])"
    using clock by (simp_all add: soak_clock_ok_def del: append_assoc)
  moreover have "snd (soak_pause env a deadline h) = ?h @ [SoakSleep ?d]"
    by (simp add: soak_pause_def soak_answer_def bind_act_def exact)
  ultimately show ?thesis by (auto simp: min_def max_def split: if_splits)
qed

lemma round_progress:
  assumes clock: "soak_clock_ok env k" and deadline: "deadline = of_int n / 2 ^ k" "n < 2 ^ 53"
    and "0 < sa_interval a" and run: "soak_round env a deadline h = (r, t)"
  shows "soak_rounds t = Suc (soak_rounds h)
    \<and> (\<forall>row. r = Inr row \<longrightarrow> so_clock env h + sa_interval a \<le> so_clock env t \<or> deadline \<le> so_clock env t)"
proof -
  let ?h = "h @ [SoakScrape (sa_concurrency a)]"
  obtain results where scrapes: "soak_scrapes env a h = (Inr results, ?h)"
    by (simp add: soak_scrapes_def soak_answer_def)
  let ?row = "\<lambda>stats. bind_act (soak_answer SoakTime (so_time env)) (\<lambda>time. lift_act (soak_row_of a results stats time))"
  have first: "soak_rounds ?h = Suc (soak_rounds h)" "so_clock env h \<le> so_clock env ?h"
    using clock by (simp_all add: soak_rounds_def soak_clock_ok_def)
  let ?work = "bind_act (process_stats env (sa_pid a)) ?row"
  have work: "keeps (same_round env) ?work"
    by (intro sr.keeps_combinators same_round_stats [OF clock] same_round_call [OF clock])
      (simp_all add: soak_rounds_def)
  have eq: "soak_round env a deadline h
      = bind_act ?work (\<lambda>row. then_act (soak_pause env a deadline) (return_act row)) ?h"
    using scrapes by (simp add: soak_round_def bind_run bind_assoc)
  obtain q v where q: "?work ?h = (q, v)" by fastforce
  from keepsD [OF work q] have v: "soak_rounds v = soak_rounds ?h" "so_clock env ?h \<le> so_clock env v"
    by (simp_all add: same_round_def)
  show ?thesis
  proof (cases q)
    case (Inl e)
    with run eq q first v show ?thesis by (auto simp: bind_act_def)
  next
    case (Inr row)
    obtain x w where w: "soak_pause env a deadline v = (Inr x, w)"
      by (simp add: soak_pause_def soak_answer_def bind_act_def)
    with run eq q Inr have "t = w" by (simp add: bind_act_def then_act_def return_act_def)
    moreover from keepsD [OF same_round_pause [OF clock] w] have "soak_rounds w = soak_rounds v"
      by (simp add: same_round_def)
    moreover from pause_progress [OF clock deadline assms(4), of v] w
    have "so_clock env v + sa_interval a \<le> so_clock env w \<or> deadline \<le> so_clock env w" by simp
    ultimately show ?thesis using first v by auto
  qed
qed

section \<open>The soak ends\<close>

definition rounds_left :: "soak_env \<Rightarrow> soak_args \<Rightarrow> rat \<Rightarrow> soak_call list \<Rightarrow> nat" where
  "rounds_left env a deadline h = nat \<lceil>(deadline - so_clock env h) / sa_interval a\<rceil>"

lemma rounds_left_positive:
  "so_clock env h < deadline \<Longrightarrow> 0 < sa_interval a \<Longrightarrow> 0 < rounds_left env a deadline h"
  by (simp add: rounds_left_def)

lemma rounds_left_less:
  assumes "0 < sa_interval a" "so_clock env h < deadline"
    and "so_clock env h + sa_interval a \<le> so_clock env t \<or> deadline \<le> so_clock env t"
  shows "Suc (rounds_left env a deadline t) \<le> rounds_left env a deadline h"
proof (cases "deadline \<le> so_clock env t")
  case True
  then have "(deadline - so_clock env t) / sa_interval a \<le> 0"
    using assms(1) by (simp add: divide_nonpos_pos)
  then have "rounds_left env a deadline t = 0" by (simp add: rounds_left_def)
  with rounds_left_positive [OF assms(2,1)] show ?thesis by simp
next
  case False
  let ?x = "(deadline - so_clock env t) / sa_interval a" and ?y = "(deadline - so_clock env h) / sa_interval a"
  have "(deadline - so_clock env t) + sa_interval a \<le> deadline - so_clock env h" using False assms(3) by simp
  then have "((deadline - so_clock env t) + sa_interval a) / sa_interval a \<le> ?y"
    using assms(1) by (simp add: divide_right_mono)
  then have "?x + 1 \<le> ?y" using assms(1) by (simp add: add_divide_distrib)
  then have "\<lceil>?x\<rceil> + 1 \<le> \<lceil>?y\<rceil>" by linarith
  moreover have "0 < \<lceil>?x\<rceil>" using False assms(1) by simp
  ultimately show ?thesis unfolding rounds_left_def by linarith
qed

lemma soak_loop_ends:
  assumes clock: "soak_clock_ok env k" and deadline: "deadline = of_int n / 2 ^ k" "n < 2 ^ 53"
    and "0 < sa_interval a"
  shows "\<exists>r t. soak_loop env a deadline rows h = Some (r, t)
    \<and> soak_rounds t \<le> soak_rounds h + rounds_left env a deadline h"
proof (induction "rounds_left env a deadline h" arbitrary: h rows rule: less_induct)
  case less
  show ?case
  proof (cases "so_clock env h < deadline")
    case False
    then show ?thesis by (subst soak_loop.simps) (simp add: soak_rounds_def)
  next
    case True
    let ?h = "h @ [SoakMonotonic]"
    obtain r t where run: "soak_round env a deadline ?h = (r, t)" by fastforce
    from round_progress [OF clock deadline assms(4) run]
    have t: "soak_rounds t = Suc (soak_rounds h)"
        "\<And>row. r = Inr row \<Longrightarrow> so_clock env ?h + sa_interval a \<le> so_clock env t \<or> deadline \<le> so_clock env t"
      by (simp_all add: soak_rounds_def)
    show ?thesis
    proof (cases r)
      case (Inl e)
      then show ?thesis using True run t(1) rounds_left_positive [OF True assms(4)]
        by (subst soak_loop.simps) simp
    next
      case (Inr row)
      have "so_clock env h \<le> so_clock env ?h" using clock by (simp add: soak_clock_ok_def)
      with t(2) [OF Inr] have "so_clock env h + sa_interval a \<le> so_clock env t \<or> deadline \<le> so_clock env t"
        by linarith
      from rounds_left_less [OF assms(4) True this]
      have left: "Suc (rounds_left env a deadline t) \<le> rounds_left env a deadline h" .
      then obtain q v where "soak_loop env a deadline (rows @ [row]) t = Some (q, v)"
          "soak_rounds v \<le> soak_rounds t + rounds_left env a deadline t"
        using less [of t "rows @ [row]"] by auto
      then show ?thesis using True run Inr t(1) left
        by (subst soak_loop.simps) simp
    qed
  qed
qed

lemma soak_effect_calls: "snd (soak_effect env c h) = h @ [c]"
  by (simp add: soak_effect_def soak_outcome_def)

lemma soak_report_rounds: "soak_rounds (snd (soak_ended (soak_report env a rows h))) = soak_rounds h"
  by (auto simp: soak_ended_def soak_report_def soak_effect_def soak_outcome_def soak_rounds_def act_defs split: option.splits sum.splits)

definition ends_within :: "nat \<Rightarrow> (soak_end \<times> soak_call list) option \<Rightarrow> bool" where
  "ends_within n x = (case x of None \<Rightarrow> False | Some r \<Rightarrow> soak_rounds (snd r) \<le> n)"

text \<open>
  C16: The soak test ends: when the monotonic clock does not go back and no sleep is shorter than
  asked for, it makes at most as many rounds of scrapes as intervals begin within its duration,
  whatever the exporter answers and however long the scrapes take.
\<close>

theorem soak_terminates:
  assumes "soak_clock_ok env k" and "so_clock env [SoakMkdir] < 2 ^ 52 / 2 ^ k"
    and "sa_duration a * 2 ^ k < 2 ^ 52"
  shows "ends_within (nat \<lceil>of_int (sa_duration a) / sa_interval a\<rceil>) (soak_main env a)"
proof (cases "sa_duration a \<le> 0 \<or> sa_interval a \<le> 0 \<or> sa_concurrency a \<le> 0")
  case True
  then show ?thesis by (simp add: soak_main_def soak_rounds_def ends_within_def)
next
  case False
  show ?thesis
  proof (cases "soak_effect env SoakMkdir []")
    case (Pair q h)
    have h: "h = [SoakMkdir]" using soak_effect_calls [of env SoakMkdir "[]"] Pair by simp
    show ?thesis
    proof (cases q)
      case (Inl e)
      with False Pair h show ?thesis by (auto simp: soak_main_def soak_rounds_def ends_within_def)
    next
      case (Inr x)
      obtain m where m: "so_clock env [SoakMkdir] = of_int m / 2 ^ k" "0 \<le> m"
        using assms(1) unfolding soak_clock_ok_def by blast
      have "(of_int m :: rat) < of_int (2 ^ 52)" using assms(2) m(1) by (simp add: divide_less_cancel)
      then have "m < 2 ^ 52" by (simp only: of_int_less_iff)
      then have n: "m + sa_duration a * 2 ^ k < 2 ^ 53" "0 \<le> m + sa_duration a * 2 ^ k"
        using assms(3) m(2) False by auto
      have sum: "so_clock env [SoakMkdir] + of_int (sa_duration a) = of_int (m + sa_duration a * 2 ^ k) / 2 ^ k"
        by (simp add: m(1) add_divide_distrib)
      then have deadline: "soak_deadline env a = of_int (m + sa_duration a * 2 ^ k) / 2 ^ k"
        using n round_double_exact [of "m + sa_duration a * 2 ^ k" k] by (simp add: soak_deadline_def)
      let ?h = "[SoakMkdir, SoakMonotonic]"
      have pos: "0 < sa_interval a" using False by simp
      from soak_loop_ends [OF assms(1) deadline n(1) pos, of "[]" ?h]
      obtain r t where t: "soak_loop env a (soak_deadline env a) [] ?h = Some (r, t)"
          "soak_rounds t \<le> rounds_left env a (soak_deadline env a) ?h"
        by (auto simp: soak_rounds_def)
      have "so_clock env [SoakMkdir] \<le> so_clock env ([SoakMkdir] @ [SoakMonotonic])"
        using assms(1) unfolding soak_clock_ok_def by blast
      then have "(soak_deadline env a - so_clock env ?h) / sa_interval a \<le> of_int (sa_duration a) / sa_interval a"
        using deadline sum pos by (intro divide_right_mono) simp_all
      then have "rounds_left env a (soak_deadline env a) ?h \<le> nat \<lceil>of_int (sa_duration a) / sa_interval a\<rceil>"
        unfolding rounds_left_def by (intro nat_mono ceiling_mono)
      with t have "ends_within (nat \<lceil>of_int (sa_duration a) / sa_interval a\<rceil>) (soak_main env a)"
        using False Pair h Inr soak_report_rounds [of env a _ t]
        by (cases r) (simp_all add: soak_main_def ends_within_def)
      then show ?thesis .
    qed
  qed
qed

definition patient_env :: soak_env where
  "patient_env = \<lparr>
     so_clock = (\<lambda>h. of_int (sum_list (map (\<lambda>c. case c of SoakSleep d \<Rightarrow> max 0 \<lceil>d\<rceil> | _ \<Rightarrow> 0) h))),
     so_fetch = (\<lambda>h i. \<lparr>fe_started = 0, fe_response = Inl OSErrorExn, fe_finished = 0\<rparr>),
     so_status = (\<lambda>h. Inr []), so_descriptors = (\<lambda>h. Inr 0), so_time = (\<lambda>h. 0), so_fails = (\<lambda>h c. None)\<rparr>"

lemma soak_terminates_witness: "ends_within 51840 (soak_main patient_env default_soak_args)"
proof -
  have "soak_clock_ok patient_env 0"
    unfolding soak_clock_ok_def
  proof (intro conjI allI)
    fix h c d
    show "so_clock patient_env h \<le> so_clock patient_env (h @ [c])"
      by (simp add: patient_env_def split: soak_call.splits)
    show "so_clock patient_env h + d \<le> so_clock patient_env (h @ [SoakSleep d])"
      by (simp add: patient_env_def max_def)
    have "0 \<le> sum_list (map (\<lambda>c. case c of SoakSleep d \<Rightarrow> max 0 \<lceil>d\<rceil> | _ \<Rightarrow> 0) h)"
      by (intro sum_list_nonneg) (auto split: soak_call.splits)
    then show "\<exists>m. so_clock patient_env h = of_int m / 2 ^ 0 \<and> 0 \<le> m"
      by (auto simp: patient_env_def)
  qed
  then show ?thesis
    using soak_terminates [of patient_env 0 default_soak_args]
    by (simp add: default_soak_args_def patient_env_def)
qed

section \<open>What a passed soak means\<close>

definition row_counts :: "soak_args \<Rightarrow> soak_row \<Rightarrow> bool" where
  "row_counts a row \<longleftrightarrow> 0 \<le> row_successful row \<and> 0 \<le> row_failed row
     \<and> row_successful row + row_failed row = sa_concurrency a"

lemma length_map_filter: "length (List.map_filter f xs) \<le> length xs"
  by (simp add: List.map_filter_def)

lemma row_of_counts:
  assumes "int (length results) \<le> sa_concurrency a" "soak_row_of a results stats time = Inr row"
  shows "row_counts a row"
proof -
  have "int (length (filter (\<lambda>(_, n, _). 0 < n) results)) \<le> sa_concurrency a"
    using assms(1) length_filter_le [of "\<lambda>(_, n, _). 0 < n" results] by linarith
  with assms show ?thesis
    by (cases stats) (auto simp: soak_row_of_def row_counts_def Let_def split: sum.splits)
qed

lemma round_counts:
  assumes "0 < sa_concurrency a"
  shows "returns (soak_round env a deadline) (row_counts a)"
  unfolding soak_round_def
proof (rule returns_bind_strong)
  show "returns (soak_scrapes env a) (\<lambda>results. int (length results) \<le> sa_concurrency a)"
  proof -
    have "int (length (List.map_filter f [0..<nat (sa_concurrency a)])) \<le> sa_concurrency a" for f :: "nat \<Rightarrow> scrape_result option"
      using length_map_filter [of f "[0..<nat (sa_concurrency a)]"] assms by simp
    then show ?thesis by (simp add: soak_scrapes_def soak_answer_def returns_def)
  qed
next
  fix results :: "scrape_result list"
  assume "int (length results) \<le> sa_concurrency a"
  note counts = row_of_counts [OF this]
  show "returns (bind_act (process_stats env (sa_pid a)) (\<lambda>stats.
      bind_act (soak_answer SoakTime (so_time env)) (\<lambda>time.
      bind_act (lift_act (soak_row_of a results stats time)) (\<lambda>row.
        then_act (soak_pause env a deadline) (return_act row))))) (row_counts a)"
    by (rule returns_bind, rule returns_bind, rule returns_bind_strong [of "lift_act _" "row_counts a"],
        rule returns_lift, erule counts, rule returns_then, erule returns_return)
qed

lemma soak_loop_counts:
  assumes "0 < sa_concurrency a" and "soak_loop env a deadline rows h = Some (Inr all, t)"
    and "list_all (row_counts a) rows"
  shows "list_all (row_counts a) all"
proof -
  define P where "P (env' :: soak_env) a' (deadline' :: rat) rows' (h' :: soak_call list) q \<longleftrightarrow>
    (a' = a \<longrightarrow> list_all (row_counts a) rows' \<longrightarrow> (\<forall>all t. q = (Inr all, t) \<longrightarrow> list_all (row_counts a) all))"
    for env' a' deadline' rows' h' and q :: "soak_row list outcome \<times> soak_call list"
  have "P env a deadline rows h (Inr all, t)"
  proof (rule soak_loop.raw_induct [where P = P, OF _ assms(2)])
    fix f env' a' deadline' rows' h' q
    assume IH: "\<And>env a deadline rows h q. f env a deadline rows h = Some q \<Longrightarrow> P env a deadline rows h q"
      and run: "(if so_clock env' h' < deadline' then
          (case soak_round env' a' deadline' (h' @ [SoakMonotonic]) of
             (Inl e, t) \<Rightarrow> Some (Inl e, t)
           | (Inr row, t) \<Rightarrow> f env' a' deadline' (rows' @ [row]) t)
        else Some (Inr rows', h' @ [SoakMonotonic])) = Some q"
    show "P env' a' deadline' rows' h' q"
      unfolding P_def
    proof (intro impI allI)
      fix all t
      assume a: "a' = a" and rows: "list_all (row_counts a) rows'" and q: "q = (Inr all, t)"
      show "list_all (row_counts a) all"
      proof (cases "so_clock env' h' < deadline'")
        case False
        with run rows q show ?thesis by simp
      next
        case True
        with run q a obtain row v where row: "soak_round env' a deadline' (h' @ [SoakMonotonic]) = (Inr row, v)"
            "f env' a deadline' (rows' @ [row]) v = Some (Inr all, t)"
          by (auto split: prod.splits sum.splits)
        from IH [OF row(2)] rows returnsD [OF round_counts [OF assms(1)] row(1)]
        show ?thesis by (simp add: P_def)
      qed
    qed
  qed
  with assms(3) show ?thesis by (simp add: P_def)
qed

lemma validate_passed:
  "validate_soak s a = None \<longleftrightarrow> su_failed s \<le> sa_maximum_failed a \<and> sa_minimum_series a \<le> su_maximum_series s
     \<and> su_maximum_scrape s \<le> sa_maximum_scrape a \<and> su_rss_growth s \<le> sa_maximum_rss_growth a
     \<and> su_thread_growth s \<le> 2 \<and> su_descriptor_growth s \<le> 2"
  by (auto simp: validate_soak_def)

text \<open>
  C17: A soak is passed only on evidence: there is at least one row, every row accounts for each of its
  concurrent scrapes as successful or failed, none took longer than allowed, no more failed than
  allowed over the whole soak, some row has the required series, and between the end of the first
  quarter and the last row neither memory nor threads nor descriptors grew beyond the budget.
\<close>

theorem soak_passed_sound:
  assumes "soak_main env a = Some (SoakPassed s rows, h)"
  shows "rows \<noteq> []
    \<and> list_all (\<lambda>r. 0 \<le> row_failed r \<and> row_successful r + row_failed r = sa_concurrency a
          \<and> row_maximum_scrape r \<le> sa_maximum_scrape a) rows
    \<and> sum_list (map row_failed rows) \<le> sa_maximum_failed a
    \<and> (\<exists>r \<in> set rows. sa_minimum_series a \<le> row_series r)
    \<and> (let first = rows ! (length rows div 4)
        in row_rss (last rows) \<le> row_rss first + sa_maximum_rss_growth a
         \<and> row_threads (last rows) \<le> row_threads first + 2
         \<and> row_descriptors (last rows) \<le> row_descriptors first + 2)"
proof -
  from assms have pos: "0 < sa_concurrency a" by (auto simp: soak_main_def split: if_splits)
  from assms obtain t g where loop: "soak_loop env a (soak_deadline env a) [] g = Some (Inr rows, t)"
      and sum: "summarize rows = Inr s" and valid: "validate_soak s a = None"
    by (auto simp: soak_main_def soak_ended_def soak_report_def soak_effect_def soak_outcome_def act_defs
        split: if_splits sum.splits prod.splits option.splits)
  from sum have rows: "rows \<noteq> []" by (auto simp: summarize_def)
  have counts: "list_all (row_counts a) rows" by (rule soak_loop_counts [OF pos loop]) simp
  have "length rows div 4 < length rows" using rows by simp
  then have warm: "warm_rows rows = drop (length rows div 4) rows" "hd (warm_rows rows) = rows ! (length rows div 4)"
      "last (warm_rows rows) = last rows"
    by (simp_all add: warm_rows_def Let_def hd_drop_conv_nth)
  have max: "row_maximum_scrape r \<le> su_maximum_scrape s" if "r \<in> set rows" for r
    using that sum rows by (auto simp: summarize_def)
  have "Max (set (map row_series rows)) \<in> set (map row_series rows)"
    using rows by (intro Max_in) simp_all
  then obtain r where "r \<in> set rows" "Max (set (map row_series rows)) = row_series r" by auto
  with sum rows have r: "r \<in> set rows" "su_maximum_series s = row_series r"
    by (auto simp: summarize_def)
  show ?thesis
    using rows counts valid sum max r warm
    unfolding validate_passed
    by (auto simp: list_all_iff row_counts_def summarize_def growth_def Let_def intro: order_trans)
qed

definition healthy_env :: soak_env where
  "healthy_env = patient_env\<lparr>so_fetch := (\<lambda>h i. \<lparr>fe_started = 0, fe_response = Inr ''up'', fe_finished = 0\<rparr>)\<rparr>"

definition short_args :: soak_args where
  "short_args = default_soak_args\<lparr>sa_duration := 5, sa_concurrency := 2\<rparr>"

definition healthy_row :: soak_row where
  "healthy_row = \<lparr>row_timestamp = 0, row_successful = 2, row_failed = 0, row_maximum_scrape = 0,
     row_payload = 2, row_series = 1, row_collection = Finite 0, row_age = Finite 0,
     row_rss = 0, row_threads = 0, row_descriptors = 0\<rparr>"

lemma short_args:
  "so_fails healthy_env g c = None" "sa_duration short_args = 5" "sa_interval short_args = 5"
  "sa_concurrency short_args = 2"
  by (simp_all add: healthy_env_def patient_env_def short_args_def default_soak_args_def)

lemma healthy_round:
  "soak_round healthy_env short_args 5 [SoakMkdir, SoakMonotonic, SoakMonotonic]
    = (Inr healthy_row, [SoakMkdir, SoakMonotonic, SoakMonotonic, SoakScrape 2, SoakTime, SoakMonotonic, SoakSleep 5])"
proof -
  have exact: "round_double 0 = 0" "round_double 5 = 5"
    using round_double_exact [of 0 0] round_double_exact [of 5 0] by simp_all
  have payload: "decode_utf8 ''up'' = Some (u ''up'')" by (simp add: decode_utf8_ascii u_def)
  have texts: "metric (u ''up'') ''tt_exporter_collection_duration_seconds'' = Inr (Finite 0)"
    "metric (u ''up'') ''tt_exporter_snapshot_age_seconds'' = Inr (Finite 0)" "series (u ''up'') = 1"
    by (simp_all add: metric_def metric_match_def starts_with_def List.map_filter_def series_def u_Cons
        is_line_break_def line_break_points_def)
  have two: "[0..<2] = [0, Suc 0]" by (simp add: upt_rec)
  have scrapes: "soak_scrapes healthy_env short_args h
      = (Inr [(0, 2, u ''up''), (0, 2, u ''up'')], h @ [SoakScrape 2])" for h
    by (simp add: soak_scrapes_def soak_answer_def short_args two List.map_filter_def)
      (simp add: healthy_env_def scrape_def payload float_sub_def exact)
  have row: "soak_row_of short_args [(0, 2, u ''up''), (0, 2, u ''up'')] (0, 0, 0) 0 = Inr healthy_row"
    by (simp add: soak_row_of_def texts max_default_def int_of_float_def healthy_row_def short_args Let_def)
  have answers: "so_clock healthy_env [SoakMkdir, SoakMonotonic, SoakMonotonic, SoakScrape 2, SoakTime] = 0"
    "so_time healthy_env h = 0" "sa_pid short_args = None" for h
    by (simp_all add: healthy_env_def patient_env_def short_args_def default_soak_args_def)
  show ?thesis
    by (simp add: soak_round_def scrapes bind_act_def process_stats_def return_act_def soak_answer_def
        lift_act_def row answers then_act_def soak_pause_def float_sub_def exact short_args)
qed

lemma soak_passed_sound_witness:
  "\<exists>s h. soak_main healthy_env short_args = Some (SoakPassed s [healthy_row], h)
     \<and> sum_list (map row_failed [healthy_row]) \<le> 0 \<and> 1 \<le> row_series healthy_row"
proof -
  let ?t = "[SoakMkdir, SoakMonotonic, SoakMonotonic, SoakScrape 2, SoakTime, SoakMonotonic, SoakSleep 5]"
  have deadline: "soak_deadline healthy_env short_args = 5"
    using round_double_exact [of 5 0]
    by (simp add: soak_deadline_def healthy_env_def patient_env_def short_args_def)
  have "soak_loop healthy_env short_args 5 [] [SoakMkdir, SoakMonotonic]
      = soak_loop healthy_env short_args 5 [healthy_row] ?t"
    by (subst soak_loop.simps) (simp add: healthy_round, simp add: healthy_env_def patient_env_def)
  also have "\<dots> = Some (Inr [healthy_row], ?t @ [SoakMonotonic])"
    by (subst soak_loop.simps) (simp add: healthy_env_def patient_env_def)
  finally have "soak_main healthy_env short_args
      = Some (soak_ended (soak_report healthy_env short_args [healthy_row] (?t @ [SoakMonotonic])))"
    by (simp add: soak_main_def deadline soak_effect_def soak_outcome_def short_args)
  also have "\<exists>s h. \<dots> = Some (SoakPassed s [healthy_row], h)"
    by (simp add: soak_report_def soak_ended_def soak_effect_def soak_outcome_def act_defs summarize_def
        validate_soak_def growth_def warm_rows_def healthy_env_def patient_env_def short_args_def
        default_soak_args_def healthy_row_def)
  finally obtain s h where run: "soak_main healthy_env short_args = Some (SoakPassed s [healthy_row], h)"
    by blast
  from soak_passed_sound [OF run] run show ?thesis
    by (simp add: short_args_def default_soak_args_def)
qed

end
