(* ===== verification/FormatFacts.thy ===== *)
theory FormatFacts
  imports QuantityFacts SoakTest FloatFacts
begin

text \<open>
  A number written by \<open>format\<close> with a number of significant digits reads back, by the rules of
  \<open>float\<close>, as the number rounded to that many digits.
\<close>

section \<open>Digits\<close>

lemma digits_value_app: "digits_value b (xs @ ys) = digits_value b xs * b ^ length ys + digits_value b ys"
proof (induction ys rule: rev_induct)
  case (snoc y ys)
  have "digits_value b (xs @ ys @ [y]) = digits_value b (xs @ ys) * b + y"
    using digits_value_append [of b "xs @ ys" y] by simp
  with snoc show ?case by (simp add: digits_value_append algebra_simps)
qed (simp add: digits_value_def)

lemma digits_value_zeros: "digits_value b (replicate n 0) = 0"
  by (induction n) (simp_all add: digits_value_def)

lemma strip_zeros_split: "\<exists>k. ds = strip_zeros ds @ replicate k 0"
proof -
  have "rev ds = takeWhile (\<lambda>d. d = 0) (rev ds) @ rev (strip_zeros ds)"
    by (simp add: strip_zeros_def)
  moreover have "takeWhile (\<lambda>d. d = 0) (rev ds) = replicate (length (takeWhile (\<lambda>d. d = 0) (rev ds))) 0"
    by (rule replicate_length_same [symmetric]) (auto dest: set_takeWhileD)
  ultimately have "ds = strip_zeros ds @ replicate (length (takeWhile (\<lambda>d. d = 0) (rev ds))) 0"
    by (metis rev_append rev_replicate rev_rev_ident)
  then show ?thesis by blast
qed

lemma digit_points_value: "list_all (\<lambda>d. d < 10) ds \<Longrightarrow> decimal_digits_value (map digit_point ds) = digits_value 10 ds"
proof -
  assume "list_all (\<lambda>d. d < 10) ds"
  then have "map (\<lambda>c. the (decimal_digit c)) (map digit_point ds) = ds"
    by (auto simp: list_all_iff digit_point_def comp_def intro!: map_idI)
  then show ?thesis by (simp add: decimal_digits_value_def)
qed

lemma digit_decimal: "list_all (\<lambda>d. d < 10) ds \<Longrightarrow> d \<in> set ds \<Longrightarrow> is_decimal (digit_point d)"
  by (auto simp: list_all_iff digit_point_def is_decimal_ascii_digit)

lemma digit_points_decimals:
  assumes "list_all (\<lambda>d. d < 10) ds" "rest = [] \<or> \<not> is_decimal (hd rest)"
  shows "takeWhile is_decimal (map digit_point ds @ rest) = map digit_point ds"
    "dropWhile is_decimal (map digit_point ds @ rest) = rest"
proof -
  have d: "is_decimal c" if "c \<in> set (map digit_point ds)" for c
    using that assms(1) by (auto simp: list_all_iff digit_point_def is_decimal_ascii_digit)
  have "takeWhile is_decimal rest = []" "dropWhile is_decimal rest = rest"
    using assms(2) by (cases rest; simp)+
  with d show "takeWhile is_decimal (map digit_point ds @ rest) = map digit_point ds"
    "dropWhile is_decimal (map digit_point ds @ rest) = rest"
    by (simp_all add: takeWhile_append dropWhile_append)
qed

section \<open>Reading the text back\<close>

lemma decimal_rat_powi:
  "decimal_rat \<lparr>dec_negative = b, dec_coefficient = c, dec_exponent = x\<rparr>
    = (if b then - 1 else 1) * of_nat c * 10 powi x"
proof (cases "0 \<le> x")
  case True
  then show ?thesis by (simp add: decimal_rat_def power_int_def)
next
  case False
  then have "(10 :: rat) powi x = 1 / 10 ^ nat (- x)" by (simp add: power_int_def power_one_over)
  with False show ?thesis by (simp add: decimal_rat_def)
qed

lemma not_decimal_mark: "\<not> is_decimal 46" "\<not> is_decimal 101" "\<not> is_decimal 43" "\<not> is_decimal 45"
  using is_decimal_ascii [of 46] is_decimal_ascii [of 101] is_decimal_ascii [of 43] is_decimal_ascii [of 45]
  by auto

lemma scan_exponent_text: "scan_exponent (exponent_text e) = (e, [])"
proof -
  define ds where "ds = (if \<bar>e\<bar> < 10 then [0] else []) @ nat_digits 10 (nat \<bar>e\<bar>)"
  have ds: "list_all (\<lambda>d. d < 10) ds" by (simp add: ds_def nat_digits_less)
  have spelled: "exponent_text e = 101 # (if e < 0 then 45 else 43) # map digit_point ds"
    by (simp add: exponent_text_def ds_def str_nat_def u_Cons digit_point_def)
  have v: "digits_value 10 ds = nat \<bar>e\<bar>"
    by (simp add: ds_def digits_value_app) (simp add: digits_value_def)
  have neq: "ds \<noteq> []" by (simp add: ds_def)
  have scan: "takeWhile is_decimal (map digit_point ds) = map digit_point ds"
    using digit_decimal [OF ds] by simp
  have "\<forall>d \<in> set ds. is_decimal (digit_point d)" using digit_decimal [OF ds] by blast
  then show ?thesis
    unfolding spelled
    using digit_points_value [OF ds] neq v
    by (simp add: scan_exponent_def u_Cons Let_def scan)
qed

lemma with_fraction_reads:
  assumes "w \<noteq> []" "list_all (\<lambda>d. d < 10) w" "list_all (\<lambda>d. d < 10) f"
    and "tail = [] \<or> hd tail = 101" "scan_exponent tail = (x, [])"
  shows "\<exists>d. number_prefix (with_fraction w f @ tail) = Some (d, []) \<and> \<not> dec_negative d
    \<and> decimal_rat d = of_nat (digits_value 10 (w @ f)) * 10 powi (x - int (length f))"
proof -
  let ?g = "strip_zeros f"
  obtain k where k: "f = ?g @ replicate k 0" using strip_zeros_split by blast
  have g: "list_all (\<lambda>d. d < 10) ?g" using assms(3) by (rule strip_zeros_all)
  have mark: "tail = [] \<or> \<not> is_decimal (hd tail)" using assms(4) not_decimal_mark by auto
  have first: "take 1 (map digit_point w @ rest) \<noteq> [45]" "take 1 (map digit_point w @ rest) \<noteq> [43]" for rest
    using assms(1,2) by (cases w; auto simp: digit_point_def)+
  have point: "take 1 tail \<noteq> [46]" using assms(4) by (cases tail) auto
  let ?d = "\<lparr>dec_negative = False, dec_coefficient = digits_value 10 (w @ ?g), dec_exponent = x - int (length ?g)\<rparr>"
  have "number_prefix (with_fraction w f @ tail) = Some (?d, [])"
  proof (cases "?g = []")
    case True
    then show ?thesis
      using digit_points_decimals [OF assms(2) mark] digit_points_value [OF assms(2)] first point assms(1,5)
      by (simp add: number_prefix_def with_fraction_def u_Cons Let_def)
  next
    case False
    let ?rest = "46 # map digit_point ?g @ tail"
    have w: "takeWhile is_decimal (map digit_point w @ ?rest) = map digit_point w"
      "dropWhile is_decimal (map digit_point w @ ?rest) = ?rest"
      using digit_points_decimals [OF assms(2), of ?rest] not_decimal_mark by simp_all
    have "list_all (\<lambda>d. d < 10) (w @ ?g)" using assms(2) g by simp
    from digit_points_value [OF this] show ?thesis
      using False w digit_points_decimals [OF g mark] first [of ?rest] assms(1,5)
      by (simp add: number_prefix_def with_fraction_def u_Cons Let_def)
  qed
  moreover have "digits_value 10 (w @ f) = digits_value 10 (w @ ?g) * 10 ^ k"
    using digits_value_app [of 10 "w @ ?g" "replicate k 0"] k digits_value_zeros [of 10 k]
    by (metis add.right_neutral append.assoc length_replicate)
  moreover have "length f = length ?g + k" using k by (metis length_append length_replicate)
  ultimately show ?thesis
    by (intro exI [of _ ?d]) (simp add: decimal_rat_powi power_int_diff power_int_add field_simps)
qed

text \<open>\<open>p\<close> digits with their exponent spell \<open>d.ddd\<close> times a power of ten.\<close>

lemma general_text_reads:
  assumes "length ds = p" "ds \<noteq> []" "list_all (\<lambda>d. d < 10) ds"
  shows "\<exists>d. number_prefix (general_text p ds e) = Some (d, []) \<and> \<not> dec_negative d
    \<and> decimal_rat d = of_nat (digits_value 10 ds) * 10 powi (e - int p + 1)"
proof -
  have parts: "list_all (\<lambda>d. d < 10) (take n ds)" "list_all (\<lambda>d. d < 10) (drop n ds)" for n
    using list_all_take_drop [OF assms(3)] by blast+
  have none: "scan_exponent [] = (0, [])" by (simp add: scan_exponent_def)
  consider "0 \<le> e" "e < int p" | "- 4 \<le> e" "e < 0" | "\<not> (- 4 \<le> e \<and> e < int p)" by linarith
  then show ?thesis
  proof cases
    case 1
    have "\<exists>d. number_prefix (with_fraction (take (nat e + 1) ds) (drop (nat e + 1) ds) @ []) = Some (d, [])
        \<and> \<not> dec_negative d \<and> decimal_rat d = of_nat (digits_value 10 (take (nat e + 1) ds @ drop (nat e + 1) ds))
            * 10 powi (0 - int (length (drop (nat e + 1) ds)))"
      using assms(2) parts none by (intro with_fraction_reads) simp_all
    moreover have "0 - int (length (drop (nat e + 1) ds)) = e - int p + 1" using 1 assms(1) by simp
    ultimately show ?thesis using 1 by (simp add: general_text_def del: length_drop)
  next
    case 2
    let ?f = "replicate (nat (- e) - 1) 0 @ ds"
    have "\<exists>d. number_prefix (with_fraction [0] ?f @ []) = Some (d, [])
        \<and> \<not> dec_negative d \<and> decimal_rat d = of_nat (digits_value 10 ([0] @ ?f)) * 10 powi (0 - int (length ?f))"
      using assms(3) none by (intro with_fraction_reads) (auto simp: list_all_iff)
    moreover have "0 - int (length ?f) = e - int p + 1" using 2 assms(1) by simp
    moreover have "digits_value 10 ([0] @ ?f) = digits_value 10 ds"
      using digits_value_app [of 10 "replicate (Suc (nat (- e) - 1)) 0" ds]
        digits_value_zeros [of 10 "Suc (nat (- e) - 1)"] by simp
    ultimately show ?thesis using 2 assms(1) by (simp add: general_text_def del: length_append)
  next
    case 3
    have shift: "e - int (length (drop 1 ds)) = e - int p + 1" using assms(1,2) by (cases ds) simp_all
    have "\<exists>d. number_prefix (with_fraction (take 1 ds) (drop 1 ds) @ exponent_text e) = Some (d, [])
        \<and> \<not> dec_negative d \<and> decimal_rat d = of_nat (digits_value 10 (take 1 ds @ drop 1 ds))
            * 10 powi (e - int (length (drop 1 ds)))"
      using assms(2) parts [of 1] scan_exponent_text
      by (intro with_fraction_reads) (simp_all add: exponent_text_def u_Cons)
    moreover have "general_text p ds e = with_fraction (take 1 ds) (drop 1 ds) @ exponent_text e"
      using 3 by (auto simp: general_text_def)
    ultimately show ?thesis by (simp only: shift append_take_drop_id)
  qed
qed

section \<open>Significant digits\<close>

lemma exponent_bounds:
  assumes "2 \<le> b" "0 < n" "0 < d"
  shows "of_nat b powi exponent_of b n d \<le> (of_nat n / of_nat d :: rat)"
    and "(of_nat n / of_nat d :: rat) < of_nat b powi (exponent_of b n d + 1)"
proof -
  let ?ln = "length (nat_digits b n)" and ?ld = "length (nat_digits b d)" and ?b = "of_nat b :: rat"
  define k where "k = int ?ln - int ?ld"
  let ?q = "of_nat n / of_nat d :: rat"
  have b: "1 < ?b" "0 < ?b" using assms(1) by simp_all
  have ln: "?b ^ (?ln - 1) \<le> of_nat n" "of_nat n < ?b ^ ?ln"
    using nat_digits_bounds [OF assms(1,2)] by (simp_all flip: of_nat_power)
  have ld: "?b ^ (?ld - 1) \<le> of_nat d" "of_nat d < ?b ^ ?ld"
    using nat_digits_bounds [OF assms(1,3)] by (simp_all flip: of_nat_power)
  have "int ?ln - 1 = int (?ln - 1)" "int ?ld - 1 = int (?ld - 1)"
    by (simp_all add: of_nat_diff Suc_le_eq)
  then have pn: "?b ^ (?ln - 1) = ?b powi (int ?ln - 1)" "?b ^ ?ln = ?b powi int ?ln"
    and pd: "?b ^ (?ld - 1) = ?b powi (int ?ld - 1)" "?b ^ ?ld = ?b powi int ?ld"
    by (simp_all only: power_int_of_nat)
  have up: "?q < ?b powi (k + 1)"
  proof -
    have "?q \<le> of_nat n / ?b ^ (?ld - 1)" using ld(1) b assms(3) by (intro divide_left_mono) simp_all
    also have "\<dots> < ?b ^ ?ln / ?b ^ (?ld - 1)" using ln(2) b by (intro divide_strict_right_mono) simp_all
    also have "\<dots> = ?b powi (k + 1)"
      unfolding pn pd using b power_int_diff [of ?b "int ?ln" "int ?ld - 1"] by (simp only: k_def) (simp add: algebra_simps)
    finally show ?thesis .
  qed
  have low: "?b powi (k - 1) < ?q"
  proof -
    have "?b powi (k - 1) = ?b ^ (?ln - 1) / ?b ^ ?ld"
      unfolding pn pd using b power_int_diff [of ?b "int ?ln - 1" "int ?ld"] by (simp only: k_def) (simp add: algebra_simps)
    also have "\<dots> \<le> of_nat n / ?b ^ ?ld" using ln(1) b by (intro divide_right_mono) simp_all
    also have "\<dots> < ?q" using ld assms(2,3) b by (intro divide_strict_left_mono) simp_all
    finally show ?thesis .
  qed
  have cond: "d * b ^ nat k \<le> n * b ^ nat (- k) \<longleftrightarrow> ?b powi k \<le> ?q"
  proof -
    have "d * b ^ nat k \<le> n * b ^ nat (- k) \<longleftrightarrow> (of_nat d * ?b ^ nat k \<le> of_nat n * ?b ^ nat (- k))"
      by (metis of_nat_le_iff of_nat_mult of_nat_power)
    also have "\<dots> \<longleftrightarrow> ?b powi k \<le> ?q"
      using assms(3) b by (cases "0 \<le> k") (simp_all add: power_int_def field_simps power_one_over)
    finally show ?thesis .
  qed
  have e: "exponent_of b n d = (if ?b powi k \<le> ?q then k else k - 1)"
    unfolding exponent_of_def Let_def k_def [symmetric] using cond by simp
  show "?b powi exponent_of b n d \<le> ?q" "?q < ?b powi (exponent_of b n d + 1)"
    using e up low by (auto split: if_splits)
qed

lemma round_div_near:
  assumes "0 < d"
  shows "\<bar>of_nat (round_div n d) - (of_nat n / of_nat d :: rat)\<bar> \<le> 1 / 2"
proof -
  have n: "(of_nat n / of_nat d :: rat) = of_nat (n div d) + of_nat (n mod d) / of_nat d"
    using assms by (metis (no_types, lifting) add_divide_distrib div_mult_mod_eq nonzero_mult_div_cancel_right
        of_nat_add of_nat_eq_0_iff of_nat_mult order_less_irrefl)
  let ?r = "of_nat (n mod d) / of_nat d :: rat"
  have r: "0 \<le> ?r" "?r < 1" using assms by simp_all
  have half: "2 * (n mod d) < d \<longleftrightarrow> ?r < 1 / 2" "d < 2 * (n mod d) \<longleftrightarrow> 1 / 2 < ?r"
    using assms by (simp_all add: field_simps flip: of_nat_mult)
      (metis of_nat_less_iff of_nat_mult of_nat_numeral)+
  consider "2 * (n mod d) < d" | "d < 2 * (n mod d)" | "2 * (n mod d) = d" by linarith
  then show ?thesis
  proof cases
    case 1
    then show ?thesis unfolding n using r half(1) by (simp add: round_div_def Let_def)
  next
    case 2
    then have "round_div n d = n div d + 1" by (simp add: round_div_def Let_def)
    then show ?thesis unfolding n using 2 r half(2) by (simp add: abs_if)
  next
    case 3
    then have "?r = 1 / 2" using half r by linarith
    then show ?thesis unfolding n round_div_def Let_def using 3 by simp
  qed
qed

lemma significand_near:
  assumes "2 \<le> b" "0 < d"
  shows "\<bar>of_nat (round_significand b n d s) - (of_nat n / of_nat d) * of_nat b powi (- s)\<bar> \<le> (1 / 2 :: rat)"
proof -
  have pos: "0 < d * b ^ nat s" using assms by simp
  have "of_nat (n * b ^ nat (- s)) / of_nat (d * b ^ nat s) = (of_nat n / of_nat d) * (of_nat b powi (- s) :: rat)"
    by (cases "0 \<le> s") (simp_all add: power_int_def power_inverse divide_inverse)
  with round_div_near [OF pos, of "n * b ^ nat (- s)"] show ?thesis
    by (simp only: round_significand_def shift_fraction_def prod.case)
qed

lemma near_bounds:
  fixes m :: nat and x :: rat
  assumes "\<bar>of_nat m - x\<bar> \<le> 1 / 2" "of_nat a \<le> x" "x < of_nat c"
  shows "a \<le> m \<and> m \<le> c"
proof -
  have "(of_nat a :: rat) < of_nat (Suc m)" "(of_nat m :: rat) < of_nat (Suc c)"
    unfolding of_nat_Suc using assms by linarith+
  then have "a < Suc m" "m < Suc c" by (simp_all only: of_nat_less_iff)
  then show ?thesis by simp
qed

lemma digits_of_length:
  assumes "10 ^ (p - 1) \<le> m" "m < 10 ^ p" "0 < p"
  shows "length (nat_digits 10 m) = p"
proof -
  let ?l = "length (nat_digits 10 m)"
  have "0 < m" using assms(1) by (metis less_le_trans zero_less_numeral zero_less_power)
  then have "(10::nat) ^ (?l - 1) \<le> m" "m < 10 ^ ?l" using nat_digits_bounds [of 10 m] by simp_all
  then have "(10::nat) ^ (?l - 1) < 10 ^ p" "(10::nat) ^ (p - 1) < 10 ^ ?l"
    using assms by (meson le_less_trans less_le_trans)+
  then have "?l - 1 < p" "p - 1 < ?l" by (simp_all add: power_strict_increasing_iff)
  moreover have "?l \<noteq> 0" by simp
  ultimately show ?thesis using assms(3) by linarith
qed

lemma format_positive_reads:
  assumes "0 < p" "0 < n" "0 < d"
  shows "\<exists>v. number_prefix (format_positive p n d) = Some (v, []) \<and> \<not> dec_negative v
    \<and> \<bar>decimal_rat v - of_nat n / of_nat d\<bar> * (2 * 10 ^ (p - 1)) \<le> of_nat n / of_nat d"
proof -
  let ?q = "of_nat n / of_nat d :: rat"
  define e where "e = exponent_of 10 n d"
  define s where "s = e - int p + 1"
  define m where "m = round_significand 10 n d s"
  have q: "10 powi e \<le> ?q" "?q < 10 powi (e + 1)"
    using exponent_bounds [of 10 n d] assms(2,3) by (simp_all add: e_def)
  have near: "\<bar>of_nat m - ?q * 10 powi (- s)\<bar> \<le> 1 / 2"
    using significand_near [of 10 d n s] assms(3) by (simp add: m_def)
  have scale: "10 powi e * 10 powi (- s) = (10 :: rat) ^ (p - 1)" "10 powi (e + 1) * 10 powi (- s) = (10 :: rat) ^ p"
    using assms(1) by (simp_all add: s_def flip: power_int_add) (simp_all add: power_int_def nat_diff_distrib)
  have ten: "0 < (10 :: rat) powi (- s)" by simp
  have "10 ^ (p - 1) \<le> ?q * 10 powi (- s)" "?q * 10 powi (- s) < 10 ^ p"
    using mult_right_mono [OF q(1), of "10 powi (- s)"] mult_strict_right_mono [OF q(2) ten] scale ten by simp_all
  then have m: "10 ^ (p - 1) \<le> m \<and> m \<le> 10 ^ p"
    using near_bounds [OF near, of "10 ^ (p - 1)" "10 ^ p"] by simp
  define ds where "ds = (if m = 10 ^ p then nat_digits 10 (10 ^ (p - 1)) else nat_digits 10 m)"
  define x where "x = (if m = 10 ^ p then e + 1 else e)"
  have shown: "format_positive p n d = general_text p ds x"
    by (simp add: format_positive_def Let_def ds_def x_def m_def s_def e_def)
  have "length ds = p"
    using digits_of_length [of p m] digits_of_length [of p "10 ^ (p - 1)"] m assms(1)
    by (auto simp: ds_def)
  moreover have "ds \<noteq> []" "list_all (\<lambda>d. d < 10) ds" by (simp_all add: ds_def nat_digits_less)
  ultimately obtain v where v: "number_prefix (format_positive p n d) = Some (v, [])" "\<not> dec_negative v"
      "decimal_rat v = of_nat (digits_value 10 ds) * 10 powi (x - int p + 1)"
    using general_text_reads [of ds p x] shown by auto
  have "decimal_rat v = of_nat m * 10 powi s"
  proof (cases "m = 10 ^ p")
    case True
    then have "decimal_rat v = 10 ^ (p - 1) * 10 powi (s + 1)"
      using v(3) by (simp add: ds_def x_def s_def algebra_simps)
    also have "\<dots> = 10 ^ (p - 1) * 10 * 10 powi s" by (simp add: power_int_add)
    also have "(10 :: rat) ^ (p - 1) * 10 = of_nat m"
      using True assms(1) by (cases p) simp_all
    finally show ?thesis .
  next
    case False
    with v(3) show ?thesis by (simp add: ds_def x_def s_def)
  qed
  moreover have "?q = ?q * 10 powi (- s) * 10 powi s" by (simp add: power_int_minus)
  ultimately have "decimal_rat v - ?q = (of_nat m - ?q * 10 powi (- s)) * 10 powi s"
    by (simp add: left_diff_distrib)
  then have "\<bar>decimal_rat v - ?q\<bar> = \<bar>of_nat m - ?q * 10 powi (- s)\<bar> * 10 powi s"
    by (simp add: abs_mult)
  also have "\<dots> \<le> 1 / 2 * 10 powi s" using near by (intro mult_right_mono) simp_all
  finally have "\<bar>decimal_rat v - ?q\<bar> * (2 * 10 ^ (p - 1)) \<le> 10 powi s * 10 ^ (p - 1)"
    by (simp add: field_simps)
  also have "(10 :: rat) powi s * 10 ^ (p - 1) = 10 powi e"
    using scale(1) by (simp add: power_int_minus field_simps)
  also note q(1)
  finally show ?thesis using v(1,2) by blast
qed

lemma number_prefix_minus:
  assumes "number_prefix s = Some (v, r)" "take 1 s \<noteq> [43]" "take 1 s \<noteq> [45]"
  shows "number_prefix (45 # s) = Some (v\<lparr>dec_negative := True\<rparr>, r)"
  using assms by (auto simp: number_prefix_def u_Cons Let_def split: if_splits prod.splits)

lemma format_positive_first:
  "take 1 (format_positive p n d) \<noteq> [43]" "take 1 (format_positive p n d) \<noteq> [45]"
proof -
  have digits: "take 1 (with_fraction w f @ t) \<noteq> [c]" if "w \<noteq> []" "c < 48" for w f t c
    using that by (cases w) (auto simp: with_fraction_def digit_point_def)
  have "take 1 (general_text p ds e) \<noteq> [c]" if "ds \<noteq> []" "c < 48" for ds e c
    using digits [of "take (nat e + 1) ds" c _ "[]"] digits [of "[0]" c _ "[]"] digits [of "take 1 ds" c] that
    by (simp add: general_text_def)
  then show "take 1 (format_positive p n d) \<noteq> [43]" "take 1 (format_positive p n d) \<noteq> [45]"
    by (simp_all add: format_positive_def Let_def)
qed

lemma decimal_rat_minus:
  "\<not> dec_negative v \<Longrightarrow> decimal_rat (v\<lparr>dec_negative := True\<rparr>) = - decimal_rat v"
  by (simp add: decimal_rat_def)

lemma format_g_reads:
  assumes "0 < p"
  shows "\<exists>v. number_prefix (format_g p x) = Some (v, [])
    \<and> \<bar>decimal_rat v - x\<bar> * (2 * 10 ^ (p - 1)) \<le> \<bar>x\<bar>"
proof (cases "x = 0")
  case True
  have "number_prefix (str_nat 0) = Some (\<lparr>dec_negative = False, dec_coefficient = 0, dec_exponent = 0\<rparr>, [])"
    using number_prefix_str_nat [of "[]" 0] by (simp add: scan_exponent_def)
  moreover have "str_nat 0 = u ''0''" by (simp add: str_nat_def nat_digits_base digit_point_def u_Cons)
  ultimately show ?thesis using True by (simp add: format_g_def decimal_rat_def)
next
  case False
  obtain n d where nd: "quotient_of x = (n, d)" by fastforce
  have d: "0 < d" by (rule quotient_of_denom_pos [OF nd])
  have x: "x = of_int n / of_int d" by (rule quotient_of_div [OF nd])
  have n: "n \<noteq> 0" using False x by auto
  let ?s = "format_positive p (nat \<bar>n\<bar>) (nat d)"
  have abs: "of_nat (nat \<bar>n\<bar>) / of_nat (nat d) = \<bar>x\<bar>" using x d by (simp add: abs_divide)
  obtain v where v: "number_prefix ?s = Some (v, [])" "\<not> dec_negative v"
      "\<bar>decimal_rat v - \<bar>x\<bar>\<bar> * (2 * 10 ^ (p - 1)) \<le> \<bar>x\<bar>"
    using format_positive_reads [OF assms, of "nat \<bar>n\<bar>" "nat d"] n d abs by auto
  show ?thesis
  proof (cases "n < 0")
    case False
    then have "format_g p x = ?s" using nd n by (simp add: format_g_def)
    moreover have "\<bar>x\<bar> = x" using False x d by simp
    ultimately show ?thesis using v by auto
  next
    case True
    then have spelled: "format_g p x = 45 # ?s" using nd n by (simp add: format_g_def u_Cons)
    have "\<bar>x\<bar> = - x" using True x d by (simp add: divide_neg_pos)
    then have "\<bar>decimal_rat (v\<lparr>dec_negative := True\<rparr>) - x\<bar> = \<bar>decimal_rat v - \<bar>x\<bar>\<bar>"
      using v(2) by (simp add: decimal_rat_minus abs_minus_commute)
    with v(3) spelled number_prefix_minus [OF v(1) format_positive_first]
    show ?thesis by (intro exI [of _ "v\<lparr>dec_negative := True\<rparr>"]) simp
  qed
qed

end
