(* ===== verification/SoakMetrics.thy ===== *)
theory SoakMetrics
  imports SoakTest FormatFacts ServiceFacts
begin

text \<open>
  The soak test and the exporter meet in the metrics document: what the one reads from it is what
  the other measured.
\<close>

section \<open>Which lines a metric name matches\<close>

lemma starts_with_name:
  assumes "list_all name_point n" "list_all name_point m" "\<not> name_point c" "\<not> name_point d"
  shows "starts_with (n @ c # r) (m @ [d]) \<longleftrightarrow> n = m \<and> c = d"
proof
  assume "starts_with (n @ c # r) (m @ [d])"
  then obtain t where eq: "n @ c # r = m @ d # t"
    unfolding starts_with_def by (metis append.assoc append_Cons append_Nil append_take_drop_id)
  have "takeWhile name_point (n @ c # r) = n" "takeWhile name_point (m @ d # t) = m"
    using assms by (auto simp: list_all_iff takeWhile_append)
  with eq have "n = m" by simp
  with eq show "n = m \<and> c = d" by simp
next
  assume "n = m \<and> c = d"
  then show "starts_with (n @ c # r) (m @ [d])" by (simp add: starts_with_def)
qed

lemma metric_match_name:
  assumes "list_all name_point (u n)" "list_all name_point (u m)" "\<not> name_point c"
  shows "metric_match m (u n @ c # r)
    = (if n = m \<and> c = 32 \<and> r \<noteq> [] \<and> list_all is_number_char r then Some r else None)"
proof -
  have space: "u '' '' = [32]" "\<not> name_point 32" by (simp_all add: u_Cons name_point_def)
  have "u n = u m \<longleftrightarrow> n = m" unfolding u_def by (simp add: inj_map_eq_map inj_of_char)
  then show ?thesis
    using starts_with_name [OF assms(1,2,3) space(2), of r]
    by (auto simp: metric_match_def space Let_def u_def)
qed

lemma metric_match_comment:
  assumes "list_all name_point (u m)" "m \<noteq> []" "starts_with l (u ''# '')"
  shows "metric_match m l = None"
proof -
  obtain t where l: "l = 35 # t" using assms(3) by (cases l) (auto simp: starts_with_def u_Cons)
  obtain c cs where "u m = c # cs" "name_point c" using assms(1,2) by (cases m) (auto simp: u_Cons)
  then have "\<not> starts_with l (u m @ u '' '')" by (auto simp: l starts_with_def name_point_def)
  then show ?thesis by (simp add: metric_match_def)
qed

lemma metric_match_Nil: "metric_match m [] = None"
  by (simp add: metric_match_def)

lemma map_filter_none: "(\<And>x. x \<in> set xs \<Longrightarrow> f x = None) \<Longrightarrow> List.map_filter f xs = []"
  by (auto simp: List.map_filter_def filter_empty_conv)

lemma map_filter_append: "List.map_filter f (xs @ ys) = List.map_filter f xs @ List.map_filter f ys"
  by (simp add: List.map_filter_def)

section \<open>The device part\<close>

lemma device_lines_no_match:
  assumes "list_all name_point (u m)" "m \<noteq> []" "m \<noteq> ''tt_devices_discovered''" "l \<in> set (render_lines devices)"
  shows "metric_match m l = None"
proof -
  have points: "list_all name_point (u ''tt_devices_discovered'')" "\<not> name_point 32" "\<not> name_point 123"
    by (simp_all add: u_Cons name_point_def)
  have count: "metric_match m (u ''tt_devices_discovered '' @ t) = None" for t
    using metric_match_name [OF points(1) assms(1) points(2), of t] assms(3) by (simp add: u_Cons)
  note comments = metric_match_comment [OF assms(1,2)]
  have family: "metric_match m l = None" if f: "f \<in> set contract_families" and l: "l \<in> set (family_lines devices f)" for f
  proof -
    from l consider "l \<in> set (metadata_lines f)" | d where "l \<in> set (fam_writer f d)" | "l = []"
      by (auto simp: family_lines_eq)
    then show ?thesis
    proof cases
      case 1
      with metadata_ok [OF f] show ?thesis by (intro comments) blast
    next
      case 2
      from families_write f have name: "list_all name_point (u (fam_name f))"
        by (simp add: list_all_iff writes_def)
      from samples_ok(1) [OF f 2] obtain r where "split_once 123 l = Some (u (fam_name f), r)"
        by (auto simp: sample_of_def parse_sample_def split: option.splits if_splits)
      then have "l = u (fam_name f) @ 123 # r" by (simp add: split_once_Some)
      with metric_match_name [OF name assms(1) points(3)] show ?thesis by simp
    qed (simp add: metric_match_Nil)
  qed
  from assms(4) consider "l \<in> set (discovered_lines devices)"
    | f where "f \<in> set contract_families" "l \<in> set (family_lines devices f)"
    by (auto simp: render_lines_def)
  then show ?thesis
  proof cases
    case 1
    then show ?thesis
      using comments [OF comment_line(1)] comments [OF comment_line(2)] count metric_match_Nil
      by (auto simp: discovered_lines_def)
  next
    case 2
    then show ?thesis by (rule family)
  qed
qed

section \<open>The exporter's own part\<close>

lemma status_sample_match:
  assumes "list_all name_point (u n)" "list_all name_point (u m)"
  shows "metric_match m (status_sample n labels v)
    = (if n = m \<and> labels = [] \<and> v \<noteq> [] \<and> list_all is_number_char v then Some v else None)"
proof -
  have "\<not> name_point 32" "\<not> name_point 123" by (simp_all add: name_point_def)
  with metric_match_name [OF assms] show ?thesis
    by (cases "labels = []") (simp_all add: status_sample_def)
qed

lemma float_text_number: "float_text x \<noteq> []" "list_all is_number_char (float_text x)"
proof -
  have "list_all number_point (float_text x)" by (simp add: float_text_def format_g_number_point)
  then show "list_all is_number_char (float_text x)"
    by (auto simp: list_all_iff number_point_def is_number_char_def u_Cons)
qed (simp add: float_text_def format_g_neq_Nil)

text \<open>What a family of the exporter's own metrics shows under a name.\<close>

definition shown :: "string \<Rightarrow> string \<times> string \<times> string \<times> pystr list \<Rightarrow> pystr list" where
  "shown m f = (case f of (n, h, ty, samples) \<Rightarrow> List.map_filter (metric_match m) samples)"

lemma shown_lines:
  assumes "list_all name_point (u m)" "m \<noteq> []"
  shows "List.map_filter (metric_match m) (status_lines now st) = concat (map (shown m) (status_families now st))"
proof -
  have "List.map_filter (metric_match m) (status_family n h ty samples) = shown m (n, h, ty, samples)" for n h ty samples
    by (simp add: status_family_def shown_def List.map_filter_def
        metric_match_comment [OF assms comment_line(1)] metric_match_comment [OF assms comment_line(2)])
  note one = this
  have "List.map_filter (metric_match m) (concat (map (\<lambda>(n, h, ty, ls). status_family n h ty ls) fs))
      = concat (map (shown m) fs)" for fs
  proof (induction fs)
    case (Cons f fs)
    obtain n h ty ls where "f = (n, h, ty, ls)" by (cases f)
    with Cons one [of n h ty ls] show ?case by (simp add: map_filter_append)
  qed (simp add: List.map_filter_def)
  then show ?thesis by (simp add: status_lines_def)
qed

lemma shown_status:
  "concat (map (shown ''tt_exporter_collection_duration_seconds'') (status_families now st))
    = [float_text (rs_last_duration st)]"
  "concat (map (shown ''tt_exporter_snapshot_age_seconds'') (status_families now st))
    = [float_text (snapshot_age now st)]"
  by (simp_all add: status_families_def shown_def List.map_filter_def status_sample_match u_Cons
      name_point_def float_text_number filter_empty_conv Let_def)

text \<open>\<open>x\<close> to nine significant digits, as the nearest float.\<close>

definition nine_digits :: "rat \<Rightarrow> py_float outcome \<Rightarrow> bool" where
  "nine_digits x r \<longleftrightarrow> (\<exists>v. r = Inr (nearest_float v) \<and> \<bar>v - x\<bar> * (2 * 10 ^ 8) \<le> \<bar>x\<bar>)"

lemma float_text_reads: "nine_digits x (float_literal (float_text x))"
  using format_g_reads [of 9 x] by (auto simp: nine_digits_def float_literal_def float_text_def)

lemma metric_service:
  assumes "service_ok s" "list_all name_point (u m)" "m \<noteq> []" "m \<noteq> ''tt_devices_discovered''"
    and "concat (map (shown m) (status_families now (svc_status s))) = [t]"
  shows "metric (service_metrics now s) m = float_literal t"
proof -
  have "List.map_filter (metric_match m)
      (case svc_store s of None \<Rightarrow> [] | Some p \<Rightarrow> butlast (split_on 10 (snap_prometheus p))) = []"
  proof (cases "svc_store s")
    case (Some p)
    then have "snap_prometheus p = render_prometheus (col_devices (snap_collection p))"
      using service_snapshot [OF assms(1)] snapshot_ok_texts by blast
    then show ?thesis
      using Some device_lines_no_match [OF assms(2,3,4)] by (auto simp: split_render intro!: map_filter_none)
  qed (simp add: List.map_filter_def)
  then show ?thesis
    using shown_lines [OF assms(2,3)] assms(5)
    by (simp add: metric_def metrics_lines [OF assms(1)] split_status map_filter_append)
      (simp add: List.map_filter_def metric_match_Nil)?
qed

text \<open>
  C18: What the soak test records about the exporter is what the exporter measured: in the metrics
  document of a reachable service it finds, whatever the devices hold, the duration of the last
  collection and the age of the snapshot, to nine significant digits.
\<close>

theorem soak_reads_metrics:
  assumes "runs env (new_service version revision opts lg start_time w) s alive"
  shows "nine_digits (rs_last_duration (svc_status s))
      (metric (service_metrics now s) ''tt_exporter_collection_duration_seconds'')
    \<and> nine_digits (snapshot_age now (svc_status s))
      (metric (service_metrics now s) ''tt_exporter_snapshot_age_seconds'')"
proof -
  have ok: "service_ok s" using runs_service_ok [OF assms service_ok_new] .
  have "metric (service_metrics now s) ''tt_exporter_collection_duration_seconds''
      = float_literal (float_text (rs_last_duration (svc_status s)))"
    by (rule metric_service [OF ok _ _ _ shown_status(1)]) (simp_all add: u_Cons name_point_def)
  moreover have "metric (service_metrics now s) ''tt_exporter_snapshot_age_seconds''
      = float_literal (float_text (snapshot_age now (svc_status s)))"
    by (rule metric_service [OF ok _ _ _ shown_status(2)]) (simp_all add: u_Cons name_point_def)
  ultimately show ?thesis by (simp add: float_text_reads)
qed

lemma soak_reads_metrics_witness:
  "\<exists>s. runs empty_root_env empty_root_service s True \<and>
    nine_digits (rs_last_duration (svc_status s))
      (metric (service_metrics 0 s) ''tt_exporter_collection_duration_seconds'')"
proof -
  obtain s where s: "runs empty_root_env empty_root_service s True" "svc_store s \<noteq> None"
    by (rule empty_root_runs)
  from soak_reads_metrics [OF s(1) [unfolded empty_root_service_def], of 0] s(1)
  show ?thesis by blast
qed

end
