(* ===== verification/Manifests.thy ===== *)
theory Manifests
  imports Complex_Main PyStr "HOL-Library.Monad_Syntax"
begin

text \<open>
  \<open>scripts/validation/manifests.py\<close> and \<open>scripts/validation/monitoring.py\<close>: the checks that the
  rendered Kubernetes manifests and the dashboard pass before a release. The YAML and JSON parsers
  are parameters: a check is given the values they return. A check that raises, be it by an
  assertion, a missing key or a value of the wrong type, is \<open>None\<close>.
\<close>

section \<open>Loaded documents\<close>

text \<open>
  What \<open>yaml.safe_load_all\<close> and \<open>json.loads\<close> return. Numbers are integers or finite floats, which
  no check tells apart. \<open>DOther\<close> are the other scalars of YAML, such as time stamps; sequences and
  mappings are the only collections.
\<close>

datatype document =
    DNull
  | DBool bool
  | DNumber rat
  | DText pystr
  | DList "document list"
  | DMap "(document \<times> document) list"
  | DOther

fun truthy :: "document \<Rightarrow> bool" where
  "truthy DNull = False"
| "truthy (DBool b) = b"
| "truthy (DNumber n) = (n \<noteq> 0)"
| "truthy (DText t) = (t \<noteq> [])"
| "truthy (DList ds) = (ds \<noteq> [])"
| "truthy (DMap m) = (m \<noteq> [])"
| "truthy DOther = True"

text \<open>A \<open>bool\<close> is a number to \<open>==\<close>, \<open>>\<close> and \<open>*\<close>.\<close>

fun numeric :: "document \<Rightarrow> rat option" where
  "numeric (DBool b) = Some (if b then 1 else 0)"
| "numeric (DNumber n) = Some n"
| "numeric _ = None"

definition word :: "string \<Rightarrow> document" where
  "word s = DText (u s)"

text \<open>\<open>d[name]\<close> for a text, \<open>d[0]\<close>, and \<open>d.get(name, default)\<close>.\<close>

fun item :: "document \<Rightarrow> string \<Rightarrow> document option" where
  "item (DMap m) name = map_of m (word name)"
| "item _ name = None"

fun first_item :: "document \<Rightarrow> document option" where
  "first_item (DList (d # ds)) = Some d"
| "first_item (DText (c # t)) = Some (DText [c])"
| "first_item (DMap m) = map_option snd (find (\<lambda>(k, d). numeric k = Some 0) m)"
| "first_item _ = None"

fun item_or :: "document \<Rightarrow> string \<Rightarrow> document \<Rightarrow> document option" where
  "item_or (DMap m) name d = Some (case map_of m (word name) of None \<Rightarrow> d | Some x \<Rightarrow> x)"
| "item_or _ name d = None"

fun item_path :: "document \<Rightarrow> string list \<Rightarrow> document option" where
  "item_path d [] = Some d"
| "item_path d (name # names) = Option.bind (item d name) (\<lambda>x. item_path x names)"

text \<open>What a \<open>for\<close> loop runs over, and \<open>text in d\<close>.\<close>

fun elements :: "document \<Rightarrow> document list option" where
  "elements (DList ds) = Some ds"
| "elements (DText t) = Some (map (\<lambda>c. DText [c]) t)"
| "elements (DMap m) = Some (map fst m)"
| "elements _ = None"

fun contains :: "document \<Rightarrow> string \<Rightarrow> bool option" where
  "contains (DList ds) s = Some (word s \<in> set ds)"
| "contains (DText t) s = Some (contains_str (u s) t)"
| "contains (DMap m) s = Some (word s \<in> fst ` set m)"
| "contains _ s = None"

text \<open>\<open>d.keys()\<close>.\<close>

fun keys_of :: "document \<Rightarrow> document set option" where
  "keys_of (DMap m) = Some (fst ` set m)"
| "keys_of _ = None"

text \<open>Only values that can be hashed are members of a set.\<close>

fun hashable :: "document \<Rightarrow> bool" where
  "hashable (DList ds) = False"
| "hashable (DMap m) = False"
| "hashable _ = True"

definition set_of :: "document list \<Rightarrow> document set option" where
  "set_of ds = (if list_all hashable ds then Some (set ds) else None)"

definition require :: "bool \<Rightarrow> unit option" where
  "require b = (if b then Some () else None)"

fun map_option_list :: "('a \<Rightarrow> 'b option) \<Rightarrow> 'a list \<Rightarrow> 'b list option" where
  "map_option_list f [] = Some []"
| "map_option_list f (x # xs) = Option.bind (f x) (\<lambda>y. Option.bind (map_option_list f xs) (\<lambda>ys. Some (y # ys)))"

section \<open>The deployment\<close>

definition resource :: "document list \<Rightarrow> string \<Rightarrow> document option" where
  "resource documents kind = do {
     kinds \<leftarrow> map_option_list (\<lambda>d. item_or d ''kind'' DNull) documents;
     let matches = map fst (filter (\<lambda>(d, k). k = word kind) (zip documents kinds));
     require (length matches = 1);
     Some (hd matches) }"

text \<open>\<open>.+@sha256:[0-9a-f]{64}\<close>, matched against the whole text.\<close>

definition pinned_image :: "pystr \<Rightarrow> bool" where
  "pinned_image t =
     (let n = length t - 72; name = take n t; digest = drop (n + 8) t
      in 72 < length t \<and> 10 \<notin> set name \<and> take 8 (drop n t) = u ''@sha256:''
         \<and> list_all (\<lambda>c. (48 \<le> c \<and> c \<le> 57) \<or> (97 \<le> c \<and> c \<le> 102)) digest)"

definition pod_checks :: "pystr \<Rightarrow> document \<Rightarrow> unit option" where
  "pod_checks source pod = do {
     token \<leftarrow> item pod ''automountServiceAccountToken'';
     require (token = DBool False);
     grace \<leftarrow> item pod ''terminationGracePeriodSeconds'';
     seconds \<leftarrow> numeric grace;
     require (10 < seconds);
     network \<leftarrow> item_or pod ''hostNetwork'' (DBool False);
     require (\<not> truthy network);
     pid \<leftarrow> item_or pod ''hostPID'' (DBool False);
     require (\<not> truthy pid);
     ipc \<leftarrow> item_or pod ''hostIPC'' (DBool False);
     require (\<not> truthy ipc);
     security \<leftarrow> item pod ''securityContext'';
     non_root \<leftarrow> item security ''runAsNonRoot'';
     require (non_root = DBool True);
     user \<leftarrow> item security ''runAsUser'';
     require (numeric user = Some 65532);
     grp \<leftarrow> item security ''runAsGroup'';
     require (numeric grp = Some 65532);
     seccomp \<leftarrow> item_path security [''seccompProfile'', ''type''];
     require (seccomp = word ''RuntimeDefault'');
     named \<leftarrow> contains pod ''serviceAccountName'';
     require named;
     require (\<not> contains_str (u ''rbac.authorization.k8s.io'') source) }"

definition container_checks :: "document \<Rightarrow> unit option" where
  "container_checks container = do {
     security \<leftarrow> item container ''securityContext'';
     escalation \<leftarrow> item security ''allowPrivilegeEscalation'';
     require (escalation = DBool False);
     read_only \<leftarrow> item security ''readOnlyRootFilesystem'';
     require (read_only = DBool True);
     dropped \<leftarrow> item_path security [''capabilities'', ''drop''];
     require (dropped = DList [word ''ALL'']);
     privileged \<leftarrow> item_or security ''privileged'' (DBool False);
     require (\<not> truthy privileged);
     startup \<leftarrow> item container ''startupProbe'';
     startup_path \<leftarrow> item_path startup [''httpGet'', ''path''];
     require (startup_path = word ''/healthz'');
     period \<leftarrow> item startup ''periodSeconds'';
     threshold \<leftarrow> item startup ''failureThreshold'';
     seconds \<leftarrow> numeric period;
     failures \<leftarrow> numeric threshold;
     require (300 \<le> seconds * failures);
     live \<leftarrow> item_path container [''livenessProbe'', ''httpGet'', ''path''];
     require (live = word ''/healthz'');
     ready \<leftarrow> item_path container [''readinessProbe'', ''httpGet'', ''path''];
     require (ready = word ''/readyz'');
     mounts \<leftarrow> item container ''volumeMounts'';
     entries \<leftarrow> elements mounts;
     flags \<leftarrow> map_option_list (\<lambda>m. item m ''readOnly'') entries;
     require (list_all truthy flags) }"

definition volume_checks :: "document \<Rightarrow> unit option" where
  "volume_checks pod = do {
     volumes \<leftarrow> item pod ''volumes'';
     entries \<leftarrow> elements volumes;
     paths \<leftarrow> map_option_list (\<lambda>v. item_path v [''hostPath'', ''path'']) entries;
     require (word ''/dev'' \<notin> set paths);
     sockets \<leftarrow> map_option_list (\<lambda>p. do {
        containerd \<leftarrow> contains p ''containerd.sock'';
        docker \<leftarrow> (if containerd then Some True else contains p ''docker.sock'');
        Some docker }) paths;
     require (True \<notin> set sockets) }"

definition network_checks :: "document list \<Rightarrow> unit option" where
  "network_checks documents = do {
     service \<leftarrow> resource documents ''Service'';
     cluster \<leftarrow> item_path service [''spec'', ''clusterIP''];
     require (cluster = word ''None'');
     ports \<leftarrow> item_path service [''spec'', ''ports''];
     service_port \<leftarrow> first_item ports;
     name \<leftarrow> item service_port ''name'';
     require (name = word ''metrics'');
     policy \<leftarrow> resource documents ''NetworkPolicy'';
     types \<leftarrow> item_path policy [''spec'', ''policyTypes''];
     require (types = DList [word ''Ingress'']);
     ingress \<leftarrow> item_path policy [''spec'', ''ingress''];
     rule \<leftarrow> first_item ingress;
     open_ports \<leftarrow> item rule ''ports'';
     open_port \<leftarrow> first_item open_ports;
     port \<leftarrow> item open_port ''port'';
     require (numeric port = Some 9400) }"

definition environment_checks :: "string \<Rightarrow> document \<Rightarrow> document \<Rightarrow> unit option" where
  "environment_checks environment pod container = do {
     args \<leftarrow> item container ''args'';
     (if environment = ''production'' then do {
        device \<leftarrow> contains args ''--require-device'';
        require device;
        hwmon \<leftarrow> contains args ''--collect-hwmon'';
        require hwmon;
        entries \<leftarrow> elements args;
        options \<leftarrow> set_of entries;
        require ({word ''--allocation-state-root'', word ''--janitor-state-root'',
                  word ''--metalium-profiler-state-root''} \<subseteq> options);
        selector \<leftarrow> item_path pod [''nodeSelector'', ''tenstorrent.com/accelerator''];
        require (selector = word ''true'');
        image \<leftarrow> item container ''image'';
        (case image of
           DText t \<Rightarrow> require (pinned_image t \<and> \<not> ends_with t (replicate 64 48))
         | _ \<Rightarrow> None) }
      else if environment = ''ttsim'' then do {
        device \<leftarrow> contains args ''--require-device'';
        require (\<not> device);
        hwmon \<leftarrow> contains args ''--collect-hwmon'';
        require (\<not> hwmon);
        selector \<leftarrow> item_path pod [''nodeSelector'', ''tenstorrent.com/ttsim''];
        require (selector = word ''true'') }
      else Some ()) }"

definition check_manifest :: "pystr \<Rightarrow> document list \<Rightarrow> string \<Rightarrow> unit option" where
  "check_manifest source loaded environment = do {
     let documents = filter truthy loaded;
     account \<leftarrow> resource documents ''ServiceAccount'';
     token \<leftarrow> item account ''automountServiceAccountToken'';
     require (token = DBool False);
     daemonset \<leftarrow> resource documents ''DaemonSet'';
     pod \<leftarrow> item_path daemonset [''spec'', ''template'', ''spec''];
     pod_checks source pod;
     containers \<leftarrow> item pod ''containers'';
     container \<leftarrow> first_item containers;
     implementation \<leftarrow> item_path daemonset [''spec'', ''template'', ''metadata'', ''labels'',
        ''telemetry.tenstorrent.com/implementation''];
     require (implementation = word ''python'');
     container_checks container;
     volume_checks pod;
     network_checks documents;
     environment_checks environment pod container }"

section \<open>Monitoring\<close>

fun first_of_kind :: "document list \<Rightarrow> string \<Rightarrow> document option" where
  "first_of_kind [] kind = None"
| "first_of_kind (d # ds) kind = do {
     k \<leftarrow> item d ''kind'';
     (if k = word kind then Some d else first_of_kind ds kind) }"

definition alert_checks :: "document \<Rightarrow> unit option" where
  "alert_checks alert = do {
     pending \<leftarrow> item_or alert ''for'' DNull;
     require (truthy pending);
     severity \<leftarrow> item_path alert [''labels'', ''severity''];
     require (severity \<in> {word ''warning'', word ''critical''});
     annotations \<leftarrow> item alert ''annotations'';
     names \<leftarrow> keys_of annotations;
     require ({word ''summary'', word ''description'', word ''runbook_url''} \<subseteq> names) }"

text \<open>The rules of all groups that have an \<open>alert\<close>.\<close>

definition alert_rules :: "document \<Rightarrow> document list option" where
  "alert_rules groups = do {
     entries \<leftarrow> elements groups;
     lists \<leftarrow> map_option_list (\<lambda>g. do { rules \<leftarrow> item g ''rules''; elements rules }) entries;
     let rules = concat lists;
     flags \<leftarrow> map_option_list (\<lambda>r. contains r ''alert'') rules;
     Some (map fst (filter snd (zip rules flags))) }"

definition required_titles :: "string list" where
  "required_titles =
     [''Exporter readiness by node'', ''Snapshot age'', ''Collection duration'', ''Collection issues'',
      ''Discovered devices'', ''PCI and firmware identity'', ''Temperature and clocks'',
      ''Power management'', ''Memory and Tensix'', ''Workload core occupancy'',
      ''Profiler stale and rejected records'', ''Reset, quarantine, fault, OOM and hang'',
      ''Scale-out links'', ''Exporter version distribution'']"

text \<open>Equal numbers are one member of a set, whatever their type.\<close>

definition set_key :: "document \<Rightarrow> document" where
  "set_key d = (case numeric d of None \<Rightarrow> d | Some n \<Rightarrow> DNumber n)"

definition panel_value :: "document \<Rightarrow> bool option" where
  "panel_value p = do {
     config \<leftarrow> item_or p ''fieldConfig'' (DMap []);
     defaults \<leftarrow> item_or config ''defaults'' (DMap []);
     contains defaults ''noValue'' }"

definition dashboard_checks :: "document \<Rightarrow> unit option" where
  "dashboard_checks dashboard = do {
     panels \<leftarrow> item dashboard ''panels'';
     entries \<leftarrow> elements panels;
     titles \<leftarrow> map_option_list (\<lambda>p. item p ''title'') entries;
     members \<leftarrow> set_of titles;
     require (14 \<le> card (set_key ` members));
     require (word ` set required_titles \<subseteq> members);
     flags \<leftarrow> map_option_list panel_value entries;
     require (list_all id flags) }"

text \<open>
  The result is what is written for the rule tests, the groups of the rules; writing it, before the
  dashboard is checked, may fail.
\<close>

definition check_monitoring :: "document list \<Rightarrow> bool \<Rightarrow> document \<Rightarrow> document option" where
  "check_monitoring loaded written dashboard = do {
     let documents = filter truthy loaded;
     monitor \<leftarrow> first_of_kind documents ''ServiceMonitor'';
     endpoints \<leftarrow> item_path monitor [''spec'', ''endpoints''];
     endpoint \<leftarrow> first_item endpoints;
     interval \<leftarrow> item endpoint ''interval'';
     require (interval = word ''15s'');
     timeout \<leftarrow> item endpoint ''scrapeTimeout'';
     require (timeout = word ''5s'');
     limit \<leftarrow> item endpoint ''sampleLimit'';
     samples \<leftarrow> numeric limit;
     require (0 < samples \<and> samples \<le> 20000);
     rule_resource \<leftarrow> first_of_kind documents ''PrometheusRule'';
     groups \<leftarrow> item_path rule_resource [''spec'', ''groups''];
     alerts \<leftarrow> alert_rules groups;
     require (12 \<le> length alerts);
     map_option_list alert_checks alerts;
     require written;
     dashboard_checks dashboard;
     Some (DMap [(word ''groups'', groups)]) }"

end
