(* ===== verification/ManifestFacts.thy ===== *)
theory ManifestFacts
  imports Manifests Service Http
begin

text \<open>
  The deployment and the exporter agree: what a checked manifest probes, opens and waits for is what
  the exporter routes, listens on and needs.
\<close>

section \<open>Checks that passed\<close>

lemma word_inject [simp]: "word s = word t \<longleftrightarrow> s = t"
  unfolding word_def u_def by (simp add: inj_map_eq_map inj_of_char)

lemma require_Some [simp]: "require b = Some x \<longleftrightarrow> b"
  by (simp add: require_def)

lemma bind_Some: "Option.bind m f = Some y \<longleftrightarrow> (\<exists>x. m = Some x \<and> f x = Some y)"
  by (cases m) simp_all

lemma map_option_list_Some:
  "map_option_list f xs = Some ys \<longleftrightarrow> list_all2 (\<lambda>x y. f x = Some y) xs ys"
  by (induction xs arbitrary: ys) (auto simp: bind_Some list_all2_Cons1)

lemma resource_kind:
  assumes "resource documents kind = Some d"
  shows "d \<in> set documents \<and> item_or d ''kind'' DNull = Some (word kind)"
proof -
  from assms obtain kinds where kinds: "map_option_list (\<lambda>d. item_or d ''kind'' DNull) documents = Some kinds"
    and one: "length (filter (\<lambda>(d, k). k = word kind) (zip documents kinds)) = 1"
    and d: "d = hd (map fst (filter (\<lambda>(d, k). k = word kind) (zip documents kinds)))"
    by (auto simp: resource_def bind_Some Let_def)
  then obtain e where e: "filter (\<lambda>(d, k). k = word kind) (zip documents kinds) = [e]"
    by (metis One_nat_def length_0_conv length_Suc_conv)
  then have "e \<in> set (filter (\<lambda>(d, k). k = word kind) (zip documents kinds))" by simp
  then have "e \<in> set (zip documents kinds)" "snd e = word kind" by auto
  then obtain i where i: "i < length documents" "i < length kinds" "fst e = documents ! i" "kinds ! i = word kind"
    by (auto simp: in_set_zip)
  have "item_or (documents ! i) ''kind'' DNull = Some (kinds ! i)"
    using kinds i by (simp add: map_option_list_Some list_all2_conv_all_nth)
  with i d e show ?thesis by simp
qed

text \<open>
  What a checked deployment guarantees of its pod and its container.
\<close>

definition probes :: "document \<Rightarrow> string \<Rightarrow> http_route \<Rightarrow> bool" where
  "probes container probe route \<longleftrightarrow>
     (\<exists>p. item_path container [probe, ''httpGet'', ''path''] = Some (DText p) \<and> route_of p = route)"

definition outlives :: "document \<Rightarrow> rat \<Rightarrow> bool" where
  "outlives pod seconds \<longleftrightarrow>
     (\<exists>g n. item pod ''terminationGracePeriodSeconds'' = Some g \<and> numeric g = Some n \<and> seconds < n)"

definition read_only_mounts :: "document \<Rightarrow> bool" where
  "read_only_mounts container \<longleftrightarrow>
     (\<exists>mounts entries. item container ''volumeMounts'' = Some mounts \<and> elements mounts = Some entries
        \<and> list_all (\<lambda>m. \<exists>x. item m ''readOnly'' = Some x \<and> truthy x) entries)"

definition unprivileged :: "document \<Rightarrow> document \<Rightarrow> bool" where
  "unprivileged pod container \<longleftrightarrow>
     item_path pod [''securityContext'', ''runAsNonRoot''] = Some (DBool True)
   \<and> item_path container [''securityContext'', ''allowPrivilegeEscalation''] = Some (DBool False)
   \<and> item_path container [''securityContext'', ''readOnlyRootFilesystem''] = Some (DBool True)
   \<and> item_path container [''securityContext'', ''capabilities'', ''drop''] = Some (DList [word ''ALL''])"

definition pinned :: "document \<Rightarrow> bool" where
  "pinned container \<longleftrightarrow> (\<exists>t. item container ''image'' = Some (DText t) \<and> pinned_image t)"

definition opens_port :: "document list \<Rightarrow> rat \<Rightarrow> bool" where
  "opens_port documents n \<longleftrightarrow>
     (\<exists>policy \<in> set documents. \<exists>ingress rule ports entry port.
        item_path policy [''spec'', ''ingress''] = Some ingress \<and> first_item ingress = Some rule
      \<and> item rule ''ports'' = Some ports \<and> first_item ports = Some entry
      \<and> item entry ''port'' = Some port \<and> numeric port = Some n)"

lemma opens_port_mono: "set ds \<subseteq> set es \<Longrightarrow> opens_port ds n \<Longrightarrow> opens_port es n"
  unfolding opens_port_def by blast

lemma network_checked:
  assumes "network_checks documents = Some ()"
  shows "opens_port documents 9400"
proof -
  from assms obtain policy ingress rule ports entry port where
    policy: "resource documents ''NetworkPolicy'' = Some policy"
    and found: "item_path policy [''spec'', ''ingress''] = Some ingress" "first_item ingress = Some rule"
      "item rule ''ports'' = Some ports" "first_item ports = Some entry" "item entry ''port'' = Some port"
      "numeric port = Some 9400"
    unfolding network_checks_def bind_Some by auto
  from resource_kind [OF policy] found show ?thesis unfolding opens_port_def by blast
qed

lemma pod_checked:
  assumes "pod_checks source pod = Some ()"
  shows "outlives pod 10" "item_path pod [''securityContext'', ''runAsNonRoot''] = Some (DBool True)"
  using assms by (auto simp: pod_checks_def bind_Some outlives_def)

lemma container_checked:
  assumes "container_checks container = Some ()"
  shows "probes container ''startupProbe'' HEALTH" "probes container ''livenessProbe'' HEALTH"
    "probes container ''readinessProbe'' READY_ROUTE" "read_only_mounts container"
    "item_path container [''securityContext'', ''allowPrivilegeEscalation''] = Some (DBool False)"
    "item_path container [''securityContext'', ''readOnlyRootFilesystem''] = Some (DBool True)"
    "item_path container [''securityContext'', ''capabilities'', ''drop''] = Some (DList [word ''ALL''])"
proof -
  have routes: "route_of (u ''/healthz'') = HEALTH" "route_of (u ''/readyz'') = READY_ROUTE"
    by (simp_all add: route_of_def u_Cons)
  show "probes container ''startupProbe'' HEALTH" "probes container ''livenessProbe'' HEALTH"
    "probes container ''readinessProbe'' READY_ROUTE"
    using assms routes by (auto simp: container_checks_def bind_Some probes_def word_def)
  show "read_only_mounts container"
    using assms
    by (auto simp: container_checks_def bind_Some read_only_mounts_def map_option_list_Some
        list_all2_conv_all_nth list_all_length)
  show "item_path container [''securityContext'', ''allowPrivilegeEscalation''] = Some (DBool False)"
    "item_path container [''securityContext'', ''readOnlyRootFilesystem''] = Some (DBool True)"
    "item_path container [''securityContext'', ''capabilities'', ''drop''] = Some (DList [word ''ALL''])"
    using assms by (auto simp: container_checks_def bind_Some)
qed

lemma image_checked:
  "(case d of DText t \<Rightarrow> require (P t) | _ \<Rightarrow> None) = Some x \<longleftrightarrow> (\<exists>t. d = DText t \<and> P t)"
  by (cases d) simp_all

lemma production_pinned:
  "environment_checks ''production'' pod container = Some () \<Longrightarrow> pinned container"
  by (auto simp: environment_checks_def bind_Some pinned_def image_checked)


definition mapping :: "(string \<times> document) list \<Rightarrow> document" where
  "mapping m = DMap (map (\<lambda>(k, d). (word k, d)) m)"

definition probe :: "string \<Rightarrow> document" where
  "probe path = mapping [(''httpGet'', mapping [(''path'', word path)]),
     (''periodSeconds'', DNumber 5), (''failureThreshold'', DNumber 60)]"

definition small_container :: document where
  "small_container = mapping
     [(''args'', DList []), (''startupProbe'', probe ''/healthz''), (''livenessProbe'', probe ''/healthz''),
      (''readinessProbe'', probe ''/readyz''),
      (''securityContext'', mapping [(''allowPrivilegeEscalation'', DBool False),
         (''readOnlyRootFilesystem'', DBool True), (''capabilities'', mapping [(''drop'', DList [word ''ALL''])])]),
      (''volumeMounts'', DList [mapping [(''readOnly'', DBool True)]])]"

definition small_pod :: document where
  "small_pod = mapping
     [(''serviceAccountName'', word ''exporter''), (''automountServiceAccountToken'', DBool False),
      (''terminationGracePeriodSeconds'', DNumber 15),
      (''securityContext'', mapping [(''runAsNonRoot'', DBool True), (''runAsUser'', DNumber 65532),
         (''runAsGroup'', DNumber 65532), (''seccompProfile'', mapping [(''type'', word ''RuntimeDefault'')])]),
      (''nodeSelector'', mapping [(''tenstorrent.com/ttsim'', word ''true'')]),
      (''containers'', DList [small_container]),
      (''volumes'', DList [mapping [(''hostPath'', mapping [(''path'', word ''/sys/devices'')])]])]"

definition small_manifest :: "document list" where
  "small_manifest =
     [mapping [(''kind'', word ''ServiceAccount''), (''automountServiceAccountToken'', DBool False)],
      mapping [(''kind'', word ''DaemonSet''),
        (''spec'', mapping [(''template'', mapping [(''spec'', small_pod),
           (''metadata'', mapping [(''labels'',
              mapping [(''telemetry.tenstorrent.com/implementation'', word ''python'')])])])])],
      DNull,
      mapping [(''kind'', word ''Service''), (''spec'', mapping [(''clusterIP'', word ''None''),
        (''ports'', DList [mapping [(''name'', word ''metrics'')]])])],
      mapping [(''kind'', word ''NetworkPolicy''), (''spec'', mapping [(''policyTypes'', DList [word ''Ingress'']),
        (''ingress'', DList [mapping [(''ports'', DList [mapping [(''port'', DNumber 9400)]])]])])]]"

lemma item_mapping: "item (mapping m) k = map_of m k" "item_or (mapping m) k d = Some (case map_of m k of None \<Rightarrow> d | Some x \<Rightarrow> x)"
  "truthy (mapping m) \<longleftrightarrow> m \<noteq> []" "contains (mapping m) k = Some (k \<in> fst ` set m)"
proof -
  have "map_of (map (\<lambda>(k, d). (word k, d)) m) (word k) = map_of m k"
    by (induction m) auto
  then show "item (mapping m) k = map_of m k" "item_or (mapping m) k d = Some (case map_of m k of None \<Rightarrow> d | Some x \<Rightarrow> x)"
    by (simp_all add: mapping_def)
  show "truthy (mapping m) \<longleftrightarrow> m \<noteq> []" by (simp add: mapping_def)
  show "contains (mapping m) k = Some (k \<in> fst ` set m)" by (force simp: mapping_def)
qed

lemma small_manifest_checked: "check_manifest [] small_manifest ''ttsim'' = Some ()"
proof -
  have path: "contains_str (u ''containerd.sock'') (u ''/sys/devices'') = False"
    "contains_str (u ''docker.sock'') (u ''/sys/devices'') = False"
    by (simp_all add: u_Cons starts_with_def)
  have pod: "pod_checks [] small_pod = Some ()"
    by (simp add: pod_checks_def small_pod_def item_mapping require_def u_Cons)
  have container: "container_checks small_container = Some ()"
    by (simp add: container_checks_def small_container_def probe_def item_mapping require_def)
  have volumes: "volume_checks small_pod = Some ()"
    by (simp add: volume_checks_def small_pod_def item_mapping require_def) (simp add: word_def path)
  have environment: "environment_checks ''ttsim'' small_pod small_container = Some ()"
    by (simp add: environment_checks_def small_pod_def small_container_def item_mapping require_def)
  have resources: "resource (filter truthy small_manifest) ''ServiceAccount'' = Some (small_manifest ! 0)"
    "resource (filter truthy small_manifest) ''DaemonSet'' = Some (small_manifest ! Suc 0)"
    "resource (filter truthy small_manifest) ''Service'' = Some (small_manifest ! 3)"
    "resource (filter truthy small_manifest) ''NetworkPolicy'' = Some (small_manifest ! 4)"
    by (simp_all add: resource_def small_manifest_def item_mapping require_def)
  have network: "network_checks (filter truthy small_manifest) = Some ()"
    by (simp add: network_checks_def resources require_def) (simp add: small_manifest_def item_mapping)
  have parts: "item (small_manifest ! 0) ''automountServiceAccountToken'' = Some (DBool False)"
    "item_path (small_manifest ! Suc 0) [''spec'', ''template'', ''spec''] = Some small_pod"
    "item small_pod ''containers'' = Some (DList [small_container])"
    "item_path (small_manifest ! Suc 0) [''spec'', ''template'', ''metadata'', ''labels'',
        ''telemetry.tenstorrent.com/implementation''] = Some (word ''python'')"
    by (simp_all add: small_manifest_def small_pod_def item_mapping)
  show ?thesis
    by (simp add: check_manifest_def Let_def resources parts pod container volumes environment network
        require_def del: item_path.simps)
qed


section \<open>The dashboard\<close>

text \<open>The required titles are fourteen different ones, so the count of titles never decides.\<close>

lemma required_titles_count: "card (word ` set required_titles) = 14"
proof -
  have "distinct required_titles" "length required_titles = 14" by (simp_all add: required_titles_def)
  then have "card (set required_titles) = 14" by (simp add: distinct_card)
  moreover have "inj_on word (set required_titles)" by (simp add: inj_on_def)
  ultimately show ?thesis by (simp add: card_image)
qed

lemma titles_counted:
  assumes "finite members" "word ` set required_titles \<subseteq> members"
  shows "14 \<le> card (set_key ` members)"
proof -
  have "set_key (word s) = word s" for s by (simp add: set_key_def word_def)
  then have "word ` set required_titles \<subseteq> set_key ` members" using assms(2) by force
  then have "card (word ` set required_titles) \<le> card (set_key ` members)"
    using assms(1) by (intro card_mono) simp_all
  then show ?thesis by (simp add: required_titles_count)
qed

lemma dashboard_checked:
  assumes "item dashboard ''panels'' = Some panels" "elements panels = Some entries"
    and "map_option_list (\<lambda>p. item p ''title'') entries = Some titles"
  shows "dashboard_checks dashboard = Some () \<longleftrightarrow>
    list_all hashable titles \<and> word ` set required_titles \<subseteq> set titles
    \<and> list_all (\<lambda>p. panel_value p = Some True) entries"
proof -
  have panels: "(\<exists>flags. map_option_list panel_value entries = Some flags \<and> list_all id flags) \<longleftrightarrow>
      (\<exists>flags. list_all2 (\<lambda>p x. panel_value p = Some x \<and> x) entries flags)"
    by (auto simp: map_option_list_Some list_all2_conv_all_nth list_all_length)
  also have all: "\<dots> \<longleftrightarrow> list_all (\<lambda>p. panel_value p = Some True) entries"
  proof
    assume "\<exists>flags. list_all2 (\<lambda>p x. panel_value p = Some x \<and> x) entries flags"
    then show "list_all (\<lambda>p. panel_value p = Some True) entries"
      by (auto simp: list_all2_conv_all_nth list_all_length)
  next
    assume "list_all (\<lambda>p. panel_value p = Some True) entries"
    then have "list_all2 (\<lambda>p x. panel_value p = Some x \<and> x) entries (replicate (length entries) True)"
      by (auto simp: list_all2_conv_all_nth list_all_length)
    then show "\<exists>flags. list_all2 (\<lambda>p x. panel_value p = Some x \<and> x) entries flags" by blast
  qed
  finally have shown: "(\<exists>flags. map_option_list panel_value entries = Some flags \<and> list_all id flags)
      \<longleftrightarrow> list_all (\<lambda>p. panel_value p = Some True) entries" .
  have count: "word ` set required_titles \<subseteq> set titles \<Longrightarrow> 14 \<le> card (set_key ` set titles)"
    by (rule titles_counted) simp_all
  show ?thesis
    using assms count
    by (auto simp: dashboard_checks_def set_of_def bind_Some shown [symmetric])
qed

end
