(* ===== verification/DocumentLinks.thy ===== *)
theory DocumentLinks
  imports PyStr PyStrFacts
begin

text \<open>
  \<open>scripts/ci/check_docs.py\<close>: every relative link of the documentation has a target, and every
  shell script parses. The texts, which targets exist and what \<open>bash -n\<close> says are parameters.
\<close>

section \<open>Links\<close>

text \<open>
  \<open>LINK\<close> at one position: \<open>[label](target)\<close> or \<open>[label](target#fragment)\<close>, unless the target is
  absolute, a fragment or a mail address. Every part of the pattern ends at the first character its
  class excludes, so nothing is gained by taking less.
\<close>

definition external :: "pystr \<Rightarrow> bool" where
  "external s \<longleftrightarrow> starts_with s (u ''http://'') \<or> starts_with s (u ''https://'')
     \<or> starts_with s (u ''#'') \<or> starts_with s (u ''mailto:'')"

definition link_target :: "pystr \<Rightarrow> (pystr \<times> pystr) option" where
  "link_target s =
     (let target = takeWhile (\<lambda>c. c \<noteq> 41 \<and> c \<noteq> 35) s; rest = dropWhile (\<lambda>c. c \<noteq> 41 \<and> c \<noteq> 35) s;
          fragment = takeWhile (\<lambda>c. c \<noteq> 41) (drop 1 rest); tail = dropWhile (\<lambda>c. c \<noteq> 41) (drop 1 rest)
      in if external s \<or> target = [] \<or> rest = [] then None
         else if hd rest = 41 then Some (target, drop 1 rest)
         else if fragment = [] \<or> tail = [] then None
         else Some (target, drop 1 tail))"

definition match_link :: "pystr \<Rightarrow> (pystr \<times> pystr) option" where
  "match_link s =
     (let label = takeWhile (\<lambda>c. c \<noteq> 93) (drop 1 s); rest = dropWhile (\<lambda>c. c \<noteq> 93) (drop 1 s)
      in if take 1 s \<noteq> [91] \<or> label = [] \<or> take 2 rest \<noteq> [93, 40] then None
         else link_target (drop 2 rest))"

lemma link_target_shorter: "link_target s = Some (t, r) \<Longrightarrow> length r \<le> length s"
proof -
  assume some: "link_target s = Some (t, r)"
  have drop: "length (dropWhile P x) \<le> length x" for P and x :: pystr
    by (rule length_dropWhile_le)
  have "length (dropWhile P (drop 1 (dropWhile Q s))) \<le> length s" for P Q
    using drop [of P "drop 1 (dropWhile Q s)"] drop [of Q s] by simp
  then show ?thesis
    using some drop [of "\<lambda>c. c \<noteq> 41 \<and> c \<noteq> 35" s]
    by (auto simp: link_target_def Let_def split: if_splits) (meson diff_le_self le_trans)+
qed

lemma match_link_shorter: "match_link s = Some (t, r) \<Longrightarrow> length r < length s"
proof -
  assume some: "match_link s = Some (t, r)"
  then have "s \<noteq> []" and found: "link_target (drop 2 (dropWhile (\<lambda>c. c \<noteq> 93) (drop 1 s))) = Some (t, r)"
    by (auto simp: match_link_def Let_def split: if_splits)
  from link_target_shorter [OF found] have "length r \<le> length (dropWhile (\<lambda>c. c \<noteq> 93) (drop 1 s))" by simp
  also have "\<dots> \<le> length (drop 1 s)" by (rule length_dropWhile_le)
  also have "\<dots> < length s" using \<open>s \<noteq> []\<close> by simp
  finally show ?thesis .
qed

text \<open>\<open>LINK.findall\<close>.\<close>

function find_links :: "pystr \<Rightarrow> pystr list" where
  "find_links s =
     (case match_link s of
        Some (target, rest) \<Rightarrow> target # find_links rest
      | None \<Rightarrow> (case s of [] \<Rightarrow> [] | _ # cs \<Rightarrow> find_links cs))"
  by pat_completeness auto

termination
  by (relation "measure length") (auto dest: match_link_shorter)

declare find_links.simps [simp del]

section \<open>The check\<close>

text \<open>Documents with their relative paths, and scripts with the exit status and errors of \<open>bash -n\<close>.\<close>

definition document_failures :: "(path \<Rightarrow> pystr \<Rightarrow> bool) \<Rightarrow> path \<times> pystr \<Rightarrow> pystr list" where
  "document_failures exists d =
     (case d of (name, contents) \<Rightarrow>
        map (\<lambda>target. name @ u '': missing '' @ target)
          (filter (\<lambda>target. \<not> exists name target) (find_links contents)))"

definition script_failures :: "path \<times> int \<times> pystr \<Rightarrow> pystr list" where
  "script_failures s =
     (case s of (name, status, errors) \<Rightarrow> if status = 0 then [] else [name @ u '': '' @ strip_ws errors])"

text \<open>\<open>Some\<close> is the message of the \<open>SystemExit\<close>.\<close>

definition check_docs ::
    "(path \<Rightarrow> pystr \<Rightarrow> bool) \<Rightarrow> (path \<times> pystr) list \<Rightarrow> (path \<times> int \<times> pystr) list \<Rightarrow> pystr option" where
  "check_docs exists documents scripts =
     (let failures = concat (map (document_failures exists) documents) @ concat (map script_failures scripts)
      in if failures = [] then None else Some (join [10] failures))"

section \<open>Links are found\<close>

text \<open>Plain text followed by one relative link.\<close>

definition link_text :: "pystr \<times> pystr \<times> pystr \<Rightarrow> pystr" where
  "link_text l = (case l of (plain, label, target) \<Rightarrow> plain @ [91] @ label @ [93, 40] @ target @ [41])"

definition plain_link :: "pystr \<times> pystr \<times> pystr \<Rightarrow> bool" where
  "plain_link l = (case l of (plain, label, target) \<Rightarrow>
     91 \<notin> set plain \<and> label \<noteq> [] \<and> 93 \<notin> set label \<and> target \<noteq> [] \<and> 41 \<notin> set target \<and> 35 \<notin> set target
     \<and> (\<forall>rest. \<not> external (target @ rest)))"

lemma takeWhile_until: "(\<And>c. c \<in> set x \<Longrightarrow> P c) \<Longrightarrow> \<not> P d \<Longrightarrow> takeWhile P (x @ d # r) = x \<and> dropWhile P (x @ d # r) = d # r"
  by (simp add: takeWhile_append dropWhile_append)

lemma match_link_text:
  assumes "plain_link (plain, label, target)"
  shows "match_link ([91] @ label @ [93, 40] @ target @ [41] @ rest) = Some (target, rest)"
proof -
  have "c \<noteq> 93" if "c \<in> set label" for c using assms that by (auto simp: plain_link_def)
  from takeWhile_until [of label "\<lambda>c. c \<noteq> 93" 93, OF this]
  have label: "takeWhile (\<lambda>c. c \<noteq> 93) (label @ 93 # r) = label" "dropWhile (\<lambda>c. c \<noteq> 93) (label @ 93 # r) = 93 # r" for r
    by simp_all
  have "c \<noteq> 41 \<and> c \<noteq> 35" if "c \<in> set target" for c using assms that by (auto simp: plain_link_def)
  from takeWhile_until [of target "\<lambda>c. c \<noteq> 41 \<and> c \<noteq> 35" 41 rest, OF this]
  have target: "takeWhile (\<lambda>c. c \<noteq> 41 \<and> c \<noteq> 35) (target @ 41 # rest) = target"
    "dropWhile (\<lambda>c. c \<noteq> 41 \<and> c \<noteq> 35) (target @ 41 # rest) = 41 # rest"
    by simp_all
  have "link_target (target @ 41 # rest) = Some (target, rest)"
    using assms by (simp add: link_target_def target plain_link_def Let_def)
  then show ?thesis using assms by (simp add: match_link_def label plain_link_def)
qed

lemma find_links_plain: "91 \<notin> set plain \<Longrightarrow> find_links (plain @ s) = find_links s"
  by (induction plain) (auto simp: find_links.simps [of "_ # _"] match_link_def)

lemma find_links_text:
  "list_all plain_link ls \<Longrightarrow> 91 \<notin> set tail \<Longrightarrow>
    find_links (concat (map link_text ls) @ tail) = map (snd \<circ> snd) ls"
proof (induction ls)
  case Nil
  then show ?case
    using find_links_plain [of tail "[]"] by (simp add: find_links.simps [of "[]"] match_link_def)
next
  case (Cons l ls)
  obtain plain label target where l: "l = (plain, label, target)" by (cases l)
  let ?rest = "concat (map link_text ls) @ tail"
  have "find_links (plain @ [91] @ label @ [93, 40] @ target @ [41] @ ?rest)
      = find_links ([91] @ label @ [93, 40] @ target @ [41] @ ?rest)"
    using Cons.prems l by (intro find_links_plain) (simp add: plain_link_def)
  also have "\<dots> = target # find_links ?rest"
    using match_link_text [of plain label target ?rest] Cons.prems l by (subst find_links.simps) simp
  also have "plain @ [91] @ label @ [93, 40] @ target @ [41] @ ?rest = concat (map link_text (l # ls)) @ tail"
    by (simp add: link_text_def l)
  finally show ?case using Cons l by simp
qed

text \<open>
  In a text of plain links the check reports exactly the targets that do not exist.
\<close>

lemma missing_reported:
  assumes "list_all plain_link ls" "91 \<notin> set tail"
  shows "document_failures exists (name, concat (map link_text ls) @ tail)
    = map (\<lambda>l. name @ u '': missing '' @ snd (snd l)) (filter (\<lambda>l. \<not> exists name (snd (snd l))) ls)"
  by (simp add: document_failures_def find_links_text [OF assms] filter_map comp_def)

end
