(* ===== verification/Spec2Isabelle.thy ===== *)
theory Spec2Isabelle
  imports WorkloadVersions ThreadFacts RunFacts RecoveryFacts PublisherFacts PublisherExporter EndToEnd
    ExampleFacts SoakFacts SoakMetrics ManifestFacts DocumentLinks
begin

text \<open>
  A model of tt-metrics-exporter, the Prometheus exporter for Tenstorrent devices, and of the
  profiler publisher it ships for workloads. The exporter polls a sysfs tree and three trees of
  state files that other, partly untrusted, processes write, renders one snapshot as Prometheus
  text and as JSON, and serves both over HTTP beside its own metrics. Around it are an example of a
  workload that publishes, a soak test of a running exporter and the checks of its release. Source
  paths below are relative to \<open>src/src/tt_metrics_exporter\<close>; the publisher is
  \<open>src/integrations/ttnn/metalium_profiler_publisher.py\<close>, and the programs around the exporter are
  given with their path from \<open>src\<close>.

  \<^bold>\<open>Foundations.\<close> \<open>Prelude\<close> has the actions all stateful code is written in (a state and either an
  exception or a result) and the interface \<open>frame_relation\<close>: a reflexive and transitive relation
  between states is kept by a composite action when its parts keep it. \<open>PyStr\<close> and \<open>PyStrFacts\<close>
  are Python strings as lists of code points with the methods the code uses; \<open>Utf8\<close> is the codec;
  \<open>Floats\<close> are finite floating-point numbers as the rationals they stand for, with the \<open>g\<close> format,
  and \<open>FloatFacts\<close> shows what rounding keeps;
  \<open>Quoting\<close> is the interface \<open>quoted_text\<close> of text written between quotes and read back, which the
  label writer and the JSON writer interpret.

  \<^bold>\<open>Data and parsers.\<close> \<open>Models\<close> is \<open>models.py\<close>, a record for every data class. \<open>Parsers\<close> is
  \<open>collection/parsers.py\<close>, with \<open>ParserFacts\<close> and \<open>QuantityFacts\<close>: round trips, exact arithmetic,
  clamping and wrap-around at 64 bits, and which malformed numbers raise.

  \<^bold>\<open>Reading.\<close> \<open>Environment\<close> is what the collectors see of the operating system: every answer is a
  function of the calls made so far, so files may change between any two calls. \<open>SysfsIO\<close> is
  \<open>collection/sysfs_io.py\<close>, \<open>SecureIO\<close> is \<open>collection/secure_io.py\<close>, \<open>StateIngest\<close> is
  \<open>collection/state.py\<close>, \<open>DeviceResources\<close> is \<open>collection/device_resources.py\<close> and \<open>Collector\<close> is
  \<open>collection/collector.py\<close>. \<open>EnvironmentFacts\<close>, \<open>StateFacts\<close>, \<open>WorkloadFacts\<close>,
  \<open>WorkloadVersions\<close>, \<open>CollectorFacts\<close> and \<open>CollectorErrors\<close> show that a collection leaks no
  descriptor, makes only bounded, link-refusing calls on untrusted trees, returns well-formed
  devices, accounts for every rejected input, and lets only two exceptions through.

  \<^bold>\<open>Rendering.\<close> \<open>Prometheus\<close> is \<open>renderers/prometheus.py\<close>: the families of the contract as a list,
  each with its writer. \<open>PrometheusFacts\<close> shows that no value can add a line, that every sample reads
  back, and that stale content is invisible. \<open>Json\<close> and \<open>JsonRenderer\<close> are \<open>renderers/json.py\<close>
  and \<open>json.dumps\<close>, with a reader that inverts it.

  \<^bold>\<open>The service.\<close> \<open>Runtime\<close> is \<open>app/snapshot.py\<close> and \<open>app/runtime.py\<close>; \<open>RuntimeFacts\<close> refines the
  status to the history of its events through the interface \<open>history_refinement\<close>. \<open>Logging\<close> is
  \<open>app/logging.py\<close>, \<open>Http\<close> is \<open>app/http.py\<close>, \<open>Service\<close> and \<open>Running\<close> are \<open>app/cli.py\<close> and
  \<open>HttpServer.serve\<close>. \<open>ServiceFacts\<close> has the step relation \<open>runs\<close> of the service and its invariant,
  what one refresh does and what the endpoints serve; \<open>PollerFacts\<close> has the end of the poller by an
  exception, \<open>RecoveryFacts\<close> its recovery by the next good collection, and \<open>RunFacts\<close> the main thread.
  \<open>Threads\<close> has the same service at a finer grain: main thread, poller and coordinator as lists of
  atomic actions that interleave with signals and with scrapes that read the store and the status
  one after the other. \<open>ThreadFacts\<close> shows that an uninterrupted refresh is the one of \<open>Service\<close>,
  what every interleaving keeps of the documents served, and the shutdown that is lost when it
  comes before the server exists.

  \<^bold>\<open>The publisher.\<close> \<open>Publisher\<close> runs over a file system in which any call may fail.
  \<open>PublisherFiles\<close> shows that a record is replaced as a whole or not at all, \<open>PublisherFacts\<close> what
  sequences of operations do to the hosting workload, and \<open>PublisherExporter\<close> that what is published
  is what the exporter reads. \<open>EndToEnd\<close> joins both: it follows a published file through the
  descriptor-relative calls of the exporter to the workload it reports, for any system that shows
  the file at its place. \<open>ExampleWorkload\<close> is \<open>integrations/ttnn/example_dynamic_workload.py\<close>, a
  program around the publisher each of whose other calls may raise; \<open>ExampleFacts\<close> shows that it
  always cleans up and that telemetry never stops it.

  \<^bold>\<open>Operations.\<close> \<open>SoakTest\<close> is \<open>scripts/operations/soak_test.py\<close>. Its loop runs until a clock passes a
  deadline, so it is a partial function whose value may be \<open>None\<close>; \<open>SoakFacts\<close> shows that it ends
  and what a passed soak means. \<open>FormatFacts\<close> shows that a number printed with the \<open>g\<close> format reads
  back to its significant digits, and \<open>SoakMetrics\<close> that the soak test finds in the document of
  the exporter what the exporter measured. \<open>Manifests\<close> is \<open>scripts/validation/manifests.py\<close> and
  \<open>scripts/validation/monitoring.py\<close>, over the documents the YAML and JSON parsers return;
  \<open>ManifestFacts\<close> relates an accepted manifest to the routes, the port and the grace period of the
  exporter. \<open>DocumentLinks\<close> is \<open>scripts/ci/check_docs.py\<close>.

  \<^bold>\<open>Bounds and fuel.\<close> The loop of \<open>SecureDirectory.read_text\<close> is repeated once for each interruption
  the environment has in store for the descriptor, a finite number, and once more. The readers
  of JSON and of label lists, which exist only to state the round trips, take the length of their
  input as fuel, which every step shortens. The poller takes the list of the refreshes to come.
  The soak test ends under two assumptions on the system, which are documented for Python's clocks:
  \<open>time.monotonic\<close> does not go back, and \<open>time.sleep\<close> sleeps at least as long as asked. The clock is
  taken to tick in a power of two of a second and to stay where a float holds every tick, so that
  the time that remains is computed exactly.

  \<^bold>\<open>Not modelled.\<close> Argument parsing (click), routing and error answers (Starlette), the parser and
  event loop (uvicorn), the routine \<open>sha256\<close> and TT-Metalium are parameters. In \<open>runs\<close> a
  refresh is one step; \<open>interleaved\<close> has its atomic actions. There a call of the collector or of the
  logger is one action, and the server handles one scrape at a time, as the event loop does.
  Usage texts and messages on standard error other than the event log are left out, and so are
  \<open>MemoryError\<close> and \<open>OverflowError\<close> of rendering, float overflow, subnormal numbers and the sign of
  zero. \<open>lower()\<close> is the ASCII mapping. The lock and the exit hook of the publisher are
  not modelled. Of the programs around the exporter, argument parsing (argparse), the tensors of the
  example, the text of the soak test's two reports, the order in which its threads interleave
  within a round, and \<open>scripts/ci/run_tests.py\<close>, which only starts pytest, are left out; what
  \<open>/proc\<close>, \<open>urllib\<close>, \<open>bash -n\<close> and the file tree of the documents answer is a parameter.
\<close>

end
